(* ===== verification/Prelude.thy ===== *)
theory Prelude
  imports Complex_Main "HOL-Library.Word" "HOL-Library.Sublist" "HOL-Library.Monad_Syntax"
begin

text \<open>
  Shared vocabulary of the development: machine words and the saturating arithmetic of Rust's
  \<open>u64\<close>, ASCII string operations of Rust's \<open>str\<close>, the decimal digits of a natural number,
  and the generic lemmas on lists, sums and sortedness that several components use.
\<close>

named_theorems guard_simps \<open>characteristic equations of the validation guards\<close>
named_theorems keep_intros \<open>preservation rules of the stateful operations\<close>

type_synonym u64 = "64 word"
type_synonym millis = nat
type_synonym nanos = nat

section \<open>Saturating and checked arithmetic on unsigned words\<close>

definition u64_max :: nat where
  "u64_max = 2 ^ 64 - 1"

definition sat_add_u64 :: "u64 \<Rightarrow> u64 \<Rightarrow> u64" where
  "sat_add_u64 a b = (if unat a + unat b \<le> u64_max then a + b else - 1)"

definition sat_sub_u64 :: "u64 \<Rightarrow> u64 \<Rightarrow> u64" where
  "sat_sub_u64 a b = (if b \<le> a then a - b else 0)"

definition checked_sub_u64 :: "u64 \<Rightarrow> u64 \<Rightarrow> u64 option" where
  "checked_sub_u64 a b = (if b \<le> a then Some (a - b) else None)"

text \<open>A \<open>u32\<close> that is only counted up or multiplied, saturating, is a natural number below \<open>2 ^ 32\<close>.\<close>

definition U32_MAX :: nat where
  "U32_MAX = 2 ^ 32 - 1"

definition sat_add_u32 :: "nat \<Rightarrow> nat \<Rightarrow> nat" where
  "sat_add_u32 a b = min U32_MAX (a + b)"

definition sat_mul_u32 :: "nat \<Rightarrow> nat \<Rightarrow> nat" where
  "sat_mul_u32 a b = min U32_MAX (a * b)"

lemma unat_u64_bound: "unat (w :: u64) \<le> u64_max"
proof -
  have "unat w < 2 ^ LENGTH(64)" by (rule unsigned_less)
  then show ?thesis by (simp add: u64_max_def)
qed

lemma unat_sat_add_u64: "unat (sat_add_u64 a b) = min u64_max (unat a + unat b)"
proof (cases "unat a + unat b \<le> u64_max")
  case True
  then have "unat (a + b) = unat a + unat b"
    by (subst unat_add_lem [symmetric]) (simp add: u64_max_def)
  with True show ?thesis by (simp add: sat_add_u64_def)
next
  case False
  have "unat (- 1 :: u64) = u64_max" by (simp add: u64_max_def unsigned_minus_1_eq_mask mask_eq_exp_minus_1)
  with False show ?thesis by (simp add: sat_add_u64_def)
qed

lemma unat_sat_sub_u64: "unat (sat_sub_u64 a b) = unat a - unat b"
  by (auto simp: sat_sub_u64_def unat_sub word_le_nat_alt)

lemma checked_sub_u64_Some:
  "checked_sub_u64 a b = Some c \<longleftrightarrow> b \<le> a \<and> c = a - b"
  by (auto simp: checked_sub_u64_def)

section \<open>ASCII strings\<close>

definition ascii_lower :: "char \<Rightarrow> char" where
  "ascii_lower c =
     (let n = (of_char c :: nat) in if 65 \<le> n \<and> n \<le> 90 then char_of (n + 32) else c)"

definition to_ascii_lowercase :: "string \<Rightarrow> string" where
  "to_ascii_lowercase s = map ascii_lower s"

fun contains :: "string \<Rightarrow> string \<Rightarrow> bool" where
  "contains [] pat = (pat = [])"
| "contains (c # s) pat = (prefix pat (c # s) \<or> contains s pat)"

lemma contains_iff_sublist: "contains s pat \<longleftrightarrow> sublist pat s"
  by (induction s) (auto simp: sublist_Cons_right)

definition strip_prefix :: "string \<Rightarrow> string \<Rightarrow> string option" where
  "strip_prefix p s = (if prefix p s then Some (drop (length p) s) else None)"

lemma strip_prefix_Some: "strip_prefix p s = Some r \<longleftrightarrow> s = p @ r"
  by (auto simp: strip_prefix_def prefix_def)

section \<open>Decimal digits\<close>

function nat_digits :: "nat \<Rightarrow> string" where
  "nat_digits n =
     (if n < 10 then [char_of (48 + n)] else nat_digits (n div 10) @ [char_of (48 + n mod 10)])"
  by pat_completeness auto
termination by (relation "measure id") auto

declare nat_digits.simps [simp del]

lemma length_nat_digits_step:
  "length (nat_digits n) = (if n < 10 then 1 else Suc (length (nat_digits (n div 10))))"
  by (subst nat_digits.simps) simp

lemma nat_digits_lower: "0 < n \<Longrightarrow> 10 ^ (length (nat_digits n) - 1) \<le> n"
proof (induction n rule: nat_digits.induct)
  case (1 n)
  show ?case
  proof (cases "n < 10")
    case True
    with 1 show ?thesis by (simp add: length_nat_digits_step [of n])
  next
    case False
    then have "10 ^ (length (nat_digits (n div 10)) - 1) \<le> n div 10" using 1 by simp
    then have "10 * 10 ^ (length (nat_digits (n div 10)) - 1) \<le> n" by simp
    moreover have "0 < length (nat_digits (n div 10))" by (simp add: length_nat_digits_step)
    ultimately show ?thesis using False
      by (simp add: length_nat_digits_step [of n] power_eq_if)
  qed
qed

lemma nat_digits_upper: "n < 10 ^ length (nat_digits n)"
proof (induction n rule: nat_digits.induct)
  case (1 n)
  show ?case
  proof (cases "n < 10")
    case True
    then show ?thesis by (simp add: length_nat_digits_step [of n])
  next
    case False
    then have "n div 10 < 10 ^ length (nat_digits (n div 10))" using 1 by simp
    then have "n < 10 * 10 ^ length (nat_digits (n div 10))" by simp
    with False show ?thesis by (simp add: length_nat_digits_step [of n])
  qed
qed

section \<open>Lists\<close>

fun pairwise_adjacent :: "('a \<Rightarrow> 'a \<Rightarrow> bool) \<Rightarrow> 'a list \<Rightarrow> bool" where
  "pairwise_adjacent P (x # y # zs) = (P x y \<and> pairwise_adjacent P (y # zs))"
| "pairwise_adjacent P _ = True"

text \<open>Rust's \<open>windows(2).all\<close> over a transitive relation is sortedness.\<close>

lemma pairwise_adjacent_sorted_wrt:
  "transp P \<Longrightarrow> pairwise_adjacent P xs \<longleftrightarrow> sorted_wrt P xs"
  by (induction P xs rule: pairwise_adjacent.induct) (auto dest: transpD)

fun lookup_al :: "('k \<times> 'v) list \<Rightarrow> 'k \<Rightarrow> 'v option" where
  "lookup_al [] k = None"
| "lookup_al ((k', v) # xs) k = (if k' = k then Some v else lookup_al xs k)"

fun insert_al :: "'k \<Rightarrow> 'v \<Rightarrow> ('k \<times> 'v) list \<Rightarrow> ('k \<times> 'v) list" where
  "insert_al k v [] = [(k, v)]"
| "insert_al k v ((k', v') # xs) =
     (if k' = k then (k, v) # xs else (k', v') # insert_al k v xs)"

lemma lookup_insert_al [simp]:
  "lookup_al (insert_al k v xs) k' = (if k' = k then Some v else lookup_al xs k')"
  by (induction xs) auto

lemma keys_insert_al [simp]: "fst ` set (insert_al k v xs) = insert k (fst ` set xs)"
  by (induction k v xs rule: insert_al.induct) auto

lemma distinct_insert_al [simp]:
  "distinct (map fst xs) \<Longrightarrow> distinct (map fst (insert_al k v xs))"
proof (induction xs)
  case (Cons p xs)
  obtain a b where p: "p = (a, b)" by (cases p)
  have "a \<notin> fst ` set (insert_al k v xs)" if "a \<noteq> k" using Cons.prems that p by auto
  then have "a \<notin> set (map fst (insert_al k v xs))" if "a \<noteq> k" using that by simp
  with Cons p show ?case by auto
qed simp

lemma lookup_al_None: "lookup_al xs k = None \<longleftrightarrow> k \<notin> fst ` set xs"
  by (induction xs k rule: lookup_al.induct) auto

lemma lookup_al_SomeD: "lookup_al xs k = Some v \<Longrightarrow> (k, v) \<in> set xs"
  by (induction xs) (auto split: if_splits)

lemma lookup_al_distinct:
  "distinct (map fst xs) \<Longrightarrow> (k, v) \<in> set xs \<Longrightarrow> lookup_al xs k = Some v"
proof (induction xs)
  case (Cons p xs)
  obtain a b where p: "p = (a, b)" by (cases p)
  have "k \<in> fst ` set xs" if "(k, v) \<in> set xs" using that by force
  with Cons p show ?case by auto
qed simp

section \<open>Results\<close>

definition is_ok :: "'e + 'a \<Rightarrow> bool" where
  "is_ok r = (case r of Inl _ \<Rightarrow> False | Inr _ \<Rightarrow> True)"

lemma is_ok_simps [simp]: "\<not> is_ok (Inl e)" "is_ok (Inr x)"
  by (simp_all add: is_ok_def)

definition ok_or :: "'e \<Rightarrow> 'a option \<Rightarrow> 'e + 'a" where
  "ok_or e x = (case x of None \<Rightarrow> Inl e | Some a \<Rightarrow> Inr a)"

lemma ok_or_Inr [simp]: "ok_or e x = Inr a \<longleftrightarrow> x = Some a"
  by (cases x) (auto simp: ok_or_def)

lemma ok_or_Inl [simp]: "ok_or e x = Inl e' \<longleftrightarrow> x = None \<and> e' = e"
  by (cases x) (auto simp: ok_or_def)

definition and_then :: "'e + 'a \<Rightarrow> ('a \<Rightarrow> 'e + 'b) \<Rightarrow> 'e + 'b" where
  "and_then r f = (case r of Inl e \<Rightarrow> Inl e | Inr a \<Rightarrow> f a)"

lemma and_then_Inr: "and_then r f = Inr b \<longleftrightarrow> (\<exists>a. r = Inr a \<and> f a = Inr b)"
  by (cases r) (auto simp: and_then_def)

lemma and_then_simps [simp]: "and_then (Inl e) f = Inl e" "and_then (Inr a) f = f a"
  by (simp_all add: and_then_def)

lemma and_then_cong [fundef_cong]:
  "r = r' \<Longrightarrow> (\<And>a. r' = Inr a \<Longrightarrow> f a = g a) \<Longrightarrow> and_then r f = and_then r' g"
  by (cases r') (auto simp: and_then_def)

definition map_err :: "('e \<Rightarrow> 'f) \<Rightarrow> 'e + 'a \<Rightarrow> 'f + 'a" where
  "map_err f r = (case r of Inl e \<Rightarrow> Inl (f e) | Inr a \<Rightarrow> Inr a)"

lemma map_err_Inr [simp]: "map_err f r = Inr a \<longleftrightarrow> r = Inr a"
  by (cases r) (auto simp: map_err_def)

fun fold_ok :: "('s \<Rightarrow> 'a \<Rightarrow> 'e + 's) \<Rightarrow> 's \<Rightarrow> 'a list \<Rightarrow> 'e + 's" where
  "fold_ok f s [] = Inr s"
| "fold_ok f s (x # xs) = and_then (f s x) (\<lambda>s'. fold_ok f s' xs)"

lemma fold_ok_append: "fold_ok f s (xs @ ys) = and_then (fold_ok f s xs) (\<lambda>t. fold_ok f t ys)"
  by (induction xs arbitrary: s) (auto simp: and_then_def split: sum.split)

lemma fold_ok_invariant:
  assumes "fold_ok f s xs = Inr t" and "I s"
    and "\<And>s x s'. x \<in> set xs \<Longrightarrow> I s \<Longrightarrow> f s x = Inr s' \<Longrightarrow> I s'"
  shows "I t"
  using assms by (induction xs arbitrary: s) (auto simp: and_then_Inr)

end
