(* ===== verification/Decimal_Lib.thy ===== *)
theory Decimal_Lib
  imports Prelude
begin

text \<open>
  The interface to the third-party number type \<open>rust_decimal::Decimal\<close>. A \<open>Decimal\<close> is modelled by
  the rational number it denotes: its \<open>Ord\<close>, \<open>Eq\<close>, \<open>neg\<close>, \<open>abs\<close>, \<open>min\<close> and \<open>max\<close> depend on that
  number only and are exact. Every operation that may round, overflow, parse or print is a field of
  the record \<open>dec_lib\<close>, which each definition that uses one takes as its argument \<open>D\<close>. A \<open>Decimal\<close> also
  has a scale that \<open>Display\<close> shows; it matters once, where a difference of two numbers read from
  canonical text is printed: \<open>d_diff_text D a b\<close> is the text of \<open>(a - b).abs()\<close> there. The
  arithmetic operators (\<open>+ - * /\<close>) are the values they have when they return; an operator that
  overflows panics and ends the process, so nothing after it runs. What the crate documents about
  the operations is stated by the locales below; \<open>exact_dec\<close> is an executable instance.
\<close>

type_synonym decimal = rat

datatype rounding = ToZero | ToPositiveInfinity | ToNegativeInfinity

record dec_lib =
  d_add :: "decimal \<Rightarrow> decimal \<Rightarrow> decimal"
  d_sub :: "decimal \<Rightarrow> decimal \<Rightarrow> decimal"
  d_mul :: "decimal \<Rightarrow> decimal \<Rightarrow> decimal"
  d_div :: "decimal \<Rightarrow> decimal \<Rightarrow> decimal"
  d_checked_add :: "decimal \<Rightarrow> decimal \<Rightarrow> decimal option"
  d_checked_sub :: "decimal \<Rightarrow> decimal \<Rightarrow> decimal option"
  d_checked_mul :: "decimal \<Rightarrow> decimal \<Rightarrow> decimal option"
  d_checked_div :: "decimal \<Rightarrow> decimal \<Rightarrow> decimal option"
  d_round :: "decimal \<Rightarrow> nat \<Rightarrow> rounding \<Rightarrow> decimal"
  d_trunc :: "decimal \<Rightarrow> decimal"
  d_parse :: "string \<Rightarrow> decimal option"
  d_to_string :: "decimal \<Rightarrow> string"
  d_canonical :: "decimal \<Rightarrow> string"
  d_diff_text :: "decimal \<Rightarrow> decimal \<Rightarrow> string"
  d_max :: decimal

section \<open>Grids and representable numbers\<close>

definition on_grid :: "nat \<Rightarrow> decimal \<Rightarrow> bool" where
  "on_grid n x \<longleftrightarrow> x * 10 ^ n \<in> \<int>"

definition representable :: "decimal \<Rightarrow> bool" where
  "representable x \<longleftrightarrow> (\<exists>m::int. \<exists>s::nat. \<bar>m\<bar> < 2 ^ 96 \<and> s \<le> 28 \<and> x = of_int m / 10 ^ s)"

definition trunc_rat :: "decimal \<Rightarrow> decimal" where
  "trunc_rat x = (if 0 \<le> x then of_int \<lfloor>x\<rfloor> else of_int \<lceil>x\<rceil>)"

definition round_rat :: "decimal \<Rightarrow> nat \<Rightarrow> rounding \<Rightarrow> decimal" where
  "round_rat x n r =
     (case r of
        ToZero \<Rightarrow> trunc_rat (x * 10 ^ n) / 10 ^ n
      | ToPositiveInfinity \<Rightarrow> of_int \<lceil>x * 10 ^ n\<rceil> / 10 ^ n
      | ToNegativeInfinity \<Rightarrow> of_int \<lfloor>x * 10 ^ n\<rfloor> / 10 ^ n)"

lemma on_gridI: "x = of_int m / 10 ^ n \<Longrightarrow> on_grid n x"
  by (simp add: on_grid_def)

lemma on_gridE:
  assumes "on_grid n x"
  obtains m :: int where "x = of_int m / 10 ^ n"
proof -
  from assms obtain m :: int where "x * 10 ^ n = of_int m" by (auto simp: on_grid_def elim: Ints_cases)
  then have "x = of_int m / 10 ^ n" by (simp add: field_simps)
  then show thesis by (rule that)
qed

lemma on_grid_mono: "on_grid m x \<Longrightarrow> m \<le> n \<Longrightarrow> on_grid n x"
proof -
  assume a: "on_grid m x" and le: "m \<le> n"
  have "(10::rat) ^ n = 10 ^ m * 10 ^ (n - m)" using le by (simp add: power_add [symmetric])
  then have "x * 10 ^ n = x * 10 ^ m * 10 ^ (n - m)" by (simp only: mult.assoc)
  moreover have "x * 10 ^ m * 10 ^ (n - m) \<in> \<int>"
    using a by (intro Ints_mult [of "x * 10 ^ m"]) (simp_all only: on_grid_def Ints_numeral Ints_power)
  ultimately show ?thesis unfolding on_grid_def by metis
qed

lemma on_grid_add: "on_grid n a \<Longrightarrow> on_grid n b \<Longrightarrow> on_grid n (a + b)"
  by (simp add: on_grid_def distrib_right)

lemma on_grid_diff: "on_grid n a \<Longrightarrow> on_grid n b \<Longrightarrow> on_grid n (a - b)"
  by (simp add: on_grid_def left_diff_distrib)

lemma on_grid_mult_nat: "on_grid n a \<Longrightarrow> on_grid n (a * of_nat k)"
  by (simp add: on_grid_def mult.assoc mult.commute [of "of_nat k"]) (simp add: mult.assoc [symmetric])

lemma on_grid_0 [simp]: "on_grid n 0"
  by (simp add: on_grid_def)

lemma representableI: "on_grid n x \<Longrightarrow> n \<le> 28 \<Longrightarrow> \<bar>x\<bar> * 10 ^ n < 2 ^ 96 \<Longrightarrow> representable x"
proof -
  assume g: "on_grid n x" and n: "n \<le> 28" and b: "\<bar>x\<bar> * 10 ^ n < 2 ^ 96"
  from g obtain m :: int where x: "x = of_int m / 10 ^ n" by (rule on_gridE)
  with b have "\<bar>of_int m :: rat\<bar> < of_int (2 ^ 96)" by (simp add: abs_divide)
  then have "\<bar>m\<bar> < 2 ^ 96" by (simp only: of_int_abs [symmetric] of_int_less_iff)
  with n x show ?thesis by (auto simp: representable_def)
qed

lemma round_rat_on_grid: "on_grid n (round_rat x n r)"
  by (auto simp: round_rat_def trunc_rat_def on_grid_def split: rounding.split)

lemma round_rat_up: "x \<le> round_rat x n ToPositiveInfinity"
  by (simp add: round_rat_def field_simps)

lemma round_rat_down: "round_rat x n ToNegativeInfinity \<le> x"
  by (simp add: round_rat_def field_simps)

lemma round_rat_zero:
  "0 \<le> x \<Longrightarrow> 0 \<le> round_rat x n ToZero \<and> round_rat x n ToZero \<le> x"
  by (simp add: round_rat_def trunc_rat_def field_simps)

lemma round_rat_zero_neg:
  "x \<le> 0 \<Longrightarrow> x \<le> round_rat x n ToZero \<and> round_rat x n ToZero \<le> 0"
proof -
  assume "x \<le> 0"
  then have "x * 10 ^ n \<le> 0" by (simp add: mult_nonpos_nonneg)
  then show ?thesis
    by (cases "x = 0") (auto simp: round_rat_def trunc_rat_def field_simps)
qed

lemma round_rat_gap: "\<bar>round_rat x n r - x\<bar> < 1 / 10 ^ n"
proof -
  have p: "(0::rat) < 10 ^ n" by simp
  let ?y = "x * 10 ^ n"
  have fl: "of_int \<lfloor>?y\<rfloor> \<le> ?y" "?y < of_int \<lfloor>?y\<rfloor> + 1" using floor_correct [of ?y] by simp_all
  have ce: "?y \<le> of_int \<lceil>?y\<rceil>" "of_int \<lceil>?y\<rceil> < ?y + 1" using ceiling_correct [of ?y] by linarith+
  have eq: "\<bar>z / 10 ^ n - x\<bar> = \<bar>z - x * 10 ^ n\<bar> / 10 ^ n" for z :: rat
  proof -
    have "z / 10 ^ n - x = (z - x * 10 ^ n) / 10 ^ n" by (simp add: field_simps)
    then show ?thesis by (simp add: abs_divide)
  qed
  show ?thesis
    unfolding round_rat_def trunc_rat_def
    by (cases r) (use fl ce in \<open>auto simp: eq divide_strict_right_mono\<close>)
qed

lemma round_rat_id: "on_grid n x \<Longrightarrow> round_rat x n r = x"
  by (cases r; erule on_gridE) (simp_all add: round_rat_def trunc_rat_def)

section \<open>What the crate documents\<close>

text \<open>
  \<open>round_dp_with_strategy\<close> and \<open>trunc\<close>: rounding to a number of fractional digits in the named
  direction; neither can overflow.
\<close>

locale dec_rounding =
  fixes D :: dec_lib
  assumes d_round_eq: "d_round D x n r = round_rat x n r"
    and d_trunc_eq: "d_trunc D x = trunc_rat x"
    and d_canonical_nat: "d_canonical D (of_nat k) = nat_digits k"
begin

lemma d_round_on_grid: "on_grid n (d_round D x n r)"
  by (simp add: d_round_eq round_rat_on_grid)

lemma d_round_id: "on_grid n x \<Longrightarrow> d_round D x n r = x"
  by (simp add: d_round_eq round_rat_id)

lemma d_round_up: "x \<le> d_round D x n ToPositiveInfinity"
  by (simp add: d_round_eq round_rat_up)

lemma d_round_down: "d_round D x n ToNegativeInfinity \<le> x"
  by (simp add: d_round_eq round_rat_down)

lemma d_round_zero: "0 \<le> x \<Longrightarrow> 0 \<le> d_round D x n ToZero \<and> d_round D x n ToZero \<le> x"
  by (simp add: d_round_eq round_rat_zero)

end

text \<open>
  Arithmetic: an operation is exact when its exact result is representable with a 96-bit integer
  and at most 28 fractional digits, the checked variants agree with the operators, and a quotient is
  accurate to 28 significant digits.
\<close>

locale dec_arith =
  fixes D :: dec_lib
  assumes d_add_exact: "representable (a + b) \<Longrightarrow> d_add D a b = a + b"
    and d_sub_exact: "representable (a - b) \<Longrightarrow> d_sub D a b = a - b"
    and d_mul_exact: "representable (a * b) \<Longrightarrow> d_mul D a b = a * b"
    and d_div_exact: "b \<noteq> 0 \<Longrightarrow> representable (a / b) \<Longrightarrow> d_div D a b = a / b"
    and d_checked_add_Some: "d_checked_add D a b = Some c \<Longrightarrow> c = d_add D a b"
    and d_checked_sub_Some: "d_checked_sub D a b = Some c \<Longrightarrow> c = d_sub D a b"
    and d_checked_mul_Some: "d_checked_mul D a b = Some c \<Longrightarrow> c = d_mul D a b"
    and d_checked_div_Some: "d_checked_div D a b = Some c \<Longrightarrow> c = d_div D a b"
    and d_checked_add_representable: "representable (a + b) \<Longrightarrow> d_checked_add D a b = Some (a + b)"
    and d_checked_sub_representable: "representable (a - b) \<Longrightarrow> d_checked_sub D a b = Some (a - b)"
    and d_checked_mul_representable: "representable (a * b) \<Longrightarrow> d_checked_mul D a b = Some (a * b)"
    and d_div_error: "b \<noteq> 0 \<Longrightarrow> \<bar>a / b\<bar> \<le> 10 ^ k \<Longrightarrow> k \<le> 28 \<Longrightarrow>
                        \<bar>d_div D a b - a / b\<bar> \<le> 1 / 10 ^ (28 - k)"

locale decimal_crate = dec_rounding D + dec_arith D for D :: dec_lib

section \<open>An executable instance\<close>

fun frac_digits :: "nat \<Rightarrow> nat \<Rightarrow> string" where
  "frac_digits 0 n = []"
| "frac_digits (Suc k) n = frac_digits k (n div 10) @ [char_of (48 + n mod 10)]"

text \<open>
  The least number of fractional digits that is exact; a rational with no finite expansion, which
  no \<open>Decimal\<close> denotes, is printed as a fraction.
\<close>

fun least_scale :: "nat \<Rightarrow> nat \<Rightarrow> rat \<Rightarrow> nat option" where
  "least_scale 0 s x = (if of_int \<lfloor>x\<rfloor> = x then Some s else None)"
| "least_scale (Suc k) s x = (if of_int \<lfloor>x\<rfloor> = x then Some s else least_scale k (Suc s) (x * 10))"

definition show_nonneg :: "rat \<Rightarrow> string" where
  "show_nonneg x =
     (case least_scale 28 0 x of
        Some s \<Rightarrow>
          nat_digits (nat \<lfloor>x\<rfloor>) @
          (if s = 0 then [] else ''.'' @ frac_digits s (nat \<lfloor>x * 10 ^ s\<rfloor> mod 10 ^ s))
      | None \<Rightarrow> nat_digits (nat (fst (quotient_of x))) @ ''/'' @ nat_digits (nat (snd (quotient_of x))))"

text \<open>A difference keeps the larger scale of its operands, so it may end in zeros.\<close>

definition text_scale :: "rat \<Rightarrow> nat" where
  "text_scale x = (case least_scale 28 0 x of Some s \<Rightarrow> s | None \<Rightarrow> 28)"

definition show_at :: "nat \<Rightarrow> rat \<Rightarrow> string" where
  "show_at s x =
     nat_digits (nat \<lfloor>x\<rfloor>) @ (if s = 0 then [] else ''.'' @ frac_digits s (nat \<lfloor>x * 10 ^ s\<rfloor> mod 10 ^ s))"

definition show_diff :: "rat \<Rightarrow> rat \<Rightarrow> string" where
  "show_diff a b = show_at (max (text_scale a) (text_scale b)) \<bar>a - b\<bar>"

definition show_rat :: "rat \<Rightarrow> string" where
  "show_rat x = (if x < 0 then ''-'' @ show_nonneg (- x) else show_nonneg x)"

definition digit_val :: "char \<Rightarrow> nat option" where
  "digit_val c = (let n = (of_char c :: nat) in if 48 \<le> n \<and> n \<le> 57 then Some (n - 48) else None)"

fun read_digits :: "nat \<Rightarrow> string \<Rightarrow> nat option" where
  "read_digits acc [] = Some acc"
| "read_digits acc (c # s) =
     (case digit_val c of Some d \<Rightarrow> read_digits (10 * acc + d) s | None \<Rightarrow> None)"

definition read_nonneg :: "string \<Rightarrow> rat option" where
  "read_nonneg s =
     (let i = takeWhile (\<lambda>c. c \<noteq> CHR ''.'' \<and> c \<noteq> CHR ''/'') s; r = dropWhile (\<lambda>c. c \<noteq> CHR ''.'' \<and> c \<noteq> CHR ''/'') s
      in if i = [] then None
         else case r of
           [] \<Rightarrow> map_option of_nat (read_digits 0 i)
         | c # f \<Rightarrow>
             (case (read_digits 0 i, read_digits 0 f) of
                (Some a, Some b) \<Rightarrow>
                  if c = CHR ''.'' then Some (of_nat a + of_nat b / 10 ^ length f)
                  else if b = 0 then None else Some (of_nat a / of_nat b)
              | _ \<Rightarrow> None))"

definition read_rat :: "string \<Rightarrow> rat option" where
  "read_rat s =
     (case s of
        [] \<Rightarrow> None
      | c # r \<Rightarrow> if c = CHR ''-'' then map_option uminus (read_nonneg r) else read_nonneg s)"

definition dec_max_val :: rat where
  "dec_max_val = 79228162514264337593543950335"

definition checked :: "rat \<Rightarrow> rat option" where
  "checked x = (if \<bar>x\<bar> \<le> dec_max_val then Some x else None)"

definition exact_dec :: dec_lib where
  "exact_dec = \<lparr>
     d_add = (+), d_sub = (-), d_mul = (*), d_div = (/),
     d_checked_add = (\<lambda>a b. checked (a + b)),
     d_checked_sub = (\<lambda>a b. checked (a - b)),
     d_checked_mul = (\<lambda>a b. checked (a * b)),
     d_checked_div = (\<lambda>a b. if b = 0 then None else checked (a / b)),
     d_round = round_rat, d_trunc = trunc_rat,
     d_parse = read_rat, d_to_string = show_rat, d_canonical = show_rat, d_diff_text = show_diff,
     d_max = dec_max_val \<rparr>"

lemma exact_dec_simps [simp]:
  "d_add exact_dec = (+)" "d_sub exact_dec = (-)" "d_mul exact_dec = (*)" "d_div exact_dec = (/)"
  "d_checked_add exact_dec a b = checked (a + b)" "d_checked_sub exact_dec a b = checked (a - b)"
  "d_checked_mul exact_dec a b = checked (a * b)"
  "d_checked_div exact_dec a b = (if b = 0 then None else checked (a / b))"
  "d_round exact_dec = round_rat" "d_trunc exact_dec = trunc_rat" "d_parse exact_dec = read_rat"
  "d_to_string exact_dec = show_rat" "d_canonical exact_dec = show_rat" "d_diff_text exact_dec = show_diff" "d_max exact_dec = dec_max_val"
  by (simp_all add: exact_dec_def)

lemma least_scale_nat [simp]: "least_scale k s (of_nat n) = Some s"
  by (cases k) simp_all

lemma show_rat_nat: "show_rat (of_nat k) = nat_digits k"
  by (simp add: show_rat_def show_nonneg_def)

interpretation exact: dec_rounding exact_dec
  by unfold_locales (simp_all add: show_rat_nat)

lemma representable_bound: "representable x \<Longrightarrow> \<bar>x\<bar> \<le> dec_max_val"
proof -
  assume "representable x"
  then obtain m :: int and s :: nat where m: "\<bar>m\<bar> < 2 ^ 96" and x: "x = of_int m / 10 ^ s"
    by (auto simp: representable_def)
  have "\<bar>m\<bar> \<le> 79228162514264337593543950335" using m by simp
  then have "\<bar>of_int m :: rat\<bar> \<le> of_int 79228162514264337593543950335"
    by (simp only: of_int_abs [symmetric] of_int_le_iff)
  moreover have "\<bar>x\<bar> \<le> \<bar>of_int m\<bar>"
  proof -
    have "(1::rat) \<le> 10 ^ s" by simp
    then have "\<bar>of_int m :: rat\<bar> / 10 ^ s \<le> \<bar>of_int m\<bar> / 1"
      by (intro divide_left_mono) simp_all
    then show ?thesis by (simp add: x)
  qed
  ultimately show ?thesis by (simp add: dec_max_val_def)
qed

interpretation exact: decimal_crate exact_dec
  by unfold_locales (auto simp: checked_def representable_bound split: if_splits)

end
