(* ===== verification/Types.thy ===== *)
theory Types
  imports Decimal_Lib
begin

text \<open>
  The domain types of \<open>src/types.rs\<close> and the error type of \<open>src/errors.rs\<close>. \<open>Address\<close> and
  \<open>Symbol\<close> are newtypes of \<open>String\<close>; an \<open>OrderId\<close> is a \<open>u64\<close>; an \<open>i64\<close> is a 64-bit word read by \<open>sint\<close>; a \<open>Cloid\<close> wraps a 128-bit UUID.
  Error constructors keep the variant and the constant part of the message; only
  \<open>HlError::Exchange\<close>, whose code and message the program inspects, keeps its text verbatim.
\<close>

type_synonym address = string
type_synonym symbol = string
type_synonym order_id = u64
type_synonym cloid = "128 word"
type_synonym i64 = "64 word"

section \<open>Positions, sides and orders\<close>

record signed_position =
  sp_symbol :: symbol
  sp_szi :: decimal

definition position_zero :: "symbol \<Rightarrow> signed_position" where
  "position_zero s = \<lparr>sp_symbol = s, sp_szi = 0\<rparr>"

definition is_flat :: "signed_position \<Rightarrow> bool" where
  "is_flat p \<longleftrightarrow> sp_szi p = 0"

datatype side = Long | Short

fun as_signed_unit :: "side \<Rightarrow> decimal" where
  "as_signed_unit Long = 1"
| "as_signed_unit Short = - 1"

fun side_name :: "side \<Rightarrow> string" where
  "side_name Long = ''long''"
| "side_name Short = ''short''"

text \<open>The wire letter of a side, as \<open>orderStatus\<close> and \<open>userFillsByTime\<close> carry it.\<close>

fun side_wire :: "side \<Rightarrow> string" where
  "side_wire Long = ''B''"
| "side_wire Short = ''A''"

datatype tif = Alo | Ioc | Gtc

record order_intent =
  oi_cloid :: cloid
  oi_symbol :: symbol
  oi_side :: side
  oi_px :: decimal
  oi_sz :: decimal
  oi_tif :: tif
  oi_reduce_only :: bool

record cancel_intent =
  ci_symbol :: symbol
  ci_cloid :: cloid

record book_level =
  bl_px :: decimal
  bl_sz :: decimal
  bl_n :: nat

record order_book =
  ob_coin :: string
  ob_bids :: "book_level list"
  ob_asks :: "book_level list"
  ob_time_ms :: i64

definition first_opt :: "'a list \<Rightarrow> 'a option" where
  "first_opt xs = (case xs of [] \<Rightarrow> None | x # _ \<Rightarrow> Some x)"

definition best_bid :: "order_book \<Rightarrow> decimal option" where
  "best_bid b = map_option bl_px (first_opt (ob_bids b))"

definition best_ask :: "order_book \<Rightarrow> decimal option" where
  "best_ask b = map_option bl_px (first_opt (ob_asks b))"

definition book_mid :: "dec_lib \<Rightarrow> order_book \<Rightarrow> decimal option" where
  "book_mid D b =
     (case (best_bid b, best_ask b) of
        (Some x, Some a) \<Rightarrow> Some (d_div D (d_add D x a) 2)
      | _ \<Rightarrow> None)"

lemma first_opt_Some: "first_opt xs = Some x \<longleftrightarrow> (\<exists>ys. xs = x # ys)"
  by (auto simp: first_opt_def split: list.splits)

lemma first_opt_None: "first_opt xs = None \<longleftrightarrow> xs = []"
  by (auto simp: first_opt_def split: list.splits)

section \<open>Errors\<close>

datatype hl_error =
    Network string
  | SignatureErr string
  | InvalidResponse string
  | InvalidConfig string
  | ActionFormat string
  | UnknownSymbol symbol
  | Exchange "string option" string
  | Other string

datatype rejection_kind = InsufficientMargin | MinNotional | Unclassified

definition classify :: "string \<Rightarrow> rejection_kind" where
  "classify message =
     (let m = to_ascii_lowercase message in
      if contains m ''insufficient margin'' then InsufficientMargin
      else if contains m ''mintradentl'' \<or> contains m ''minimum'' then MinNotional
      else Unclassified)"

fun advice :: "rejection_kind \<Rightarrow> string" where
  "advice InsufficientMargin = ''insufficient margin: fund the account or reduce --usd/--size''"
| "advice MinNotional =
     ''order below HL minimum notional: increase --usd/--size or reduce --slices''"
| "advice Unclassified = ''exchange rejected the order (not retried)''"

instantiation side :: linorder
begin

definition less_eq_side :: "side \<Rightarrow> side \<Rightarrow> bool" where
  "less_eq_side a b \<longleftrightarrow> a = Long \<or> b = Short"

definition less_side :: "side \<Rightarrow> side \<Rightarrow> bool" where
  "less_side a b \<longleftrightarrow> a = Long \<and> b = Short"

instance
  by standard (auto simp: less_eq_side_def less_side_def intro: side.exhaust)

end

lemma side_wire_inj [simp]: "side_wire a = side_wire b \<longleftrightarrow> a = b"
  by (cases a; cases b) simp_all

lemma side_name_inj [simp]: "side_name a = side_name b \<longleftrightarrow> a = b"
  by (cases a; cases b) simp_all

end
