(* ===== verification/Format.thy ===== *)
theory Format
  imports Types
begin

text \<open>
  \<open>src/format.rs\<close>: sizes are truncated to \<open>szDecimals\<close> fractional digits, prices are snapped to the
  exchange's grid (at most \<open>6 - szDecimals\<close> fractional digits and at most five significant digits,
  integers exempt) in the direction that keeps a taker order marketable. The lemmas show that the
  rounded price never moves toward the touch, lies on both grids, and keeps the five-digit cap.
\<close>

definition MAX_PX_SIGNIFICANT_DIGITS :: nat where
  "MAX_PX_SIGNIFICANT_DIGITS = 5"

definition MAX_PX_DECIMALS_BASE :: int where
  "MAX_PX_DECIMALS_BASE = 6"

definition round_size :: "dec_lib \<Rightarrow> decimal \<Rightarrow> nat \<Rightarrow> decimal" where
  "round_size D sz sz_decimals = d_round D sz sz_decimals ToZero"

definition integer_digit_count :: "dec_lib \<Rightarrow> decimal \<Rightarrow> nat" where
  "integer_digit_count D px =
     (let t = d_trunc D px in if t = 0 then 0 else length (d_canonical D t))"

fun leading_zeros_loop :: "dec_lib \<Rightarrow> nat \<Rightarrow> nat \<Rightarrow> decimal \<Rightarrow> nat" where
  "leading_zeros_loop D 0 zeros scaled = zeros"
| "leading_zeros_loop D (Suc left) zeros scaled =
     (if scaled < 1 then
        (let scaled' = d_mul D scaled 10
         in if 1 \<le> scaled' then zeros else leading_zeros_loop D left (zeros + 1) scaled')
      else zeros)"

text \<open>The loop runs while \<open>zeros < 28\<close>, so it has 28 turns left when \<open>zeros\<close> is 0.\<close>

definition leading_fraction_zeros :: "dec_lib \<Rightarrow> decimal \<Rightarrow> nat" where
  "leading_fraction_zeros D px = leading_zeros_loop D 28 0 px"

definition round_to_significant_digits ::
  "dec_lib \<Rightarrow> decimal \<Rightarrow> nat \<Rightarrow> rounding \<Rightarrow> decimal" where
  "round_to_significant_digits D px sig strategy =
     (if px \<le> 0 then px
      else
        let int_digits = integer_digit_count D px
        in if sig \<le> int_digits then d_round D px 0 strategy
           else
             let allowed_decimals =
               (if px < 1 then sig + leading_fraction_zeros D px else sig - int_digits)
             in d_round D px allowed_decimals strategy)"

fun side_strategy :: "side \<Rightarrow> rounding" where
  "side_strategy Long = ToPositiveInfinity"
| "side_strategy Short = ToNegativeInfinity"

definition max_px_decimals :: "nat \<Rightarrow> nat" where
  "max_px_decimals sz_decimals = nat (max (MAX_PX_DECIMALS_BASE - int sz_decimals) 0)"

definition round_price :: "dec_lib \<Rightarrow> decimal \<Rightarrow> nat \<Rightarrow> side \<Rightarrow> decimal" where
  "round_price D px sz_decimals sd =
     (if px \<le> 0 then px
      else
        let strategy = side_strategy sd;
            px1 = d_round D px (max_px_decimals sz_decimals) strategy
        in round_to_significant_digits D px1 MAX_PX_SIGNIFICANT_DIGITS strategy)"

definition taker_limit_price ::
  "dec_lib \<Rightarrow> decimal \<Rightarrow> decimal \<Rightarrow> side \<Rightarrow> decimal \<Rightarrow> nat \<Rightarrow> decimal" where
  "taker_limit_price D bid ask sd slippage_bps sz_decimals =
     (let bps = d_div D slippage_bps 10000;
          raw = (case sd of
                   Long \<Rightarrow> d_add D ask (d_mul D ask bps)
                 | Short \<Rightarrow> d_sub D bid (d_mul D bid bps))
      in round_price D raw sz_decimals sd)"

definition notional :: "dec_lib \<Rightarrow> decimal \<Rightarrow> decimal \<Rightarrow> decimal" where
  "notional D sz px = d_mul D sz px"

definition human :: "dec_lib \<Rightarrow> decimal \<Rightarrow> string" where
  "human D d = d_canonical D d"

section \<open>Sizes\<close>

context dec_rounding
begin

lemma round_size_le: "0 \<le> sz \<Longrightarrow> 0 \<le> round_size D sz n \<and> round_size D sz n \<le> sz"
  by (simp add: round_size_def d_round_zero)

lemma round_size_grid: "on_grid n (round_size D sz n)"
  by (simp add: round_size_def d_round_on_grid)

lemma round_size_id: "on_grid n sz \<Longrightarrow> round_size D sz n = sz"
  by (simp add: round_size_def d_round_id)

lemma round_size_gap: "\<bar>round_size D sz n - sz\<bar> < 1 / 10 ^ n"
  by (simp add: round_size_def d_round_eq round_rat_gap)

section \<open>Prices\<close>

text \<open>Rounding onto a coarser grid in the same direction keeps a number on the finer grid.\<close>

lemma d_round_keeps_grid: "on_grid m x \<Longrightarrow> on_grid m (d_round D x n r)"
proof (cases "m \<le> n")
  case True
  assume "on_grid m x"
  with True have "on_grid n x" by (blast intro: on_grid_mono)
  with \<open>on_grid m x\<close> show ?thesis by (simp add: d_round_id)
next
  case False
  then show ?thesis by (auto intro: on_grid_mono d_round_on_grid)
qed

lemma d_round_side:
  "(sd = Long \<longrightarrow> x \<le> d_round D x n (side_strategy sd)) \<and>
   (sd = Short \<longrightarrow> d_round D x n (side_strategy sd) \<le> x)"
  by (cases sd) (simp_all add: d_round_up d_round_down)

lemma round_sig_side:
  "(sd = Long \<longrightarrow> x \<le> round_to_significant_digits D x k (side_strategy sd)) \<and>
   (sd = Short \<longrightarrow> round_to_significant_digits D x k (side_strategy sd) \<le> x)"
  by (cases sd) (simp_all add: round_to_significant_digits_def Let_def d_round_up d_round_down)

lemma round_sig_grid: "on_grid m x \<Longrightarrow> on_grid m (round_to_significant_digits D x k r)"
  by (simp add: round_to_significant_digits_def Let_def d_round_keeps_grid)

lemma round_price_side:
  "(sd = Long \<longrightarrow> px \<le> round_price D px n sd) \<and> (sd = Short \<longrightarrow> round_price D px n sd \<le> px)"
  using d_round_side [of sd px "max_px_decimals n"]
    round_sig_side [of sd "d_round D px (max_px_decimals n) (side_strategy sd)"
      MAX_PX_SIGNIFICANT_DIGITS]
  by (auto simp: round_price_def Let_def)

lemma round_price_grid: "0 < px \<Longrightarrow> on_grid (max_px_decimals n) (round_price D px n sd)"
  by (simp add: round_price_def Let_def round_sig_grid d_round_on_grid)

text \<open>The integer part of a positive price: its digit count bounds the price from both sides.\<close>

lemma integer_digit_count_nat:
  assumes "0 < px"
  defines "k \<equiv> nat \<lfloor>px\<rfloor>"
  shows "integer_digit_count D px = (if k = 0 then 0 else length (nat_digits k))"
proof -
  have "d_trunc D px = of_nat k"
    using assms by (simp add: d_trunc_eq trunc_rat_def)
  then show ?thesis by (simp add: integer_digit_count_def Let_def d_canonical_nat)
qed

lemma integer_digit_count_upper: "0 < px \<Longrightarrow> px < 10 ^ integer_digit_count D px"
proof -
  assume pos: "0 < px"
  define k where "k = nat \<lfloor>px\<rfloor>"
  have fl: "px < of_nat k + 1" using pos floor_correct [of px] by (simp add: k_def)
  show ?thesis
  proof (cases "k = 0")
    case True
    with fl pos show ?thesis by (simp add: integer_digit_count_nat k_def [symmetric])
  next
    case False
    have "k + 1 \<le> 10 ^ length (nat_digits k)" using nat_digits_upper [of k] by simp
    then have "(of_nat (k + 1) :: rat) \<le> of_nat (10 ^ length (nat_digits k))"
      by (simp only: of_nat_le_iff)
    with fl False pos show ?thesis by (simp add: integer_digit_count_nat k_def [symmetric])
  qed
qed

lemma integer_digit_count_lower:
  "0 < px \<Longrightarrow> integer_digit_count D px \<noteq> 0 \<Longrightarrow> 10 ^ (integer_digit_count D px - 1) \<le> px"
proof -
  assume pos: "0 < px" and nz: "integer_digit_count D px \<noteq> 0"
  define k where "k = nat \<lfloor>px\<rfloor>"
  from pos nz have k: "k \<noteq> 0" by (auto simp: integer_digit_count_nat k_def split: if_splits)
  then have "10 ^ (length (nat_digits k) - 1) \<le> k" by (intro nat_digits_lower) simp
  then have "(of_nat (10 ^ (length (nat_digits k) - 1)) :: rat) \<le> of_nat k"
    by (simp only: of_nat_le_iff)
  moreover have "of_nat k \<le> px" using pos by (simp add: k_def)
  ultimately have "(of_nat (10 ^ (length (nat_digits k) - 1)) :: rat) \<le> px" by (rule order_trans)
  then have "(10::rat) ^ (length (nat_digits k) - 1) \<le> px"
    by (simp only: of_nat_power of_nat_numeral)
  then show ?thesis using pos k by (simp add: integer_digit_count_nat k_def [symmetric])
qed

end

text \<open>
  A number has at most \<open>k\<close> significant digits when some power of ten scales it to an integer below
  \<open>10 ^ k\<close> in magnitude, or to \<open>10 ^ k\<close> itself, which has one significant digit.
\<close>

definition sig_digits_le :: "nat \<Rightarrow> decimal \<Rightarrow> bool" where
  "sig_digits_le k x \<longleftrightarrow> (\<exists>n::nat. on_grid n x \<and> \<bar>x\<bar> * 10 ^ n \<le> 10 ^ k)"

text \<open>The price grid of the exchange for an asset with \<open>n\<close> size decimals.\<close>

definition on_price_grid :: "nat \<Rightarrow> decimal \<Rightarrow> bool" where
  "on_price_grid n px \<longleftrightarrow> on_grid (max_px_decimals n) px \<and> (px \<in> \<int> \<or> sig_digits_le 5 px)"

lemma sig_digits_leI: "on_grid n x \<Longrightarrow> \<bar>x\<bar> * 10 ^ n \<le> 10 ^ k \<Longrightarrow> sig_digits_le k x"
  by (auto simp: sig_digits_le_def)

lemma on_grid_0_Ints [simp]: "on_grid 0 x \<longleftrightarrow> x \<in> \<int>"
  by (simp add: on_grid_def)

context dec_rounding
begin

lemma d_round_power_bound:
  assumes "0 < x" and "x \<le> 10 ^ k / 10 ^ n"
  shows "0 \<le> d_round D x n (side_strategy sd) \<and> d_round D x n (side_strategy sd) * 10 ^ n \<le> 10 ^ k"
proof -
  have y: "0 < x * 10 ^ n" "x * 10 ^ n \<le> of_int (10 ^ k)" using assms by (simp_all add: field_simps)
  then have "0 \<le> \<lfloor>x * 10 ^ n\<rfloor>" "\<lceil>x * 10 ^ n\<rceil> \<le> 10 ^ k" "0 < \<lceil>x * 10 ^ n\<rceil>" "\<lfloor>x * 10 ^ n\<rfloor> \<le> 10 ^ k"
    by (simp_all add: ceiling_le_iff le_floor_iff floor_le_iff)
  then have "(0::rat) \<le> of_int \<lfloor>x * 10 ^ n\<rfloor>" "(0::rat) \<le> of_int \<lceil>x * 10 ^ n\<rceil>"
    "(of_int \<lceil>x * 10 ^ n\<rceil> :: rat) \<le> of_int (10 ^ k)" "(of_int \<lfloor>x * 10 ^ n\<rfloor> :: rat) \<le> of_int (10 ^ k)"
    by (simp_all only: of_int_0_le_iff of_int_le_iff)
  then show ?thesis by (cases sd) (simp_all add: d_round_eq round_rat_def)
qed

end

context decimal_crate
begin

lemma d_mul_ten: "on_grid 27 s \<Longrightarrow> 0 < s \<Longrightarrow> s < 1 \<Longrightarrow> d_mul D s 10 = s * 10"
proof (rule d_mul_exact)
  assume g: "on_grid 27 s" and s: "0 < s" "s < 1"
  have "on_grid 27 (s * of_nat 10)" using g by (rule on_grid_mult_nat)
  then have "on_grid 27 (s * 10)" by simp
  moreover have "\<bar>s * 10\<bar> * 10 ^ 27 < 2 ^ 96" using s by simp
  ultimately show "representable (s * 10)" by (intro representableI [of 27]) simp_all
qed

lemma leading_zeros_loop_bound:
  assumes "on_grid 27 s" and "0 < s" and "s < 1"
  shows "s * 10 ^ (leading_zeros_loop D k z s - z) < 1 \<and> z \<le> leading_zeros_loop D k z s"
  using assms
proof (induction k arbitrary: z s)
  case (Suc k)
  have mul: "d_mul D s 10 = s * 10" using Suc.prems by (rule d_mul_ten)
  have grid: "on_grid 27 (s * 10)" using on_grid_mult_nat [OF Suc.prems(1), of 10] by simp
  show ?case
  proof (cases "1 \<le> s * 10")
    case True
    with Suc show ?thesis by (simp add: mul Let_def)
  next
    case False
    with Suc.IH [of "s * 10" "z + 1"] Suc.prems grid
    have ih: "s * 10 * 10 ^ (leading_zeros_loop D k (z + 1) (s * 10) - (z + 1)) < 1"
      "z + 1 \<le> leading_zeros_loop D k (z + 1) (s * 10)" by auto
    then have "10 * (10::rat) ^ (leading_zeros_loop D k (z + 1) (s * 10) - (z + 1)) =
        10 ^ (leading_zeros_loop D k (z + 1) (s * 10) - z)"
      by (simp add: power_Suc [symmetric] Suc_diff_Suc)
    with ih False Suc.prems show ?thesis
      by (simp add: mul Let_def mult.assoc)
  qed
qed simp

lemma round_sig_digits:
  assumes grid: "on_grid 27 x" and "0 < x"
  shows "round_to_significant_digits D x 5 (side_strategy sd) \<in> \<int> \<or>
         sig_digits_le 5 (round_to_significant_digits D x 5 (side_strategy sd))"
proof -
  let ?i = "integer_digit_count D x"
  have step: "sig_digits_le 5 (d_round D x n (side_strategy sd))" if "x \<le> 10 ^ 5 / 10 ^ n" for n
    using d_round_power_bound [OF \<open>0 < x\<close> that, of sd] d_round_on_grid
    by (auto intro!: sig_digits_leI [of n])
  consider "5 \<le> ?i" | "?i < 5" "x < 1" | "?i < 5" "1 \<le> x" by linarith
  then show ?thesis
  proof cases
    case 1
    with \<open>0 < x\<close> show ?thesis using d_round_on_grid [of 0]
      by (simp add: round_to_significant_digits_def)
  next
    case 2
    let ?z = "leading_fraction_zeros D x"
    have "x * 10 ^ ?z < 1"
      using leading_zeros_loop_bound [of x 28 0] grid \<open>0 < x\<close> 2 by (simp add: leading_fraction_zeros_def)
    then have "x \<le> 10 ^ 5 / 10 ^ (5 + ?z)" by (simp add: power_add field_simps)
    with 2 \<open>0 < x\<close> show ?thesis
      by (simp add: round_to_significant_digits_def Let_def step)
  next
    case 3
    have "x < 10 ^ ?i" using \<open>0 < x\<close> by (rule integer_digit_count_upper)
    moreover have "(10::rat) ^ 5 / 10 ^ (5 - ?i) = 10 ^ ?i"
      using 3 by (simp add: power_diff)
    ultimately have "x \<le> 10 ^ 5 / 10 ^ (5 - ?i)" by simp
    with 3 \<open>0 < x\<close> show ?thesis
      by (simp add: round_to_significant_digits_def Let_def step)
  qed
qed

text \<open>A floor onto a finer grid than a positive number needs can reach 0, so positivity is checked.\<close>

lemma round_price_on_price_grid: "0 < px \<Longrightarrow> on_price_grid n (round_price D px n sd)"
proof -
  assume pos: "0 < px"
  let ?x = "d_round D px (max_px_decimals n) (side_strategy sd)"
  have "max_px_decimals n \<le> 27" by (simp add: max_px_decimals_def MAX_PX_DECIMALS_BASE_def)
  then have grid: "on_grid 27 ?x" using d_round_on_grid by (blast intro: on_grid_mono)
  have "round_price D px n sd \<in> \<int> \<or> sig_digits_le 5 (round_price D px n sd)"
  proof (cases "0 < ?x")
    case True
    from round_sig_digits [OF grid True, of sd] pos show ?thesis
      by (simp add: round_price_def Let_def MAX_PX_SIGNIFICANT_DIGITS_def)
  next
    case False
    have "(0::int) \<le> \<lceil>px * 10 ^ max_px_decimals n\<rceil>" using pos by (simp add: le_ceiling_iff less_le_trans [of "- 1" 0])
    then have "0 \<le> ?x" using pos by (cases sd) (simp_all add: d_round_eq round_rat_def)
    with False pos have "round_price D px n sd = 0"
      by (simp add: round_price_def Let_def round_to_significant_digits_def)
    then show ?thesis by simp
  qed
  with round_price_grid [OF pos] show ?thesis by (simp add: on_price_grid_def)
qed

lemma round_price_spec:
  "0 < px \<Longrightarrow> on_price_grid n (round_price D px n sd) \<and>
     (case sd of Long \<Rightarrow> px \<le> round_price D px n sd | Short \<Rightarrow> round_price D px n sd \<le> px)"
  using round_price_on_price_grid [of px n sd] round_price_side [of sd px n]
  by (cases sd) simp_all

lemma taker_limit_price_side:
  assumes "0 < bid" and "bid \<le> ask" and "0 \<le> bps"
    and "representable (bps / 10000)"
    and "representable (ask * (bps / 10000))" and "representable (ask + ask * (bps / 10000))"
    and "representable (bid * (bps / 10000))" and "representable (bid - bid * (bps / 10000))"
  shows "case sd of Long \<Rightarrow> ask \<le> taker_limit_price D bid ask sd bps n
                  | Short \<Rightarrow> taker_limit_price D bid ask sd bps n \<le> bid"
proof -
  have b: "d_div D bps 10000 = bps / 10000" using assms(4) by (simp add: d_div_exact)
  have long: "d_add D ask (d_mul D ask (bps / 10000)) = ask + ask * (bps / 10000)"
    by (simp only: d_mul_exact [OF assms(5)] d_add_exact [OF assms(6)])
  have short: "d_sub D bid (d_mul D bid (bps / 10000)) = bid - bid * (bps / 10000)"
    by (simp only: d_mul_exact [OF assms(7)] d_sub_exact [OF assms(8)])
  have "ask \<le> ask + ask * (bps / 10000)" "bid - bid * (bps / 10000) \<le> bid"
    using assms(1-3) by simp_all
  then show ?thesis
    using round_price_side [of Long "ask + ask * (bps / 10000)" n]
      round_price_side [of Short "bid - bid * (bps / 10000)" n]
    unfolding taker_limit_price_def by (cases sd) (simp_all add: b long short Let_def)
qed

end

section \<open>Properties\<close>

text \<open>C40: A positive price leaves \<open>round_price\<close> on the exchange's grid (at most
  \<open>6 - szDecimals\<close> fractional digits, and an integer or at most five significant digits), and it
  only moves away from the touch: up for a long, down for a short.\<close>

theorem round_price_correct:
  assumes "decimal_crate D" and "0 < px"
  shows "on_price_grid n (round_price D px n sd) \<and>
         (case sd of Long \<Rightarrow> px \<le> round_price D px n sd | Short \<Rightarrow> round_price D px n sd \<le> px)"
  using assms by (rule decimal_crate.round_price_spec)

theorem round_price_correct_witness:
  "on_price_grid 2 (round_price exact_dec (238714159 / 100000) 2 Long) \<and>
   238714159 / 100000 \<le> round_price exact_dec (238714159 / 100000) 2 Long"
  using round_price_correct [OF exact.decimal_crate_axioms, of "238714159 / 100000" 2 Long] by simp

text \<open>The taker limit price is marketable: with a non-negative slippage cushion a long's limit is
  at or above the best ask and a short's at or below the best bid, whenever the slippage arithmetic
  is exactly representable.\<close>

theorem taker_limit_price_marketable:
  assumes "decimal_crate D" and "0 < bid" and "bid \<le> ask" and "0 \<le> bps"
    and "representable (bps / 10000)"
    and "representable (ask * (bps / 10000))" and "representable (ask + ask * (bps / 10000))"
    and "representable (bid * (bps / 10000))" and "representable (bid - bid * (bps / 10000))"
  shows "case sd of Long \<Rightarrow> ask \<le> taker_limit_price D bid ask sd bps n
                  | Short \<Rightarrow> taker_limit_price D bid ask sd bps n \<le> bid"
  using assms by (rule decimal_crate.taker_limit_price_side)

lemma representable_frac:
  "x = of_int m / 10 ^ s \<Longrightarrow> \<bar>m\<bar> < 2 ^ 96 \<Longrightarrow> s \<le> 28 \<Longrightarrow> representable x"
  by (auto simp: representable_def)

theorem taker_limit_price_marketable_witness:
  "(100::rat) \<le> taker_limit_price exact_dec 99 100 Long 50 2"
  using taker_limit_price_marketable [OF exact.decimal_crate_axioms, of 99 100 50 Long 2]
    representable_frac [of "50 / 10000" 5 3] representable_frac [of "100 * (50 / 10000)" 5 1]
    representable_frac [of "100 + 100 * (50 / 10000)" 1005 1]
    representable_frac [of "99 * (50 / 10000)" 495 3] representable_frac [of "99 - 99 * (50 / 10000)" 98505 3]
  by simp

text \<open>\<open>round_size\<close> truncates: the result lies on the \<open>szDecimals\<close> grid, is never above the
  requested size, is less than one grid step below it, and leaves a size on the grid unchanged.\<close>

theorem round_size_correct:
  assumes "dec_rounding D" and "0 \<le> sz"
  shows "on_grid n (round_size D sz n) \<and> 0 \<le> round_size D sz n \<and> round_size D sz n \<le> sz \<and>
         sz - round_size D sz n < 1 / 10 ^ n \<and> (on_grid n sz \<longrightarrow> round_size D sz n = sz)"
  using dec_rounding.round_size_le [OF assms, of n] dec_rounding.round_size_grid [OF assms(1), of n sz]
    dec_rounding.round_size_gap [OF assms(1), of sz n] dec_rounding.round_size_id [OF assms(1), of n sz]
  by auto

theorem round_size_correct_witness:
  "on_grid 2 (round_size exact_dec (123999 / 100000) 2) \<and>
   round_size exact_dec (123999 / 100000) 2 \<le> 123999 / 100000"
  using round_size_correct [OF exact.dec_rounding_axioms, of "123999 / 100000" 2] by simp

end
