(* ===== verification/Risk.thy ===== *)
theory Risk
  imports Format
begin

text \<open>
  \<open>src/risk.rs\<close>: the slippage bounds, the notional cap and the endpoint policy, each a validation
  that returns an error constructor. URL parsing for the official-origin check is the third-party
  \<open>reqwest::Url\<close>: its host component is the parameter \<open>url_host\<close>. The lemmas show what an accepted
  configuration guarantees: a positive limit price, a positive cap in live mode, and no plaintext
  endpoint outside the two loopback hosts.
\<close>

datatype network = Mainnet | Testnet

datatype risk_error =
    SlippageHardCapExceeded decimal decimal
  | SlippageWarnThresholdExceeded decimal decimal
  | NegativeSlippage decimal
  | NonPositiveLimitPrice decimal side decimal decimal decimal
  | MaxNotionalRequired
  | NonPositiveMaxNotional decimal
  | NotionalCapExceeded decimal decimal
  | CustomEndpointRejected string
  | CustomEndpointNotHttps string
  | OfficialEndpointNetworkMismatch string network

definition SLIPPAGE_HARD_CAP_BPS :: decimal where
  "SLIPPAGE_HARD_CAP_BPS = 10000"

definition SLIPPAGE_WARN_THRESHOLD_BPS :: decimal where
  "SLIPPAGE_WARN_THRESHOLD_BPS = 1000"

definition validate_slippage :: "decimal \<Rightarrow> bool \<Rightarrow> risk_error + unit" where
  "validate_slippage slippage_bps allow_high_slippage =
     (if slippage_bps < 0 then Inl (NegativeSlippage slippage_bps)
      else if SLIPPAGE_HARD_CAP_BPS \<le> slippage_bps
        then Inl (SlippageHardCapExceeded slippage_bps SLIPPAGE_HARD_CAP_BPS)
      else if SLIPPAGE_WARN_THRESHOLD_BPS < slippage_bps \<and> \<not> allow_high_slippage
        then Inl (SlippageWarnThresholdExceeded slippage_bps SLIPPAGE_WARN_THRESHOLD_BPS)
      else Inr ())"

definition validate_limit_price ::
  "decimal \<Rightarrow> side \<Rightarrow> decimal \<Rightarrow> decimal \<Rightarrow> decimal \<Rightarrow> risk_error + unit" where
  "validate_limit_price px sd bps bid ask =
     (if px \<le> 0 then Inl (NonPositiveLimitPrice px sd bps bid ask) else Inr ())"

definition validate_max_notional_required ::
  "dec_lib \<Rightarrow> bool \<Rightarrow> decimal option \<Rightarrow> risk_error + decimal" where
  "validate_max_notional_required D read_only max_notional_usd =
     (if read_only then
        (case max_notional_usd of
           Some cap \<Rightarrow> if cap \<le> 0 then Inl (NonPositiveMaxNotional cap) else Inr cap
         | None \<Rightarrow> Inr (d_max D))
      else
        (case max_notional_usd of
           None \<Rightarrow> Inl MaxNotionalRequired
         | Some cap \<Rightarrow> if cap \<le> 0 then Inl (NonPositiveMaxNotional cap) else Inr cap))"

fun taker_notional_price :: "decimal \<Rightarrow> decimal \<Rightarrow> side \<Rightarrow> decimal" where
  "taker_notional_price limit_px bid Long = limit_px"
| "taker_notional_price limit_px bid Short = max limit_px bid"

definition check_notional_cap :: "decimal \<Rightarrow> decimal \<Rightarrow> risk_error + unit" where
  "check_notional_cap requested cap =
     (if cap < requested then Inl (NotionalCapExceeded requested cap) else Inr ())"

section \<open>Endpoints\<close>

definition authority_of :: "string \<Rightarrow> string" where
  "authority_of s = takeWhile (\<lambda>c. c \<noteq> CHR ''/'' \<and> c \<noteq> CHR ''?'' \<and> c \<noteq> CHR ''#'') s"

fun host_matches :: "string \<Rightarrow> string list \<Rightarrow> bool" where
  "host_matches authority [] = False"
| "host_matches authority (host # hs) =
     (case strip_prefix host authority of
        Some rest \<Rightarrow>
          if rest = [] \<or> prefix '':'' rest then True else host_matches authority hs
      | None \<Rightarrow> host_matches authority hs)"

definition is_loopback_url :: "string \<Rightarrow> bool" where
  "is_loopback_url url =
     (case strip_prefix ''http://'' url of
        None \<Rightarrow> False
      | Some after_scheme \<Rightarrow>
          let authority = authority_of after_scheme in
          if contains authority ''@'' then False
          else host_matches authority [''127.0.0.1'', ''localhost''])"

definition validate_endpoint_override :: "string \<Rightarrow> bool \<Rightarrow> risk_error + unit" where
  "validate_endpoint_override url allow_custom_endpoints =
     (if \<not> allow_custom_endpoints then Inl (CustomEndpointRejected url)
      else if \<not> prefix ''https://'' url \<and> \<not> is_loopback_url url
        then Inl (CustomEndpointNotHttps url)
      else Inr ())"

definition trim_end_dots :: "string \<Rightarrow> string" where
  "trim_end_dots s = rev (dropWhile (\<lambda>c. c = CHR ''.'') (rev s))"

definition endpoint_network :: "string \<Rightarrow> network option" where
  "endpoint_network canonical_host =
     (if canonical_host = ''api.hyperliquid.xyz'' then Some Mainnet
      else if canonical_host = ''api.hyperliquid-testnet.xyz'' then Some Testnet
      else None)"

definition validate_official_endpoint_network ::
  "(string \<Rightarrow> string option) \<Rightarrow> string \<Rightarrow> network \<Rightarrow> risk_error + unit" where
  "validate_official_endpoint_network url_host url selected_network =
     (case url_host url of
        None \<Rightarrow> Inr ()
      | Some host \<Rightarrow>
          (case endpoint_network (trim_end_dots host) of
             Some n \<Rightarrow>
               if n \<noteq> selected_network
               then Inl (OfficialEndpointNetworkMismatch host selected_network) else Inr ()
           | None \<Rightarrow> Inr ()))"

section \<open>Characteristic lemmas\<close>

lemma validate_slippage_ok [guard_simps]:
  "validate_slippage b h = Inr u \<longleftrightarrow> 0 \<le> b \<and> b < 10000 \<and> (b \<le> 1000 \<or> h)"
  by (auto simp: validate_slippage_def SLIPPAGE_HARD_CAP_BPS_def SLIPPAGE_WARN_THRESHOLD_BPS_def)

lemma validate_limit_price_ok [guard_simps]: "validate_limit_price px sd b bid ask = Inr u \<longleftrightarrow> 0 < px"
  by (auto simp: validate_limit_price_def)

lemma check_notional_cap_ok [guard_simps]: "check_notional_cap r c = Inr u \<longleftrightarrow> r \<le> c"
  by (auto simp: check_notional_cap_def)

lemma validate_max_notional_live [guard_simps]:
  "validate_max_notional_required D False m = Inr cap \<longleftrightarrow> m = Some cap \<and> 0 < cap"
  by (auto simp: validate_max_notional_required_def split: option.splits)

lemma host_matches_iff:
  "host_matches a hs \<longleftrightarrow> (\<exists>h\<in>set hs. a = h \<or> (\<exists>port. a = h @ '':'' @ port))"
proof (induction hs)
  case (Cons h hs)
  have eq: "(case strip_prefix h a of None \<Rightarrow> False | Some r \<Rightarrow> r = [] \<or> prefix '':'' r) \<longleftrightarrow>
      a = h \<or> (\<exists>port. a = h @ '':'' @ port)"
    by (auto simp: strip_prefix_def prefix_def)
  have "host_matches a (h # hs) \<longleftrightarrow>
      (case strip_prefix h a of None \<Rightarrow> False | Some r \<Rightarrow> r = [] \<or> prefix '':'' r) \<or> host_matches a hs"
    by (auto split: option.splits)
  with Cons eq show ?case by simp
qed simp

lemma contains_at: "contains s [c] \<longleftrightarrow> c \<in> set s"
  by (induction s) auto

section \<open>Properties\<close>

text \<open>An accepted slippage keeps both raw limit prices positive: it is below 100 percent (and above
  10 percent only with the explicit override), so a short's price \<open>bid - bid * bps / 10000\<close> cannot
  reach zero.\<close>

theorem accepted_slippage_positive_price:
  assumes "validate_slippage bps allow_high = Inr ()" and "0 < bid" and "bid \<le> ask"
  shows "0 < bid - bid * (bps / 10000) \<and> ask + ask * (bps / 10000) < 2 * ask \<and>
         (allow_high \<or> bps \<le> 1000)"
proof -
  from assms(1) have b: "0 \<le> bps" "bps < 10000" "allow_high \<or> bps \<le> 1000"
    by (auto simp: guard_simps)
  then have "bid * (bps / 10000) < bid * 1" using assms(2) by (intro mult_strict_left_mono) simp_all
  moreover have "ask * (bps / 10000) < ask * 1"
    using assms b by (intro mult_strict_left_mono) simp_all
  ultimately show ?thesis using b by simp
qed

theorem accepted_slippage_positive_price_witness:
  "(0::rat) < 100 - 100 * (9999 / 10000) \<and> validate_slippage 9999 True = Inr ()"
  using accepted_slippage_positive_price [of 9999 True 100 101] by (simp add: guard_simps)

text \<open>The only endpoint overrides that live mode accepts are \<open>https\<close> URLs and plaintext URLs
  whose authority is exactly \<open>127.0.0.1\<close> or \<open>localhost\<close>, optionally followed by a port, with no
  userinfo; no override is accepted without the explicit opt-in.\<close>

theorem endpoint_override_safe:
  assumes "validate_endpoint_override url allow = Inr ()"
  shows "allow \<and>
    (prefix ''https://'' url \<or>
     (\<exists>rest host. url = ''http://'' @ rest \<and> host \<in> {''127.0.0.1'', ''localhost''} \<and>
        CHR ''@'' \<notin> set (authority_of rest) \<and>
        (authority_of rest = host \<or> (\<exists>port. authority_of rest = host @ '':'' @ port))))"
proof -
  from assms have a: allow and b: "prefix ''https://'' url \<or> is_loopback_url url"
    by (auto simp: validate_endpoint_override_def split: if_splits)
  have "\<exists>rest host. url = ''http://'' @ rest \<and> host \<in> {''127.0.0.1'', ''localhost''} \<and>
        CHR ''@'' \<notin> set (authority_of rest) \<and>
        (authority_of rest = host \<or> (\<exists>port. authority_of rest = host @ '':'' @ port))"
    if "is_loopback_url url"
  proof -
    from that obtain rest where r: "strip_prefix ''http://'' url = Some rest"
      "\<not> contains (authority_of rest) ''@''" "host_matches (authority_of rest) [''127.0.0.1'', ''localhost'']"
      by (auto simp: is_loopback_url_def Let_def split: option.splits if_splits)
    from r(3) obtain host where "host \<in> {''127.0.0.1'', ''localhost''}"
      "authority_of rest = host \<or> (\<exists>port. authority_of rest = host @ '':'' @ port)"
      unfolding host_matches_iff by (metis list.set(1,2))
    with r(1,2) show ?thesis unfolding strip_prefix_Some contains_at by blast
  qed
  with a b show ?thesis by blast
qed

theorem endpoint_override_safe_witness:
  "validate_endpoint_override ''http://127.0.0.1:8080/info'' True = Inr () \<and>
   \<not> is_loopback_url ''http://127.0.0.1:80@evil.com''"
proof -
  have a: "validate_endpoint_override ''http://127.0.0.1:8080/info'' True = Inr ()" by code_simp
  have b: "\<not> is_loopback_url ''http://127.0.0.1:80@evil.com''" by code_simp
  from endpoint_override_safe [OF a] a b show ?thesis by blast
qed

end
