(* ===== verification/Market.thy ===== *)
theory Market
  imports Risk
begin

text \<open>
  The validation half of \<open>src/client.rs\<close>: what an untrusted exchange response must satisfy before
  the program prices, sizes or accounts with it. Wire shapes are the records their JSON is decoded
  into. The lemmas show what a validated book, position, status and fill guarantee.
\<close>

section \<open>Endpoints\<close>

fun base_url :: "network \<Rightarrow> string" where
  "base_url Mainnet = ''https://api.hyperliquid.xyz''"
| "base_url Testnet = ''https://api.hyperliquid-testnet.xyz''"

record hl_config =
  cf_info_url :: string
  cf_exchange_url :: string
  cf_network :: network

definition hl_config_new :: "network \<Rightarrow> hl_config" where
  "hl_config_new n =
     \<lparr>cf_info_url = base_url n @ ''/info'', cf_exchange_url = base_url n @ ''/exchange'',
      cf_network = n\<rparr>"

definition with_overrides :: "hl_config \<Rightarrow> string option \<Rightarrow> string option \<Rightarrow> hl_config" where
  "with_overrides c info exchange =
     (let c1 = (case info of Some i \<Rightarrow> c\<lparr>cf_info_url := i\<rparr> | None \<Rightarrow> c)
      in case exchange of Some e \<Rightarrow> c1\<lparr>cf_exchange_url := e\<rparr> | None \<Rightarrow> c1)"

section \<open>Order books\<close>

record wire_l2_book =
  wb_coin :: string
  wb_time :: i64
  wb_levels :: "book_level list list"

definition nth_opt :: "'a list \<Rightarrow> nat \<Rightarrow> 'a option" where
  "nth_opt xs i = (if i < length xs then Some (xs ! i) else None)"

definition to_orderbook :: "wire_l2_book \<Rightarrow> order_book" where
  "to_orderbook w =
     \<lparr>ob_coin = wb_coin w,
      ob_bids = (case first_opt (wb_levels w) of Some v \<Rightarrow> v | None \<Rightarrow> []),
      ob_asks = (case nth_opt (wb_levels w) 1 of Some v \<Rightarrow> v | None \<Rightarrow> []),
      ob_time_ms = wb_time w\<rparr>"

record snapshot =
  sn_coin :: string
  sn_server_ts_ms :: i64
  sn_best_bid :: decimal
  sn_best_ask :: decimal
  sn_mid :: decimal

definition MAX_FUTURE_SKEW_MS :: int where
  "MAX_FUTURE_SKEW_MS = 2000"

definition is_sorted_desc :: "book_level list \<Rightarrow> bool" where
  "is_sorted_desc = pairwise_adjacent (\<lambda>a b. bl_px b \<le> bl_px a)"

definition is_sorted_asc :: "book_level list \<Rightarrow> bool" where
  "is_sorted_asc = pairwise_adjacent (\<lambda>a b. bl_px a \<le> bl_px b)"

definition nonpositive_level :: "book_level \<Rightarrow> bool" where
  "nonpositive_level l \<longleftrightarrow> bl_px l \<le> 0 \<or> bl_sz l \<le> 0"

definition snapshot_semantics :: "order_book \<Rightarrow> symbol \<Rightarrow> hl_error + book_level \<times> book_level" where
  "snapshot_semantics book requested =
     (if ob_coin book \<noteq> requested then Inl (InvalidResponse ''l2Book coin mismatch'')
      else
        (case first_opt (ob_bids book) of
           None \<Rightarrow> Inl (InvalidResponse ''l2Book: empty bid side'')
         | Some bid \<Rightarrow>
             (case first_opt (ob_asks book) of
                None \<Rightarrow> Inl (InvalidResponse ''l2Book: empty ask side'')
              | Some ask \<Rightarrow>
                  if list_ex nonpositive_level (ob_bids book)
                  then Inl (InvalidResponse ''l2Book: non-positive bid level'')
                  else if list_ex nonpositive_level (ob_asks book)
                  then Inl (InvalidResponse ''l2Book: non-positive ask level'')
                  else if bl_px ask < bl_px bid then Inl (InvalidResponse ''l2Book: crossed book'')
                  else if \<not> is_sorted_desc (ob_bids book)
                  then Inl (InvalidResponse ''l2Book: bid levels not descending'')
                  else if \<not> is_sorted_asc (ob_asks book)
                  then Inl (InvalidResponse ''l2Book: ask levels not ascending'')
                  else Inr (bid, ask))))"

text \<open>
  The two freshness checks subtract \<open>i64\<close> values, which wraps in the release build, and cast the
  configured \<open>u64\<close> age to \<open>i64\<close>, which reinterprets the bits.
\<close>

definition snapshot_fresh :: "i64 \<Rightarrow> order_book \<Rightarrow> u64 \<Rightarrow> hl_error + unit" where
  "snapshot_fresh now_ms book max_age_ms =
     (let skew_ms = ob_time_ms book - now_ms in
      if MAX_FUTURE_SKEW_MS < sint skew_ms
      then Inl (InvalidResponse ''l2Book: timestamp in the future'')
      else if 0 < max_age_ms \<and> sint max_age_ms < sint (now_ms - ob_time_ms book)
      then Inl (InvalidResponse ''l2Book: stale'')
      else Inr ())"

definition validate_snapshot ::
  "dec_lib \<Rightarrow> i64 \<Rightarrow> order_book \<Rightarrow> symbol \<Rightarrow> u64 \<Rightarrow> hl_error + snapshot" where
  "validate_snapshot D now_ms book requested max_age_ms =
     (case snapshot_semantics book requested of
        Inl e \<Rightarrow> Inl e
      | Inr (bid, ask) \<Rightarrow>
          (case snapshot_fresh now_ms book max_age_ms of
             Inl e \<Rightarrow> Inl e
           | Inr _ \<Rightarrow>
               Inr \<lparr>sn_coin = ob_coin book, sn_server_ts_ms = ob_time_ms book,
                    sn_best_bid = bl_px bid, sn_best_ask = bl_px ask,
                    sn_mid = d_div D (d_add D (bl_px bid) (bl_px ask)) 2\<rparr>))"

section \<open>Account state and metadata\<close>

record perp_position =
  wp_coin :: string
  wp_szi :: decimal

type_synonym clearinghouse_state = "perp_position list"

fun position_scan ::
  "symbol \<Rightarrow> perp_position list \<Rightarrow> string list \<Rightarrow> signed_position option \<Rightarrow>
     hl_error + signed_position option" where
  "position_scan requested [] coins found = Inr found"
| "position_scan requested (p # ps) coins found =
     (if wp_coin p = [] then Inl (InvalidResponse ''clearinghouseState: position.coin is empty'')
      else if wp_coin p \<in> set coins
      then Inl (InvalidResponse ''clearinghouseState: duplicate position for coin'')
      else position_scan requested ps (wp_coin p # coins)
             (if wp_coin p = requested
              then Some \<lparr>sp_symbol = requested, sp_szi = wp_szi p\<rparr> else found))"

definition position_for :: "clearinghouse_state \<Rightarrow> symbol \<Rightarrow> hl_error + signed_position" where
  "position_for st requested =
     (case position_scan requested st [] None of
        Inl e \<Rightarrow> Inl e
      | Inr (Some p) \<Rightarrow> Inr p
      | Inr None \<Rightarrow> Inr (position_zero requested))"

record universe_entry =
  ue_name :: string
  ue_sz_decimals :: nat

record asset_meta =
  am_asset_index :: nat
  am_sz_decimals :: nat

fun resolve_from :: "nat \<Rightarrow> universe_entry list \<Rightarrow> symbol \<Rightarrow> hl_error + asset_meta" where
  "resolve_from idx [] s = Inl (UnknownSymbol s)"
| "resolve_from idx (e # es) s =
     (if ue_name e = s
      then Inr \<lparr>am_asset_index = idx mod 2 ^ 32, am_sz_decimals = ue_sz_decimals e\<rparr>
      else resolve_from (Suc idx) es s)"

definition resolve :: "universe_entry list \<Rightarrow> symbol \<Rightarrow> hl_error + asset_meta" where
  "resolve universe s = resolve_from 0 universe s"

text \<open>\<open>userRole\<close>: the tagged wire shapes, and any other JSON with its text.\<close>

datatype wire_user_role = WUser | WAgent string | WVault | WSubAccount | WMissing | WUnknown string

datatype role =
    RAgent address
  | RUser
  | RVault
  | RSubAccount
  | RMissing
  | RUnknown string

text \<open>\<open>str::trim\<close> on ASCII text removes the six ASCII white-space characters at both ends.\<close>

definition is_ascii_space :: "char \<Rightarrow> bool" where
  "is_ascii_space c = (let n = (of_char c :: nat) in n = 32 \<or> (9 \<le> n \<and> n \<le> 13))"

definition trim :: "string \<Rightarrow> string" where
  "trim s = rev (dropWhile is_ascii_space (rev (dropWhile is_ascii_space s)))"

fun role_of_wire :: "wire_user_role \<Rightarrow> role" where
  "role_of_wire (WAgent u) = RAgent (to_ascii_lowercase (trim u))"
| "role_of_wire WUser = RUser"
| "role_of_wire WVault = RVault"
| "role_of_wire WSubAccount = RSubAccount"
| "role_of_wire WMissing = RMissing"
| "role_of_wire (WUnknown v) = RUnknown v"

fun role_label :: "role \<Rightarrow> string" where
  "role_label (RAgent m) = ''agent (master '' @ m @ '')''"
| "role_label RUser = ''user''"
| "role_label RVault = ''vault''"
| "role_label RSubAccount = ''subAccount''"
| "role_label RMissing = ''missing (address unknown to HL)''"
| "role_label (RUnknown raw) = ''unknown ('' @ raw @ '')''"

section \<open>Order outcomes\<close>

datatype place_outcome = Filled order_id decimal decimal | Resting order_id

record order_status_fill =
  os_filled_sz :: decimal
  os_avg_px :: "decimal option"
  os_status :: string
  os_oid :: order_id
  os_cloid :: "cloid option"
  os_coin :: string
  os_side :: string

record user_fill =
  uf_coin :: string
  uf_px :: decimal
  uf_sz :: decimal
  uf_side :: string
  uf_time_ms :: u64
  uf_oid :: order_id
  uf_tid :: u64
  uf_cloid :: "cloid option"

definition cross_check ::
  "order_status_fill \<Rightarrow> string \<Rightarrow> side \<Rightarrow> cloid option \<Rightarrow> hl_error + unit" where
  "cross_check st expected_coin expected_side expected_cloid =
     (if os_coin st \<noteq> expected_coin
      then Inl (InvalidResponse ''orderStatus cross-check: coin mismatch'')
      else if os_side st \<noteq> side_wire expected_side
      then Inl (InvalidResponse ''orderStatus cross-check: side mismatch'')
      else
        (case (expected_cloid, os_cloid st) of
           (Some expected, Some got) \<Rightarrow>
             if expected \<noteq> got
             then Inl (InvalidResponse ''orderStatus cross-check: cloid mismatch'') else Inr ()
         | _ \<Rightarrow> Inr ()))"

definition ORDER_STATUS_VOCABULARY :: "(string \<times> bool) list" where
  "ORDER_STATUS_VOCABULARY =
     [(''open'', False),
      (''triggered'', False),
      (''rejected'', True),
      (''tickRejected'', True),
      (''minTradeNtlRejected'', True),
      (''perpMarginRejected'', True),
      (''reduceOnlyRejected'', True),
      (''badAloPxRejected'', True),
      (''iocCancelRejected'', True),
      (''badTriggerPxRejected'', True),
      (''marketOrderNoLiquidityRejected'', True),
      (''positionIncreaseAtOpenInterestCapRejected'', True),
      (''positionFlipAtOpenInterestCapRejected'', True),
      (''tooAggressiveAtOpenInterestCapRejected'', True),
      (''openInterestIncreaseRejected'', True),
      (''insufficientSpotBalanceRejected'', True),
      (''oracleRejected'', True),
      (''perpMaxPositionRejected'', True),
      (''filled'', True),
      (''canceled'', True),
      (''marginCanceled'', True),
      (''reduceOnlyCanceled'', True),
      (''liquidatedCanceled'', True),
      (''vaultWithdrawalCanceled'', True),
      (''openInterestCapCanceled'', True),
      (''selfTradeCanceled'', True),
      (''siblingFilledCanceled'', True),
      (''delistedCanceled'', True),
      (''scheduledCancel'', True)]"

text \<open>Rust's \<open>str::replace\<close>: leftmost, non-overlapping matches of a non-empty pattern.\<close>

fun replace_all :: "string \<Rightarrow> string \<Rightarrow> string \<Rightarrow> string" where
  "replace_all pat rep [] = []"
| "replace_all pat rep (c # s) =
     (if prefix pat (c # s) then rep @ replace_all pat rep (drop (length pat - 1) s)
      else c # replace_all pat rep s)"

definition normalise_status :: "string \<Rightarrow> string" where
  "normalise_status s = replace_all ''cancelled'' ''canceled'' (to_ascii_lowercase s)"

definition is_terminal_order_status :: "string \<Rightarrow> bool" where
  "is_terminal_order_status status =
     (let got = normalise_status status
      in list_ex (\<lambda>(name, terminal). terminal \<and> normalise_status name = got) ORDER_STATUS_VOCABULARY)"

definition is_known_order_status :: "string \<Rightarrow> bool" where
  "is_known_order_status status =
     (let got = normalise_status status
      in list_ex (\<lambda>(name, _). normalise_status name = got) ORDER_STATUS_VOCABULARY)"

definition os_is_terminal :: "order_status_fill \<Rightarrow> bool" where
  "os_is_terminal st = is_terminal_order_status (os_status st)"

section \<open>Validated fills\<close>

record validated_fill =
  vf_filled_sz :: decimal
  vf_avg_px :: "decimal option"

datatype avg_px_requirement = Required | Optional

definition price_within_limit :: "decimal \<Rightarrow> order_intent \<Rightarrow> hl_error + unit" where
  "price_within_limit px intent =
     (if px \<le> 0 then Inl (InvalidResponse ''fill validation: avgPx is not positive'')
      else
        (case oi_side intent of
           Long \<Rightarrow> if oi_px intent < px
                    then Inl (InvalidResponse ''fill validation: long avgPx exceeds limit'') else Inr ()
         | Short \<Rightarrow> if px < oi_px intent
                    then Inl (InvalidResponse ''fill validation: short avgPx is below limit'') else Inr ()))"

definition validate_fill ::
  "decimal \<Rightarrow> decimal option \<Rightarrow> order_intent \<Rightarrow> avg_px_requirement \<Rightarrow> hl_error + validated_fill" where
  "validate_fill filled_sz avg_px intent requirement =
     (if filled_sz < 0 then Inl (InvalidResponse ''fill validation: filled_sz is negative'')
      else if oi_sz intent < filled_sz
      then Inl (InvalidResponse ''fill validation: filled_sz exceeds intent size'')
      else if 0 < filled_sz then
        (case avg_px of
           None \<Rightarrow>
             (case requirement of
                Required \<Rightarrow> Inl (InvalidResponse ''fill validation: avgPx is missing'')
              | Optional \<Rightarrow>
                  if oi_side intent = Short \<and> oi_tif intent \<noteq> Alo
                  then Inl (InvalidResponse ''fill validation: short orderStatus fill without avgPx'')
                  else Inr \<lparr>vf_filled_sz = filled_sz, vf_avg_px = None\<rparr>)
         | Some px \<Rightarrow>
             (case price_within_limit px intent of
                Inl e \<Rightarrow> Inl e
              | Inr _ \<Rightarrow> Inr \<lparr>vf_filled_sz = filled_sz, vf_avg_px = Some px\<rparr>))
      else Inr \<lparr>vf_filled_sz = filled_sz, vf_avg_px = None\<rparr>)"

fun try_from_place :: "place_outcome \<Rightarrow> order_intent \<Rightarrow> hl_error + validated_fill" where
  "try_from_place (Filled oid total_sz avg_px) intent =
     validate_fill total_sz (Some avg_px) intent Required"
| "try_from_place (Resting oid) intent =
     Inl (InvalidResponse ''fill validation: cannot validate a Resting outcome as a fill'')"

definition try_from_status :: "order_status_fill \<Rightarrow> order_intent \<Rightarrow> hl_error + validated_fill" where
  "try_from_status st intent = validate_fill (os_filled_sz st) (os_avg_px st) intent Optional"

section \<open>Lemmas\<close>

lemma first_opt_hd: "first_opt xs = Some x \<longleftrightarrow> xs \<noteq> [] \<and> hd xs = x"
  by (cases xs) (auto simp: first_opt_def)

lemma is_sorted_desc_iff: "is_sorted_desc ls \<longleftrightarrow> sorted_wrt (\<ge>) (map bl_px ls)"
  unfolding is_sorted_desc_def
  by (subst pairwise_adjacent_sorted_wrt) (auto simp: sorted_wrt_map transp_def)

lemma is_sorted_asc_iff: "is_sorted_asc ls \<longleftrightarrow> sorted (map bl_px ls)"
  unfolding is_sorted_asc_def
  by (subst pairwise_adjacent_sorted_wrt) (auto simp: sorted_wrt_map transp_def)

lemma sorted_wrt_hd: "sorted_wrt P xs \<Longrightarrow> x \<in> set xs \<Longrightarrow> x = hd xs \<or> P (hd xs) x"
  by (cases xs) auto

lemma snapshot_semantics_Inr:
  "snapshot_semantics b s = Inr (bid, ask) \<longleftrightarrow>
     ob_coin b = s \<and> first_opt (ob_bids b) = Some bid \<and> first_opt (ob_asks b) = Some ask \<and>
     (\<forall>l\<in>set (ob_bids b) \<union> set (ob_asks b). 0 < bl_px l \<and> 0 < bl_sz l) \<and>
     bl_px bid \<le> bl_px ask \<and> is_sorted_desc (ob_bids b) \<and> is_sorted_asc (ob_asks b)"
  by (auto simp: snapshot_semantics_def nonpositive_level_def list_ex_iff not_le ball_Un not_less
      split: option.splits if_splits)

text \<open>Over the integers, the wrapped checks are the intended ones except at one timestamp.\<close>

lemma signed_take_bit_63: "- (2 ^ 63) \<le> (x::int) \<Longrightarrow> x < 2 ^ 63 \<Longrightarrow> signed_take_bit 63 x = x"
  by (simp add: signed_take_bit_int_eq_self)

lemma sint_i64_range: "- (2 ^ 63) \<le> sint (w :: i64) \<and> sint w < 2 ^ 63"
  using sint_ge [of w] sint_lt [of w] by simp

lemma snapshot_fresh_sound:
  assumes "snapshot_fresh now b age = Inr u" and "0 \<le> sint now" and "sint now < 2 ^ 62"
    and "sint (ob_time_ms b) \<noteq> sint now - 2 ^ 63"
  shows "sint (ob_time_ms b) - sint now \<le> 2000 \<and>
         (0 < age \<longrightarrow> sint now - sint (ob_time_ms b) \<le> sint age)"
proof -
  let ?t = "sint (ob_time_ms b)" and ?n = "sint now"
  have diff: "sint (a - c) = signed_take_bit 63 (sint a - sint c)" for a c :: i64
    by (simp add: sint_word_diff)
  have t: "- (2 ^ 63) \<le> ?t" "?t < 2 ^ 63" using sint_i64_range by blast+
  have skew: "signed_take_bit 63 (?t - ?n) \<le> 2000"
    using assms(1) by (simp add: snapshot_fresh_def Let_def MAX_FUTURE_SKEW_MS_def diff split: if_splits)
  have lo: "- (2 ^ 63) < ?t - ?n"
  proof (rule ccontr)
    assume "\<not> ?thesis"
    with assms(4) have neg: "?t - ?n < - (2 ^ 63)" by linarith
    have "signed_take_bit 63 (?t - ?n) = signed_take_bit 63 (?t - ?n + 2 ^ 64)"
      by (simp add: signed_take_bit_eq_iff_take_bit_eq take_bit_eq_mod)
    also have "\<dots> = ?t - ?n + 2 ^ 64"
      using neg t assms(2,3) by (intro signed_take_bit_63) simp_all
    finally show False using skew t assms(2,3) by simp
  qed
  then have "signed_take_bit 63 (?t - ?n) = ?t - ?n" "signed_take_bit 63 (?n - ?t) = ?n - ?t"
    using t assms(2) by (auto intro!: signed_take_bit_63)
  then show ?thesis using assms(1) skew
    by (auto simp: snapshot_fresh_def Let_def diff split: if_splits)
qed

lemma position_scan_Inr:
  "position_scan s ps coins found = Inr r \<longleftrightarrow>
     (\<forall>p\<in>set ps. wp_coin p \<noteq> [] \<and> wp_coin p \<notin> set coins) \<and> distinct (map wp_coin ps) \<and>
     r = (case find (\<lambda>p. wp_coin p = s) ps of
            None \<Rightarrow> found | Some p \<Rightarrow> Some \<lparr>sp_symbol = s, sp_szi = wp_szi p\<rparr>)"
proof (induction s ps coins found rule: position_scan.induct)
  case (2 s p ps coins found)
  let ?f = "if wp_coin p = s then Some \<lparr>sp_symbol = s, sp_szi = wp_szi p\<rparr> else found"
  show ?case
  proof (cases "wp_coin p = [] \<or> wp_coin p \<in> set coins")
    case True
    then show ?thesis by auto
  next
    case False
    then have step: "position_scan s (p # ps) coins found = Inr r \<longleftrightarrow>
        position_scan s ps (wp_coin p # coins) ?f = Inr r" by simp
    have ih: "position_scan s ps (wp_coin p # coins) ?f = Inr r \<longleftrightarrow>
       (\<forall>q\<in>set ps. wp_coin q \<noteq> [] \<and> wp_coin q \<notin> set (wp_coin p # coins)) \<and> distinct (map wp_coin ps) \<and>
       r = (case find (\<lambda>q. wp_coin q = s) ps of
              None \<Rightarrow> ?f | Some q \<Rightarrow> Some \<lparr>sp_symbol = s, sp_szi = wp_szi q\<rparr>)"
      using False by (intro 2) auto
    show ?thesis
    proof (cases "wp_coin p \<in> wp_coin ` set ps")
      case True
      then obtain q where q: "q \<in> set ps" "wp_coin q = wp_coin p" by (metis imageE)
      then have "\<not> (\<forall>q\<in>set ps. wp_coin q \<noteq> [] \<and> wp_coin q \<notin> set (wp_coin p # coins))" by force
      moreover from True have "\<not> distinct (map wp_coin (p # ps))" by simp
      ultimately show ?thesis unfolding step ih by blast
    next
      case no: False
      then have "find (\<lambda>q. wp_coin q = wp_coin p) ps = None"
        unfolding find_None_iff by (metis image_eqI)
      moreover have "wp_coin q \<noteq> wp_coin p" if "q \<in> set ps" for q using no that by (metis image_eqI)
      ultimately show ?thesis unfolding step ih using False by fastforce
    qed
  qed
qed auto

lemma find_Some_in: "find P xs = Some x \<Longrightarrow> x \<in> set xs \<and> P x"
  by (auto simp: find_Some_iff)

lemma position_for_Inr:
  "position_for st s = Inr p \<longleftrightarrow>
     (\<forall>q\<in>set st. wp_coin q \<noteq> []) \<and> distinct (map wp_coin st) \<and> sp_symbol p = s \<and>
     (case find (\<lambda>q. wp_coin q = s) st of None \<Rightarrow> sp_szi p = 0 | Some q \<Rightarrow> sp_szi p = wp_szi q)"
proof (cases "position_scan s st [] None")
  case (Inl e)
  then have "\<not> ((\<forall>q\<in>set st. wp_coin q \<noteq> []) \<and> distinct (map wp_coin st))"
    using position_scan_Inr [of s st "[]" None] by auto
  with Inl show ?thesis by (auto simp: position_for_def)
next
  case (Inr r)
  then have "(\<forall>q\<in>set st. wp_coin q \<noteq> []) \<and> distinct (map wp_coin st) \<and>
      r = (case find (\<lambda>q. wp_coin q = s) st of
             None \<Rightarrow> None | Some q \<Rightarrow> Some \<lparr>sp_symbol = s, sp_szi = wp_szi q\<rparr>)"
    using position_scan_Inr [of s st "[]" None r] by simp
  with Inr show ?thesis
    by (cases p) (auto simp: position_for_def position_zero_def split: option.splits)
qed

lemma resolve_from_Inr:
  "resolve_from i es s = Inr m \<Longrightarrow>
     \<exists>k<length es. ue_name (es ! k) = s \<and> am_sz_decimals m = ue_sz_decimals (es ! k) \<and>
       am_asset_index m = (i + k) mod 2 ^ 32 \<and> (\<forall>j<k. ue_name (es ! j) \<noteq> s)"
proof (induction es arbitrary: i)
  case (Cons e es)
  show ?case
  proof (cases "ue_name e = s")
    case True
    with Cons.prems show ?thesis by (intro exI [of _ 0]) auto
  next
    case False
    with Cons.prems have "resolve_from (Suc i) es s = Inr m" by simp
    from Cons.IH [OF this] obtain k where k: "k < length es" "ue_name (es ! k) = s"
      "am_sz_decimals m = ue_sz_decimals (es ! k)" "am_asset_index m = (Suc i + k) mod 2 ^ 32"
      "\<forall>j<k. ue_name (es ! j) \<noteq> s" by auto
    from k False show ?thesis
      by (intro exI [of _ "Suc k"]) (auto simp: less_Suc_eq_0_disj)
  qed
qed simp

lemma cross_check_ok [guard_simps]:
  "cross_check st coin sd c = Inr u \<longleftrightarrow>
     os_coin st = coin \<and> os_side st = side_wire sd \<and>
     (c = None \<or> os_cloid st = None \<or> os_cloid st = c)"
  by (auto simp: cross_check_def split: option.splits)

lemma validate_fill_Inr [guard_simps]:
  "validate_fill sz px i req = Inr v \<longleftrightarrow>
     vf_filled_sz v = sz \<and> 0 \<le> sz \<and> sz \<le> oi_sz i \<and>
     (if sz = 0 then vf_avg_px v = None
      else case px of
        None \<Rightarrow> vf_avg_px v = None \<and> req = Optional \<and> (oi_side i = Long \<or> oi_tif i = Alo)
      | Some p \<Rightarrow> vf_avg_px v = Some p \<and> 0 < p \<and>
          (case oi_side i of Long \<Rightarrow> p \<le> oi_px i | Short \<Rightarrow> oi_px i \<le> p))"
  by (cases v)
    (auto simp: validate_fill_def price_within_limit_def
      split: option.splits avg_px_requirement.splits side.splits if_splits)

lemma validate_fill_size:
  "validate_fill sz px i req = Inr v \<Longrightarrow> 0 \<le> vf_filled_sz v \<and> vf_filled_sz v \<le> oi_sz i"
  by (simp add: guard_simps)

lemma is_terminal_known: "is_terminal_order_status s \<Longrightarrow> is_known_order_status s"
  by (auto simp: is_terminal_order_status_def is_known_order_status_def list_ex_iff)

lemma vocabulary_live:
  "list_all (\<lambda>(name, terminal). terminal \<longrightarrow>
     normalise_status name \<notin> {''open'', ''triggered''}) ORDER_STATUS_VOCABULARY"
  by code_simp

lemma is_terminal_not_live:
  "is_terminal_order_status s \<Longrightarrow> normalise_status s \<notin> {''open'', ''triggered''}"
  using vocabulary_live by (fastforce simp: is_terminal_order_status_def list_ex_iff list_all_iff)

section \<open>Properties\<close>

text \<open>C38: A validated snapshot is fit to price from: it is the requested coin's, its best bid and ask
  are the first levels and uncrossed, the bids fall and the asks rise level by level, every level has a
  positive price and size, no level of either side is better than the best, and the book is at most
  \<open>max_age_ms\<close> old and at most two seconds ahead. Over the wrapping \<open>i64\<close> arithmetic of the release build
  this holds, for a clock between 1970 and \<open>2 ^ 62\<close> ms, for every server timestamp except the single one
  at distance \<open>2 ^ 63\<close>.\<close>

theorem snapshot_validated_sound:
  assumes "validate_snapshot D now b s age = Inr v"
    and "0 \<le> sint now" and "sint now < 2 ^ 62" and "sint (ob_time_ms b) \<noteq> sint now - 2 ^ 63"
  shows "sn_coin v = s \<and> ob_coin b = s \<and> best_bid b = Some (sn_best_bid v) \<and>
         best_ask b = Some (sn_best_ask v) \<and> 0 < sn_best_bid v \<and> sn_best_bid v \<le> sn_best_ask v \<and>
         sorted_wrt (\<ge>) (map bl_px (ob_bids b)) \<and> sorted_wrt (\<le>) (map bl_px (ob_asks b)) \<and>
         (\<forall>l\<in>set (ob_bids b) \<union> set (ob_asks b). 0 < bl_px l \<and> 0 < bl_sz l) \<and>
         (\<forall>l\<in>set (ob_bids b). bl_px l \<le> sn_best_bid v) \<and>
         (\<forall>l\<in>set (ob_asks b). sn_best_ask v \<le> bl_px l) \<and>
         sint (sn_server_ts_ms v) - sint now \<le> 2000 \<and>
         (0 < age \<longrightarrow> sint now - sint (sn_server_ts_ms v) \<le> sint age)"
proof -
  from assms(1) obtain bid ask u where sem: "snapshot_semantics b s = Inr (bid, ask)"
    and fresh: "snapshot_fresh now b age = Inr u"
    and v: "sn_coin v = ob_coin b" "sn_server_ts_ms v = ob_time_ms b" "sn_best_bid v = bl_px bid"
      "sn_best_ask v = bl_px ask"
    by (auto simp: validate_snapshot_def split: sum.splits prod.splits)
  from sem have b: "ob_bids b \<noteq> []" "hd (ob_bids b) = bid" and a: "ob_asks b \<noteq> []" "hd (ob_asks b) = ask"
    by (simp_all add: snapshot_semantics_Inr first_opt_hd)
  have "bl_px l \<le> bl_px bid" if "l \<in> set (ob_bids b)" for l
    using sorted_wrt_hd [of "(\<ge>)" "map bl_px (ob_bids b)" "bl_px l"] that sem b
    by (auto simp: snapshot_semantics_Inr is_sorted_desc_iff hd_map)
  moreover have "bl_px ask \<le> bl_px l" if "l \<in> set (ob_asks b)" for l
    using sorted_wrt_hd [of "(\<le>)" "map bl_px (ob_asks b)" "bl_px l"] that sem a
    by (auto simp: snapshot_semantics_Inr is_sorted_asc_iff hd_map)
  moreover have "0 < bl_px bid" using sem b by (auto simp: snapshot_semantics_Inr)
  moreover have "sorted_wrt (\<ge>) (map bl_px (ob_bids b))" "sorted_wrt (\<le>) (map bl_px (ob_asks b))"
    using sem by (simp_all add: snapshot_semantics_Inr is_sorted_desc_iff is_sorted_asc_iff)
  moreover have "\<forall>l\<in>set (ob_bids b) \<union> set (ob_asks b). 0 < bl_px l \<and> 0 < bl_sz l"
    using sem by (auto simp: snapshot_semantics_Inr)
  ultimately show ?thesis
    using snapshot_fresh_sound [OF fresh assms(2-4)] sem v
    by (simp add: snapshot_semantics_Inr best_bid_def best_ask_def)
qed

theorem snapshot_validated_sound_witness:
  "\<exists>v. validate_snapshot exact_dec 1700000000500
         \<lparr>ob_coin = ''HYPE'', ob_bids = [\<lparr>bl_px = 62, bl_sz = 1, bl_n = 1\<rparr>],
          ob_asks = [\<lparr>bl_px = 63, bl_sz = 1, bl_n = 1\<rparr>], ob_time_ms = 1700000000000\<rparr> ''HYPE'' 1000
         = Inr v \<and> 0 < sn_best_bid v"
proof -
  let ?b = "\<lparr>ob_coin = ''HYPE'', ob_bids = [\<lparr>bl_px = 62, bl_sz = 1, bl_n = 1\<rparr>],
          ob_asks = [\<lparr>bl_px = 63, bl_sz = 1, bl_n = 1\<rparr>], ob_time_ms = 1700000000000\<rparr> :: order_book"
  have e: "validate_snapshot exact_dec 1700000000500 ?b ''HYPE'' 1000 =
    Inr \<lparr>sn_coin = ''HYPE'', sn_server_ts_ms = 1700000000000, sn_best_bid = 62, sn_best_ask = 63,
         sn_mid = 125 / 2\<rparr>"
    by (simp add: validate_snapshot_def snapshot_semantics_def first_opt_def nonpositive_level_def
        is_sorted_desc_def is_sorted_asc_def snapshot_fresh_def MAX_FUTURE_SKEW_MS_def)
  from snapshot_validated_sound [OF e] e show ?thesis by simp
qed

text \<open>The position read is coherent: it succeeds exactly when every coin of the account state is
  named and none is repeated, and then it is the one entry of the requested coin, or flat when the
  coin is absent.\<close>

theorem position_for_coherent:
  "position_for st s = Inr p \<longleftrightarrow>
     (\<forall>q\<in>set st. wp_coin q \<noteq> []) \<and> distinct (map wp_coin st) \<and> sp_symbol p = s \<and>
     (case find (\<lambda>q. wp_coin q = s) st of None \<Rightarrow> sp_szi p = 0 | Some q \<Rightarrow> sp_szi p = wp_szi q)"
  by (rule position_for_Inr)

theorem position_for_coherent_witness:
  "position_for [\<lparr>wp_coin = ''BTC'', wp_szi = 1\<rparr>, \<lparr>wp_coin = ''HYPE'', wp_szi = - 2\<rparr>] ''HYPE'' =
     Inr \<lparr>sp_symbol = ''HYPE'', sp_szi = - 2\<rparr>"
  by (simp add: position_for_coherent)

text \<open>Symbol resolution returns the index and precision of the first universe entry with exactly
  the requested name, so a typo cannot reach the exchange as another asset.\<close>

theorem resolve_exact:
  assumes "resolve es s = Inr m" and "length es \<le> 2 ^ 32"
  shows "am_asset_index m < length es \<and> ue_name (es ! am_asset_index m) = s \<and>
         am_sz_decimals m = ue_sz_decimals (es ! am_asset_index m) \<and>
         (\<forall>j<am_asset_index m. ue_name (es ! j) \<noteq> s)"
proof -
  from resolve_from_Inr [of 0 es s m] assms(1) obtain k where "k < length es" "ue_name (es ! k) = s"
    "am_sz_decimals m = ue_sz_decimals (es ! k)" "am_asset_index m = k mod 2 ^ 32"
    "\<forall>j<k. ue_name (es ! j) \<noteq> s" by (auto simp: resolve_def)
  with assms(2) show ?thesis by simp
qed

theorem resolve_exact_witness:
  "\<exists>m. resolve [\<lparr>ue_name = ''BTC'', ue_sz_decimals = 5\<rparr>, \<lparr>ue_name = ''HYPE'', ue_sz_decimals = 2\<rparr>]
         ''HYPE'' = Inr m \<and> am_sz_decimals m = 2"
proof -
  have e: "resolve [\<lparr>ue_name = ''BTC'', ue_sz_decimals = 5\<rparr>, \<lparr>ue_name = ''HYPE'', ue_sz_decimals = 2\<rparr>]
      ''HYPE'' = Inr \<lparr>am_asset_index = 1, am_sz_decimals = 2\<rparr>"
    by (simp add: resolve_def)
  from resolve_exact [OF e] e show ?thesis by simp
qed

text \<open>Only a settled status is adopted: a status classified terminal is in the vocabulary and is
  never \<open>open\<close> or \<open>triggered\<close> in any capitalisation or spelling, and the classification depends on the
  normalised text only.\<close>

theorem terminal_status_settled:
  assumes "is_terminal_order_status s"
  shows "is_known_order_status s \<and> normalise_status s \<notin> {''open'', ''triggered''} \<and>
         (\<forall>t. normalise_status t = normalise_status s \<longrightarrow> is_terminal_order_status t)"
  using is_terminal_known [OF assms] is_terminal_not_live [OF assms] assms
  by (simp add: is_terminal_order_status_def)

theorem terminal_status_settled_witness:
  "is_terminal_order_status ''MarginCancelled'' \<and> is_known_order_status ''MarginCancelled''"
proof -
  have e: "is_terminal_order_status ''MarginCancelled''" by code_simp
  from terminal_status_settled [OF e] e show ?thesis by blast
qed

text \<open>C39: The trust boundary for fills: a validated status never credits more than the signed size,
  never a negative size, and a reported price is positive and within the signed limit; a fill without a
  price is accepted only for a long or a post-only order, where the signed limit bounds or equals it.\<close>

theorem validated_status_fill_bounds:
  assumes "try_from_status st i = Inr v"
  shows "vf_filled_sz v = os_filled_sz st \<and> 0 \<le> vf_filled_sz v \<and> vf_filled_sz v \<le> oi_sz i \<and>
         (vf_filled_sz v = 0 \<or>
          (case vf_avg_px v of
             None \<Rightarrow> oi_side i = Long \<or> oi_tif i = Alo
           | Some p \<Rightarrow> 0 < p \<and> (case oi_side i of Long \<Rightarrow> p \<le> oi_px i | Short \<Rightarrow> oi_px i \<le> p)))"
  using assms by (auto simp: try_from_status_def guard_simps split: if_splits option.splits)

theorem validated_status_fill_bounds_witness:
  "\<exists>v. try_from_status \<lparr>os_filled_sz = 1 / 5, os_avg_px = None, os_status = ''filled'', os_oid = 7,
           os_cloid = None, os_coin = ''HYPE'', os_side = ''B''\<rparr>
         \<lparr>oi_cloid = 1, oi_symbol = ''HYPE'', oi_side = Long, oi_px = 62, oi_sz = 1 / 5, oi_tif = Ioc,
          oi_reduce_only = False\<rparr> = Inr v \<and> vf_filled_sz v \<le> 1 / 5"
proof -
  let ?st = "\<lparr>os_filled_sz = 1 / 5, os_avg_px = None, os_status = ''filled'', os_oid = 7,
           os_cloid = None, os_coin = ''HYPE'', os_side = ''B''\<rparr> :: order_status_fill"
  let ?i = "\<lparr>oi_cloid = 1, oi_symbol = ''HYPE'', oi_side = Long, oi_px = 62, oi_sz = 1 / 5, oi_tif = Ioc,
          oi_reduce_only = False\<rparr> :: order_intent"
  have e: "try_from_status ?st ?i = Inr \<lparr>vf_filled_sz = 1 / 5, vf_avg_px = None\<rparr>"
    by (simp add: try_from_status_def validate_fill_def)
  from validated_status_fill_bounds [OF e] e show ?thesis by simp
qed

end
