(* ===== verification/Position.thy ===== *)
theory Position
  imports Types
begin

text \<open>
  \<open>src/position.rs\<close>: one validated position and one target become an ordered list of phases. A
  reversal is split into a reduce-only close to flat and an open from flat. The lemmas show that the
  phases, filled exactly, end on the target, that reduce-only phases never cross zero, and that
  quantisation never increases the exposure.
\<close>

datatype phase_kind = Adjust | CloseToFlat | OpenFromFlat

record position_phase =
  ph_kind :: phase_kind
  ph_side :: side
  ph_size :: decimal
  ph_reduce_only :: bool

record position_plan =
  pp_symbol :: symbol
  pp_current_szi :: decimal
  pp_target_szi :: decimal
  pp_phases :: "position_phase list"

datatype plan_error =
    SymbolMismatch symbol symbol
  | CurrentPrecision decimal nat
  | InvalidPrice decimal
  | PlanOverflow
  | InvalidFill decimal

definition quantize_toward_zero :: "dec_lib \<Rightarrow> decimal \<Rightarrow> nat \<Rightarrow> decimal" where
  "quantize_toward_zero D value sz_decimals = d_round D value sz_decimals ToZero"

definition apply_signed_fill ::
  "dec_lib \<Rightarrow> decimal \<Rightarrow> side \<Rightarrow> decimal \<Rightarrow> plan_error + decimal" where
  "apply_signed_fill D current_szi sd filled_sz =
     (if filled_sz < 0 then Inl (InvalidFill filled_sz)
      else ok_or PlanOverflow
        (case sd of
           Long \<Rightarrow> d_checked_add D current_szi filled_sz
         | Short \<Rightarrow> d_checked_sub D current_szi filled_sz))"

definition is_between_frozen_endpoints :: "decimal \<Rightarrow> decimal \<Rightarrow> decimal \<Rightarrow> bool" where
  "is_between_frozen_endpoints value initial_szi target_szi \<longleftrightarrow>
     min initial_szi target_szi \<le> value \<and> value \<le> max initial_szi target_szi"

definition decimal_sign :: "decimal \<Rightarrow> int" where
  "decimal_sign v = (if 0 < v then 1 else if v < 0 then - 1 else 0)"

definition side_for_delta :: "decimal \<Rightarrow> plan_error + side" where
  "side_for_delta delta =
     (if 0 < delta then Inr Long else if delta < 0 then Inr Short else Inl PlanOverflow)"

definition phases_for :: "dec_lib \<Rightarrow> decimal \<Rightarrow> decimal \<Rightarrow> plan_error + position_phase list" where
  "phases_for D current target =
     (if current = target then Inr []
      else
        let current_sign = decimal_sign current; target_sign = decimal_sign target in
        if current_sign \<noteq> 0 \<and> target_sign \<noteq> 0 \<and> current_sign \<noteq> target_sign then
          (case side_for_delta (- current) of
             Inl e \<Rightarrow> Inl e
           | Inr s1 \<Rightarrow>
               (case side_for_delta target of
                  Inl e \<Rightarrow> Inl e
                | Inr s2 \<Rightarrow>
                    Inr [\<lparr>ph_kind = CloseToFlat, ph_side = s1, ph_size = \<bar>current\<bar>,
                          ph_reduce_only = True\<rparr>,
                         \<lparr>ph_kind = OpenFromFlat, ph_side = s2, ph_size = \<bar>target\<bar>,
                          ph_reduce_only = False\<rparr>]))
        else
          (case d_checked_sub D target current of
             None \<Rightarrow> Inl PlanOverflow
           | Some delta \<Rightarrow>
               let reduces_existing =
                 current_sign \<noteq> 0 \<and>
                 (target_sign = 0 \<or> (current_sign = target_sign \<and> \<bar>target\<bar> < \<bar>current\<bar>))
               in (case side_for_delta delta of
                     Inl e \<Rightarrow> Inl e
                   | Inr s \<Rightarrow>
                       Inr [\<lparr>ph_kind = Adjust, ph_side = s, ph_size = \<bar>delta\<bar>,
                             ph_reduce_only = reduces_existing\<rparr>])))"

definition target_size ::
  "dec_lib \<Rightarrow> signed_position \<Rightarrow> symbol \<Rightarrow> decimal \<Rightarrow> nat \<Rightarrow> plan_error + position_plan" where
  "target_size D pos requested_symbol target_szi sz_decimals =
     (if sp_symbol pos \<noteq> requested_symbol
      then Inl (SymbolMismatch requested_symbol (sp_symbol pos))
      else
        let current = quantize_toward_zero D (sp_szi pos) sz_decimals in
        if current \<noteq> sp_szi pos then Inl (CurrentPrecision (sp_szi pos) sz_decimals)
        else
          let target = quantize_toward_zero D target_szi sz_decimals in
          (case phases_for D current target of
             Inl e \<Rightarrow> Inl e
           | Inr phases \<Rightarrow>
               Inr \<lparr>pp_symbol = requested_symbol, pp_current_szi = current,
                    pp_target_szi = target, pp_phases = phases\<rparr>))"

definition target_usd ::
  "dec_lib \<Rightarrow> signed_position \<Rightarrow> symbol \<Rightarrow> decimal \<Rightarrow> decimal \<Rightarrow> nat \<Rightarrow> plan_error + position_plan" where
  "target_usd D pos requested_symbol usd preflight_price sz_decimals =
     (if preflight_price \<le> 0 then Inl (InvalidPrice preflight_price)
      else
        (case d_checked_div D usd preflight_price of
           None \<Rightarrow> Inl PlanOverflow
         | Some target_szi \<Rightarrow> target_size D pos requested_symbol target_szi sz_decimals))"

definition flatten_plan ::
  "dec_lib \<Rightarrow> signed_position \<Rightarrow> symbol \<Rightarrow> nat \<Rightarrow> plan_error + position_plan" where
  "flatten_plan D pos requested_symbol sz_decimals = target_size D pos requested_symbol 0 sz_decimals"

definition is_noop :: "position_plan \<Rightarrow> bool" where
  "is_noop p \<longleftrightarrow> pp_phases p = []"

definition crosses_zero :: "position_plan \<Rightarrow> bool" where
  "crosses_zero p \<longleftrightarrow>
     (case pp_phases p of
        [a, b] \<Rightarrow> ph_kind a = CloseToFlat \<and> ph_kind b = OpenFromFlat
      | _ \<Rightarrow> False)"

section \<open>What a list of phases does to a position\<close>

text \<open>The exposure after a phase is filled exactly, and after each phase of a list.\<close>

definition phase_end :: "decimal \<Rightarrow> position_phase \<Rightarrow> decimal" where
  "phase_end cur p = cur + as_signed_unit (ph_side p) * ph_size p"

definition phases_end :: "decimal \<Rightarrow> position_phase list \<Rightarrow> decimal" where
  "phases_end = foldl phase_end"

text \<open>A phase is sound at an exposure when it has a positive size and, if it is reduce-only, it
  brings the exposure closer to zero without leaving its side of zero.\<close>

definition phase_sound :: "decimal \<Rightarrow> position_phase \<Rightarrow> bool" where
  "phase_sound cur p \<longleftrightarrow>
     0 < ph_size p \<and>
     (ph_reduce_only p \<longrightarrow> \<bar>phase_end cur p\<bar> < \<bar>cur\<bar> \<and> 0 \<le> phase_end cur p * cur)"

fun phases_sound :: "decimal \<Rightarrow> position_phase list \<Rightarrow> bool" where
  "phases_sound cur [] = True"
| "phases_sound cur (p # ps) = (phase_sound cur p \<and> phases_sound (phase_end cur p) ps)"

lemma side_for_delta_Inr:
  "side_for_delta d = Inr s \<longleftrightarrow> d \<noteq> 0 \<and> s = (if 0 < d then Long else Short)"
  by (auto simp: side_for_delta_def)

lemma side_for_delta_unit: "side_for_delta d = Inr s \<Longrightarrow> as_signed_unit s * \<bar>d\<bar> = d"
  by (auto simp: side_for_delta_Inr)

lemma decimal_sign_simps [simp]:
  "decimal_sign v = 0 \<longleftrightarrow> v = 0" "decimal_sign a = decimal_sign b \<longleftrightarrow> sgn a = sgn b"
  by (auto simp: decimal_sign_def sgn_if)

context dec_arith
begin

lemma phases_for_sound:
  assumes "representable (target - current)" and "phases_for D current target = Inr ps"
  shows "phases_end current ps = target \<and> phases_sound current ps \<and>
         length ps \<le> 2 \<and> (ps = [] \<longleftrightarrow> current = target)"
proof (cases "current = target")
  case True
  with assms show ?thesis by (simp add: phases_for_def phases_end_def)
next
  case False
  have sub: "d_checked_sub D target current = Some (target - current)"
    using assms(1) by (rule d_checked_sub_representable)
  show ?thesis
  proof (cases "current \<noteq> 0 \<and> target \<noteq> 0 \<and> sgn current \<noteq> sgn target")
    case True
    then have opp: "current < 0 \<and> 0 < target \<or> 0 < current \<and> target < 0"
      by (auto simp: sgn_if split: if_splits)
    with assms(2) False show ?thesis
      by (auto simp: phases_for_def Let_def phases_end_def phase_end_def phase_sound_def
          side_for_delta_def sgn_if split: if_splits)
  next
    case same: False
    let ?red = "current \<noteq> 0 \<and> (target = 0 \<or> sgn current = sgn target \<and> \<bar>target\<bar> < \<bar>current\<bar>)"
    from same have ps: "ps = [\<lparr>ph_kind = Adjust, ph_side = (if current < target then Long else Short),
        ph_size = \<bar>target - current\<bar>, ph_reduce_only = ?red\<rparr>]"
      using assms(2) False sub by (auto simp: phases_for_def Let_def side_for_delta_def split: if_splits)
    have e: "phase_end current (hd ps) = target" by (auto simp: ps phase_end_def)
    have "0 \<le> target * current" if "sgn current = sgn target \<or> target = 0"
      using that by (auto simp: sgn_if mult_nonneg_nonneg mult_nonpos_nonpos split: if_splits)
    then have "phase_sound current (hd ps)"
      unfolding phase_sound_def e using False by (auto simp: ps)
    with e False show ?thesis by (simp add: phases_end_def ps)
  qed
qed

end

context dec_rounding
begin

lemma quantize_abs: "\<bar>quantize_toward_zero D v n\<bar> \<le> \<bar>v\<bar> \<and> 0 \<le> quantize_toward_zero D v n * v"
  using round_rat_zero [of v n] round_rat_zero_neg [of v n]
  by (cases "0 \<le> v") (auto simp: quantize_toward_zero_def d_round_eq mult_nonneg_nonneg mult_nonpos_nonpos)

end

context decimal_crate
begin

lemma target_size_spec:
  assumes "target_size D pos smb t n = Inr plan" and "representable (pp_target_szi plan - sp_szi pos)"
  shows "pp_current_szi plan = sp_szi pos \<and> phases_end (sp_szi pos) (pp_phases plan) = pp_target_szi plan \<and>
         phases_sound (sp_szi pos) (pp_phases plan) \<and> \<bar>pp_target_szi plan\<bar> \<le> \<bar>t\<bar> \<and>
         0 \<le> pp_target_szi plan * t \<and> on_grid n (pp_target_szi plan) \<and>
         (is_noop plan \<longleftrightarrow> pp_target_szi plan = sp_szi pos)"
proof -
  from assms(1) obtain ps where p: "phases_for D (sp_szi pos) (quantize_toward_zero D t n) = Inr ps"
    and plan: "plan = \<lparr>pp_symbol = smb, pp_current_szi = sp_szi pos,
                 pp_target_szi = quantize_toward_zero D t n, pp_phases = ps\<rparr>"
    by (auto simp: target_size_def Let_def split: if_splits sum.splits)
  from assms(2) have r: "representable (quantize_toward_zero D t n - sp_szi pos)" by (simp add: plan)
  from phases_for_sound [OF r p] quantize_abs [of t n] show ?thesis
    by (auto simp: plan is_noop_def quantize_toward_zero_def d_round_on_grid)
qed

end

section \<open>Properties\<close>

text \<open>C33: A position plan does what it promises: its phases, filled exactly, move the exposure from
  the snapshot to the frozen target; every phase has a positive size and a reduce-only phase brings
  the exposure strictly closer to zero without crossing it; the target is the request truncated
  toward zero on the size grid; and the plan is empty exactly when the target is already held.\<close>

theorem position_plan_reaches_target:
  assumes "decimal_crate D" and "target_size D pos smb t n = Inr plan"
    and "representable (pp_target_szi plan - sp_szi pos)"
  shows "pp_current_szi plan = sp_szi pos \<and> phases_end (sp_szi pos) (pp_phases plan) = pp_target_szi plan \<and>
         phases_sound (sp_szi pos) (pp_phases plan) \<and> \<bar>pp_target_szi plan\<bar> \<le> \<bar>t\<bar> \<and>
         0 \<le> pp_target_szi plan * t \<and> on_grid n (pp_target_szi plan) \<and>
         (is_noop plan \<longleftrightarrow> pp_target_szi plan = sp_szi pos)"
  using assms by (rule decimal_crate.target_size_spec)

theorem position_plan_reaches_target_witness:
  "\<exists>plan. target_size exact_dec \<lparr>sp_symbol = ''HYPE'', sp_szi = 5\<rparr> ''HYPE'' (- 3) 2 = Inr plan \<and>
     phases_end 5 (pp_phases plan) = - 3 \<and> phases_sound 5 (pp_phases plan) \<and> crosses_zero plan"
proof -
  let ?plan = "\<lparr>pp_symbol = ''HYPE'', pp_current_szi = 5, pp_target_szi = - 3,
    pp_phases = [\<lparr>ph_kind = CloseToFlat, ph_side = Short, ph_size = 5, ph_reduce_only = True\<rparr>,
      \<lparr>ph_kind = OpenFromFlat, ph_side = Short, ph_size = 3, ph_reduce_only = False\<rparr>]\<rparr>"
  have e: "target_size exact_dec \<lparr>sp_symbol = ''HYPE'', sp_szi = 5\<rparr> ''HYPE'' (- 3) 2 = Inr ?plan"
    by (simp add: target_size_def quantize_toward_zero_def round_rat_def trunc_rat_def
        phases_for_def side_for_delta_def Let_def sgn_if)
  have "representable (- 8)" by (rule representable_def [THEN iffD2]) (intro exI [of _ "- 8"] exI [of _ 0], simp)
  then have "representable (pp_target_szi ?plan - sp_szi \<lparr>sp_symbol = ''HYPE'', sp_szi = 5\<rparr>)" by simp
  from position_plan_reaches_target [OF exact.decimal_crate_axioms e this] e show ?thesis
    by (intro exI [of _ ?plan]) (simp add: crosses_zero_def)
qed

end
