(* ===== verification/Journal.thy ===== *)
theory Journal
  imports Market Position
begin

text \<open>
  The data of \<open>src/journal.rs\<close> and its one fail-closed interpretation, \<open>ValidatedJournalReplay\<close>.
  Decimals stay the strings that are on disk and are parsed by \<open>d_parse\<close>. A \<open>HashMap\<close> that is only
  looked up is a map; the one that is iterated (\<open>terminal_fills\<close>) is an association list whose
  iteration order is the parameter \<open>ord\<close>. The fingerprint is validated in its own function, one
  definition per group of checks, in the order of the source.
\<close>

section \<open>Records\<close>

record phase_fingerprint =
  pf_kind :: string
  pf_side :: string
  pf_size :: string
  pf_reduce_only :: bool

record fingerprint =
  fp_version :: nat
  fp_symbol :: string
  fp_side :: string
  fp_request_mode :: string
  fp_request_value :: string
  fp_per_slice :: string
  fp_total_adjusted :: string
  fp_total_requested :: string
  fp_slices :: nat
  fp_duration_ms :: u64
  fp_slippage_bps :: string
  fp_max_notional_usd :: string
  fp_max_book_age_ms :: u64
  fp_settle_retries :: nat
  fp_child_algo :: string
  fp_follow_poll_secs :: u64
  fp_follow_repost_secs :: u64
  fp_follow_threshold_bps :: string
  fp_network :: string
  fp_agent :: "string option"
  fp_master :: "string option"
  fp_position_mode :: "string option"
  fp_initial_position_szi :: "string option"
  fp_target_position_szi :: "string option"
  fp_position_requested_value :: "string option"
  fp_position_reference_price :: "string option"
  fp_position_phases :: "phase_fingerprint list"
  fp_reduce_only :: bool
  fp_absolute_deadline_unix_ms :: "u64 option"

definition FINGERPRINT_VERSION :: nat where
  "FINGERPRINT_VERSION = 3"

record run_header =
  rh_run_id :: string
  rh_network :: string
  rh_agent :: "address option"
  rh_master :: "address option"
  rh_symbol :: symbol
  rh_side :: side
  rh_slices :: nat
  rh_plan_hash :: string
  rh_fingerprint :: "fingerprint option"
  rh_started_at_unix_ms :: u64
  rh_deadline_unix_ms :: "u64 option"

record whole_run_summary =
  wr_requested_total :: "string option"
  wr_adjusted_total :: "string option"
  wr_accounted_notional :: string
  wr_cap_remaining :: "string option"
  wr_trusted_vwap :: "string option"
  wr_logical_elapsed_ms :: u64
  wr_unresolved_cloids :: nat

datatype journal_record =
    Header run_header
  | Prepared nat cloid "u64 option" symbol side "tif option" string string
  | SubmittedUnknown nat cloid
  | Acknowledged nat cloid "u64 option" string
  | Terminal nat cloid string string "string option"
  | FinalReport bool string "cloid list" string "whole_run_summary option"
  | Abandoned string

definition run_key :: "run_header \<Rightarrow> string" where
  "run_key h =
     rh_network h @ '':'' @ (case rh_agent h of Some a \<Rightarrow> a | None \<Rightarrow> ''none'')"

definition logical_position_total :: "dec_lib \<Rightarrow> fingerprint \<Rightarrow> string option" where
  "logical_position_total D fp =
     (if fp_position_phases fp = [] then None
      else map_option (d_to_string D)
        (fold (\<lambda>ph acc. case acc of
                 None \<Rightarrow> None
               | Some t \<Rightarrow>
                   (case d_parse D (pf_size ph) of
                      None \<Rightarrow> None
                    | Some sz \<Rightarrow> d_checked_add D t sz))
           (fp_position_phases fp) (Some 0)))"

definition changed :: "bool \<Rightarrow> string \<Rightarrow> string list" where
  "changed differs name = (if differs then [name] else [])"

definition differing_fields :: "fingerprint \<Rightarrow> fingerprint \<Rightarrow> string list" where
  "differing_fields a b =
     changed (fp_version a \<noteq> fp_version b) ''version'' @
     changed (fp_symbol a \<noteq> fp_symbol b) ''symbol'' @
     changed (fp_side a \<noteq> fp_side b) ''side'' @
     changed (fp_request_mode a \<noteq> fp_request_mode b) ''request_mode'' @
     changed (fp_request_value a \<noteq> fp_request_value b) ''request_value'' @
     changed (fp_per_slice a \<noteq> fp_per_slice b) ''per_slice'' @
     changed (fp_total_adjusted a \<noteq> fp_total_adjusted b) ''total_adjusted'' @
     changed (fp_total_requested a \<noteq> fp_total_requested b) ''total_requested'' @
     changed (fp_slices a \<noteq> fp_slices b) ''slices'' @
     changed (fp_duration_ms a \<noteq> fp_duration_ms b) ''duration_ms'' @
     changed (fp_slippage_bps a \<noteq> fp_slippage_bps b) ''slippage_bps'' @
     changed (fp_max_notional_usd a \<noteq> fp_max_notional_usd b) ''max_notional_usd'' @
     changed (fp_max_book_age_ms a \<noteq> fp_max_book_age_ms b) ''max_book_age_ms'' @
     changed (fp_settle_retries a \<noteq> fp_settle_retries b) ''settle_retries'' @
     changed (fp_child_algo a \<noteq> fp_child_algo b) ''child_algo'' @
     changed (fp_follow_poll_secs a \<noteq> fp_follow_poll_secs b) ''follow_poll_secs'' @
     changed (fp_follow_repost_secs a \<noteq> fp_follow_repost_secs b) ''follow_repost_secs'' @
     changed (fp_follow_threshold_bps a \<noteq> fp_follow_threshold_bps b) ''follow_threshold_bps'' @
     changed (fp_network a \<noteq> fp_network b) ''network'' @
     changed (fp_agent a \<noteq> fp_agent b) ''agent'' @
     changed (fp_master a \<noteq> fp_master b) ''master'' @
     changed (fp_position_mode a \<noteq> fp_position_mode b) ''position_mode'' @
     changed (fp_initial_position_szi a \<noteq> fp_initial_position_szi b) ''initial_position_szi'' @
     changed (fp_target_position_szi a \<noteq> fp_target_position_szi b) ''target_position_szi'' @
     changed (fp_position_requested_value a \<noteq> fp_position_requested_value b) ''position_requested_value'' @
     changed (fp_position_reference_price a \<noteq> fp_position_reference_price b) ''position_reference_price'' @
     changed (fp_position_phases a \<noteq> fp_position_phases b) ''position_phases'' @
     changed (fp_reduce_only a \<noteq> fp_reduce_only b) ''reduce_only'' @
     changed (fp_absolute_deadline_unix_ms a \<noteq> fp_absolute_deadline_unix_ms b) ''absolute_deadline_unix_ms''"

definition run_id_char :: "char \<Rightarrow> bool" where
  "run_id_char c =
     (let n = (of_char c :: nat)
      in (48 \<le> n \<and> n \<le> 57) \<or> (65 \<le> n \<and> n \<le> 90) \<or> (97 \<le> n \<and> n \<le> 122) \<or> n = 45 \<or> n = 95)"

datatype journal_error = Io string | Parse nat | InvalidRunId string | UnsafePath string

definition validate_run_id :: "string \<Rightarrow> journal_error + unit" where
  "validate_run_id run_id =
     (if run_id \<noteq> [] \<and> list_all run_id_char run_id then Inr () else Inl (InvalidRunId run_id))"

section \<open>Replay state\<close>

datatype cloid_state =
    PreparedOnly
  | StSubmittedUnknown
  | StAcknowledged
  | StTerminal string "string option"

datatype order_label = LPrepared | LSubmittedUnknown | LAcknowledged | LTerminal

record fill_totals =
  ft_filled_sz :: decimal
  ft_notional :: decimal

datatype accounting_error =
    InvalidReplay
  | InvalidDecimal cloid string string
  | NegativeSize cloid string decimal
  | NonPositivePrice cloid string decimal
  | AccMissingPrepared cloid
  | FilledSizeExceedsPrepared cloid decimal decimal
  | AveragePriceViolatesLimit cloid side decimal decimal
  | MissingAveragePriceForShort cloid "tif option"
  | TerminalAccountingRegressed cloid decimal decimal decimal decimal
  | Overflow cloid string

datatype replay_error =
    MissingHeader
  | HeaderNotFirst
  | DuplicateHeader
  | MissingPrepared cloid
  | ConflictingPrepared cloid
  | SliceIndexChanged cloid nat nat
  | InvalidTransition cloid order_label order_label
  | InvalidTerminalStatus cloid string
  | AbandonedWithUnresolved nat
  | RecordAfterAbandoned
  | CompletedFinalReportNotComplete
  | FinalReportUnknownCloidsMismatch "cloid list" "cloid list"
  | RecordAfterCompletedFinalReport
  | InvalidFinalReportFilledTotal string
  | FinalReportFilledTotalMismatch decimal decimal
  | InvalidFingerprintMaxNotional string
  | InvalidFingerprint string string
  | InvalidWholeRunSummary string
  | Accounting accounting_error

record run_summary =
  su_header :: "run_header option"
  su_cloids :: "(cloid \<times> cloid_state) list"
  su_final_report_seen :: bool
  su_last_completed :: "bool option"
  su_last_unknown_cloids :: "cloid list option"
  su_last_whole_run :: "whole_run_summary option"
  su_abandoned :: bool

definition run_summary_default :: run_summary where
  "run_summary_default =
     \<lparr>su_header = None, su_cloids = [], su_final_report_seen = False, su_last_completed = None,
      su_last_unknown_cloids = None, su_last_whole_run = None, su_abandoned = False\<rparr>"

fun is_terminal_state :: "cloid_state \<Rightarrow> bool" where
  "is_terminal_state (StTerminal f a) = True"
| "is_terminal_state _ = False"

definition is_incomplete :: "run_summary \<Rightarrow> bool" where
  "is_incomplete s =
     (if su_header s = None \<or> su_abandoned s then False
      else if \<not> su_final_report_seen s \<or> su_last_completed s \<noteq> Some True then True
      else
        (case su_last_unknown_cloids s of Some unknown \<Rightarrow> unknown \<noteq> [] | None \<Rightarrow> False) \<or>
        list_ex (\<lambda>(_, st). \<not> is_terminal_state st) (su_cloids s))"

definition total_filled :: "dec_lib \<Rightarrow> run_summary \<Rightarrow> decimal" where
  "total_filled D s =
     fold (\<lambda>(_, st) acc.
             case st of
               StTerminal f _ \<Rightarrow> (case d_parse D f of Some d \<Rightarrow> d_add D acc d | None \<Rightarrow> acc)
             | _ \<Rightarrow> acc)
       (su_cloids s) 0"

definition unresolved_cloids :: "run_summary \<Rightarrow> cloid list" where
  "unresolved_cloids s = map fst (filter (\<lambda>(_, st). \<not> is_terminal_state st) (su_cloids s))"

record prepared_intent =
  pi_slice_idx :: nat
  pi_symbol :: symbol
  pi_side :: side
  pi_tif :: "tif option"
  pi_px :: string
  pi_sz :: string

record accounting_prepared =
  ap_px :: decimal
  ap_sz :: decimal
  ap_side :: side
  ap_tif :: "tif option"

record terminal_fill =
  tf_filled_sz :: decimal
  tf_notional :: decimal
  tf_avg_px :: "decimal option"

record replay_state =
  rs_prepared :: "cloid \<Rightarrow> prepared_intent option"
  rs_accounting :: "cloid \<Rightarrow> accounting_prepared option"
  rs_fills :: "(cloid \<times> terminal_fill) list"
  rs_order :: "cloid list"
  rs_state_values :: "cloid \<Rightarrow> cloid_state option"
  rs_labels :: "cloid \<Rightarrow> order_label option"
  rs_summary :: run_summary
  rs_max_notional :: "decimal option"
  rs_abandoned :: bool
  rs_completed :: bool

definition replay_init :: replay_state where
  "replay_init =
     \<lparr>rs_prepared = (\<lambda>_. None), rs_accounting = (\<lambda>_. None), rs_fills = [], rs_order = [],
      rs_state_values = (\<lambda>_. None), rs_labels = (\<lambda>_. None), rs_summary = run_summary_default,
      rs_max_notional = None, rs_abandoned = False, rs_completed = False\<rparr>"

definition is_valid_journal_terminal_status :: "string \<Rightarrow> bool" where
  "is_valid_journal_terminal_status status \<longleftrightarrow>
     is_terminal_order_status status \<or>
     to_ascii_lowercase status = ''alorejected'' \<or>
     to_ascii_lowercase status = ''neverreceived'' \<or>
     to_ascii_lowercase status = ''positiontargetreached''"

definition acc_decimal :: "dec_lib \<Rightarrow> cloid \<Rightarrow> string \<Rightarrow> string \<Rightarrow> replay_error + decimal" where
  "acc_decimal D c field v = ok_or (Accounting (InvalidDecimal c field v)) (d_parse D v)"

end
