(* ===== verification/Fingerprint.thy ===== *)
theory Fingerprint
  imports Journal
begin

text \<open>
  The self-contained validation of a current-version execution fingerprint against its header, and
  the check of an optional whole-run summary against the replayed totals (\<open>src/journal.rs\<close>).
\<close>

definition invalid :: "string \<Rightarrow> string \<Rightarrow> replay_error + 'a" where
  "invalid field reason = Inl (InvalidFingerprint field reason)"

definition fp_decimal :: "dec_lib \<Rightarrow> string \<Rightarrow> string \<Rightarrow> replay_error + decimal" where
  "fp_decimal D field v =
     (case d_parse D v of
        None \<Rightarrow> invalid field ''not a decimal''
      | Some parsed \<Rightarrow>
          if d_canonical D parsed \<noteq> v then invalid field ''not canonical'' else Inr parsed)"

definition positive_decimal :: "dec_lib \<Rightarrow> string \<Rightarrow> string \<Rightarrow> replay_error + decimal" where
  "positive_decimal D field v =
     and_then (fp_decimal D field v)
       (\<lambda>d. if d \<le> 0 then invalid field ''outside permitted range'' else Inr d)"

definition nonnegative_decimal :: "dec_lib \<Rightarrow> string \<Rightarrow> string \<Rightarrow> replay_error + decimal" where
  "nonnegative_decimal D field v =
     and_then (fp_decimal D field v)
       (\<lambda>d. if d < 0 then invalid field ''outside permitted range'' else Inr d)"

definition fp_header_checks :: "run_header \<Rightarrow> fingerprint \<Rightarrow> replay_error + unit" where
  "fp_header_checks h fp =
     (if fp_slices fp = 0 then invalid ''slices'' ''must be positive''
      else if fp_duration_ms fp = 0 then invalid ''duration_ms'' ''must be positive''
      else if fp_symbol fp \<noteq> rh_symbol h then invalid ''symbol'' ''does not match Header''
      else if fp_side fp \<noteq> side_name (rh_side h) \<or> fp_side fp \<notin> {''long'', ''short''}
        then invalid ''side'' ''invalid or does not match Header''
      else if fp_slices fp \<noteq> rh_slices h then invalid ''slices'' ''does not match Header''
      else if fp_absolute_deadline_unix_ms fp \<noteq> rh_deadline_unix_ms h \<or>
              fp_absolute_deadline_unix_ms fp = None
        then invalid ''absolute_deadline_unix_ms'' ''missing or does not match Header''
      else if fp_network fp \<noteq> rh_network h then invalid ''network'' ''does not match Header''
      else if fp_agent fp \<noteq> rh_agent h then invalid ''agent'' ''does not match Header''
      else if fp_master fp \<noteq> rh_master h then invalid ''master'' ''does not match Header''
      else Inr ())"

text \<open>The sizes are returned, as the later checks use them.\<close>

definition fp_value_checks :: "dec_lib \<Rightarrow> fingerprint \<Rightarrow> replay_error + decimal \<times> decimal \<times> decimal" where
  "fp_value_checks D fp =
     and_then (positive_decimal D ''per_slice'' (fp_per_slice fp)) (\<lambda>per_slice.
     and_then (positive_decimal D ''total_adjusted'' (fp_total_adjusted fp)) (\<lambda>total_adjusted.
     and_then (positive_decimal D ''total_requested'' (fp_total_requested fp)) (\<lambda>total_requested.
     if total_requested < total_adjusted \<or> total_adjusted < per_slice
     then invalid ''sizing'' ''per_slice, total_adjusted, and total_requested are inconsistent''
     else
       and_then (nonnegative_decimal D ''slippage_bps'' (fp_slippage_bps fp)) (\<lambda>slippage_bps.
       if 10000 \<le> slippage_bps then invalid ''slippage_bps'' ''must be below the 10000 bps hard cap''
       else
         and_then (positive_decimal D ''max_notional_usd'' (fp_max_notional_usd fp)) (\<lambda>_.
         and_then (nonnegative_decimal D ''follow_threshold_bps'' (fp_follow_threshold_bps fp)) (\<lambda>_.
         if fp_settle_retries fp = 0 then invalid ''settle_retries'' ''must be positive''
         else if fp_child_algo fp \<notin> {''market'', ''passive'', ''follow''}
           then invalid ''child_algo'' ''unsupported value''
         else if fp_follow_poll_secs fp = 0 \<or> fp_follow_repost_secs fp = 0
           then invalid ''follow timing'' ''must be positive''
         else if fp_network fp \<notin> {''mainnet'', ''testnet''}
           then invalid ''network'' ''unsupported value''
         else Inr (per_slice, total_adjusted, total_requested)))))))"

definition fp_ordinary_checks ::
  "dec_lib \<Rightarrow> fingerprint \<Rightarrow> decimal \<Rightarrow> decimal \<Rightarrow> decimal \<Rightarrow> replay_error + unit" where
  "fp_ordinary_checks D fp per_slice total_adjusted total_requested =
     (if fp_request_mode fp \<notin> {''size'', ''usd''}
      then invalid ''request_mode'' ''ordinary run requires size or usd''
      else
        and_then (positive_decimal D ''request_value'' (fp_request_value fp)) (\<lambda>request_value.
        case d_checked_mul D per_slice (of_nat (fp_slices fp)) of
          None \<Rightarrow> invalid ''sizing'' ''slice multiplication overflowed''
        | Some scheduled_total \<Rightarrow>
            if scheduled_total \<noteq> total_adjusted
            then invalid ''sizing'' ''total_adjusted does not equal per_slice * slices''
            else if fp_request_mode fp = ''size'' \<and> request_value \<noteq> total_requested
            then invalid ''request_value'' ''size request does not match total_requested''
            else if fp_initial_position_szi fp \<noteq> None \<or> fp_target_position_szi fp \<noteq> None \<or>
                    fp_position_requested_value fp \<noteq> None \<or> fp_position_reference_price fp \<noteq> None \<or>
                    fp_position_phases fp \<noteq> [] \<or> fp_reduce_only fp
            then invalid ''position fields'' ''ordinary run contains position-only values''
            else Inr ()))"

definition fp_request_checks ::
  "dec_lib \<Rightarrow> fingerprint \<Rightarrow> string \<Rightarrow> decimal \<Rightarrow> replay_error + unit" where
  "fp_request_checks D fp mode target =
     (if mode = ''flatten'' then
        (if fp_request_value fp \<noteq> ''0'' \<or> target \<noteq> 0 \<or> fp_position_requested_value fp \<noteq> None \<or>
            fp_position_reference_price fp \<noteq> None
         then invalid ''flatten fields'' ''inconsistent values'' else Inr ())
      else
        (case fp_position_requested_value fp of
           None \<Rightarrow> invalid ''position_requested_value'' ''missing''
         | Some request \<Rightarrow>
             and_then (fp_decimal D ''position_requested_value'' request) (\<lambda>_.
             and_then (fp_decimal D ''request_value'' (fp_request_value fp)) (\<lambda>_.
             if fp_request_value fp \<noteq> request
             then invalid ''request_value'' ''does not match position_requested_value''
             else if mode = ''target_usd'' then
               (case fp_position_reference_price fp of
                  None \<Rightarrow> invalid ''position_reference_price'' ''missing''
                | Some price \<Rightarrow>
                    and_then (positive_decimal D ''position_reference_price'' price)
                      (\<lambda>_. Inr ()))
             else if fp_position_reference_price fp \<noteq> None
             then invalid ''position_reference_price'' ''only valid for target_usd''
             else Inr ()))))"

fun fp_phase_fields :: "dec_lib \<Rightarrow> phase_fingerprint list \<Rightarrow> replay_error + unit" where
  "fp_phase_fields D [] = Inr ()"
| "fp_phase_fields D (ph # phs) =
     (if pf_kind ph \<notin> {''adjust'', ''close_to_flat'', ''open_from_flat''} \<or>
         pf_side ph \<notin> {''long'', ''short''}
      then invalid ''position_phases'' ''invalid phase''
      else and_then (positive_decimal D ''position_phases.size'' (pf_size ph))
             (\<lambda>_. fp_phase_fields D phs))"

definition expected_side :: "decimal \<Rightarrow> string" where
  "expected_side delta = (if 0 < delta then ''long'' else ''short'')"

definition fp_phase_sequence ::
  "dec_lib \<Rightarrow> phase_fingerprint list \<Rightarrow> decimal \<Rightarrow> decimal \<Rightarrow> replay_error + unit" where
  "fp_phase_sequence D phases initial target =
     (case phases of
        [] \<Rightarrow> Inr ()
      | [phase] \<Rightarrow>
          let delta = d_sub D target initial;
              reduces = initial \<noteq> 0 \<and>
                (target = 0 \<or> (sgn initial = sgn target \<and> \<bar>target\<bar> < \<bar>initial\<bar>))
          in if pf_kind phase \<noteq> ''adjust'' \<or> pf_side phase \<noteq> expected_side delta \<or>
                pf_size phase \<noteq> d_diff_text D target initial \<or> pf_reduce_only phase \<noteq> reduces
             then invalid ''position_phases'' ''adjust phase is inconsistent with frozen endpoints''
             else Inr ()
      | [cl, op] \<Rightarrow>
          if initial = 0 \<or> target = 0 \<or> sgn initial = sgn target \<or>
             pf_kind cl \<noteq> ''close_to_flat'' \<or> pf_side cl \<noteq> expected_side (- initial) \<or>
             pf_size cl \<noteq> d_to_string D \<bar>initial\<bar> \<or> \<not> pf_reduce_only cl \<or>
             pf_kind op \<noteq> ''open_from_flat'' \<or> pf_side op \<noteq> expected_side target \<or>
             pf_size op \<noteq> d_to_string D \<bar>target\<bar> \<or> pf_reduce_only op
          then invalid ''position_phases'' ''zero-cross phase sequence is inconsistent with frozen endpoints''
          else Inr ()
      | _ \<Rightarrow> invalid ''position_phases'' ''must contain at most two ordered phases'')"

definition fp_first_phase :: "fingerprint \<Rightarrow> replay_error + unit" where
  "fp_first_phase fp =
     (case fp_position_phases fp of
        first # _ \<Rightarrow>
          if fp_reduce_only fp \<noteq> pf_reduce_only first \<or> fp_side fp \<noteq> pf_side first
          then invalid ''reduce_only'' ''does not match first position phase'' else Inr ()
      | [] \<Rightarrow>
          if fp_reduce_only fp
          then invalid ''reduce_only'' ''cannot be set when the position plan has no phase''
          else Inr ())"

definition fp_position_checks :: "dec_lib \<Rightarrow> fingerprint \<Rightarrow> string \<Rightarrow> replay_error + unit" where
  "fp_position_checks D fp mode =
     (if mode \<notin> {''flatten'', ''target_sz'', ''target_usd''} \<or> fp_request_mode fp \<noteq> mode
      then invalid ''position_mode'' ''does not match request_mode''
      else
        (case fp_initial_position_szi fp of
           None \<Rightarrow> invalid ''initial_position_szi'' ''missing''
         | Some initial_s \<Rightarrow>
             (case fp_target_position_szi fp of
                None \<Rightarrow> invalid ''target_position_szi'' ''missing''
              | Some target_s \<Rightarrow>
                  and_then (fp_decimal D ''initial_position_szi'' initial_s) (\<lambda>initial.
                  and_then (fp_decimal D ''target_position_szi'' target_s) (\<lambda>target.
                  and_then (fp_request_checks D fp mode target) (\<lambda>_.
                  and_then (fp_phase_fields D (fp_position_phases fp)) (\<lambda>_.
                  if initial \<noteq> target \<and> fp_position_phases fp = []
                  then invalid ''position_phases'' ''missing executable phase''
                  else
                    and_then (fp_phase_sequence D (fp_position_phases fp) initial target) (\<lambda>_.
                    fp_first_phase fp))))))))"

definition validate_current_fingerprint ::
  "dec_lib \<Rightarrow> run_header \<Rightarrow> fingerprint \<Rightarrow> replay_error + unit" where
  "validate_current_fingerprint D h fp =
     and_then (fp_header_checks h fp) (\<lambda>_.
     and_then (fp_value_checks D fp) (\<lambda>(per_slice, total_adjusted, total_requested).
     case fp_position_mode fp of
       None \<Rightarrow> fp_ordinary_checks D fp per_slice total_adjusted total_requested
     | Some mode \<Rightarrow> fp_position_checks D fp mode))"

section \<open>The whole-run summary\<close>

definition wr_invalid :: "string \<Rightarrow> replay_error + 'a" where
  "wr_invalid reason = Inl (InvalidWholeRunSummary reason)"

definition parse_nonnegative :: "dec_lib \<Rightarrow> string \<Rightarrow> string \<Rightarrow> replay_error + decimal" where
  "parse_nonnegative D field v =
     (case d_parse D v of
        Some d \<Rightarrow> if 0 \<le> d then Inr d else wr_invalid (field @ '' must be a non-negative decimal'')
      | None \<Rightarrow> wr_invalid (field @ '' must be a non-negative decimal''))"

definition check_cap_remaining ::
  "dec_lib \<Rightarrow> run_header option \<Rightarrow> whole_run_summary \<Rightarrow> fill_totals \<Rightarrow> replay_error + unit" where
  "check_cap_remaining D h whole totals =
     (case wr_cap_remaining whole of
        None \<Rightarrow> Inr ()
      | Some v \<Rightarrow>
          and_then (parse_nonnegative D ''cap_remaining'' v) (\<lambda>reported.
          case Option.bind h rh_fingerprint of
            None \<Rightarrow> wr_invalid ''cap_remaining is present without a typed fingerprint''
          | Some fp \<Rightarrow>
              (case d_parse D (fp_max_notional_usd fp) of
                 None \<Rightarrow> wr_invalid ''cap_remaining is present but max_notional_usd is invalid''
               | Some mx \<Rightarrow>
                   if reported \<noteq> max (d_sub D mx (ft_notional totals)) 0
                   then wr_invalid ''cap_remaining does not match replayed'' else Inr ())))"

definition check_expected_total ::
  "dec_lib \<Rightarrow> string \<Rightarrow> string \<Rightarrow> string option \<Rightarrow> replay_error + unit" where
  "check_expected_total D field expected reported =
     (case reported of
        None \<Rightarrow> Inr ()
      | Some v \<Rightarrow>
          and_then (parse_nonnegative D field v) (\<lambda>_.
          if v \<noteq> expected then wr_invalid (field @ '' does not match fingerprint'') else Inr ()))"

definition validate_whole_run ::
  "dec_lib \<Rightarrow> run_header option \<Rightarrow> whole_run_summary option \<Rightarrow> fill_totals \<Rightarrow> decimal option \<Rightarrow> nat \<Rightarrow>
     replay_error + unit" where
  "validate_whole_run D h whole_opt totals execution_vwap unresolved =
     (case whole_opt of
        None \<Rightarrow> Inr ()
      | Some whole \<Rightarrow>
          and_then (parse_nonnegative D ''accounted_notional'' (wr_accounted_notional whole)) (\<lambda>accounted.
          if accounted \<noteq> ft_notional totals
          then wr_invalid ''accounted_notional does not match replayed''
          else
            and_then (check_cap_remaining D h whole totals) (\<lambda>_.
            and_then (case wr_trusted_vwap whole of
                        None \<Rightarrow> Inr None
                      | Some v \<Rightarrow> and_then (parse_nonnegative D ''trusted_vwap'' v) (\<lambda>d. Inr (Some d)))
              (\<lambda>reported_vwap.
            if reported_vwap \<noteq> execution_vwap
            then wr_invalid ''trusted_vwap does not match replayed''
            else if wr_unresolved_cloids whole \<noteq> unresolved
            then wr_invalid ''unresolved_cloids does not match replayed''
            else
              (case Option.bind h rh_fingerprint of
                 None \<Rightarrow> Inr ()
               | Some fp \<Rightarrow>
                   let logical = logical_position_total D fp;
                       requested = (case logical of Some t \<Rightarrow> t | None \<Rightarrow> fp_total_requested fp);
                       adjusted = (case logical of Some t \<Rightarrow> t | None \<Rightarrow> fp_total_adjusted fp)
                   in and_then (check_expected_total D ''requested_total'' requested (wr_requested_total whole))
                        (\<lambda>_. check_expected_total D ''adjusted_total'' adjusted (wr_adjusted_total whole)))))))"

end
