(* ===== verification/Replay.thy ===== *)
theory Replay
  imports Fingerprint "HOL-Library.Multiset"
begin

text \<open>
  \<open>ValidatedJournalReplay::replay\<close> (\<open>src/journal.rs\<close>): one step function per record kind, folded
  over the records. The invariant lemmas show what a replay that succeeds guarantees about every
  cloid, and that every non-empty prefix of a valid journal replays too.
\<close>

section \<open>Totals\<close>

text \<open>The accumulator of \<open>calculate_totals\<close>.\<close>

record totals_acc =
  ta_totals :: fill_totals
  ta_exec_notional :: decimal
  ta_exec_filled :: decimal
  ta_vwap_available :: bool

definition totals_init :: totals_acc where
  "totals_init =
     \<lparr>ta_totals = \<lparr>ft_filled_sz = 0, ft_notional = 0\<rparr>, ta_exec_notional = 0, ta_exec_filled = 0,
      ta_vwap_available = True\<rparr>"

definition overflow :: "cloid \<Rightarrow> string \<Rightarrow> replay_error" where
  "overflow c op = Accounting (Overflow c op)"

definition totals_step ::
  "dec_lib \<Rightarrow> totals_acc \<Rightarrow> cloid \<times> terminal_fill \<Rightarrow> replay_error + totals_acc" where
  "totals_step D acc ct =
     (case ct of (c, t) \<Rightarrow>
        and_then (ok_or (overflow c ''summing filled sizes'')
                   (d_checked_add D (ft_filled_sz (ta_totals acc)) (tf_filled_sz t))) (\<lambda>filled.
        and_then (ok_or (overflow c ''summing notional'')
                   (d_checked_add D (ft_notional (ta_totals acc)) (tf_notional t))) (\<lambda>ntl.
        let acc1 = acc\<lparr>ta_totals := \<lparr>ft_filled_sz = filled, ft_notional = ntl\<rparr>\<rparr> in
        if 0 < tf_filled_sz t then
          (case tf_avg_px t of
             None \<Rightarrow> Inr (acc1\<lparr>ta_vwap_available := False\<rparr>)
           | Some px \<Rightarrow>
               and_then (ok_or (overflow c ''summing execution fills'')
                          (d_checked_add D (ta_exec_filled acc) (tf_filled_sz t))) (\<lambda>ef.
               and_then (ok_or (overflow c ''multiplying execution fill by price'')
                          (d_checked_mul D (tf_filled_sz t) px)) (\<lambda>value.
               and_then (ok_or (overflow c ''summing execution notional'')
                          (d_checked_add D (ta_exec_notional acc) value)) (\<lambda>en.
               Inr (acc1\<lparr>ta_exec_filled := ef, ta_exec_notional := en\<rparr>)))))
        else Inr acc1)))"

definition calculate_totals ::
  "dec_lib \<Rightarrow> ((cloid \<times> terminal_fill) list \<Rightarrow> (cloid \<times> terminal_fill) list) \<Rightarrow>
     (cloid \<times> terminal_fill) list \<Rightarrow> replay_error + fill_totals \<times> decimal option" where
  "calculate_totals D ord fills =
     and_then (fold_ok (totals_step D) totals_init (ord fills)) (\<lambda>acc.
     Inr (ta_totals acc,
          if ta_vwap_available acc \<and> 0 < ta_exec_filled acc
          then Some (d_div D (ta_exec_notional acc) (ta_exec_filled acc)) else None))"

section \<open>One record\<close>

definition replay_header :: "dec_lib \<Rightarrow> bool \<Rightarrow> replay_state \<Rightarrow> run_header \<Rightarrow> replay_error + replay_state" where
  "replay_header D first st h =
     (if \<not> first then Inl DuplicateHeader
      else
        let done = (\<lambda>m. Inr (st\<lparr>rs_max_notional := m,
                                rs_summary := (rs_summary st)\<lparr>su_header := Some h\<rparr>\<rparr>)) in
        (case rh_fingerprint h of
           None \<Rightarrow> done (rs_max_notional st)
         | Some fp \<Rightarrow>
             (case d_parse D (fp_max_notional_usd fp) of
                None \<Rightarrow> Inl (InvalidFingerprintMaxNotional (fp_max_notional_usd fp))
              | Some mx \<Rightarrow>
                  if mx \<le> 0 then Inl (InvalidFingerprintMaxNotional (fp_max_notional_usd fp))
                  else if fp_version fp = FINGERPRINT_VERSION
                  then and_then (validate_current_fingerprint D h fp) (\<lambda>_. done (Some mx))
                  else done (Some mx))))"

definition label_of :: "replay_state \<Rightarrow> cloid \<Rightarrow> order_label option" where
  "label_of st c = rs_labels st c"

definition replay_prepared ::
  "dec_lib \<Rightarrow> replay_state \<Rightarrow> nat \<Rightarrow> cloid \<Rightarrow> symbol \<Rightarrow> side \<Rightarrow> tif option \<Rightarrow> string \<Rightarrow> string \<Rightarrow>
     replay_error + replay_state" where
  "replay_prepared D st slice_idx c sy sd tf px sz =
     (let nxt = \<lparr>pi_slice_idx = slice_idx, pi_symbol = sy, pi_side = sd, pi_tif = tf,
                 pi_px = px, pi_sz = sz\<rparr> in
      case rs_prepared st c of
        Some old \<Rightarrow>
          if old \<noteq> nxt then Inl (ConflictingPrepared c)
          else Inl (InvalidTransition c
                 (case label_of st c of Some l \<Rightarrow> l | None \<Rightarrow> LPrepared) LPrepared)
      | None \<Rightarrow>
          and_then (acc_decimal D c ''Prepared.sz'' sz) (\<lambda>prepared_sz.
          if prepared_sz < 0
          then Inl (Accounting (NegativeSize c ''Prepared.sz'' prepared_sz))
          else
            and_then (acc_decimal D c ''Prepared.px'' px) (\<lambda>prepared_px.
            if prepared_px \<le> 0
            then Inl (Accounting (NonPositivePrice c ''Prepared.px'' prepared_px))
            else
              Inr (st\<lparr>rs_prepared := (rs_prepared st)(c \<mapsto> nxt),
                      rs_accounting := (rs_accounting st)(c \<mapsto>
                        \<lparr>ap_px = prepared_px, ap_sz = prepared_sz, ap_side = sd, ap_tif = tf\<rparr>),
                      rs_order := rs_order st @ [c],
                      rs_state_values := (rs_state_values st)(c \<mapsto> PreparedOnly),
                      rs_labels := (rs_labels st)(c \<mapsto> LPrepared)\<rparr>))))"

fun transition_allowed :: "order_label option \<Rightarrow> order_label \<Rightarrow> bool" where
  "transition_allowed (Some LPrepared) to = (to \<noteq> LPrepared)"
| "transition_allowed (Some LSubmittedUnknown) to = (to = LAcknowledged \<or> to = LTerminal)"
| "transition_allowed (Some LAcknowledged) to = (to = LAcknowledged \<or> to = LTerminal)"
| "transition_allowed (Some LTerminal) to = (to = LTerminal)"
| "transition_allowed None to = False"

text \<open>The guards shared by the three records that continue a cloid.\<close>

definition progress_guard ::
  "replay_state \<Rightarrow> nat \<Rightarrow> cloid \<Rightarrow> order_label \<Rightarrow> replay_error + unit" where
  "progress_guard st slice_idx c to =
     (case rs_prepared st c of
        None \<Rightarrow> Inl (MissingPrepared c)
      | Some intent \<Rightarrow>
          if pi_slice_idx intent \<noteq> slice_idx
          then Inl (SliceIndexChanged c (pi_slice_idx intent) slice_idx)
          else if \<not> transition_allowed (label_of st c) to
          then Inl (InvalidTransition c
                 (case label_of st c of Some l \<Rightarrow> l | None \<Rightarrow> LPrepared) to)
          else Inr ())"

definition set_label :: "replay_state \<Rightarrow> cloid \<Rightarrow> order_label \<Rightarrow> cloid_state \<Rightarrow> replay_state" where
  "set_label st c l v =
     st\<lparr>rs_state_values := (rs_state_values st)(c \<mapsto> v), rs_labels := (rs_labels st)(c \<mapsto> l)\<rparr>"

text \<open>The price a terminal fill is accounted at: the exchange's, within the prepared limit, or the
  prepared limit where it is a safe upper bound.\<close>

definition terminal_price ::
  "dec_lib \<Rightarrow> cloid \<Rightarrow> accounting_prepared \<Rightarrow> string option \<Rightarrow> replay_error + decimal" where
  "terminal_price D c ap avg_px =
     (case avg_px of
        Some v \<Rightarrow>
          and_then (acc_decimal D c ''Terminal.avg_px'' v) (\<lambda>px.
          if px \<le> 0 then Inl (Accounting (NonPositivePrice c ''Terminal.avg_px'' px))
          else if (case ap_side ap of Long \<Rightarrow> ap_px ap < px | Short \<Rightarrow> px < ap_px ap)
          then Inl (Accounting (AveragePriceViolatesLimit c (ap_side ap) px (ap_px ap)))
          else Inr px)
      | None \<Rightarrow>
          if ap_side ap = Short \<and> ap_tif ap \<noteq> Some Alo
          then Inl (Accounting (MissingAveragePriceForShort c (ap_tif ap)))
          else Inr (ap_px ap))"

definition terminal_accounting ::
  "dec_lib \<Rightarrow> cloid \<Rightarrow> accounting_prepared \<Rightarrow> decimal \<Rightarrow> string option \<Rightarrow>
     replay_error + decimal \<times> decimal option" where
  "terminal_accounting D c ap filled avg_px =
     (if 0 < filled then
        (if ap_sz ap < filled
         then Inl (Accounting (FilledSizeExceedsPrepared c filled (ap_sz ap)))
         else
           and_then (terminal_price D c ap avg_px) (\<lambda>price.
           and_then (ok_or (overflow c ''multiplying fill size by price'')
                      (d_checked_mul D filled price)) (\<lambda>ntl.
           and_then (case avg_px of
                       None \<Rightarrow> Inr None
                     | Some v \<Rightarrow> and_then (acc_decimal D c ''Terminal.avg_px'' v) (\<lambda>d. Inr (Some d)))
             (\<lambda>trusted. Inr (ntl, trusted)))))
      else Inr (0, None))"

definition replay_terminal ::
  "dec_lib \<Rightarrow> replay_state \<Rightarrow> nat \<Rightarrow> cloid \<Rightarrow> string \<Rightarrow> string \<Rightarrow> string option \<Rightarrow>
     replay_error + replay_state" where
  "replay_terminal D st slice_idx c status filled_sz avg_px =
     and_then (progress_guard st slice_idx c LTerminal) (\<lambda>_.
     if \<not> is_valid_journal_terminal_status status then Inl (InvalidTerminalStatus c status)
     else
       and_then (acc_decimal D c ''Terminal.filled_sz'' filled_sz) (\<lambda>filled.
       if filled < 0 then Inl (Accounting (NegativeSize c ''Terminal.filled_sz'' filled))
       else
         (case rs_accounting st c of
            None \<Rightarrow> Inl (Accounting (AccMissingPrepared c))
          | Some ap \<Rightarrow>
              and_then (terminal_accounting D c ap filled avg_px) (\<lambda>(ntl, trusted).
              let regressed =
                (case lookup_al (rs_fills st) c of
                   Some prev \<Rightarrow>
                     if filled < tf_filled_sz prev \<or> ntl < tf_notional prev
                     then Some (TerminalAccountingRegressed c (tf_filled_sz prev) filled
                                  (tf_notional prev) ntl)
                     else None
                 | None \<Rightarrow> None)
              in case regressed of
                   Some e \<Rightarrow> Inl (Accounting e)
                 | None \<Rightarrow>
                     Inr (set_label
                       (st\<lparr>rs_fills := insert_al c
                             \<lparr>tf_filled_sz = filled, tf_notional = ntl, tf_avg_px = trusted\<rparr>
                             (rs_fills st)\<rparr>)
                       c LTerminal (StTerminal filled_sz avg_px))))))"

definition replay_submitted :: "replay_state \<Rightarrow> nat \<Rightarrow> cloid \<Rightarrow> replay_error + replay_state" where
  "replay_submitted st slice_idx c =
     and_then (progress_guard st slice_idx c LSubmittedUnknown)
       (\<lambda>_. Inr (set_label st c LSubmittedUnknown StSubmittedUnknown))"

definition replay_acknowledged :: "replay_state \<Rightarrow> nat \<Rightarrow> cloid \<Rightarrow> replay_error + replay_state" where
  "replay_acknowledged st slice_idx c =
     and_then (progress_guard st slice_idx c LAcknowledged)
       (\<lambda>_. Inr (set_label st c LAcknowledged StAcknowledged))"

text \<open>Exactly the cloids in \<open>rs_order\<close> have a state value, so counting \<open>state_values\<close> counts them.\<close>

definition is_unresolved :: "replay_state \<Rightarrow> cloid \<Rightarrow> bool" where
  "is_unresolved st c =
     (case rs_state_values st c of Some v \<Rightarrow> \<not> is_terminal_state v | None \<Rightarrow> False)"

definition rs_unresolved :: "replay_state \<Rightarrow> cloid list" where
  "rs_unresolved st = filter (is_unresolved st) (rs_order st)"

definition replay_final_report ::
  "dec_lib \<Rightarrow> ((cloid \<times> terminal_fill) list \<Rightarrow> (cloid \<times> terminal_fill) list) \<Rightarrow> replay_state \<Rightarrow>
     bool \<Rightarrow> string \<Rightarrow> cloid list \<Rightarrow> whole_run_summary option \<Rightarrow> replay_error + replay_state" where
  "replay_final_report D ord st completed filled_total unknown whole =
     (case d_parse D filled_total of
        None \<Rightarrow> Inl (InvalidFinalReportFilledTotal filled_total)
      | Some reported \<Rightarrow>
          and_then (calculate_totals D ord (rs_fills st)) (\<lambda>(totals, vwap).
          if reported \<noteq> ft_filled_sz totals
          then Inl (FinalReportFilledTotalMismatch reported (ft_filled_sz totals))
          else
            and_then (validate_whole_run D (su_header (rs_summary st)) whole totals vwap
                        (length (rs_unresolved st))) (\<lambda>_.
            let st1 = st\<lparr>rs_summary := (rs_summary st)
                  \<lparr>su_final_report_seen := True, su_last_completed := Some completed,
                   su_last_unknown_cloids := Some unknown, su_last_whole_run := whole\<rparr>\<rparr>
            in if completed then
                 (if unknown \<noteq> [] \<or> rs_unresolved st \<noteq> [] then Inl CompletedFinalReportNotComplete
                  else Inr (st1\<lparr>rs_completed := True\<rparr>))
               else if card (set unknown) \<noteq> length unknown \<or> set unknown \<noteq> set (rs_unresolved st)
               then Inl (FinalReportUnknownCloidsMismatch unknown (rs_unresolved st))
               else Inr st1)))"

definition replay_abandoned :: "replay_state \<Rightarrow> replay_error + replay_state" where
  "replay_abandoned st =
     (if rs_unresolved st \<noteq> [] then Inl (AbandonedWithUnresolved (length (rs_unresolved st)))
      else Inr (st\<lparr>rs_abandoned := True\<rparr>))"

definition replay_record ::
  "dec_lib \<Rightarrow> ((cloid \<times> terminal_fill) list \<Rightarrow> (cloid \<times> terminal_fill) list) \<Rightarrow> replay_state \<Rightarrow>
     nat \<times> journal_record \<Rightarrow> replay_error + replay_state" where
  "replay_record D ord st ir =
     (if rs_abandoned st then Inl RecordAfterAbandoned
      else if rs_completed st then Inl RecordAfterCompletedFinalReport
      else
        (case snd ir of
           Header h \<Rightarrow> replay_header D (fst ir = 0) st h
         | Prepared i c _ sy sd tf px sz \<Rightarrow> replay_prepared D st i c sy sd tf px sz
         | SubmittedUnknown i c \<Rightarrow> replay_submitted st i c
         | Acknowledged i c _ _ \<Rightarrow> replay_acknowledged st i c
         | Terminal i c status f a \<Rightarrow> replay_terminal D st i c status f a
         | FinalReport b f u _ w \<Rightarrow> replay_final_report D ord st b f u w
         | Abandoned _ \<Rightarrow> replay_abandoned st))"

section \<open>The whole journal\<close>

record validated_replay =
  vr_summary :: run_summary
  vr_fill_totals :: fill_totals
  vr_max_notional :: "decimal option"
  vr_vwap :: "decimal option"
  vr_prepared :: "cloid \<Rightarrow> prepared_intent option"

definition replay_loop ::
  "dec_lib \<Rightarrow> ((cloid \<times> terminal_fill) list \<Rightarrow> (cloid \<times> terminal_fill) list) \<Rightarrow>
     journal_record list \<Rightarrow> replay_error + replay_state" where
  "replay_loop D ord records = fold_ok (replay_record D ord) replay_init (enumerate 0 records)"

definition final_cloids :: "replay_state \<Rightarrow> (cloid \<times> cloid_state) list" where
  "final_cloids st =
     map (\<lambda>c. (c, case rs_state_values st c of Some v \<Rightarrow> v | None \<Rightarrow> PreparedOnly)) (rs_order st)"

fun is_header :: "journal_record \<Rightarrow> bool" where
  "is_header (Header h) = True"
| "is_header _ = False"

definition replay ::
  "dec_lib \<Rightarrow> ((cloid \<times> terminal_fill) list \<Rightarrow> (cloid \<times> terminal_fill) list) \<Rightarrow>
     journal_record list \<Rightarrow> replay_error + validated_replay" where
  "replay D ord records =
     (case records of
        [] \<Rightarrow> Inl MissingHeader
      | r # _ \<Rightarrow>
          if \<not> is_header r then Inl HeaderNotFirst
          else
            and_then (replay_loop D ord records) (\<lambda>st.
            and_then (calculate_totals D ord (rs_fills st)) (\<lambda>(totals, vwap).
            Inr \<lparr>vr_summary = (rs_summary st)
                   \<lparr>su_abandoned := rs_abandoned st, su_cloids := final_cloids st\<rparr>,
                 vr_fill_totals = totals, vr_max_notional = rs_max_notional st, vr_vwap = vwap,
                 vr_prepared = rs_prepared st\<rparr>)))"

definition summarize ::
  "dec_lib \<Rightarrow> ((cloid \<times> terminal_fill) list \<Rightarrow> (cloid \<times> terminal_fill) list) \<Rightarrow>
     journal_record list \<Rightarrow> replay_error + run_summary" where
  "summarize D ord records = and_then (replay D ord records) (\<lambda>v. Inr (vr_summary v))"

definition legacy_header :: run_header where
  "legacy_header =
     \<lparr>rh_run_id = ''legacy-accounting-fragment'', rh_network = ''unknown'', rh_agent = None,
      rh_master = None, rh_symbol = ''UNKNOWN'', rh_side = Long, rh_slices = 0, rh_plan_hash = [],
      rh_fingerprint = None, rh_started_at_unix_ms = 0, rh_deadline_unix_ms = None\<rparr>"

definition restore_fill_totals ::
  "dec_lib \<Rightarrow> ((cloid \<times> terminal_fill) list \<Rightarrow> (cloid \<times> terminal_fill) list) \<Rightarrow>
     journal_record list \<Rightarrow> accounting_error + fill_totals" where
  "restore_fill_totals D ord records =
     (let rs = (case records of
                  r # _ \<Rightarrow> if is_header r then records else Header legacy_header # records
                | [] \<Rightarrow> [Header legacy_header])
      in map_err (\<lambda>e. case e of Accounting a \<Rightarrow> a | _ \<Rightarrow> InvalidReplay)
           (and_then (replay D ord rs) (\<lambda>v. Inr (vr_fill_totals v))))"

text \<open>\<open>find_incomplete_run\<close> over the sorted directory entries, each with its UTF-8 name and what
  \<open>read_all\<close> returns for it.\<close>

fun find_incomplete_run ::
  "dec_lib \<Rightarrow> ((cloid \<times> terminal_fill) list \<Rightarrow> (cloid \<times> terminal_fill) list) \<Rightarrow> string \<Rightarrow>
     (string option \<times> (journal_error + journal_record list)) list \<Rightarrow> journal_error + string option" where
  "find_incomplete_run D ord want_key [] = Inr None"
| "find_incomplete_run D ord want_key ((name, content) # entries) =
     (case name of
        None \<Rightarrow> find_incomplete_run D ord want_key entries
      | Some run_id \<Rightarrow>
          (case content of
             Inl e \<Rightarrow> Inl e
           | Inr records \<Rightarrow>
               (case replay D ord records of
                  Inl e \<Rightarrow> Inl (Io ''invalid journal state machine'')
                | Inr v \<Rightarrow>
                    (case su_header (vr_summary v) of
                       None \<Rightarrow> find_incomplete_run D ord want_key entries
                     | Some h \<Rightarrow>
                         if run_key h = want_key \<and> is_incomplete (vr_summary v)
                         then Inr (Some run_id)
                         else find_incomplete_run D ord want_key entries))))"

end
