(* ===== verification/Replay_Facts.thy ===== *)
theory Replay_Facts
  imports Replay
begin

text \<open>
  What a successful replay guarantees: an invariant of the replay state preserved by every record,
  the exact accounting of fills, prefix closure, and the detection of incomplete runs.
\<close>

section \<open>The invariant\<close>

fun label_matches :: "order_label \<Rightarrow> cloid_state \<Rightarrow> bool" where
  "label_matches LPrepared v = (v = PreparedOnly)"
| "label_matches LSubmittedUnknown v = (v = StSubmittedUnknown)"
| "label_matches LAcknowledged v = (v = StAcknowledged)"
| "label_matches LTerminal v = is_terminal_state v"

definition fill_ok :: "dec_lib \<Rightarrow> accounting_prepared \<Rightarrow> cloid_state \<Rightarrow> terminal_fill \<Rightarrow> bool" where
  "fill_ok D ap v t \<longleftrightarrow>
     0 \<le> tf_filled_sz t \<and> tf_filled_sz t \<le> ap_sz ap \<and>
     (\<exists>f a. v = StTerminal f a \<and> d_parse D f = Some (tf_filled_sz t))"

definition cloid_ok :: "dec_lib \<Rightarrow> replay_state \<Rightarrow> cloid \<Rightarrow> bool" where
  "cloid_ok D st c \<longleftrightarrow>
     (case rs_prepared st c of
        None \<Rightarrow> c \<notin> set (rs_order st) \<and> rs_accounting st c = None \<and> rs_state_values st c = None \<and>
                rs_labels st c = None \<and> lookup_al (rs_fills st) c = None
      | Some itn \<Rightarrow>
          c \<in> set (rs_order st) \<and>
          (\<exists>ap v l. rs_accounting st c = Some ap \<and> rs_state_values st c = Some v \<and>
             rs_labels st c = Some l \<and> label_matches l v \<and>
             d_parse D (pi_sz itn) = Some (ap_sz ap) \<and> 0 \<le> ap_sz ap \<and> 0 < ap_px ap \<and>
             d_parse D (pi_px itn) = Some (ap_px ap) \<and> ap_side ap = pi_side itn \<and> ap_tif ap = pi_tif itn \<and>
             (case lookup_al (rs_fills st) c of
                None \<Rightarrow> l \<noteq> LTerminal
              | Some t \<Rightarrow> l = LTerminal \<and> fill_ok D ap v t)))"

definition replay_inv :: "dec_lib \<Rightarrow> replay_state \<Rightarrow> bool" where
  "replay_inv D st \<longleftrightarrow>
     (\<forall>c. cloid_ok D st c) \<and> distinct (rs_order st) \<and> distinct (map fst (rs_fills st)) \<and>
     (rs_completed st \<longleftrightarrow> su_last_completed (rs_summary st) = Some True) \<and>
     (rs_completed st \<longrightarrow> su_last_unknown_cloids (rs_summary st) = Some [] \<and>
        su_final_report_seen (rs_summary st)) \<and>
     (rs_completed st \<or> rs_abandoned st \<longrightarrow> rs_unresolved st = [])"

lemma replay_inv_init: "replay_inv D replay_init"
  by (simp add: replay_inv_def replay_init_def cloid_ok_def run_summary_default_def rs_unresolved_def)

lemma progress_guard_Inr [guard_simps]:
  "progress_guard st i c to = Inr u \<longleftrightarrow>
     (\<exists>itn. rs_prepared st c = Some itn \<and> pi_slice_idx itn = i) \<and> transition_allowed (rs_labels st c) to"
  by (auto simp: progress_guard_def label_of_def split: option.splits)

lemma acc_decimal_Inr [guard_simps]: "acc_decimal D c f v = Inr d \<longleftrightarrow> d_parse D v = Some d"
  by (simp add: acc_decimal_def)

lemma set_label_simps [simp]:
  "rs_prepared (set_label st c l v) = rs_prepared st" "rs_accounting (set_label st c l v) = rs_accounting st"
  "rs_fills (set_label st c l v) = rs_fills st" "rs_order (set_label st c l v) = rs_order st"
  "rs_state_values (set_label st c l v) = (rs_state_values st)(c \<mapsto> v)"
  "rs_labels (set_label st c l v) = (rs_labels st)(c \<mapsto> l)"
  "rs_summary (set_label st c l v) = rs_summary st" "rs_completed (set_label st c l v) = rs_completed st"
  "rs_abandoned (set_label st c l v) = rs_abandoned st" "rs_max_notional (set_label st c l v) = rs_max_notional st"
  by (simp_all add: set_label_def)

lemma terminal_accounting_Inr:
  "terminal_accounting D c ap filled avg = Inr (ntl, trusted) \<Longrightarrow> 0 \<le> filled \<Longrightarrow> 0 \<le> ap_sz ap \<Longrightarrow>
     filled \<le> ap_sz ap"
  by (auto simp: terminal_accounting_def split: if_splits)

lemma not_open: "replay_inv D st \<Longrightarrow> \<not> rs_completed st \<Longrightarrow> \<not> rs_abandoned st \<Longrightarrow>
    replay_inv D st \<and> \<not> rs_completed st \<and> \<not> rs_abandoned st"
  by simp

lemma cloid_ok_cong:
  "rs_prepared s c = rs_prepared t c \<Longrightarrow> (c \<in> set (rs_order s) \<longleftrightarrow> c \<in> set (rs_order t)) \<Longrightarrow>
   rs_accounting s c = rs_accounting t c \<Longrightarrow> rs_state_values s c = rs_state_values t c \<Longrightarrow>
   rs_labels s c = rs_labels t c \<Longrightarrow> lookup_al (rs_fills s) c = lookup_al (rs_fills t) c \<Longrightarrow>
   cloid_ok D s c \<longleftrightarrow> cloid_ok D t c"
  by (cases "rs_prepared t c") (simp_all add: cloid_ok_def)

lemma rs_unresolved_cong:
  "rs_order s = rs_order t \<Longrightarrow> rs_state_values s = rs_state_values t \<Longrightarrow> rs_unresolved s = rs_unresolved t"
  by (simp add: rs_unresolved_def is_unresolved_def [abs_def])

lemma replay_prepared_inv:
  assumes "replay_prepared D st i c sy sd tf px sz = Inr st'" and "replay_inv D st"
    and "\<not> rs_completed st" and "\<not> rs_abandoned st"
  shows "replay_inv D st'"
proof -
  from assms(1) obtain psz ppx where none: "rs_prepared st c = None"
    and p: "d_parse D sz = Some psz" "0 \<le> psz" "d_parse D px = Some ppx" "0 < ppx"
    and st': "st' = st\<lparr>rs_prepared := (rs_prepared st)(c \<mapsto> \<lparr>pi_slice_idx = i, pi_symbol = sy,
        pi_side = sd, pi_tif = tf, pi_px = px, pi_sz = sz\<rparr>),
        rs_accounting := (rs_accounting st)(c \<mapsto> \<lparr>ap_px = ppx, ap_sz = psz, ap_side = sd, ap_tif = tf\<rparr>),
        rs_order := rs_order st @ [c], rs_state_values := (rs_state_values st)(c \<mapsto> PreparedOnly),
        rs_labels := (rs_labels st)(c \<mapsto> LPrepared)\<rparr>"
    by (auto simp: replay_prepared_def Let_def and_then_Inr guard_simps split: option.splits if_splits)
  from assms(2) have ok: "\<And>c. cloid_ok D st c" by (simp add: replay_inv_def)
  have "cloid_ok D st' c'" for c'
  proof (cases "c' = c")
    case True
    with ok [of c] none p show ?thesis by (simp add: st' cloid_ok_def)
  next
    case False
    then have "cloid_ok D st' c' \<longleftrightarrow> cloid_ok D st c'" by (intro cloid_ok_cong) (auto simp: st')
    with ok show ?thesis by simp
  qed
  moreover have "c \<notin> set (rs_order st)" using ok [of c] none by (simp add: cloid_ok_def)
  ultimately show ?thesis using assms(2-4) by (simp add: replay_inv_def st')
qed

lemma replay_progress_inv:
  assumes "progress_guard st i c l = Inr u" and "l \<in> {LSubmittedUnknown, LAcknowledged}"
    and "label_matches l v" and "replay_inv D st" and "\<not> rs_completed st" and "\<not> rs_abandoned st"
  shows "replay_inv D (set_label st c l v)"
proof -
  from assms(1) obtain itn where g: "rs_prepared st c = Some itn" "transition_allowed (rs_labels st c) l"
    by (auto simp: guard_simps)
  from assms(4) have ok: "\<And>c. cloid_ok D st c" by (simp add: replay_inv_def)
  have "cloid_ok D (set_label st c l v) c'" for c'
  proof (cases "c' = c")
    case True
    have "rs_labels st c \<noteq> Some LTerminal" using g(2) assms(2) by auto
    with ok [of c] g assms(2,3) True show ?thesis by (auto simp: cloid_ok_def split: option.splits)
  next
    case False
    then have "cloid_ok D (set_label st c l v) c' \<longleftrightarrow> cloid_ok D st c'" by (intro cloid_ok_cong) auto
    with ok show ?thesis by simp
  qed
  with assms(4-6) show ?thesis by (simp add: replay_inv_def)
qed

lemma replay_terminal_Inr:
  assumes "replay_terminal D st i c status f a = Inr st'"
  shows "\<exists>filled ap ntl trusted.
           progress_guard st i c LTerminal = Inr () \<and> is_valid_journal_terminal_status status \<and>
           d_parse D f = Some filled \<and> 0 \<le> filled \<and> rs_accounting st c = Some ap \<and>
           terminal_accounting D c ap filled a = Inr (ntl, trusted) \<and>
           (case lookup_al (rs_fills st) c of
              None \<Rightarrow> True | Some prev \<Rightarrow> tf_filled_sz prev \<le> filled \<and> tf_notional prev \<le> ntl) \<and>
           st' = set_label (st\<lparr>rs_fills := insert_al c
             \<lparr>tf_filled_sz = filled, tf_notional = ntl, tf_avg_px = trusted\<rparr> (rs_fills st)\<rparr>)
             c LTerminal (StTerminal f a)"
  using assms
  by (auto simp: replay_terminal_def and_then_Inr guard_simps Let_def not_less
      split: option.splits if_splits prod.splits)

lemma replay_terminal_inv:
  assumes "replay_terminal D st i c status f a = Inr st'" and "replay_inv D st"
    and "\<not> rs_completed st" and "\<not> rs_abandoned st"
  shows "replay_inv D st'"
proof -
  from replay_terminal_Inr [OF assms(1)] obtain filled ap ntl trusted where
    g: "progress_guard st i c LTerminal = Inr ()" and p: "d_parse D f = Some filled" "0 \<le> filled"
    and ap: "rs_accounting st c = Some ap" and acc: "terminal_accounting D c ap filled a = Inr (ntl, trusted)"
    and st': "st' = set_label (st\<lparr>rs_fills := insert_al c
             \<lparr>tf_filled_sz = filled, tf_notional = ntl, tf_avg_px = trusted\<rparr> (rs_fills st)\<rparr>)
             c LTerminal (StTerminal f a)" by blast
  from assms(2) have ok: "\<And>c. cloid_ok D st c" by (simp add: replay_inv_def)
  have "cloid_ok D st' c'" for c'
  proof (cases "c' = c")
    case True
    from ok [of c] g ap have sz: "0 \<le> ap_sz ap" by (auto simp: cloid_ok_def guard_simps)
    from terminal_accounting_Inr [OF acc p(2) sz] ok [of c] g ap p True show ?thesis
      by (auto simp: cloid_ok_def guard_simps st' fill_ok_def)
  next
    case False
    then have "cloid_ok D st' c' \<longleftrightarrow> cloid_ok D st c'" by (intro cloid_ok_cong) (auto simp: st')
    with ok show ?thesis by simp
  qed
  with assms(2-4) show ?thesis by (simp add: replay_inv_def st')
qed

lemma replay_header_inv:
  assumes "replay_header D b st h = Inr st'" and "replay_inv D st"
    and "\<not> rs_completed st" and "\<not> rs_abandoned st"
  shows "replay_inv D st' \<and> su_header (rs_summary st') = Some h"
proof -
  have "\<exists>m. st' = st\<lparr>rs_max_notional := m, rs_summary := (rs_summary st)\<lparr>su_header := Some h\<rparr>\<rparr>"
  proof (cases "rh_fingerprint h")
    case None
    with assms(1) show ?thesis
      by (intro exI [of _ "rs_max_notional st"]) (simp add: replay_header_def split: if_splits)
  next
    case (Some fp)
    with assms(1) show ?thesis
      by (auto simp: replay_header_def Let_def and_then_Inr split: if_splits option.splits)
  qed
  then obtain m where
    st': "st' = st\<lparr>rs_max_notional := m, rs_summary := (rs_summary st)\<lparr>su_header := Some h\<rparr>\<rparr>" ..
  have "cloid_ok D st' c \<longleftrightarrow> cloid_ok D st c" for c by (intro cloid_ok_cong) (auto simp: st')
  with assms(2-4) show ?thesis by (simp add: replay_inv_def st')
qed

lemma replay_final_report_Inr:
  assumes "replay_final_report D ord st b f u w = Inr st'"
  shows "\<exists>s. st' = st\<lparr>rs_summary := s, rs_completed := b \<or> rs_completed st\<rparr> \<and>
           su_header s = su_header (rs_summary st) \<and> su_last_completed s = Some b \<and>
           su_last_unknown_cloids s = Some u \<and> su_final_report_seen s \<and>
           (b \<longrightarrow> u = [] \<and> rs_unresolved st = []) \<and> (\<not> b \<longrightarrow> set u = set (rs_unresolved st))"
  using assms
  by (auto simp: replay_final_report_def Let_def and_then_Inr split: option.splits if_splits prod.splits)

lemma replay_final_report_inv:
  assumes "replay_final_report D ord st b f u w = Inr st'" and "replay_inv D st"
    and "\<not> rs_completed st" and "\<not> rs_abandoned st"
  shows "replay_inv D st' \<and> su_header (rs_summary st') = su_header (rs_summary st)"
proof -
  from replay_final_report_Inr [OF assms(1)] obtain s where
    st': "st' = st\<lparr>rs_summary := s, rs_completed := b \<or> rs_completed st\<rparr>"
    and s: "su_header s = su_header (rs_summary st)" "su_last_completed s = Some b"
      "su_last_unknown_cloids s = Some u" "su_final_report_seen s" "b \<longrightarrow> u = [] \<and> rs_unresolved st = []"
    by blast
  have "cloid_ok D st' c \<longleftrightarrow> cloid_ok D st c" for c by (intro cloid_ok_cong) (auto simp: st')
  moreover have "rs_unresolved st' = rs_unresolved st" by (rule rs_unresolved_cong) (simp_all add: st')
  ultimately show ?thesis using assms(2-4) s by (simp add: replay_inv_def) (simp add: st')
qed

lemma replay_abandoned_inv:
  assumes "replay_abandoned st = Inr st'" and "replay_inv D st"
    and "\<not> rs_completed st" and "\<not> rs_abandoned st"
  shows "replay_inv D st'"
proof -
  from assms(1) have st': "st' = st\<lparr>rs_abandoned := True\<rparr>" and un: "rs_unresolved st = []"
    by (auto simp: replay_abandoned_def split: if_splits)
  have "cloid_ok D st' c \<longleftrightarrow> cloid_ok D st c" for c by (intro cloid_ok_cong) (auto simp: st')
  moreover have "rs_unresolved st' = rs_unresolved st" by (rule rs_unresolved_cong) (simp_all add: st')
  ultimately show ?thesis using assms(2-4) un by (simp add: replay_inv_def) (simp add: st')
qed

lemma replay_record_inv:
  assumes "replay_record D ord st ir = Inr st'" and "replay_inv D st"
  shows "replay_inv D st' \<and> \<not> rs_completed st \<and> \<not> rs_abandoned st"
proof -
  from assms(1) have o: "\<not> rs_completed st" "\<not> rs_abandoned st" by (auto simp: replay_record_def split: if_splits)
  have "replay_inv D st'"
  proof (cases "snd ir")
    case (Header h)
    with assms o show ?thesis by (auto simp: replay_record_def dest: replay_header_inv)
  next
    case (Prepared i c n sy sd tf px sz)
    with assms o show ?thesis by (auto simp: replay_record_def dest: replay_prepared_inv)
  next
    case (SubmittedUnknown i c)
    with assms o show ?thesis
      by (auto simp: replay_record_def replay_submitted_def and_then_Inr intro: replay_progress_inv)
  next
    case (Acknowledged i c oid s)
    with assms o show ?thesis
      by (auto simp: replay_record_def replay_acknowledged_def and_then_Inr intro: replay_progress_inv)
  next
    case (Terminal i c s f a)
    with assms o show ?thesis by (auto simp: replay_record_def dest: replay_terminal_inv)
  next
    case (FinalReport b f u n w)
    with assms o show ?thesis by (auto simp: replay_record_def dest: replay_final_report_inv)
  next
    case (Abandoned n)
    with assms o show ?thesis by (auto simp: replay_record_def dest: replay_abandoned_inv)
  qed
  with o show ?thesis by simp
qed

section \<open>Whole journals\<close>

lemma replay_loop_inv: "replay_loop D ord rs = Inr st \<Longrightarrow> replay_inv D st"
  unfolding replay_loop_def
  by (erule fold_ok_invariant [where I = "replay_inv D"]) (auto simp: replay_inv_init dest: replay_record_inv)

lemma replay_loop_append:
  "replay_loop D ord (rs @ qs) =
     and_then (replay_loop D ord rs) (\<lambda>st. fold_ok (replay_record D ord) st (enumerate (length rs) qs))"
  by (simp add: replay_loop_def enumerate_append_eq fold_ok_append)

lemma replay_record_header:
  "replay_record D ord st ir = Inr st' \<Longrightarrow> su_header (rs_summary st) \<noteq> None \<Longrightarrow>
     replay_inv D st \<Longrightarrow> su_header (rs_summary st') \<noteq> None"
proof -
  assume a: "replay_record D ord st ir = Inr st'" and h: "su_header (rs_summary st) \<noteq> None"
    and i: "replay_inv D st"
  from replay_record_inv [OF a i] have o: "\<not> rs_completed st" "\<not> rs_abandoned st" by auto
  show ?thesis
    by (cases "snd ir")
      (use a h i o in \<open>auto simp: replay_record_def replay_prepared_def replay_submitted_def
        replay_acknowledged_def replay_abandoned_def and_then_Inr Let_def
        split: if_splits option.splits dest: replay_header_inv replay_final_report_inv replay_terminal_Inr\<close>)
qed

lemma fold_replay_header:
  "fold_ok (replay_record D ord) st irs = Inr st' \<Longrightarrow> replay_inv D st \<Longrightarrow>
     su_header (rs_summary st) \<noteq> None \<Longrightarrow> su_header (rs_summary st') \<noteq> None"
proof (induction irs arbitrary: st)
  case (Cons ir irs)
  from Cons.prems(1) obtain s1 where s1: "replay_record D ord st ir = Inr s1"
    "fold_ok (replay_record D ord) s1 irs = Inr st'" by (auto simp: and_then_Inr)
  show ?case
    using replay_record_inv [OF s1(1) Cons.prems(2)] replay_record_header [OF s1(1) Cons.prems(3,2)] s1(2)
    by (intro Cons.IH) simp_all
qed simp

lemma replay_Inr:
  assumes "replay D ord rs = Inr v"
  shows "\<exists>st totals vwap. rs \<noteq> [] \<and> is_header (hd rs) \<and> replay_loop D ord rs = Inr st \<and>
     calculate_totals D ord (rs_fills st) = Inr (totals, vwap) \<and> replay_inv D st \<and>
     su_header (rs_summary st) \<noteq> None \<and>
     v = \<lparr>vr_summary = (rs_summary st)\<lparr>su_abandoned := rs_abandoned st, su_cloids := final_cloids st\<rparr>,
          vr_fill_totals = totals, vr_max_notional = rs_max_notional st, vr_vwap = vwap,
          vr_prepared = rs_prepared st\<rparr>"
proof -
  from assms obtain r q where rs: "rs = r # q" and h: "is_header r"
    by (auto simp: replay_def split: list.splits if_splits)
  with assms obtain st totals vwap where l: "replay_loop D ord rs = Inr st"
    and t: "calculate_totals D ord (rs_fills st) = Inr (totals, vwap)"
    and v: "v = \<lparr>vr_summary = (rs_summary st)\<lparr>su_abandoned := rs_abandoned st, su_cloids := final_cloids st\<rparr>,
          vr_fill_totals = totals, vr_max_notional = rs_max_notional st, vr_vwap = vwap,
          vr_prepared = rs_prepared st\<rparr>"
    by (auto simp: replay_def and_then_Inr)
  from h obtain hd where r: "r = Header hd" by (cases r) auto
  from l obtain st1 where s1: "replay_record D ord replay_init (0, r) = Inr st1"
    "fold_ok (replay_record D ord) st1 (enumerate (Suc 0) q) = Inr st"
    by (auto simp: replay_loop_def rs and_then_Inr)
  have "su_header (rs_summary st1) = Some hd"
    using s1(1) r replay_header_inv [OF _ replay_inv_init]
    by (auto simp: replay_record_def replay_init_def split: if_splits)
  with fold_replay_header [OF s1(2)] replay_record_inv [OF s1(1) replay_inv_init]
  have "su_header (rs_summary st) \<noteq> None" by auto
  with rs h l t v replay_loop_inv [OF l] show ?thesis by auto
qed

lemma final_cloids_terminal:
  assumes "replay_inv D st"
  shows "(c, StTerminal f a) \<in> set (final_cloids st) \<longleftrightarrow> rs_state_values st c = Some (StTerminal f a)"
proof -
  from assms have "cloid_ok D st c" by (simp add: replay_inv_def)
  then show ?thesis by (auto simp: final_cloids_def cloid_ok_def split: option.splits)
qed

lemma final_cloids_unresolved:
  assumes "replay_inv D st"
  shows "map fst (filter (\<lambda>(_, v). \<not> is_terminal_state v) (final_cloids st)) = rs_unresolved st"
proof -
  have "is_unresolved st c \<longleftrightarrow>
      \<not> is_terminal_state (case rs_state_values st c of Some v \<Rightarrow> v | None \<Rightarrow> PreparedOnly)"
    if "c \<in> set (rs_order st)" for c
  proof -
    from assms have "cloid_ok D st c" by (simp add: replay_inv_def)
    with that show ?thesis by (auto simp: cloid_ok_def is_unresolved_def split: option.splits)
  qed
  then show ?thesis
    by (simp add: final_cloids_def rs_unresolved_def filter_map comp_def cong: filter_cong)
qed

lemma replay_complete_resolved:
  assumes "replay D ord rs = Inr v" and "\<not> is_incomplete (vr_summary v)"
  shows "unresolved_cloids (vr_summary v) = []"
proof -
  from replay_Inr [OF assms(1)] obtain st where inv: "replay_inv D st"
    and h: "su_header (rs_summary st) \<noteq> None"
    and v: "vr_summary v = (rs_summary st)\<lparr>su_abandoned := rs_abandoned st, su_cloids := final_cloids st\<rparr>"
    by auto
  have "rs_completed st \<or> rs_abandoned st"
    using assms(2) inv h by (auto simp: is_incomplete_def v replay_inv_def split: if_splits)
  with inv have "rs_unresolved st = []" by (simp add: replay_inv_def)
  with final_cloids_unresolved [OF inv] show ?thesis by (simp add: unresolved_cloids_def v)
qed

section \<open>Prefixes\<close>

lemma totals_step_overflow: "totals_step D acc x = Inl e \<Longrightarrow> \<exists>c op. e = Accounting (Overflow c op)"
  by (auto simp: totals_step_def and_then_def ok_or_def overflow_def Let_def
      split: prod.splits option.splits if_splits sum.splits)

lemma calculate_totals_overflow:
  "calculate_totals D ord fs = Inl e \<Longrightarrow> \<exists>c op. e = Accounting (Overflow c op)"
proof -
  have fold: "fold_ok (totals_step D) acc xs = Inl e \<Longrightarrow> \<exists>c op. e = Accounting (Overflow c op)" for acc xs e
    by (induction xs arbitrary: acc) (auto simp: and_then_def dest: totals_step_overflow split: sum.splits)
  assume "calculate_totals D ord fs = Inl e"
  then show ?thesis by (auto simp: calculate_totals_def and_then_def dest: fold split: sum.splits)
qed

lemma replay_prefix:
  assumes "replay D ord (rs @ qs) = Inr v" and "rs \<noteq> []"
  shows "\<exists>st. replay_loop D ord rs = Inr st \<and> replay_inv D st \<and>
           (qs \<noteq> [] \<longrightarrow> \<not> rs_completed st \<and> \<not> rs_abandoned st)"
proof -
  from replay_Inr [OF assms(1)] obtain st' where "replay_loop D ord (rs @ qs) = Inr st'" by blast
  then obtain st where st: "replay_loop D ord rs = Inr st"
    and rest: "fold_ok (replay_record D ord) st (enumerate (length rs) qs) = Inr st'"
    by (auto simp: replay_loop_append and_then_Inr)
  from rest have "\<not> rs_completed st \<and> \<not> rs_abandoned st" if "qs \<noteq> []"
    using that by (cases qs) (auto simp: and_then_Inr replay_record_def split: if_splits)
  with st replay_loop_inv [OF st] show ?thesis by blast
qed

lemma replay_prefix_result:
  assumes "replay D ord (rs @ qs) = Inr v" and "rs \<noteq> []"
  shows "(\<exists>v'. replay D ord rs = Inr v') \<or> (\<exists>c op. replay D ord rs = Inl (Accounting (Overflow c op)))"
proof -
  from replay_prefix [OF assms] obtain st where st: "replay_loop D ord rs = Inr st" by blast
  from replay_Inr [OF assms(1)] assms(2) obtain r q where rs: "rs = r # q" "is_header r"
    by (cases rs) auto
  show ?thesis
  proof (cases "calculate_totals D ord (rs_fills st)")
    case (Inl e)
    then show ?thesis using calculate_totals_overflow [OF Inl] rs st by (auto simp: replay_def)
  next
    case (Inr p)
    then show ?thesis using rs st by (cases p) (auto simp: replay_def)
  qed
qed

lemma replay_prefix_incomplete:
  assumes "replay D ord (rs @ qs) = Inr v" and "qs \<noteq> []" and "replay D ord rs = Inr v'"
  shows "is_incomplete (vr_summary v')"
proof -
  from replay_Inr [OF assms(3)] obtain st where rs: "rs \<noteq> []" and l: "replay_loop D ord rs = Inr st"
    and h: "su_header (rs_summary st) \<noteq> None"
    and v: "vr_summary v' = (rs_summary st)\<lparr>su_abandoned := rs_abandoned st, su_cloids := final_cloids st\<rparr>"
    by auto
  from replay_prefix [OF assms(1) rs] l assms(2) have "\<not> rs_completed st" "\<not> rs_abandoned st" "replay_inv D st"
    by auto
  with h show ?thesis by (auto simp: is_incomplete_def v replay_inv_def)
qed

section \<open>Fills never regress\<close>

definition fills_le :: "replay_state \<Rightarrow> replay_state \<Rightarrow> bool" where
  "fills_le s t \<longleftrightarrow>
     (\<forall>c x. lookup_al (rs_fills s) c = Some x \<longrightarrow>
        (\<exists>y. lookup_al (rs_fills t) c = Some y \<and> tf_filled_sz x \<le> tf_filled_sz y \<and>
             tf_notional x \<le> tf_notional y))"

lemma fills_le_refl [simp]: "fills_le s s"
  by (auto simp: fills_le_def)

lemma fills_le_trans: "fills_le s t \<Longrightarrow> fills_le t u \<Longrightarrow> fills_le s u"
  unfolding fills_le_def by (meson order_trans)

lemma fills_le_same: "rs_fills s = rs_fills t \<Longrightarrow> fills_le s t"
  by (auto simp: fills_le_def)

lemma replay_record_fills_le: "replay_record D ord st ir = Inr st' \<Longrightarrow> fills_le st st'"
proof (cases "snd ir")
  case (Terminal i c s f a)
  assume "replay_record D ord st ir = Inr st'"
  with Terminal have "replay_terminal D st i c s f a = Inr st'" by (auto simp: replay_record_def split: if_splits)
  from replay_terminal_Inr [OF this] show ?thesis by (auto simp: fills_le_def split: option.splits)
next
  case (Header h)
  assume "replay_record D ord st ir = Inr st'"
  with Header show ?thesis
    by (intro fills_le_same) (auto simp: replay_record_def replay_header_def Let_def and_then_Inr
        split: if_splits option.splits)
next
  case (FinalReport b f u n w)
  assume "replay_record D ord st ir = Inr st'"
  with FinalReport show ?thesis
    by (intro fills_le_same) (auto simp: replay_record_def split: if_splits dest!: replay_final_report_Inr)
qed (intro fills_le_same; auto simp: replay_record_def replay_prepared_def replay_submitted_def
  replay_acknowledged_def replay_abandoned_def and_then_Inr Let_def split: if_splits option.splits)+

lemma fold_replay_fills_le: "fold_ok (replay_record D ord) st irs = Inr st' \<Longrightarrow> fills_le st st'"
  by (induction irs arbitrary: st) (auto simp: and_then_Inr dest: replay_record_fills_le intro: fills_le_trans)

lemma inv_terminal_fill:
  assumes "replay_inv D st"
  shows "rs_state_values st c = Some (StTerminal f a) \<Longrightarrow>
           \<exists>t. lookup_al (rs_fills st) c = Some t \<and> d_parse D f = Some (tf_filled_sz t)"
    and "lookup_al (rs_fills st) c = Some t \<Longrightarrow>
           \<exists>f a. rs_state_values st c = Some (StTerminal f a) \<and> d_parse D f = Some (tf_filled_sz t)"
proof -
  from assms have ok: "cloid_ok D st c" by (simp add: replay_inv_def)
  show "rs_state_values st c = Some (StTerminal f a) \<Longrightarrow>
           \<exists>t. lookup_al (rs_fills st) c = Some t \<and> d_parse D f = Some (tf_filled_sz t)"
  proof -
    assume v: "rs_state_values st c = Some (StTerminal f a)"
    with ok obtain l where l: "rs_labels st c = Some l" "label_matches l (StTerminal f a)"
      by (auto simp: cloid_ok_def split: option.splits)
    then have "l = LTerminal" by (cases l) auto
    with ok v l show ?thesis by (auto simp: cloid_ok_def fill_ok_def split: option.splits)
  qed
  show "lookup_al (rs_fills st) c = Some t \<Longrightarrow>
           \<exists>f a. rs_state_values st c = Some (StTerminal f a) \<and> d_parse D f = Some (tf_filled_sz t)"
    using ok by (auto simp: cloid_ok_def fill_ok_def split: option.splits)
qed

lemma replay_terminal_persists:
  assumes "replay D ord rs = Inr v1" and "replay D ord (rs @ qs) = Inr v2"
    and "(c, StTerminal f1 a1) \<in> set (su_cloids (vr_summary v1))"
  shows "\<exists>f2 a2 x y. (c, StTerminal f2 a2) \<in> set (su_cloids (vr_summary v2)) \<and>
           d_parse D f1 = Some x \<and> d_parse D f2 = Some y \<and> x \<le> y"
proof -
  from replay_Inr [OF assms(1)] obtain s1 where s1: "replay_loop D ord rs = Inr s1" "replay_inv D s1"
    "su_cloids (vr_summary v1) = final_cloids s1" by auto
  from replay_Inr [OF assms(2)] obtain s2 where s2: "replay_loop D ord (rs @ qs) = Inr s2" "replay_inv D s2"
    "su_cloids (vr_summary v2) = final_cloids s2" by auto
  from s1(1) s2(1) have le: "fills_le s1 s2"
    by (auto simp: replay_loop_append intro: fold_replay_fills_le)
  from assms(3) have "rs_state_values s1 c = Some (StTerminal f1 a1)"
    by (simp add: s1(3) final_cloids_terminal [OF s1(2)])
  from inv_terminal_fill(1) [OF s1(2) this] obtain x where
    x: "lookup_al (rs_fills s1) c = Some x" "d_parse D f1 = Some (tf_filled_sz x)" by blast
  with le obtain y where y: "lookup_al (rs_fills s2) c = Some y" "tf_filled_sz x \<le> tf_filled_sz y"
    by (auto simp: fills_le_def)
  from inv_terminal_fill(2) [OF s2(2) y(1)] y(2) x(2) s2(3) show ?thesis
    by (auto simp: final_cloids_terminal [OF s2(2)])
qed

section \<open>The totals\<close>

definition terminal_size :: "dec_lib \<Rightarrow> cloid_state \<Rightarrow> decimal" where
  "terminal_size D v =
     (case v of StTerminal f a \<Rightarrow> (case d_parse D f of Some d \<Rightarrow> d | None \<Rightarrow> 0) | _ \<Rightarrow> 0)"

text \<open>The credited size of a summary: every cloid's terminal fill, once.\<close>

definition credited :: "dec_lib \<Rightarrow> run_summary \<Rightarrow> decimal" where
  "credited D s = (\<Sum>cv\<leftarrow>su_cloids s. terminal_size D (snd cv))"

context decimal_crate
begin

lemma totals_step_filled:
  assumes "totals_step D acc (c, t) = Inr acc'"
    and "on_grid n (ft_filled_sz (ta_totals acc) + tf_filled_sz t)" and "n \<le> 28"
    and "0 \<le> ft_filled_sz (ta_totals acc) + tf_filled_sz t"
    and "(ft_filled_sz (ta_totals acc) + tf_filled_sz t) * 10 ^ n < 2 ^ 96"
  shows "ft_filled_sz (ta_totals acc') = ft_filled_sz (ta_totals acc) + tf_filled_sz t"
proof -
  have "representable (ft_filled_sz (ta_totals acc) + tf_filled_sz t)"
    using assms(2-5) by (intro representableI [of n]) simp_all
  then have "d_checked_add D (ft_filled_sz (ta_totals acc)) (tf_filled_sz t) =
      Some (ft_filled_sz (ta_totals acc) + tf_filled_sz t)" by (rule d_checked_add_representable)
  with assms(1) show ?thesis
    by (auto simp: totals_step_def and_then_Inr Let_def split: if_splits option.splits)
qed

lemma fold_totals_filled:
  assumes "fold_ok (totals_step D) acc xs = Inr acc'" and "n \<le> 28"
    and "on_grid n (ft_filled_sz (ta_totals acc))" and "0 \<le> ft_filled_sz (ta_totals acc)"
    and "\<forall>x\<in>set xs. on_grid n (tf_filled_sz (snd x)) \<and> 0 \<le> tf_filled_sz (snd x)"
    and "(ft_filled_sz (ta_totals acc) + (\<Sum>x\<leftarrow>xs. tf_filled_sz (snd x))) * 10 ^ n < 2 ^ 96"
  shows "ft_filled_sz (ta_totals acc') =
           ft_filled_sz (ta_totals acc) + (\<Sum>x\<leftarrow>xs. tf_filled_sz (snd x))"
  using assms
proof (induction xs arbitrary: acc)
  case (Cons x xs)
  obtain c t where x: "x = (c, t)" by (cases x)
  from Cons.prems(1) obtain a1 where a1: "totals_step D acc x = Inr a1"
    "fold_ok (totals_step D) a1 xs = Inr acc'" by (auto simp: and_then_Inr)
  let ?f = "ft_filled_sz (ta_totals acc)"
  have g: "on_grid n (?f + tf_filled_sz t)" "0 \<le> ?f + tf_filled_sz t"
    using Cons.prems by (auto simp: x intro: on_grid_add)
  have rest: "0 \<le> (\<Sum>x\<leftarrow>xs. tf_filled_sz (snd x))" using Cons.prems(5) by (intro sum_list_nonneg) auto
  have "(?f + tf_filled_sz t) * 10 ^ n \<le> (?f + (\<Sum>x\<leftarrow>x # xs. tf_filled_sz (snd x))) * 10 ^ n"
    using rest by (intro mult_right_mono) (simp_all add: x)
  then have b: "(?f + tf_filled_sz t) * 10 ^ n < 2 ^ 96" using Cons.prems(6) by linarith
  have s: "ft_filled_sz (ta_totals a1) = ?f + tf_filled_sz t"
    using totals_step_filled [OF a1(1) [unfolded x] g(1) Cons.prems(2) g(2) b] .
  have "ft_filled_sz (ta_totals acc') = ft_filled_sz (ta_totals a1) + (\<Sum>x\<leftarrow>xs. tf_filled_sz (snd x))"
    using Cons.prems g by (intro Cons.IH [OF a1(2)]) (simp_all add: s x add.assoc)
  then show ?case by (simp add: s x)
qed simp

lemma credited_fills:
  assumes inv: "replay_inv D st"
  shows "(\<Sum>cv\<leftarrow>final_cloids st. terminal_size D (snd cv)) = (\<Sum>x\<leftarrow>rs_fills st. tf_filled_sz (snd x))"
proof -
  let ?g = "\<lambda>c. case lookup_al (rs_fills st) c of None \<Rightarrow> 0 | Some t \<Rightarrow> tf_filled_sz t"
  from inv have d: "distinct (rs_order st)" "distinct (map fst (rs_fills st))" by (simp_all add: replay_inv_def)
  have ok: "cloid_ok D st c" for c using inv by (simp add: replay_inv_def)
  have size: "terminal_size D (case rs_state_values st c of Some v \<Rightarrow> v | None \<Rightarrow> PreparedOnly) = ?g c" for c
  proof (cases "lookup_al (rs_fills st) c")
    case (Some t)
    with inv_terminal_fill(2) [OF inv Some] show ?thesis by (auto simp: terminal_size_def)
  next
    case None
    have "rs_state_values st c \<noteq> Some (StTerminal f a)" for f a
      using inv_terminal_fill(1) [OF inv, of c f a] None by auto
    with None show ?thesis by (auto simp: terminal_size_def split: option.splits cloid_state.splits)
  qed
  have sub: "fst ` set (rs_fills st) \<subseteq> set (rs_order st)"
  proof
    fix c assume "c \<in> fst ` set (rs_fills st)"
    then have "lookup_al (rs_fills st) c \<noteq> None" by (simp add: lookup_al_None)
    then show "c \<in> set (rs_order st)" using ok [of c] by (auto simp: cloid_ok_def split: option.splits)
  qed
  have "(\<Sum>cv\<leftarrow>final_cloids st. terminal_size D (snd cv)) = (\<Sum>c\<leftarrow>rs_order st. ?g c)"
    by (simp add: final_cloids_def comp_def size)
  also have "\<dots> = (\<Sum>c\<in>set (rs_order st). ?g c)" using d(1) by (simp add: sum_list_distinct_conv_sum_set)
  also have "\<dots> = (\<Sum>c\<in>fst ` set (rs_fills st). ?g c)"
    using sub by (intro sum.mono_neutral_right) (auto simp: lookup_al_None [symmetric] split: option.splits)
  also have "\<dots> = (\<Sum>x\<in>set (rs_fills st). tf_filled_sz (snd x))"
  proof -
    have "inj_on fst (set (rs_fills st))" using d(2) by (simp add: distinct_map)
    moreover have "?g (fst x) = tf_filled_sz (snd x)" if "x \<in> set (rs_fills st)" for x
      using lookup_al_distinct [OF d(2), of "fst x" "snd x"] that by simp
    ultimately show ?thesis by (simp add: sum.reindex)
  qed
  also have "\<dots> = (\<Sum>x\<leftarrow>rs_fills st. tf_filled_sz (snd x))"
    using d(2) by (simp add: sum_list_distinct_conv_sum_set distinct_map)
  finally show ?thesis .
qed

lemma replay_totals:
  assumes "replay D ord rs = Inr v" and "\<And>xs. mset (ord xs) = mset xs" and "n \<le> 28"
    and "\<forall>(c, w)\<in>set (su_cloids (vr_summary v)). on_grid n (terminal_size D w)"
    and "credited D (vr_summary v) * 10 ^ n < 2 ^ 96"
  shows "ft_filled_sz (vr_fill_totals v) = credited D (vr_summary v)"
proof -
  from replay_Inr [OF assms(1)] obtain st totals vwap where inv: "replay_inv D st"
    and ct: "calculate_totals D ord (rs_fills st) = Inr (totals, vwap)"
    and v: "su_cloids (vr_summary v) = final_cloids st" "vr_fill_totals v = totals" by auto
  from ct obtain acc where f: "fold_ok (totals_step D) totals_init (ord (rs_fills st)) = Inr acc"
    and t: "totals = ta_totals acc"
    by (auto simp: calculate_totals_def and_then_Inr)
  have set: "set (ord xs) = set xs" for xs using assms(2) by (metis set_mset_mset)
  have sum: "(\<Sum>x\<leftarrow>ord (rs_fills st). tf_filled_sz (snd x)) = credited D (vr_summary v)"
  proof -
    have "mset (map (\<lambda>x. tf_filled_sz (snd x)) (ord (rs_fills st))) =
        mset (map (\<lambda>x. tf_filled_sz (snd x)) (rs_fills st))" by (simp only: mset_map assms(2))
    then show ?thesis
      using credited_fills [OF inv] by (metis credited_def sum_mset_sum_list v(1))
  qed
  have "on_grid n (tf_filled_sz (snd x)) \<and> 0 \<le> tf_filled_sz (snd x)" if "x \<in> set (rs_fills st)" for x
  proof -
    obtain c t where x: "x = (c, t)" by (cases x)
    have d: "distinct (map fst (rs_fills st))" using inv by (simp add: replay_inv_def)
    from lookup_al_distinct [OF d that [unfolded x]] have l: "lookup_al (rs_fills st) c = Some t" .
    from inv_terminal_fill(2) [OF inv l] obtain f a where
      w: "(c, StTerminal f a) \<in> set (final_cloids st)" "d_parse D f = Some (tf_filled_sz t)"
      by (auto simp: final_cloids_terminal [OF inv])
    have "cloid_ok D st c" using inv by (simp add: replay_inv_def)
    with l have "0 \<le> tf_filled_sz t" by (auto simp: cloid_ok_def fill_ok_def split: option.splits)
    moreover have "on_grid n (tf_filled_sz t)"
      using assms(4) w by (fastforce simp: v(1) terminal_size_def)
    ultimately show ?thesis by (simp add: x)
  qed
  then have "ft_filled_sz (ta_totals acc) = 0 + (\<Sum>x\<leftarrow>ord (rs_fills st). tf_filled_sz (snd x))"
    using fold_totals_filled [OF f assms(3)] assms(5) sum by (simp add: totals_init_def set)
  then show ?thesis by (simp add: v t sum)
qed

end

lemma replay_fill_within_prepared:
  assumes "replay D ord rs = Inr v" and "(c, StTerminal f a) \<in> set (su_cloids (vr_summary v))"
  shows "\<exists>itn sz d. vr_prepared v c = Some itn \<and> d_parse D (pi_sz itn) = Some sz \<and>
           d_parse D f = Some d \<and> 0 \<le> d \<and> d \<le> sz"
proof -
  from replay_Inr [OF assms(1)] obtain st where inv: "replay_inv D st"
    and v: "su_cloids (vr_summary v) = final_cloids st" "vr_prepared v = rs_prepared st" by auto
  have s: "rs_state_values st c = Some (StTerminal f a)"
    using assms(2) by (simp add: v final_cloids_terminal [OF inv])
  from inv_terminal_fill(1) [OF inv s] obtain t where
    t: "lookup_al (rs_fills st) c = Some t" "d_parse D f = Some (tf_filled_sz t)" by blast
  have "cloid_ok D st c" using inv by (simp add: replay_inv_def)
  with s t show ?thesis by (auto simp: v cloid_ok_def fill_ok_def split: option.splits)
qed

lemma replay_cloids_distinct: "replay D ord rs = Inr v \<Longrightarrow> distinct (map fst (su_cloids (vr_summary v)))"
  by (drule replay_Inr) (auto simp: replay_inv_def final_cloids_def comp_def)

section \<open>Properties\<close>

text \<open>C7: Journal accounting counts every fill exactly once and never more than was prepared: each cloid
  of a valid replay has one state, a terminal fill lies between zero and the prepared size, and the
  credited total is the sum of the terminal fills whatever order the hash map is iterated in (for
  sizes on a common grid whose total a \<open>Decimal\<close> can hold).\<close>

theorem replay_accounts_once:
  assumes "decimal_crate D" and "replay D ord rs = Inr v" and "\<And>xs. mset (ord xs) = mset xs" and "n \<le> 28"
    and "\<forall>(c, w)\<in>set (su_cloids (vr_summary v)). on_grid n (terminal_size D w)"
    and "credited D (vr_summary v) * 10 ^ n < 2 ^ 96"
  shows "distinct (map fst (su_cloids (vr_summary v))) \<and>
         ft_filled_sz (vr_fill_totals v) = credited D (vr_summary v) \<and>
         (\<forall>c f a. (c, StTerminal f a) \<in> set (su_cloids (vr_summary v)) \<longrightarrow>
            (\<exists>itn sz d. vr_prepared v c = Some itn \<and> d_parse D (pi_sz itn) = Some sz \<and>
               d_parse D f = Some d \<and> 0 \<le> d \<and> d \<le> sz))"
  using decimal_crate.replay_totals [OF assms] replay_cloids_distinct [OF assms(2)]
    replay_fill_within_prepared [OF assms(2)] by blast

definition demo_header :: run_header where
  "demo_header = legacy_header\<lparr>rh_run_id := ''run-1'', rh_network := ''mainnet''\<rparr>"

definition demo_journal :: "journal_record list" where
  "demo_journal =
     [Header demo_header,
      Prepared 1 7 None ''HYPE'' Long (Some Ioc) ''62'' ''5'',
      Terminal 1 7 ''filled'' ''3'' (Some ''61''),
      FinalReport True ''3'' [] [] None]"

lemma read_digit [simp]:
  "read_rat ''62'' = Some 62" "read_rat ''5'' = Some 5" "read_rat ''3'' = Some 3" "read_rat ''61'' = Some 61"
  by code_simp+

lemma demo_terminal: "is_valid_journal_terminal_status ''filled''"
  by code_simp

text \<open>Evaluation of a concrete journal.\<close>

lemmas replay_eval = replay_def demo_header_def legacy_header_def replay_loop_def
  replay_record_def replay_header_def replay_prepared_def replay_terminal_def replay_init_def
  progress_guard_def label_of_def acc_decimal_def demo_terminal terminal_accounting_def terminal_price_def
  checked_def dec_max_val_def set_label_def calculate_totals_def totals_init_def totals_step_def
  overflow_def final_cloids_def run_summary_default_def insert_al.simps lookup_al.simps

lemma demo_replay:
  "\<exists>v. replay exact_dec id demo_journal = Inr v \<and>
     su_cloids (vr_summary v) = [(7, StTerminal ''3'' (Some ''61''))] \<and>
     \<not> is_incomplete (vr_summary v) \<and> ft_filled_sz (vr_fill_totals v) = 3"
  by (simp add: replay_def demo_journal_def demo_header_def legacy_header_def replay_loop_def
      replay_record_def replay_header_def replay_prepared_def replay_terminal_def replay_final_report_def
      replay_init_def progress_guard_def label_of_def acc_decimal_def ok_or_def demo_terminal
      terminal_accounting_def terminal_price_def checked_def dec_max_val_def set_label_def
      calculate_totals_def totals_init_def totals_step_def overflow_def validate_whole_run_def
      rs_unresolved_def is_unresolved_def final_cloids_def is_incomplete_def run_summary_default_def)

theorem replay_accounts_once_witness:
  "\<exists>v. replay exact_dec id demo_journal = Inr v \<and>
     ft_filled_sz (vr_fill_totals v) = credited exact_dec (vr_summary v) \<and>
     credited exact_dec (vr_summary v) = 3"
proof -
  from demo_replay obtain v where v: "replay exact_dec id demo_journal = Inr v"
    "su_cloids (vr_summary v) = [(7, StTerminal ''3'' (Some ''61''))]" by blast
  then have c: "credited exact_dec (vr_summary v) = 3" by (simp add: credited_def terminal_size_def)
  from replay_accounts_once [OF exact.decimal_crate_axioms v(1), of 0] v c show ?thesis
    by (simp add: terminal_size_def)
qed

text \<open>C37: A crash cannot produce an unreadable or silently complete journal: every non-empty prefix of a
  valid journal replays as well (or fails only on the overflow of its totals), and a proper prefix is
  always reported incomplete, so it blocks the next live start.\<close>

theorem replay_prefix_closed:
  assumes "replay D ord (rs @ qs) = Inr v" and "rs \<noteq> []" and "qs \<noteq> []"
  shows "(\<exists>v'. replay D ord rs = Inr v' \<and> is_incomplete (vr_summary v')) \<or>
         (\<exists>c op. replay D ord rs = Inl (Accounting (Overflow c op)))"
  using replay_prefix_result [OF assms(1,2)] replay_prefix_incomplete [OF assms(1,3)] by blast

theorem replay_prefix_closed_witness:
  "\<exists>v'. replay exact_dec id (take 2 demo_journal) = Inr v' \<and> is_incomplete (vr_summary v')"
proof -
  from demo_replay obtain v where "replay exact_dec id (take 2 demo_journal @ drop 2 demo_journal) = Inr v"
    by auto
  from replay_prefix_closed [OF this] show ?thesis
    by (simp add: demo_journal_def replay_def demo_header_def legacy_header_def replay_loop_def
      replay_record_def replay_header_def replay_prepared_def replay_init_def acc_decimal_def ok_or_def
      calculate_totals_def totals_init_def)
qed

text \<open>A run that is not incomplete has nothing left to reconcile: every cloid it prepared is
  terminal.\<close>

theorem complete_run_resolved:
  assumes "replay D ord rs = Inr v" and "\<not> is_incomplete (vr_summary v)"
  shows "unresolved_cloids (vr_summary v) = []"
  using assms by (rule replay_complete_resolved)

theorem complete_run_resolved_witness:
  "\<exists>v. replay exact_dec id demo_journal = Inr v \<and> unresolved_cloids (vr_summary v) = []"
  using demo_replay complete_run_resolved by blast

text \<open>Resume never loses a credited fill: a cloid that is terminal after a prefix of the journal is
  terminal after the whole journal, with at least the same filled size.\<close>

theorem terminal_fill_persists:
  assumes "replay D ord rs = Inr v1" and "replay D ord (rs @ qs) = Inr v2"
    and "(c, StTerminal f1 a1) \<in> set (su_cloids (vr_summary v1))"
  shows "\<exists>f2 a2 x y. (c, StTerminal f2 a2) \<in> set (su_cloids (vr_summary v2)) \<and>
           d_parse D f1 = Some x \<and> d_parse D f2 = Some y \<and> x \<le> y"
  using assms by (rule replay_terminal_persists)

theorem terminal_fill_persists_witness:
  "\<exists>v2 f2 a2. replay exact_dec id demo_journal = Inr v2 \<and>
     (7, StTerminal f2 a2) \<in> set (su_cloids (vr_summary v2))"
proof -
  from demo_replay obtain v2 where v2: "replay exact_dec id (take 3 demo_journal @ drop 3 demo_journal) = Inr v2"
    "replay exact_dec id demo_journal = Inr v2" by auto
  have "\<exists>v1. replay exact_dec id (take 3 demo_journal) = Inr v1 \<and>
     su_cloids (vr_summary v1) = [(7, StTerminal ''3'' (Some ''61''))]"
    by (simp add: replay_def demo_journal_def demo_header_def legacy_header_def replay_loop_def
      replay_record_def replay_header_def replay_prepared_def replay_terminal_def
      replay_init_def progress_guard_def label_of_def acc_decimal_def ok_or_def demo_terminal
      terminal_accounting_def terminal_price_def checked_def dec_max_val_def set_label_def
      calculate_totals_def totals_init_def totals_step_def overflow_def
      final_cloids_def run_summary_default_def)
  then obtain v1 where v1: "replay exact_dec id (take 3 demo_journal) = Inr v1"
    "su_cloids (vr_summary v1) = [(7, StTerminal ''3'' (Some ''61''))]" by blast
  from terminal_fill_persists [OF v1(1) v2(1), of 7] v1(2) v2(2) show ?thesis by auto
qed

end
