(* ===== verification/Journal_File.thy ===== *)
theory Journal_File
  imports Replay_Facts
begin

text \<open>
  The journal file of \<open>src/journal.rs\<close> as the string of its bytes: \<open>parse_records\<close> with its tolerance
  of one torn final line, \<open>restore_line_boundary\<close> before an append, and \<open>record\<close>. \<open>serde_json\<close> is a
  pair of parameters: \<open>ser\<close> writes a record and \<open>J\<close> reads a line. The lemmas show that repairing and
  appending keeps every record, and that a write cut at any byte leaves a readable prefix.
\<close>

definition newline :: char where
  "newline = CHR 0x0A"

definition is_ascii_whitespace :: "char \<Rightarrow> bool" where
  "is_ascii_whitespace c =
     (let n = (of_char c :: nat) in n = 32 \<or> n = 9 \<or> n = 10 \<or> n = 12 \<or> n = 13)"

definition blank :: "string \<Rightarrow> bool" where
  "blank l \<longleftrightarrow> list_all is_ascii_whitespace l"

text \<open>\<open>bytes.split(|b| b == '\n')\<close>: one segment more than there are newlines.\<close>

fun split_lines :: "string \<Rightarrow> string list" where
  "split_lines [] = [[]]"
| "split_lines (c # s) =
     (if c = newline then [] # split_lines s
      else case split_lines s of l # ls \<Rightarrow> (c # l) # ls | [] \<Rightarrow> [[c]])"

fun parse_lines ::
  "(string \<Rightarrow> journal_record option) \<Rightarrow> nat \<Rightarrow> journal_record list \<Rightarrow> string list \<Rightarrow>
     journal_error + journal_record list" where
  "parse_lines J idx out [] = Inr out"
| "parse_lines J idx out (line # rest) =
     (if blank line then parse_lines J (idx + 1) out rest
      else
        (case J line of
           Some rec \<Rightarrow> parse_lines J (idx + 1) (out @ [rec]) rest
         | None \<Rightarrow>
             let is_unterminated_last = (rest = [])
             in if is_unterminated_last \<and> out \<noteq> [] then Inr out else Inl (Parse (idx + 1))))"

definition parse_records ::
  "(string \<Rightarrow> journal_record option) \<Rightarrow> string \<Rightarrow> journal_error + journal_record list" where
  "parse_records J bytes = parse_lines J 0 [] (split_lines bytes)"

definition tail_of :: "string \<Rightarrow> string" where
  "tail_of bytes = rev (takeWhile (\<lambda>c. c \<noteq> newline) (rev bytes))"

definition restore_line_boundary ::
  "(string \<Rightarrow> journal_record option) \<Rightarrow> string \<Rightarrow> journal_error + string" where
  "restore_line_boundary J bytes =
     (if bytes = [] \<or> last bytes = newline then Inr bytes
      else
        and_then (parse_records J bytes) (\<lambda>_.
        let tail = tail_of bytes in
        if blank tail \<or> J tail \<noteq> None then Inr (bytes @ [newline])
        else Inr (take (length bytes - length tail) bytes)))"

text \<open>Appending one record: its line and the newline in one write.\<close>

definition append_record :: "(journal_record \<Rightarrow> string) \<Rightarrow> string \<Rightarrow> journal_record \<Rightarrow> string" where
  "append_record ser bytes rec = bytes @ ser rec @ [newline]"

text \<open>\<open>read_all\<close> and \<open>open_existing\<close> over a file system that answers whether the run directory or the
  journal is a symbolic link, and what the file holds.\<close>

record journal_fs =
  fs_dir_symlink :: "string \<Rightarrow> bool"
  fs_file_symlink :: "string \<Rightarrow> bool"
  fs_content :: "string \<Rightarrow> string option"

definition read_all ::
  "(string \<Rightarrow> journal_record option) \<Rightarrow> journal_fs \<Rightarrow> string \<Rightarrow> journal_error + journal_record list" where
  "read_all J fs run_id =
     and_then (validate_run_id run_id) (\<lambda>_.
     if fs_dir_symlink fs run_id then Inl (UnsafePath run_id)
     else if fs_file_symlink fs run_id then Inl (UnsafePath run_id)
     else
       (case fs_content fs run_id of
          None \<Rightarrow> Inl (Io ''read'')
        | Some bytes \<Rightarrow> parse_records J bytes))"

definition open_existing ::
  "(string \<Rightarrow> journal_record option) \<Rightarrow> journal_fs \<Rightarrow> string \<Rightarrow> journal_error + string" where
  "open_existing J fs run_id =
     and_then (validate_run_id run_id) (\<lambda>_.
     if fs_dir_symlink fs run_id then Inl (UnsafePath run_id)
     else if fs_file_symlink fs run_id then Inl (UnsafePath run_id)
     else
       (case fs_content fs run_id of
          None \<Rightarrow> Inl (Io ''open'')
        | Some bytes \<Rightarrow> restore_line_boundary J bytes))"

section \<open>Lines\<close>

lemma split_lines_neq [simp]: "split_lines s \<noteq> []"
  by (induction s) (auto split: list.splits)

lemma split_lines_no_newline: "newline \<notin> set s \<Longrightarrow> split_lines s = [s]"
  by (induction s) auto

lemma split_lines_append: "split_lines (a @ newline # b) = split_lines a @ split_lines b"
  by (induction a) (auto split: list.splits)

lemma tail_of_append: "newline \<notin> set t \<Longrightarrow> a = [] \<or> last a = newline \<Longrightarrow> tail_of (a @ t) = t"
proof -
  assume t: "newline \<notin> set t" and a: "a = [] \<or> last a = newline"
  have "takeWhile (\<lambda>c. c \<noteq> newline) (rev t @ rev a) = rev t @ takeWhile (\<lambda>c. c \<noteq> newline) (rev a)"
    using t by (intro takeWhile_append2) auto
  moreover have "takeWhile (\<lambda>c. c \<noteq> newline) (rev a) = []"
    using a by (cases a rule: rev_cases) auto
  ultimately show ?thesis by (simp add: tail_of_def)
qed

text \<open>Every byte string is a body that is empty or ends with a newline, and a tail without one.\<close>

lemma body_tail: "\<exists>b t. s = b @ t \<and> newline \<notin> set t \<and> (b = [] \<or> last b = newline)"
proof (induction s rule: rev_induct)
  case (snoc c s)
  then obtain b t where s: "s = b @ t" "newline \<notin> set t" "b = [] \<or> last b = newline" by blast
  show ?case
  proof (cases "c = newline")
    case True
    then show ?thesis by (intro exI [of _ "s @ [c]"] exI [of _ "[]"]) simp
  next
    case False
    with s show ?thesis by (intro exI [of _ b] exI [of _ "t @ [c]"]) simp
  qed
qed simp

lemma body_lines: "b = [] \<or> last b = newline \<Longrightarrow> \<exists>L. \<forall>u. split_lines (b @ u) = L @ split_lines u"
proof (cases b rule: rev_cases)
  case (snoc a c)
  assume "b = [] \<or> last b = newline"
  with snoc have "b = a @ [newline]" by simp
  then show ?thesis by (intro exI [of _ "split_lines a"]) (simp add: split_lines_append)
qed (intro exI [of _ "[]"], simp)

text \<open>Parsing with no tolerance, for the lines before the last.\<close>

fun parse_full ::
  "(string \<Rightarrow> journal_record option) \<Rightarrow> nat \<Rightarrow> journal_record list \<Rightarrow> string list \<Rightarrow>
     journal_error + journal_record list" where
  "parse_full J idx out [] = Inr out"
| "parse_full J idx out (line # rest) =
     (if blank line then parse_full J (idx + 1) out rest
      else
        (case J line of
           Some rec \<Rightarrow> parse_full J (idx + 1) (out @ [rec]) rest
         | None \<Rightarrow> Inl (Parse (idx + 1))))"

lemma parse_lines_append:
  "M \<noteq> [] \<Longrightarrow> parse_lines J i out (L @ M) =
     and_then (parse_full J i out L) (\<lambda>o1. parse_lines J (i + length L) o1 M)"
  by (induction L arbitrary: i out) (auto split: option.split)

lemma blank_Nil [simp]: "blank []"
  by (simp add: blank_def)

section \<open>Repair and append\<close>

text \<open>What is relied on from \<open>serde_json::to_vec\<close> and \<open>from_slice\<close> for the records in \<open>R\<close>: a record is
  written on one line, reads back, and no proper prefix of its line reads as a record.\<close>

definition serde_on ::
  "journal_record set \<Rightarrow> (string \<Rightarrow> journal_record option) \<Rightarrow> (journal_record \<Rightarrow> string) \<Rightarrow> bool" where
  "serde_on R J ser \<longleftrightarrow>
     (\<forall>r\<in>R. newline \<notin> set (ser r) \<and> \<not> blank (ser r) \<and> J (ser r) = Some r \<and>
        (\<forall>t. strict_prefix t (ser r) \<longrightarrow> J t = None))"

lemma serde_onD:
  assumes "serde_on R J ser" and "r \<in> R"
  shows "newline \<notin> set (ser r)" "\<not> blank (ser r)" "J (ser r) = Some r"
    "strict_prefix t (ser r) \<Longrightarrow> J t = None"
  using assms by (auto simp: serde_on_def)

lemma append_at_boundary:
  assumes "serde_on R J ser" and "r \<in> R" and "bytes = [] \<or> last bytes = newline" and "parse_records J bytes = Inr rs"
  shows "parse_records J (append_record ser bytes r) = Inr (rs @ [r])"
proof -
  note ser = serde_onD [OF assms(1,2)]
  from body_lines [OF assms(3)] obtain L where L: "\<And>u. split_lines (bytes @ u) = L @ split_lines u" by blast
  from L [of "[]"] assms(4) have "parse_full J 0 [] L = Inr rs"
    by (auto simp: parse_records_def parse_lines_append and_then_Inr)
  moreover have "split_lines (ser r @ [newline]) = [ser r, []]"
    using split_lines_append [of "ser r" "[]"] ser(1) by (simp add: split_lines_no_newline)
  ultimately show ?thesis
    by (simp add: parse_records_def append_record_def L parse_lines_append ser)
qed

lemma restore_keeps_records:
  assumes "parse_records J bytes = Inr rs"
  shows "\<exists>b'. restore_line_boundary J bytes = Inr b' \<and> (b' = [] \<or> last b' = newline) \<and>
           parse_records J b' = Inr rs"
proof -
  obtain b t where s: "bytes = b @ t" "newline \<notin> set t" "b = [] \<or> last b = newline"
    using body_tail by blast
  from body_lines [OF s(3)] obtain L where L: "\<And>u. split_lines (b @ u) = L @ split_lines u" by blast
  have t: "split_lines t = [t]" using s(2) by (rule split_lines_no_newline)
  from assms obtain o1 where o1: "parse_full J 0 [] L = Inr o1" "parse_lines J (length L) o1 [t] = Inr rs"
    by (auto simp: parse_records_def s(1) L t parse_lines_append and_then_Inr)
  show ?thesis
  proof (cases "t = []")
    case True
    with s assms show ?thesis by (auto simp: restore_line_boundary_def)
  next
    case False
    have "last t \<noteq> newline" using s(2) last_in_set [OF False] by metis
    then have "last bytes \<noteq> newline" "bytes \<noteq> []" using s(1) False by simp_all
    then have r: "restore_line_boundary J bytes =
        (if blank t \<or> J t \<noteq> None then Inr (bytes @ [newline]) else Inr b)"
      using assms s by (simp add: restore_line_boundary_def tail_of_append)
    have "split_lines (b @ t @ [newline]) = L @ [t, []]"
      using L [of "t @ [newline]"] split_lines_append [of t "[]"] t by simp
    then have "parse_records J (bytes @ [newline]) = Inr rs" if "blank t \<or> J t \<noteq> None"
      using o1 that by (auto simp: parse_records_def s(1) parse_lines_append split: option.splits)
    moreover have "parse_records J b = Inr rs" if "\<not> blank t" "J t = None"
      using o1 that L [of "[]"] by (auto simp: parse_records_def parse_lines_append Let_def split: if_splits)
    ultimately show ?thesis using r s(3) by (cases "blank t \<or> J t \<noteq> None") auto
  qed
qed

lemma repair_then_append:
  assumes "serde_on R J ser" and "r \<in> R" and "parse_records J bytes = Inr rs"
  shows "\<exists>b'. restore_line_boundary J bytes = Inr b' \<and> parse_records J b' = Inr rs \<and>
           parse_records J (append_record ser b' r) = Inr (rs @ [r])"
  using restore_keeps_records [OF assms(3)] append_at_boundary [OF assms(1,2)] by blast

section \<open>A write cut at any byte\<close>

definition render_journal :: "(journal_record \<Rightarrow> string) \<Rightarrow> journal_record list \<Rightarrow> string" where
  "render_journal ser rs = concat (map (\<lambda>r. ser r @ [newline]) rs)"

lemma render_journal_append [simp]:
  "render_journal ser (rs @ qs) = render_journal ser rs @ render_journal ser qs"
  "render_journal ser [] = []" "render_journal ser [r] = ser r @ [newline]"
  by (simp_all add: render_journal_def)

lemma render_journal_boundary: "render_journal ser rs = [] \<or> last (render_journal ser rs) = newline"
  by (cases rs rule: rev_cases) simp_all

lemma take_render:
  "\<exists>m t. take k (render_journal ser rs) = render_journal ser (take m rs) @ t \<and> m \<le> length rs \<and>
     (if m < length rs then prefix t (ser (rs ! m)) else t = [])"
proof (induction rs arbitrary: k)
  case (Cons r rs)
  have r: "render_journal ser (r # rs) = ser r @ newline # render_journal ser rs"
    by (simp add: render_journal_def)
  show ?case
  proof (cases "k \<le> length (ser r)")
    case True
    then show ?thesis by (intro exI [of _ 0] exI [of _ "take k (ser r)"]) (simp add: r take_is_prefix)
  next
    case False
    then obtain j where j: "k = length (ser r) + Suc j" by (metis less_imp_Suc_add not_le add_Suc_right)
    from Cons [of j] obtain m t where m: "take j (render_journal ser rs) = render_journal ser (take m rs) @ t"
      "m \<le> length rs" "if m < length rs then prefix t (ser (rs ! m)) else t = []" by blast
    then show ?thesis
      by (intro exI [of _ "Suc m"] exI [of _ t]) (simp add: r j render_journal_def)
  qed
qed simp

lemma parse_render:
  "serde_on R J ser \<Longrightarrow> set rs \<subseteq> R \<Longrightarrow> parse_records J (render_journal ser rs) = Inr rs"
proof (induction rs rule: rev_induct)
  case (snoc r rs)
  then show ?case
    using append_at_boundary [OF snoc.prems(1) _ render_journal_boundary [of ser rs], of r rs]
    by (simp add: append_record_def)
qed (simp add: parse_records_def)

lemma parse_cut:
  assumes R: "serde_on R J ser" "set rs \<subseteq> R"
  shows "\<exists>m\<le>length rs. parse_records J (take k (render_journal ser rs)) = Inr (take m rs) \<or>
     m = 0 \<and> (\<exists>e. parse_records J (take k (render_journal ser rs)) = Inl e)"
proof -
  from take_render [of k ser rs] obtain m t where m: "take k (render_journal ser rs) = render_journal ser (take m rs) @ t"
    "m \<le> length rs" "if m < length rs then prefix t (ser (rs ! m)) else t = []" by blast
  from body_lines [OF render_journal_boundary [of ser "take m rs"]] obtain L where
    L: "\<And>u. split_lines (render_journal ser (take m rs) @ u) = L @ split_lines u" by blast
  have "set (take m rs) \<subseteq> R" using R(2) set_take_subset by (rule subset_trans [rotated])
  from L [of "[]"] parse_render [OF R(1) this] have full: "parse_full J 0 [] L = Inr (take m rs)"
    by (auto simp: parse_records_def parse_lines_append and_then_Inr)
  have nth: "rs ! m \<in> R" if "m < length rs" using R(2) that nth_mem by blast
  have "newline \<notin> set t"
    using m(3) serde_onD(1) [OF R(1) nth] by (auto split: if_splits dest: set_mono_prefix)
  then have p: "parse_records J (take k (render_journal ser rs)) = parse_lines J (length L) (take m rs) [t]"
    by (simp add: m(1) parse_records_def L split_lines_no_newline parse_lines_append full)
  show ?thesis
  proof (cases "blank t")
    case True
    with p m(2) show ?thesis by auto
  next
    case nb: False
    then have lt: "m < length rs" and pre: "prefix t (ser (rs ! m))" using m(2,3) by (auto split: if_splits)
    show ?thesis
    proof (cases "t = ser (rs ! m)")
      case True
      with p nb lt serde_onD(3) [OF R(1) nth] show ?thesis
        by (intro exI [of _ "Suc m"]) (simp add: take_Suc_conv_app_nth)
    next
      case False
      with pre have "J t = None" by (intro serde_onD(4) [OF R(1) nth [OF lt]]) (simp add: strict_prefix_def)
      with p nb m(2) show ?thesis by (intro exI [of _ m]) (auto simp: Let_def)
    qed
  qed
qed

section \<open>Properties\<close>

text \<open>C34: Torn-tail repair: for any journal that \<open>read_all\<close> accepts, \<open>open_existing\<close> restores a line
  boundary without losing or inventing a record, and the next append is read back after exactly the
  records that were there.\<close>

theorem torn_tail_repair:
  assumes "serde_on R J ser" and "r \<in> R" and "parse_records J bytes = Inr rs"
  shows "\<exists>b'. restore_line_boundary J bytes = Inr b' \<and> parse_records J b' = Inr rs \<and>
           parse_records J (append_record ser b' r) = Inr (rs @ [r])"
  using assms by (rule repair_then_append)

text \<open>A reader and a writer for the four demo records, each on a line of its own.\<close>

definition demo_ser :: "journal_record \<Rightarrow> string" where
  "demo_ser r =
     (case r of
        Header _ \<Rightarrow> ''{header}''
      | Prepared _ _ _ _ _ _ _ _ \<Rightarrow> ''{prepared}''
      | Terminal _ _ _ _ _ \<Rightarrow> ''{terminal}''
      | _ \<Rightarrow> ''{report}'')"

definition demo_read :: "string \<Rightarrow> journal_record option" where
  "demo_read s = find (\<lambda>r. demo_ser r = s) demo_journal"

lemma strict_prefix_length: "strict_prefix t s \<Longrightarrow> \<exists>k<length s. t = take k s"
  by (metis append_eq_conv_conj prefix_length_less strict_prefix_def prefix_def)

lemma demo_serde: "serde_on (set demo_journal) demo_read demo_ser"
proof -
  have "demo_read (take k (demo_ser r)) = None" if "r \<in> set demo_journal" "k < length (demo_ser r)" for r k
  proof -
    have "last (demo_ser q) = CHR ''}''" for q
      by (cases q) (simp_all add: demo_ser_def)
    moreover have "CHR ''}'' \<notin> set (take k (demo_ser r))"
    proof -
      have "CHR ''}'' \<notin> set (butlast (demo_ser r))" by (cases r) (simp_all add: demo_ser_def)
      moreover have "take k (demo_ser r) = take k (butlast (demo_ser r))" using that(2) by (simp add: butlast_conv_take min_def)
      ultimately show ?thesis by (metis in_set_takeD)
    qed
    moreover have "demo_ser q \<noteq> []" for q by (cases q) (simp_all add: demo_ser_def)
    ultimately have "demo_ser q \<noteq> take k (demo_ser r)" for q by (metis last_in_set)
    then show ?thesis by (simp add: demo_read_def find_None_iff)
  qed
  then have "\<forall>t. strict_prefix t (demo_ser r) \<longrightarrow> demo_read t = None" if "r \<in> set demo_journal" for r
    using that by (metis strict_prefix_length)
  moreover have "newline \<notin> set (demo_ser r) \<and> \<not> blank (demo_ser r) \<and> demo_read (demo_ser r) = Some r"
    if "r \<in> set demo_journal" for r
    using that by (auto simp: demo_journal_def demo_read_def demo_ser_def newline_def blank_def
        is_ascii_whitespace_def)
  ultimately show ?thesis by (simp add: serde_on_def)
qed

theorem torn_tail_repair_witness:
  "\<exists>b'. restore_line_boundary demo_read (''{header}'' @ [newline] @ ''{prep'') = Inr b' \<and>
     parse_records demo_read (append_record demo_ser b' (demo_journal ! 1)) =
       Inr [demo_journal ! 0, demo_journal ! 1]"
proof -
  have "parse_records demo_read (''{header}'' @ [newline] @ ''{prep'') = Inr [demo_journal ! 0]"
    by (simp add: parse_records_def newline_def blank_def is_ascii_whitespace_def demo_read_def
        demo_journal_def demo_ser_def)
  from torn_tail_repair [OF demo_serde _ this, of "demo_journal ! 1"] show ?thesis
    by (auto simp: demo_journal_def)
qed

text \<open>A write cut at any byte is recoverable: cutting a journal anywhere leaves a file that reads as a
  prefix of its records, or, only when not even the header is whole, one that is rejected.\<close>

theorem cut_anywhere_readable:
  assumes "serde_on R J ser" and "set rs \<subseteq> R"
  shows "\<exists>m\<le>length rs. parse_records J (take k (render_journal ser rs)) = Inr (take m rs) \<or>
     m = 0 \<and> (\<exists>e. parse_records J (take k (render_journal ser rs)) = Inl e)"
  using assms by (rule parse_cut)

theorem cut_anywhere_readable_witness:
  "parse_records demo_read (take 25 (render_journal demo_ser demo_journal)) = Inr (take 2 demo_journal) \<and>
   (\<exists>m\<le>4. parse_records demo_read (take 30 (render_journal demo_ser demo_journal)) = Inr (take m demo_journal) \<or>
     m = 0 \<and> (\<exists>e. parse_records demo_read (take 30 (render_journal demo_ser demo_journal)) = Inl e))"
proof -
  have "parse_records demo_read (take 25 (render_journal demo_ser demo_journal)) = Inr (take 2 demo_journal)"
    by (simp add: parse_records_def newline_def blank_def is_ascii_whitespace_def demo_read_def
        demo_journal_def demo_ser_def render_journal_def)
  moreover have "length demo_journal = 4" by (simp add: demo_journal_def)
  ultimately show ?thesis using cut_anywhere_readable [OF demo_serde subset_refl, of 30] by simp
qed

end
