(* ===== verification/Nonce.thy ===== *)
theory Nonce
  imports Types
begin

text \<open>
  \<open>src/lock.rs\<close> and the nonce counter of \<open>src/client.rs\<close>: the writer lock keyed by network and
  agent, the durable nonce high-water mark written by temporary file and rename, and the in-process
  counter seeded from it. A nonce is a 64-bit word. The lemmas show that a crash never leaves a torn
  mark, that the mark never moves backwards, and that nonces increase strictly across restarts and
  backward clock steps.
\<close>

section \<open>The writer lock\<close>

datatype lock_error = LockIo | LockSerde | AlreadyLocked string

definition lock_key :: "string \<Rightarrow> address \<Rightarrow> string" where
  "lock_key net agent = net @ '':'' @ agent"

definition sanitize_key :: "string \<Rightarrow> string" where
  "sanitize_key key =
     map (\<lambda>c. if c = CHR '':'' \<or> c = CHR ''/'' \<or> c = CHR 0x5C then CHR ''_'' else c) key"

definition lock_file :: "string \<Rightarrow> string \<Rightarrow> string" where
  "lock_file state_root key = state_root @ ''/locks/'' @ sanitize_key key @ ''.lock''"

definition hwm_path :: "string \<Rightarrow> string \<Rightarrow> string" where
  "hwm_path state_root key = state_root @ ''/locks/'' @ sanitize_key key @ ''.nonce-hwm.json''"

text \<open>The kernel's table of exclusively locked files; \<open>try_write\<close> takes a free one.\<close>

definition acquire :: "string set \<Rightarrow> string \<Rightarrow> string \<Rightarrow> lock_error + string set" where
  "acquire held state_root key =
     (let path = lock_file state_root key in
      if path \<in> held then Inl (AlreadyLocked path) else Inr (insert path held))"

definition release :: "string set \<Rightarrow> string \<Rightarrow> string \<Rightarrow> string set" where
  "release held state_root key = held - {lock_file state_root key}"

section \<open>The durable high-water mark\<close>

text \<open>A file is whole (its JSON holds a mark) or torn (truncated, or partly written).\<close>

datatype hwm_file = Whole u64 | Torn

record hwm_disk =
  hd_live :: "hwm_file option"
  hd_tmp :: "hwm_file option"

record nonce_hwm =
  hw_current :: u64

definition hwm_load :: "hwm_disk \<Rightarrow> lock_error + nonce_hwm" where
  "hwm_load d =
     (case hd_live d of
        None \<Rightarrow> Inr \<lparr>hw_current = 0\<rparr>
      | Some (Whole n) \<Rightarrow> Inr \<lparr>hw_current = n\<rparr>
      | Some Torn \<Rightarrow> Inl LockSerde)"

definition next_seed :: "nonce_hwm \<Rightarrow> u64 \<Rightarrow> u64" where
  "next_seed h now_ms = max now_ms (hw_current h + 1)"

text \<open>The writes of \<open>advance\<close>, one after the other: open the temporary file (truncating it), write it,
  sync it, rename it over the live file.\<close>

definition advance_steps :: "u64 \<Rightarrow> (hwm_disk \<Rightarrow> hwm_disk) list" where
  "advance_steps nonce =
     [\<lambda>d. d\<lparr>hd_tmp := Some Torn\<rparr>,
      \<lambda>d. d\<lparr>hd_tmp := Some (Whole nonce)\<rparr>,
      \<lambda>d. d,
      \<lambda>d. d\<lparr>hd_live := hd_tmp d, hd_tmp := None\<rparr>]"

definition run_steps :: "(hwm_disk \<Rightarrow> hwm_disk) list \<Rightarrow> hwm_disk \<Rightarrow> hwm_disk" where
  "run_steps fs d = fold (\<lambda>f d. f d) fs d"

text \<open>\<open>fault\<close> is the number of writes that succeed before one fails, if one does.\<close>

definition advance ::
  "nat option \<Rightarrow> hwm_disk \<Rightarrow> nonce_hwm \<Rightarrow> u64 \<Rightarrow> hwm_disk \<times> nonce_hwm \<times> (lock_error + unit)" where
  "advance fault d h nonce =
     (if nonce \<le> hw_current h then (d, h, Inr ())
      else
        (case fault of
           Some k \<Rightarrow>
             if k < length (advance_steps nonce)
             then (run_steps (take k (advance_steps nonce)) d, h, Inl LockIo)
             else (run_steps (advance_steps nonce) d, h\<lparr>hw_current := nonce\<rparr>, Inr ())
         | None \<Rightarrow> (run_steps (advance_steps nonce) d, h\<lparr>hw_current := nonce\<rparr>, Inr ())))"

section \<open>The counter\<close>

record nonce_state =
  ns_last :: u64
  ns_hwm :: "nonce_hwm option"
  ns_disk :: hwm_disk

definition seed_nonce :: "nonce_state \<Rightarrow> nonce_hwm \<Rightarrow> u64 \<Rightarrow> nonce_state" where
  "seed_nonce st h now_ms =
     (let seed = next_seed h now_ms
      in st\<lparr>ns_last := sat_sub_u64 seed 1, ns_hwm := Some h\<rparr>)"

text \<open>The compare-and-swap loop of a single caller succeeds at its first turn.\<close>

definition next_nonce :: "nonce_state \<Rightarrow> u64 \<Rightarrow> nat option \<Rightarrow> nonce_state \<times> u64" where
  "next_nonce st now_ms fault =
     (let nxt = max now_ms (ns_last st + 1); st1 = st\<lparr>ns_last := nxt\<rparr> in
      case ns_hwm st1 of
        None \<Rightarrow> (st1, nxt)
      | Some h \<Rightarrow>
          (case advance fault (ns_disk st1) h nxt of
             (d, h', _) \<Rightarrow> (st1\<lparr>ns_disk := d, ns_hwm := Some h'\<rparr>, nxt)))"

text \<open>A history: process starts (each loads the mark and seeds the counter, and ends the process when
  the mark cannot be read) and mints, each with its clock reading.\<close>

datatype nonce_event = Start u64 | Mint u64 "nat option"

fun nonce_run :: "nonce_state \<Rightarrow> nonce_event list \<Rightarrow> u64 list" where
  "nonce_run st [] = []"
| "nonce_run st (Start now # evs) =
     (case hwm_load (ns_disk st) of
        Inl e \<Rightarrow> []
      | Inr h \<Rightarrow>
          nonce_run (seed_nonce \<lparr>ns_last = 0, ns_hwm = None, ns_disk = ns_disk st\<rparr> h now) evs)"
| "nonce_run st (Mint now fault # evs) =
     (let (st', n) = next_nonce st now fault in n # nonce_run st' evs)"

section \<open>Lemmas\<close>

lemma advance_steps_crash:
  "hd_live (run_steps (take k (advance_steps n)) d) =
     (if 4 \<le> k then Some (Whole n) else hd_live d)"
proof -
  consider "k = 0" | "k = 1" | "k = 2" | "k = 3" | "4 \<le> k" by linarith
  then show ?thesis by cases (simp_all add: run_steps_def advance_steps_def numeral_eq_Suc)
qed

lemma advance_steps_all: "run_steps (advance_steps n) d = d\<lparr>hd_live := Some (Whole n), hd_tmp := None\<rparr>"
  by (simp add: run_steps_def advance_steps_def)

lemma advance_ok: "advance None d h n = (if n \<le> hw_current h then (d, h, Inr ())
    else (d\<lparr>hd_live := Some (Whole n), hd_tmp := None\<rparr>, h\<lparr>hw_current := n\<rparr>, Inr ()))"
  by (simp add: advance_def advance_steps_all)

lemma unat_plus_1: "unat (w :: u64) < u64_max \<Longrightarrow> unat (w + 1) = unat w + 1"
proof -
  assume "unat w < u64_max"
  then have "unat w + unat (1 :: u64) < 2 ^ LENGTH(64)" by (simp add: u64_max_def)
  then have "unat (w + 1) = unat w + unat (1 :: u64)" by (rule unat_add_lem [THEN iffD1])
  then show ?thesis by simp
qed

lemma unat_max: "unat (max a b :: u64) = max (unat a) (unat b)"
  by (simp add: max_def word_le_nat_alt)

text \<open>The state between two events while every persist succeeds: the mark in memory and on disk is the
  last nonce minted, the counter is at or above it.\<close>

definition nonce_inv :: "nat \<Rightarrow> u64 \<Rightarrow> nonce_state \<Rightarrow> bool" where
  "nonce_inv bound lst st \<longleftrightarrow>
     (\<exists>h. ns_hwm st = Some h \<and> hw_current h = lst \<and>
        (case hd_live (ns_disk st) of None \<Rightarrow> lst = 0 | Some f \<Rightarrow> f = Whole lst)) \<and>
     lst \<le> ns_last st \<and> unat (ns_last st) \<le> bound"

definition event_ok :: "nonce_event \<Rightarrow> bool" where
  "event_ok e = (case e of Start now \<Rightarrow> unat now < 2 ^ 63 | Mint now fault \<Rightarrow> unat now < 2 ^ 63 \<and> fault = None)"

lemma mint_inv:
  assumes "nonce_inv b lst st" and "unat now < 2 ^ 63" and "2 ^ 63 \<le> b" and "b < u64_max"
    and "next_nonce st now None = (st', n)"
  shows "lst < n \<and> nonce_inv (b + 1) n st'"
proof -
  from assms(1) obtain h where h: "ns_hwm st = Some h" "hw_current h = lst" and l: "lst \<le> ns_last st"
    "unat (ns_last st) \<le> b" by (auto simp: nonce_inv_def)
  have plus: "unat (ns_last st + 1) = unat (ns_last st) + 1" using l(2) assms(4) by (intro unat_plus_1) simp
  have n: "n = max now (ns_last st + 1)" using assms(5) h by (auto simp: next_nonce_def Let_def split: prod.splits)
  have lt: "lst < n" using l plus by (simp add: n word_less_nat_alt word_le_nat_alt unat_max)
  moreover have "unat n \<le> b + 1" using plus l assms(2,3) by (simp add: n unat_max)
  moreover have "\<not> n \<le> hw_current h" using lt h by simp
  ultimately show ?thesis using assms(5) h
    by (auto simp: next_nonce_def Let_def n [symmetric] advance_ok nonce_inv_def)
qed

lemma start_inv:
  assumes "nonce_inv b lst st" and "unat now < 2 ^ 63" and "2 ^ 63 \<le> b" and "b < u64_max"
    and "hwm_load (ns_disk st) = Inr h"
  shows "nonce_inv b lst (seed_nonce \<lparr>ns_last = 0, ns_hwm = None, ns_disk = ns_disk st\<rparr> h now)"
proof -
  from assms(1) have d: "case hd_live (ns_disk st) of None \<Rightarrow> lst = 0 | Some f \<Rightarrow> f = Whole lst"
    and l: "lst \<le> ns_last st" "unat (ns_last st) \<le> b" by (auto simp: nonce_inv_def)
  have h: "hw_current h = lst" using assms(5) d by (auto simp: hwm_load_def split: option.splits)
  have lb: "unat lst \<le> b" using l by (simp add: word_le_nat_alt)
  then have plus: "unat (lst + 1) = unat lst + 1" using assms(4) by (intro unat_plus_1) simp
  have "unat (sat_sub_u64 (max now (lst + 1)) 1) = max (unat now) (unat lst + 1) - 1"
    by (simp add: unat_sat_sub_u64 unat_max plus)
  then show ?thesis using d h lb assms(2,3)
    by (auto simp: nonce_inv_def seed_nonce_def Let_def next_seed_def word_le_nat_alt)
qed

lemma nonce_run_increasing:
  assumes "nonce_inv b lst st" and "\<forall>e\<in>set evs. event_ok e" and "2 ^ 63 \<le> b" and "b + length evs < u64_max"
  shows "sorted_wrt (<) (lst # nonce_run st evs)"
  using assms
proof (induction evs arbitrary: b lst st)
  case (Cons e evs)
  show ?case
  proof (cases e)
    case (Start now)
    show ?thesis
    proof (cases "hwm_load (ns_disk st)")
      case (Inr h)
      from start_inv [OF Cons.prems(1) _ Cons.prems(3) _ Inr, of now] Cons.prems Start
      have "nonce_inv b lst (seed_nonce \<lparr>ns_last = 0, ns_hwm = None, ns_disk = ns_disk st\<rparr> h now)"
        by (simp add: event_ok_def)
      from Cons.IH [OF this] Cons.prems show ?thesis by (simp add: Start Inr)
    qed (simp add: Start)
  next
    case (Mint now fault)
    obtain st' n where n: "next_nonce st now fault = (st', n)" by (cases "next_nonce st now fault")
    from Cons.prems Mint have f: "fault = None" "unat now < 2 ^ 63" by (simp_all add: event_ok_def)
    from mint_inv [OF Cons.prems(1) f(2) Cons.prems(3) _ n [unfolded f]] Cons.prems(4)
    have i: "lst < n" "nonce_inv (b + 1) n st'" by auto
    from Cons.IH [OF i(2)] Cons.prems have "sorted_wrt (<) (n # nonce_run st' evs)" by simp
    with i(1) show ?thesis by (auto simp: Mint n)
  qed
qed simp

section \<open>Properties\<close>

text \<open>Nonces are never reused: over any history of process starts and mints whose persists succeed,
  with any clock readings (backward jumps included), every nonce is strictly greater than all the
  earlier ones and than the mark that was on disk.\<close>

theorem nonces_strictly_increase:
  assumes "hd_live disk = Some (Whole lst)" and "unat lst < 2 ^ 63" and "unat now < 2 ^ 63"
    and "\<forall>e\<in>set evs. event_ok e" and "length evs < 2 ^ 62"
  shows "sorted_wrt (<) (lst # nonce_run \<lparr>ns_last = 0, ns_hwm = None, ns_disk = disk\<rparr> (Start now # evs))"
proof -
  let ?st = "\<lparr>ns_last = lst, ns_hwm = Some \<lparr>hw_current = lst\<rparr>, ns_disk = disk\<rparr>"
  have "nonce_inv (2 ^ 63) lst ?st" using assms by (simp add: nonce_inv_def)
  moreover have "\<forall>e\<in>set (Start now # evs). event_ok e" using assms(3,4) by (simp add: event_ok_def)
  moreover have "2 ^ 63 + length (Start now # evs) < u64_max" using assms(5) by (simp add: u64_max_def)
  ultimately have "sorted_wrt (<) (lst # nonce_run ?st (Start now # evs))"
    by (intro nonce_run_increasing [of "2 ^ 63"]) simp_all
  then show ?thesis by (cases "hwm_load disk") simp_all
qed

theorem nonces_strictly_increase_witness:
  "sorted_wrt (<) (1000 # nonce_run \<lparr>ns_last = 0, ns_hwm = None,
       ns_disk = \<lparr>hd_live = Some (Whole 1000), hd_tmp = None\<rparr>\<rparr>
       [Start 5000, Mint 5000 None, Mint 5000 None, Start 10, Mint 10 None])"
  using nonces_strictly_increase [of "\<lparr>hd_live = Some (Whole 1000), hd_tmp = None\<rparr>" 1000 5000
      "[Mint 5000 None, Mint 5000 None, Start 10, Mint 10 None]"]
  by (simp add: event_ok_def)

text \<open>The high-water mark is crash-safe: after any number of the writes of an advance the live file
  still holds the old mark or already the new one, never a torn one; the mark in memory moves only
  when all of them succeeded, and never backwards.\<close>

theorem hwm_crash_safe:
  "hd_live (run_steps (take k (advance_steps n)) d) \<in> {hd_live d, Some (Whole n)} \<and>
   (case advance fault d h n of
      (d', h', r) \<Rightarrow>
        hd_live d' \<in> {hd_live d, Some (Whole n)} \<and> hw_current h \<le> hw_current h' \<and>
        (\<not> is_ok r \<longrightarrow> h' = h) \<and> (is_ok r \<longrightarrow> n \<le> hw_current h'))"
  by (auto simp: advance_def advance_steps_crash advance_steps_all split: option.split)

theorem hwm_crash_safe_witness:
  "hd_live (run_steps (take 2 (advance_steps 9)) \<lparr>hd_live = Some (Whole 8), hd_tmp = None\<rparr>) \<noteq> Some Torn"
  using hwm_crash_safe [of 2 9 "\<lparr>hd_live = Some (Whole 8), hd_tmp = None\<rparr>" "\<lparr>hw_current = 8\<rparr>" None] by auto

text \<open>One live writer per network and agent: while the lock of a key is held, a second acquire of the
  same key fails, whatever other locks are taken or released in between.\<close>

theorem single_writer:
  assumes "acquire held sroot key = Inr held1" and "lock_file sroot key \<in> held2"
  shows "lock_file sroot key \<in> held1 \<and> acquire held2 sroot key = Inl (AlreadyLocked (lock_file sroot key)) \<and>
         (lock_file sroot other \<noteq> lock_file sroot key \<longrightarrow>
            lock_file sroot key \<in> release held2 sroot other)"
  using assms by (auto simp: acquire_def Let_def release_def split: if_splits)

theorem single_writer_witness:
  "\<exists>held1. acquire {} ''/s'' ''mainnet:0xa'' = Inr held1 \<and>
     acquire held1 ''/s'' ''mainnet:0xa'' = Inl (AlreadyLocked ''/s/locks/mainnet_0xa.lock'')"
proof -
  have f: "lock_file ''/s'' ''mainnet:0xa'' = ''/s/locks/mainnet_0xa.lock''"
    by (simp add: lock_file_def sanitize_key_def)
  have e: "acquire {} ''/s'' ''mainnet:0xa'' = Inr {''/s/locks/mainnet_0xa.lock''}"
    by (simp add: acquire_def f)
  from single_writer [OF e, of "{''/s/locks/mainnet_0xa.lock''}" "''x''"] e f show ?thesis by simp
qed

end
