(* ===== verification/Sizing.thy ===== *)
theory Sizing
  imports Format
begin

text \<open>
  The pure part of \<open>src/twap.rs\<close>: the plan of a run, pre-flight sizing, the cumulative slice target
  with catch-up, the minimum-notional gate, slice deadlines, the two-clock execution deadline, the
  settle back-off and the fill statistics. An \<open>Instant\<close> or a \<open>Duration\<close> is a natural number of
  nanoseconds; a Unix time in milliseconds and every other \<open>u64\<close> whose overflow the code treats
  explicitly is a 64-bit word.
\<close>

definition ns_per_ms :: nat where
  "ns_per_ms = 1000000"

definition secs :: "nat \<Rightarrow> nanos" where
  "secs n = n * 1000000000"

definition as_millis :: "nanos \<Rightarrow> nat" where
  "as_millis d = d div ns_per_ms"

section \<open>Constants and the settle back-off\<close>

definition MIN_NOTIONAL_USD :: decimal where
  "MIN_NOTIONAL_USD = 10"

definition MIN_NOTIONAL_MARGIN :: decimal where
  "MIN_NOTIONAL_MARGIN = 101 / 100"

definition min_notional_gate :: "dec_lib \<Rightarrow> decimal" where
  "min_notional_gate D = d_mul D MIN_NOTIONAL_USD MIN_NOTIONAL_MARGIN"

definition STALE_BOOK_RETRIES :: nat where
  "STALE_BOOK_RETRIES = 3"

definition STALE_BOOK_RETRY_INTERVAL :: nanos where
  "STALE_BOOK_RETRY_INTERVAL = secs 1"

definition DEFAULT_SETTLE_RETRIES :: nat where
  "DEFAULT_SETTLE_RETRIES = 25"

definition ORDER_STATUS_RETRY_INTERVAL_BASE_SETTLE :: nanos where
  "ORDER_STATUS_RETRY_INTERVAL_BASE_SETTLE = 500 * ns_per_ms"

definition ORDER_STATUS_RETRY_INTERVAL_CAP_SETTLE :: nanos where
  "ORDER_STATUS_RETRY_INTERVAL_CAP_SETTLE = secs 15"

text \<open>Rust's \<open>u64::checked_shl\<close> checks the shift distance only; bits shifted out are lost.\<close>

definition checked_shl_u64 :: "u64 \<Rightarrow> nat \<Rightarrow> u64 option" where
  "checked_shl_u64 w k = (if k < 64 then Some (push_bit k w) else None)"

definition order_status_retry_delay_settle :: "nat \<Rightarrow> nanos" where
  "order_status_retry_delay_settle attempt =
     (let base_ms = (of_nat (as_millis ORDER_STATUS_RETRY_INTERVAL_BASE_SETTLE) :: u64);
          doubled_ms = (case checked_shl_u64 base_ms attempt of Some w \<Rightarrow> w | None \<Rightarrow> - 1)
      in min (unat doubled_ms * ns_per_ms) ORDER_STATUS_RETRY_INTERVAL_CAP_SETTLE)"

definition UNKNOWN_OID_MIN_CONSECUTIVE :: nat where
  "UNKNOWN_OID_MIN_CONSECUTIVE = 3"

definition UNKNOWN_OID_MIN_WINDOW :: nanos where
  "UNKNOWN_OID_MIN_WINDOW = secs 2"

definition UNKNOWN_OID_POLL_INTERVAL :: nanos where
  "UNKNOWN_OID_POLL_INTERVAL = 1100 * ns_per_ms"

definition UNKNOWN_OID_MAX_ATTEMPTS :: nat where
  "UNKNOWN_OID_MAX_ATTEMPTS = 8"

section \<open>The execution deadline\<close>

record execution_deadline =
  dl_monotonic :: nanos
  dl_expires_after_ms :: u64

definition deadline_new :: "nanos \<Rightarrow> nanos \<Rightarrow> u64 \<Rightarrow> execution_deadline" where
  "deadline_new start duration wall_now_ms =
     \<lparr>dl_monotonic = start + duration,
      dl_expires_after_ms = sat_add_u64 wall_now_ms (of_nat (as_millis duration))\<rparr>"

definition deadline_remaining :: "execution_deadline \<Rightarrow> nanos \<Rightarrow> nanos" where
  "deadline_remaining dl now = dl_monotonic dl - now"

definition has_passed :: "execution_deadline \<Rightarrow> nanos \<Rightarrow> bool" where
  "has_passed dl now \<longleftrightarrow> dl_monotonic dl \<le> now"

definition check_before_send :: "execution_deadline \<Rightarrow> nanos \<Rightarrow> hl_error + unit" where
  "check_before_send dl now =
     (if has_passed dl now
      then Inl (InvalidResponse ''execution deadline elapsed; refusing to place or resend'')
      else Inr ())"

definition MAX_CLOCK_SKEW_MS :: int where
  "MAX_CLOCK_SKEW_MS = 5000"

text \<open>
  \<open>i64\<close> subtraction and \<open>abs\<close> as the release build performs them (no overflow checks): both wrap.
\<close>

definition wrapping_abs_i64 :: "i64 \<Rightarrow> i64" where
  "wrapping_abs_i64 w = (if sint w < 0 then - w else w)"

definition check_clock_skew :: "i64 \<Rightarrow> i64 \<Rightarrow> hl_error + unit" where
  "check_clock_skew local_wall_now_ms server_ts_ms =
     (let skew_ms = local_wall_now_ms - server_ts_ms in
      if MAX_CLOCK_SKEW_MS < sint (wrapping_abs_i64 skew_ms)
      then Inl (InvalidConfig ''local clock is skewed from the Hyperliquid server clock'')
      else Inr ())"

section \<open>The plan\<close>

datatype child_algo = Market | Passive | Follow

record twap_plan =
  pl_symbol :: symbol
  pl_side :: side
  pl_asset_index :: nat
  pl_sz_decimals :: nat
  pl_per_slice :: decimal
  pl_total_adjusted :: decimal
  pl_total_requested :: decimal
  pl_slices :: nat
  pl_duration :: nanos
  pl_absolute_deadline_unix_ms :: "u64 option"
  pl_slippage_bps :: decimal
  pl_max_book_age_ms :: u64
  pl_settle_retries :: nat
  pl_read_only :: bool
  pl_reduce_only :: bool
  pl_max_notional_usd :: decimal
  pl_agent :: "address option"
  pl_master :: "address option"
  pl_child_algo :: child_algo
  pl_follow_poll_secs :: nat
  pl_follow_repost_secs :: nat
  pl_follow_threshold_bps :: decimal

record position_guard =
  pg_master :: address
  pg_target_szi :: decimal
  pg_side :: side

definition reached_or_crossed :: "position_guard \<Rightarrow> decimal \<Rightarrow> bool" where
  "reached_or_crossed g current_szi =
     (case pg_side g of
        Long \<Rightarrow> pg_target_szi g \<le> current_szi
      | Short \<Rightarrow> current_szi \<le> pg_target_szi g)"

definition status_user :: "twap_plan \<Rightarrow> hl_error + address" where
  "status_user plan =
     ok_or (InvalidConfig ''orderStatus requires the master address'') (pl_master plan)"

section \<open>Sizing\<close>

datatype preflight_error =
    PerSliceZero decimal nat nat
  | PerSliceBelowMinNotional decimal decimal
  | NonPositiveTotal decimal
  | NonPositiveMid decimal

record sizing =
  sg_per_slice :: decimal
  sg_total_adjusted :: decimal

definition compute_sizing ::
  "dec_lib \<Rightarrow> decimal \<Rightarrow> nat \<Rightarrow> nat \<Rightarrow> decimal \<Rightarrow> preflight_error + sizing" where
  "compute_sizing D total_coin slices sz_decimals mid =
     (if total_coin \<le> 0 then Inl (NonPositiveTotal total_coin)
      else
        let per_slice = round_size D (d_div D total_coin (of_nat slices)) sz_decimals in
        if per_slice \<le> 0 then Inl (PerSliceZero total_coin slices sz_decimals)
        else
          let ntl = d_mul D per_slice mid in
          if ntl < MIN_NOTIONAL_USD then Inl (PerSliceBelowMinNotional ntl MIN_NOTIONAL_USD)
          else Inr \<lparr>sg_per_slice = per_slice,
                    sg_total_adjusted = d_mul D per_slice (of_nat slices)\<rparr>)"

definition usd_to_coin :: "dec_lib \<Rightarrow> decimal \<Rightarrow> decimal \<Rightarrow> preflight_error + decimal" where
  "usd_to_coin D usd mid = (if mid \<le> 0 then Inl (NonPositiveMid mid) else Inr (d_div D usd mid))"

definition target_at_slice :: "dec_lib \<Rightarrow> nat \<Rightarrow> nat \<Rightarrow> decimal \<Rightarrow> decimal \<Rightarrow> decimal" where
  "target_at_slice D slice_idx slices per_slice total_adjusted =
     (if slices \<le> slice_idx then total_adjusted else d_mul D per_slice (of_nat slice_idx))"

definition slice_order_size ::
  "dec_lib \<Rightarrow> nat \<Rightarrow> nat \<Rightarrow> decimal \<Rightarrow> decimal \<Rightarrow> decimal \<Rightarrow> nat \<Rightarrow> decimal" where
  "slice_order_size D slice_idx slices per_slice total_adjusted filled_so_far sz_decimals =
     (let target = target_at_slice D slice_idx slices per_slice total_adjusted;
          raw = d_sub D target filled_so_far
      in if raw \<le> 0 then 0 else round_size D raw sz_decimals)"

datatype slice_decision =
    Place decimal
  | SkipAhead
  | SkipBelowMinNotional decimal decimal

definition decide_slice ::
  "dec_lib \<Rightarrow> nat \<Rightarrow> nat \<Rightarrow> decimal \<Rightarrow> decimal \<Rightarrow> decimal \<Rightarrow> nat \<Rightarrow> decimal \<Rightarrow> slice_decision" where
  "decide_slice D slice_idx slices per_slice total_adjusted filled_so_far sz_decimals order_px =
     (let sz = slice_order_size D slice_idx slices per_slice total_adjusted filled_so_far sz_decimals
      in if sz \<le> 0 then SkipAhead
         else
           let ntl = d_mul D sz order_px in
           if ntl < min_notional_gate D then SkipBelowMinNotional sz ntl else Place sz)"

definition slice_deadline :: "nanos \<Rightarrow> nanos \<Rightarrow> nat \<Rightarrow> nat \<Rightarrow> nanos" where
  "slice_deadline start duration slice_idx slices =
     (let share = duration * slice_idx div slices in start + min share u64_max)"

section \<open>Fill statistics\<close>

record fill_stats =
  fs_filled :: decimal
  fs_notional :: decimal
  fs_prior_notional :: decimal

definition with_prior_notional :: "decimal \<Rightarrow> fill_stats" where
  "with_prior_notional prior = \<lparr>fs_filled = 0, fs_notional = 0, fs_prior_notional = prior\<rparr>"

definition stats_add :: "dec_lib \<Rightarrow> fill_stats \<Rightarrow> decimal \<Rightarrow> decimal \<Rightarrow> fill_stats" where
  "stats_add D st sz px =
     st\<lparr>fs_filled := d_add D (fs_filled st) sz,
        fs_notional := d_add D (fs_notional st) (d_mul D sz px)\<rparr>"

definition cumulative_notional :: "dec_lib \<Rightarrow> fill_stats \<Rightarrow> decimal" where
  "cumulative_notional D st = d_add D (fs_prior_notional st) (fs_notional st)"

definition stats_avg_px :: "dec_lib \<Rightarrow> fill_stats \<Rightarrow> decimal option" where
  "stats_avg_px D st =
     (if 0 < fs_filled st then Some (d_div D (fs_notional st) (fs_filled st)) else None)"


section \<open>Lemmas\<close>

lemma check_before_send_ok [guard_simps]:
  "check_before_send dl now = Inr u \<longleftrightarrow> now < dl_monotonic dl"
  by (auto simp: check_before_send_def has_passed_def)

lemma on_grid_less_gap:
  assumes "on_grid n a" and "on_grid n b" and "a < b"
  shows "1 / 10 ^ n \<le> b - a"
proof -
  from assms obtain i j :: int where ij: "a = of_int i / 10 ^ n" "b = of_int j / 10 ^ n"
    by (metis on_gridE)
  with assms(3) have "i + 1 \<le> j" by (simp add: divide_less_cancel)
  then have "(of_int (i + 1) :: rat) \<le> of_int j" by (simp only: of_int_le_iff)
  then show ?thesis by (simp add: ij diff_divide_distrib [symmetric] divide_right_mono)
qed

lemma representable_bounded_grid:
  "on_grid n x \<Longrightarrow> n \<le> 28 \<Longrightarrow> 0 \<le> x \<Longrightarrow> x \<le> t \<Longrightarrow> t * 10 ^ n < 2 ^ 96 \<Longrightarrow> representable x"
  by (rule representableI [of n]) (auto intro: le_less_trans [OF mult_right_mono])

context decimal_crate
begin

lemma compute_sizing_Inr:
  assumes "compute_sizing D ttl slices n mid = Inr s"
  shows "0 < ttl \<and> sg_per_slice s = round_size D (d_div D ttl (of_nat slices)) n \<and>
         0 < sg_per_slice s \<and> 10 \<le> d_mul D (sg_per_slice s) mid \<and>
         sg_total_adjusted s = d_mul D (sg_per_slice s) (of_nat slices)"
  using assms by (auto simp: compute_sizing_def Let_def MIN_NOTIONAL_USD_def split: if_splits)

lemma per_slice_times_slices_le:
  assumes q: "ttl / of_nat slices \<le> 10 ^ k" and k: "k \<le> 28" and tot: "0 < ttl"
    and grid: "on_grid M ttl" and M: "n \<le> M" and small: "of_nat slices * 10 ^ M < (10::rat) ^ (28 - k)"
    and sl: "0 < slices"
  defines "p \<equiv> round_size D (d_div D ttl (of_nat slices)) n"
  assumes pos: "0 < p"
  shows "p * of_nat slices \<le> ttl"
proof (rule ccontr)
  assume "\<not> ?thesis"
  then have lt: "ttl < p * of_nat slices" by simp
  let ?s = "of_nat slices :: rat"
  have spos: "0 < ?s" using sl by simp
  have "on_grid n p" by (simp add: p_def round_size_grid)
  then have "on_grid M (p * ?s)" using M by (blast intro: on_grid_mult_nat on_grid_mono)
  from on_grid_less_gap [OF grid this lt] have gap: "1 / 10 ^ M \<le> p * ?s - ttl" .
  have "\<bar>d_div D ttl ?s - ttl / ?s\<bar> \<le> 1 / 10 ^ (28 - k)"
    using q tot spos by (intro d_div_error k) (simp_all add: abs_of_pos)
  moreover have "p \<le> d_div D ttl ?s"
  proof (cases "0 \<le> d_div D ttl ?s")
    case True
    then show ?thesis by (simp add: p_def round_size_le)
  next
    case False
    then have "p \<le> 0" using round_rat_zero_neg [of "d_div D ttl ?s" n]
      by (simp add: p_def round_size_def d_round_eq)
    with pos show ?thesis by simp
  qed
  ultimately have "p \<le> ttl / ?s + 1 / 10 ^ (28 - k)" by linarith
  then have "p * ?s \<le> (ttl / ?s + 1 / 10 ^ (28 - k)) * ?s" using spos by (intro mult_right_mono) simp_all
  then have "p * ?s - ttl \<le> ?s / 10 ^ (28 - k)" using spos by (simp add: distrib_right)
  moreover have "?s / 10 ^ (28 - k) < 1 / 10 ^ M" using small by (simp add: field_simps)
  ultimately show False using gap by linarith
qed

lemma compute_sizing_bounds:
  assumes "compute_sizing D ttl slices n mid = Inr s"
    and "ttl / of_nat slices \<le> 10 ^ k" and "k \<le> 28"
    and "on_grid M ttl" and "n \<le> M" and "M \<le> 28" and "of_nat slices * 10 ^ M < (10::rat) ^ (28 - k)"
    and "0 < slices" and "ttl * 10 ^ M < 2 ^ 96"
  shows "0 < sg_per_slice s \<and> on_grid n (sg_per_slice s) \<and> 10 \<le> d_mul D (sg_per_slice s) mid \<and>
         sg_total_adjusted s = sg_per_slice s * of_nat slices \<and> sg_total_adjusted s \<le> ttl"
proof -
  from compute_sizing_Inr [OF assms(1)] have s: "0 < ttl" "0 < sg_per_slice s"
    "sg_per_slice s = round_size D (d_div D ttl (of_nat slices)) n" "10 \<le> d_mul D (sg_per_slice s) mid"
    "sg_total_adjusted s = d_mul D (sg_per_slice s) (of_nat slices)" by auto
  have le: "sg_per_slice s * of_nat slices \<le> ttl"
    using per_slice_times_slices_le [OF assms(2,3) s(1) assms(4,5,7,8)] s(2,3) by simp
  have g: "on_grid n (sg_per_slice s)" by (simp add: s(3) round_size_grid)
  have "on_grid M (sg_per_slice s * of_nat slices)" using g assms(5) by (blast intro: on_grid_mult_nat on_grid_mono)
  then have "representable (sg_per_slice s * of_nat slices)"
    using s(2) assms(6,9) le by (intro representable_bounded_grid [of M _ ttl]) simp_all
  with s g le show ?thesis by (simp add: d_mul_exact)
qed

lemma min_notional_gate_eq: "min_notional_gate D = 101 / 10"
proof -
  have "representable (10 * (101 / 100))"
    by (rule representableI [of 1]) (simp_all add: on_grid_def)
  from d_mul_exact [OF this] show ?thesis
    by (simp add: min_notional_gate_def MIN_NOTIONAL_USD_def MIN_NOTIONAL_MARGIN_def)
qed

lemma slice_order_size_bounds:
  fixes n :: nat
  assumes "representable (target_at_slice D i slices per tot - filled)"
  defines "T \<equiv> target_at_slice D i slices per tot"
  defines "sz \<equiv> slice_order_size D i slices per tot filled n"
  shows "0 \<le> sz \<and> on_grid n sz \<and> (0 < sz \<longrightarrow> filled + sz \<le> T) \<and>
         (filled \<le> T \<longrightarrow> T - (filled + sz) < 1 / 10 ^ n) \<and>
         (filled \<le> T \<longrightarrow> on_grid n T \<longrightarrow> on_grid n filled \<longrightarrow> filled + sz = T)"
proof -
  have sub: "d_sub D T filled = T - filled" using assms(1) by (simp add: T_def d_sub_exact)
  have sz: "sz = (if T - filled \<le> 0 then 0 else round_size D (T - filled) n)"
    by (simp add: sz_def slice_order_size_def Let_def T_def [symmetric] sub)
  show ?thesis
    using round_size_le [of "T - filled" n] round_size_grid [of n "T - filled"]
      round_size_gap [of "T - filled" n] round_size_id [OF on_grid_diff, of n T filled]
    by (auto simp: sz)
qed

lemma target_at_slice_le:
  assumes "representable (per * of_nat i)" and "0 \<le> per" and "tot = per * of_nat slices"
  shows "target_at_slice D i slices per tot \<le> tot"
  using assms by (simp add: target_at_slice_def d_mul_exact mult_left_mono)

lemma decide_slice_Place:
  "decide_slice D i slices per tot filled n px = Place sz \<Longrightarrow>
     sz = slice_order_size D i slices per tot filled n \<and> 0 < sz \<and> 101 / 10 \<le> d_mul D sz px"
  by (auto simp: decide_slice_def Let_def min_notional_gate_eq split: if_splits)

lemma decide_slice_bounds:
  assumes "decide_slice D i slices per tot filled n px = Place sz"
    and "representable (target_at_slice D i slices per tot - filled)"
    and "representable (per * of_nat i)" and "0 \<le> per" and "tot = per * of_nat slices"
  shows "0 < sz \<and> on_grid n sz \<and> 101 / 10 \<le> d_mul D sz px \<and>
         filled + sz \<le> target_at_slice D i slices per tot \<and> filled + sz \<le> tot \<and>
         (on_grid n per \<longrightarrow> on_grid n filled \<longrightarrow> filled + sz = target_at_slice D i slices per tot)"
proof -
  from decide_slice_Place [OF assms(1)] have sz: "sz = slice_order_size D i slices per tot filled n"
    "0 < sz" "101 / 10 \<le> d_mul D sz px" by auto
  have T: "on_grid n per \<Longrightarrow> on_grid n (target_at_slice D i slices per tot)"
    using assms(3,5) by (auto simp: target_at_slice_def d_mul_exact on_grid_mult_nat)
  from target_at_slice_le [OF assms(3,4,5)] slice_order_size_bounds [OF assms(2), of n] sz T
  show ?thesis by auto
qed

end

lemma slice_deadline_eq:
  "duration \<le> u64_max \<Longrightarrow> i \<le> slices \<Longrightarrow> 0 < slices \<Longrightarrow>
     slice_deadline start duration i slices = start + duration * i div slices"
proof -
  assume d: "duration \<le> u64_max" and i: "i \<le> slices" and s: "0 < slices"
  have "duration * i div slices \<le> duration * slices div slices" using i by (intro div_le_mono) simp
  then show ?thesis using d s by (simp add: slice_deadline_def Let_def)
qed

lemma sum_lessThan_numeral: "sum f {..<numeral k} = f (pred_numeral k) + sum f {..<pred_numeral k}"
  for f :: "nat \<Rightarrow> nat"
  by (simp add: numeral_eq_Suc)

lemma order_status_delay_eq:
  assumes "a < 56"
  shows "order_status_retry_delay_settle a = min (500 * ns_per_ms * 2 ^ a) (secs 15)"
proof -
  have "(2::nat) ^ a \<le> 2 ^ 55" using assms by (intro power_increasing) simp_all
  then have "500 * (2::nat) ^ a < 2 ^ 64" by simp
  moreover have "push_bit a (500 :: u64) = of_nat (500 * 2 ^ a)" by (simp add: push_bit_eq_mult)
  ultimately have "unat (push_bit a (500 :: u64)) = 500 * 2 ^ a"
    by (simp only: unsigned_of_nat) (simp add: take_bit_nat_eq_self)
  then show ?thesis using assms
    by (simp add: order_status_retry_delay_settle_def checked_shl_u64_def as_millis_def
        ORDER_STATUS_RETRY_INTERVAL_BASE_SETTLE_def ORDER_STATUS_RETRY_INTERVAL_CAP_SETTLE_def
        ns_per_ms_def secs_def Let_def ac_simps)
qed

section \<open>Properties\<close>

text \<open>Accepted sizing: the slice size is positive, lies on the size grid and is worth at least
  the minimum notional at the reference price, the adjusted total is exactly the slices times it, and
  the run never targets more than was requested. The side conditions bound the request so that the
  28-digit quotient cannot round across a grid point.\<close>

theorem compute_sizing_sound:
  assumes "decimal_crate D" and "compute_sizing D requested slices n mid = Inr s"
    and "requested / of_nat slices \<le> 10 ^ k" and "k \<le> 28"
    and "on_grid M requested" and "n \<le> M" and "M \<le> 28"
    and "of_nat slices * 10 ^ M < (10::rat) ^ (28 - k)"
    and "0 < slices" and "requested * 10 ^ M < 2 ^ 96"
  shows "0 < sg_per_slice s \<and> on_grid n (sg_per_slice s) \<and> 10 \<le> d_mul D (sg_per_slice s) mid \<and>
         sg_total_adjusted s = sg_per_slice s * of_nat slices \<and> sg_total_adjusted s \<le> requested"
  using assms by (rule decimal_crate.compute_sizing_bounds)

theorem compute_sizing_sound_witness:
  "\<exists>s. compute_sizing exact_dec (21 / 2) 3 0 100 = Inr s \<and> sg_total_adjusted s = 9 \<and>
       sg_total_adjusted s \<le> 21 / 2"
proof -
  have fl: "\<lfloor>7 / 2 :: rat\<rfloor> = 3" by (simp add: floor_eq_iff)
  have e: "compute_sizing exact_dec (21 / 2) 3 0 100 = Inr \<lparr>sg_per_slice = 3, sg_total_adjusted = 9\<rparr>"
    by (simp add: compute_sizing_def round_size_def round_rat_def trunc_rat_def MIN_NOTIONAL_USD_def Let_def
        fl)
  have g: "on_grid 1 (21 / 2)" by (rule on_gridI [of _ 105]) simp
  from compute_sizing_sound [OF exact.decimal_crate_axioms e _ _ g, of 1] e show ?thesis by simp
qed

text \<open>Catch-up never overshoots: when a slice is placed, its size is positive and on the grid, its
  notional at the price to be signed clears the 10.10 gate, and together with what is already filled it
  stays within the cumulative target of the slice and within the adjusted total; when the slice size
  and the fills are on the grid, the order catches up to the cumulative target exactly.\<close>

theorem decide_slice_never_overshoots:
  assumes "decimal_crate D" and "decide_slice D i slices per tot filled n px = Place sz"
    and "representable (target_at_slice D i slices per tot - filled)"
    and "representable (per * of_nat i)" and "0 \<le> per" and "tot = per * of_nat slices"
  shows "0 < sz \<and> on_grid n sz \<and> 101 / 10 \<le> d_mul D sz px \<and>
         filled + sz \<le> target_at_slice D i slices per tot \<and> filled + sz \<le> tot \<and>
         (on_grid n per \<longrightarrow> on_grid n filled \<longrightarrow> filled + sz = target_at_slice D i slices per tot)"
  using assms by (rule decimal_crate.decide_slice_bounds)

theorem decide_slice_never_overshoots_witness:
  "decide_slice exact_dec 2 3 3 9 1 0 100 = Place 5 \<and> (1::rat) + 5 \<le> 9"
proof -
  have e: "decide_slice exact_dec 2 3 3 9 1 0 100 = Place 5"
    by (simp add: decide_slice_def slice_order_size_def target_at_slice_def round_size_def Let_def
        round_rat_def trunc_rat_def min_notional_gate_def MIN_NOTIONAL_USD_def MIN_NOTIONAL_MARGIN_def)
  have t: "target_at_slice exact_dec 2 3 3 9 - 1 = 5" by (simp add: target_at_slice_def)
  have r: "representable (5 :: rat)" "representable (3 * of_nat 2)"
    by (rule representableI [of 0]; simp)+
  have "(0::rat) \<le> 3" "(9::rat) = 3 * of_nat 3" by simp_all
  from decide_slice_never_overshoots [OF exact.decimal_crate_axioms e _ r(2) this] t r(1) e
  show ?thesis by simp
qed

text \<open>Slice deadlines do not drift: they start at the start, are ordered, lie within the window,
  end exactly at its end, and two consecutive ones are at most one nanosecond further apart than the
  share of a slice.\<close>

theorem slice_deadline_no_drift:
  assumes "duration \<le> u64_max" and "0 < slices" and "i < slices"
  shows "slice_deadline start duration 0 slices = start \<and>
         slice_deadline start duration i slices \<le> slice_deadline start duration (Suc i) slices \<and>
         slice_deadline start duration (Suc i) slices \<le> start + duration \<and>
         slice_deadline start duration slices slices = start + duration \<and>
         slice_deadline start duration (Suc i) slices \<le>
           slice_deadline start duration i slices + duration div slices + 1"
proof -
  have eq: "slice_deadline start duration j slices = start + duration * j div slices" if "j \<le> slices" for j
    using that assms by (simp add: slice_deadline_eq)
  have "duration * Suc i div slices \<le> duration * slices div slices"
    using assms by (intro div_le_mono mult_le_mono) simp_all
  moreover have "duration * i div slices \<le> duration * Suc i div slices" by (intro div_le_mono) simp
  moreover have "(duration * i + duration) div slices \<le> duration * i div slices + duration div slices + 1"
  proof -
    have "duration * i mod slices < slices" "duration mod slices < slices" using assms by simp_all
    then have "(duration * i mod slices + duration mod slices) div slices < 2"
      by (intro less_mult_imp_div_less) linarith
    then show ?thesis by (subst div_add1_eq) simp
  qed
  ultimately show ?thesis using assms by (simp add: eq ac_simps)
qed

theorem slice_deadline_no_drift_witness:
  "slice_deadline 5 100 (Suc 1) 3 \<le> slice_deadline 5 100 1 3 + 34"
  using slice_deadline_no_drift [of 100 3 1 5] by (simp add: u64_max_def)

text \<open>The settle back-off: no delay exceeds 15 seconds, for the first 56 attempts it doubles
  from 500 ms up to that cap, and the 24 delays of the default budget of 25 attempts sum to exactly
  300.5 seconds; but from attempt 62 on the shifted word is zero, so the two delays of attempts
  62 and 63, which a larger \<open>--settle-retries\<close> reaches, are zero instead of 15 seconds.\<close>

theorem settle_backoff:
  "order_status_retry_delay_settle a \<le> secs 15 \<and>
   (56 \<le> a \<or> order_status_retry_delay_settle a = min (500 * ns_per_ms * 2 ^ a) (secs 15)) \<and>
   (\<Sum>k<DEFAULT_SETTLE_RETRIES - 1. order_status_retry_delay_settle k) = 300500 * ns_per_ms \<and>
   order_status_retry_delay_settle 62 = 0 \<and> order_status_retry_delay_settle 63 = 0"
proof -
  have "order_status_retry_delay_settle a \<le> secs 15"
    by (simp add: order_status_retry_delay_settle_def ORDER_STATUS_RETRY_INTERVAL_CAP_SETTLE_def Let_def)
  moreover have "(\<Sum>k<24. order_status_retry_delay_settle k) =
      (\<Sum>k<24. min (500 * ns_per_ms * 2 ^ k) (secs 15))"
    by (intro sum.cong) (simp_all add: order_status_delay_eq)
  moreover have "(\<Sum>k<24. min (500 * ns_per_ms * 2 ^ k) (secs 15)) = 300500 * ns_per_ms"
    by (simp add: sum_lessThan_numeral ns_per_ms_def secs_def)
  moreover have "order_status_retry_delay_settle 62 = 0" "order_status_retry_delay_settle 63 = 0"
    by (simp_all add: order_status_retry_delay_settle_def checked_shl_u64_def Let_def as_millis_def
        ORDER_STATUS_RETRY_INTERVAL_BASE_SETTLE_def ns_per_ms_def push_bit_eq_mult)
  moreover have "56 \<le> a \<or> order_status_retry_delay_settle a = min (500 * ns_per_ms * 2 ^ a) (secs 15)"
    using order_status_delay_eq [of a] by (cases "a < 56") auto
  ultimately show ?thesis by (simp add: DEFAULT_SETTLE_RETRIES_def)
qed

text \<open>The clock-skew check accepts exactly the skews of at most five seconds, whenever the
  difference of the two clocks fits an \<open>i64\<close>.\<close>

theorem clock_skew_exact:
  assumes "\<bar>sint now - sint server\<bar> < 2 ^ 63"
  shows "check_clock_skew now server = Inr () \<longleftrightarrow> \<bar>sint now - sint server\<bar> \<le> 5000"
proof -
  have sub: "sint (now - server) = sint now - sint server"
    using assms by (simp add: sint_word_diff signed_take_bit_int_eq_self abs_less_iff)
  have "sint (- (now - server)) = - sint (now - server)" if "sint (now - server) < 0"
    using assms that by (simp add: sint_word_minus sub signed_take_bit_int_eq_self abs_less_iff del: minus_diff_eq)
  then have "sint (wrapping_abs_i64 (now - server)) = \<bar>sint (now - server)\<bar>"
    by (simp add: wrapping_abs_i64_def)
  then show ?thesis by (simp add: check_clock_skew_def MAX_CLOCK_SKEW_MS_def Let_def sub)
qed

theorem clock_skew_exact_witness:
  "check_clock_skew 1700000005000 1700000000000 = Inr () \<and>
   check_clock_skew 1700000005001 1700000000000 \<noteq> Inr ()"
  using clock_skew_exact [of 1700000005000 1700000000000]
    clock_skew_exact [of 1700000005001 1700000000000] by simp

end
