(* ===== verification/World.thy ===== *)
theory World
  imports Market Sizing Replay
begin

text \<open>
  The seam of \<open>src/api.rs\<close> as an interface to an environment. A \<open>world\<close> holds the monotonic clock,
  the calls made so far with their responses (newest first, each stamped with the instant it was
  made) and the records that are durable in the journal. The environment \<open>E\<close> answers each call as a
  function of the whole world, with a latency, so it ranges over every exchange, network and disk
  behaviour; computation between two calls takes no time. \<open>scripted\<close> is the environment of the
  repository's own \<open>ScriptedApi\<close>.
\<close>

datatype event =
    EvBook symbol "hl_error + order_book"
  | EvPosition address symbol "hl_error + signed_position"
  | EvPlace order_intent nat u64 "hl_error + u64 \<times> place_outcome"
  | EvCancel cancel_intent nat "hl_error + unit"
  | EvStatus address order_id "hl_error + order_status_fill option"
  | EvStatusCloid address cloid "hl_error + order_status_fill option"
  | EvFills address u64 "u64 option" "hl_error + user_fill list"
  | EvRecord journal_record bool

fun is_place :: "event \<Rightarrow> bool" where
  "is_place (EvPlace i a x r) = True"
| "is_place _ = False"

fun is_prepared :: "journal_record \<Rightarrow> bool" where
  "is_prepared (Prepared k c n s sd tf px sz) = True"
| "is_prepared _ = False"

fun opens_intent :: "event \<Rightarrow> bool" where
  "opens_intent (EvRecord r ok) = is_prepared r"
| "opens_intent _ = False"

record world =
  w_now :: nanos
  w_trace :: "(nanos \<times> event) list"
  w_journal :: "journal_record list"

record env =
  e_book :: "world \<Rightarrow> symbol \<Rightarrow> (hl_error + order_book) \<times> nanos"
  e_position :: "world \<Rightarrow> address \<Rightarrow> symbol \<Rightarrow> (hl_error + signed_position) \<times> nanos"
  e_place :: "world \<Rightarrow> order_intent \<Rightarrow> nat \<Rightarrow> u64 \<Rightarrow> (hl_error + u64 \<times> place_outcome) \<times> nanos"
  e_cancel :: "world \<Rightarrow> cancel_intent \<Rightarrow> nat \<Rightarrow> (hl_error + unit) \<times> nanos"
  e_status :: "world \<Rightarrow> address \<Rightarrow> order_id \<Rightarrow> (hl_error + order_status_fill option) \<times> nanos"
  e_status_cloid :: "world \<Rightarrow> address \<Rightarrow> cloid \<Rightarrow> (hl_error + order_status_fill option) \<times> nanos"
  e_fills :: "world \<Rightarrow> address \<Rightarrow> u64 \<Rightarrow> u64 option \<Rightarrow> (hl_error + user_fill list) \<times> nanos"
  e_record :: "world \<Rightarrow> journal_record \<Rightarrow> bool \<times> nanos"
  e_has_journal :: bool
  e_read_journal :: "world \<Rightarrow> string + journal_record list"
  e_order :: "(cloid \<times> terminal_fill) list \<Rightarrow> (cloid \<times> terminal_fill) list"
  e_cloid :: "world \<Rightarrow> cloid"
  e_wall :: "world \<Rightarrow> u64 option"
  e_chrono :: "world \<Rightarrow> i64"
  e_shutdown :: "nanos option"
  e_race :: "world \<Rightarrow> bool"

definition elapse :: "nanos \<Rightarrow> world \<Rightarrow> world" where
  "elapse d w = w\<lparr>w_now := w_now w + d\<rparr>"

definition log_event :: "event \<Rightarrow> world \<Rightarrow> world" where
  "log_event ev w = w\<lparr>w_trace := (w_now w, ev) # w_trace w\<rparr>"

section \<open>Calls\<close>

definition fetch_l2_book :: "env \<Rightarrow> symbol \<Rightarrow> world \<Rightarrow> (hl_error + order_book) \<times> world" where
  "fetch_l2_book E s w =
     (case e_book E w s of (r, lat) \<Rightarrow> (r, elapse lat (log_event (EvBook s r) w)))"

definition fetch_perp_position ::
  "env \<Rightarrow> address \<Rightarrow> symbol \<Rightarrow> world \<Rightarrow> (hl_error + signed_position) \<times> world" where
  "fetch_perp_position E u s w =
     (case e_position E w u s of (r, lat) \<Rightarrow> (r, elapse lat (log_event (EvPosition u s r) w)))"

definition place_order_once ::
  "env \<Rightarrow> order_intent \<Rightarrow> nat \<Rightarrow> u64 \<Rightarrow> world \<Rightarrow> (hl_error + u64 \<times> place_outcome) \<times> world" where
  "place_order_once E i asset expires w =
     (case e_place E w i asset expires of
        (r, lat) \<Rightarrow> (r, elapse lat (log_event (EvPlace i asset expires r) w)))"

definition cancel_by_cloid ::
  "env \<Rightarrow> cancel_intent \<Rightarrow> nat \<Rightarrow> world \<Rightarrow> (hl_error + unit) \<times> world" where
  "cancel_by_cloid E c asset w =
     (case e_cancel E w c asset of (r, lat) \<Rightarrow> (r, elapse lat (log_event (EvCancel c asset r) w)))"

definition fetch_order_status ::
  "env \<Rightarrow> address \<Rightarrow> order_id \<Rightarrow> world \<Rightarrow> (hl_error + order_status_fill option) \<times> world" where
  "fetch_order_status E u oid w =
     (case e_status E w u oid of (r, lat) \<Rightarrow> (r, elapse lat (log_event (EvStatus u oid r) w)))"

definition fetch_order_status_by_cloid ::
  "env \<Rightarrow> address \<Rightarrow> cloid \<Rightarrow> world \<Rightarrow> (hl_error + order_status_fill option) \<times> world" where
  "fetch_order_status_by_cloid E u c w =
     (case e_status_cloid E w u c of (r, lat) \<Rightarrow> (r, elapse lat (log_event (EvStatusCloid u c r) w)))"

definition fetch_user_fills_by_time ::
  "env \<Rightarrow> address \<Rightarrow> u64 \<Rightarrow> u64 option \<Rightarrow> world \<Rightarrow> (hl_error + user_fill list) \<times> world" where
  "fetch_user_fills_by_time E u s e w =
     (case e_fills E w u s e of (r, lat) \<Rightarrow> (r, elapse lat (log_event (EvFills u s e r) w)))"

text \<open>\<open>ExecutionJournal::record\<close>: durable when it returns \<open>Ok\<close>. An attached journal is optional.\<close>

definition record_durable :: "env \<Rightarrow> journal_record \<Rightarrow> world \<Rightarrow> bool \<times> world" where
  "record_durable E r w =
     (case e_record E w r of
        (ok, lat) \<Rightarrow>
          let w1 = elapse lat (log_event (EvRecord r ok) w)
          in (ok, if ok then w1\<lparr>w_journal := w_journal w1 @ [r]\<rparr> else w1))"

definition journal_write :: "env \<Rightarrow> string \<Rightarrow> journal_record \<Rightarrow> world \<Rightarrow> (hl_error + unit) \<times> world" where
  "journal_write E what r w =
     (if e_has_journal E then
        (case record_durable E r w of
           (ok, w1) \<Rightarrow> (if ok then Inr () else Inl (InvalidResponse what), w1))
      else (Inr (), w))"

section \<open>Clocks and shutdown\<close>

definition wall_clock_now_ms :: "env \<Rightarrow> world \<Rightarrow> u64" where
  "wall_clock_now_ms E w = (case e_wall E w of Some ms \<Rightarrow> ms | None \<Rightarrow> 0)"

definition is_triggered :: "env \<Rightarrow> world \<Rightarrow> bool" where
  "is_triggered E w = (case e_shutdown E of Some s \<Rightarrow> s \<le> w_now w | None \<Rightarrow> False)"

definition sleep_until :: "nanos \<Rightarrow> world \<Rightarrow> world" where
  "sleep_until t w = (if w_now w < t then w\<lparr>w_now := t\<rparr> else w)"

text \<open>\<open>select!\<close> of a sleep of \<open>d\<close> against the shutdown signal: the earlier one wins, and when both are
  ready at the same instant \<open>select!\<close> picks either. \<open>True\<close> means that the shutdown won.\<close>

definition sleep_or_shutdown :: "env \<Rightarrow> nanos \<Rightarrow> world \<Rightarrow> bool \<times> world" where
  "sleep_or_shutdown E d w =
     (case e_shutdown E of
        None \<Rightarrow> (False, elapse d w)
      | Some s \<Rightarrow>
          if s < w_now w + d then (True, elapse (s - w_now w) w)
          else if s = w_now w + d then (e_race E w, elapse d w)
          else (False, elapse d w))"

section \<open>The scripted environment\<close>

record script =
  sc_books :: "(hl_error + order_book) list"
  sc_default_book :: "order_book option"
  sc_positions :: "(hl_error + signed_position) list"
  sc_places :: "(hl_error + place_outcome) list"
  sc_cancels :: "(hl_error + unit) list"
  sc_statuses :: "(hl_error + order_status_fill option) list"
  sc_fills :: "(hl_error + user_fill list) list"

definition count_events :: "(event \<Rightarrow> bool) \<Rightarrow> world \<Rightarrow> nat" where
  "count_events P w = length (filter (\<lambda>te. P (snd te)) (w_trace w))"

fun is_book :: "event \<Rightarrow> bool" where
  "is_book (EvBook s r) = True" | "is_book _ = False"

fun is_position :: "event \<Rightarrow> bool" where
  "is_position (EvPosition u s r) = True" | "is_position _ = False"

fun is_cancel :: "event \<Rightarrow> bool" where
  "is_cancel (EvCancel c a r) = True" | "is_cancel _ = False"

fun is_status :: "event \<Rightarrow> bool" where
  "is_status (EvStatus u oid r) = True" | "is_status (EvStatusCloid u c r) = True" | "is_status _ = False"

fun is_fills :: "event \<Rightarrow> bool" where
  "is_fills (EvFills u s e r) = True" | "is_fills _ = False"

text \<open>The \<open>n\<close>-th call of a kind takes the \<open>n\<close>-th entry of its queue.\<close>

definition pop_front :: "(hl_error + 'a) list \<Rightarrow> (event \<Rightarrow> bool) \<Rightarrow> world \<Rightarrow> (hl_error + 'a) option" where
  "pop_front q P w = nth_opt q (count_events P w)"

definition or_exhausted :: "string \<Rightarrow> (hl_error + 'a) option \<Rightarrow> hl_error + 'a" where
  "or_exhausted what r = (case r of Some x \<Rightarrow> x | None \<Rightarrow> Inl (InvalidResponse what))"

definition scripted_book :: "script \<Rightarrow> world \<Rightarrow> hl_error + order_book" where
  "scripted_book sc w =
     (case pop_front (sc_books sc) is_book w of
        Some r \<Rightarrow> r
      | None \<Rightarrow>
          (case sc_default_book sc of
             Some b \<Rightarrow> Inr b
           | None \<Rightarrow> Inl (InvalidResponse ''ScriptedApi: book queue exhausted and no default_book set'')))"

definition scripted_place :: "script \<Rightarrow> world \<Rightarrow> hl_error + u64 \<times> place_outcome" where
  "scripted_place sc w =
     (case pop_front (sc_places sc) is_place w of
        Some (Inr out) \<Rightarrow> Inr (of_nat (count_events is_place w) + 1, out)
      | Some (Inl e) \<Rightarrow> Inl e
      | None \<Rightarrow> Inl (InvalidResponse ''ScriptedApi: place queue exhausted''))"

text \<open>Every scripted call takes the same latency; the clocks, the cloids and the journal of the test
  harness are arguments.\<close>

definition scripted ::
  "script \<Rightarrow> nanos \<Rightarrow> bool \<Rightarrow> (world \<Rightarrow> cloid) \<Rightarrow> u64 \<Rightarrow> nanos option \<Rightarrow> env" where
  "scripted sc lat journal fresh wall shutdown =
     \<lparr>e_book = (\<lambda>w s. (scripted_book sc w, lat)),
      e_position = (\<lambda>w u s.
        (or_exhausted ''ScriptedApi: position queue exhausted''
           (pop_front (sc_positions sc) is_position w), lat)),
      e_place = (\<lambda>w i a x. (scripted_place sc w, lat)),
      e_cancel = (\<lambda>w c a.
        (case pop_front (sc_cancels sc) is_cancel w of Some r \<Rightarrow> r | None \<Rightarrow> Inr (), lat)),
      e_status = (\<lambda>w u oid.
        (or_exhausted ''ScriptedApi: status queue exhausted''
           (pop_front (sc_statuses sc) is_status w), lat)),
      e_status_cloid = (\<lambda>w u c.
        (or_exhausted ''ScriptedApi: status queue exhausted''
           (pop_front (sc_statuses sc) is_status w), lat)),
      e_fills = (\<lambda>w u s e.
        (or_exhausted ''ScriptedApi: fills queue exhausted''
           (pop_front (sc_fills sc) is_fills w), lat)),
      e_record = (\<lambda>w r. (True, 0)),
      e_has_journal = journal,
      e_read_journal = (\<lambda>w. Inr (w_journal w)),
      e_order = (\<lambda>xs. xs),
      e_cloid = fresh,
      e_wall = (\<lambda>w. Some (wall + of_nat (as_millis (w_now w)))),
      e_chrono = (\<lambda>w. wall + of_nat (as_millis (w_now w))),
      e_shutdown = shutdown,
      e_race = (\<lambda>w. True)\<rparr>"

definition world_init :: world where
  "world_init = \<lparr>w_now = 0, w_trace = [], w_journal = []\<rparr>"

section \<open>Invariants of the calls that do not send\<close>

text \<open>
  The interfaces of every proof about what a run keeps. \<open>read_inv\<close> is a predicate on worlds that holds
  on as time passes and is kept by every call that reads or cancels; \<open>calm_inv\<close> is also kept by the
  records that do not open an intent, \<open>passive_inv\<close> by all of them. The lemmas proved inside hold for each
  such predicate, so a property is proved once per kind of call and not once per operation.
\<close>

fun is_record :: "event \<Rightarrow> bool" where
  "is_record (EvRecord r ok) = True"
| "is_record _ = False"

lemma is_record_cases: "\<not> is_record ev \<Longrightarrow> \<not> opens_intent ev"
  by (cases ev) simp_all

locale read_inv =
  fixes I :: "world \<Rightarrow> bool"
  assumes later: "I w \<Longrightarrow> w_now w \<le> t \<Longrightarrow> I (w\<lparr>w_now := t\<rparr>)"
    and read: "I w \<Longrightarrow> \<not> is_place ev \<Longrightarrow> \<not> is_record ev \<Longrightarrow> I (log_event ev w)"
begin

lemma elapse_keeps [simp]: "I w \<Longrightarrow> I (elapse d w)"
  by (simp add: elapse_def later)

lemma fetch_l2_book_keeps [simp]: "I w \<Longrightarrow> I (snd (fetch_l2_book E s w))"
  by (simp add: fetch_l2_book_def read split_beta)

lemma fetch_perp_position_keeps [simp]: "I w \<Longrightarrow> I (snd (fetch_perp_position E u s w))"
  by (simp add: fetch_perp_position_def read split_beta)

lemma cancel_by_cloid_keeps [simp]: "I w \<Longrightarrow> I (snd (cancel_by_cloid E c a w))"
  by (simp add: cancel_by_cloid_def read split_beta)

lemma fetch_order_status_keeps [simp]: "I w \<Longrightarrow> I (snd (fetch_order_status E u oid w))"
  by (simp add: fetch_order_status_def read split_beta)

lemma fetch_order_status_by_cloid_keeps [simp]:
  "I w \<Longrightarrow> I (snd (fetch_order_status_by_cloid E u c w))"
  by (simp add: fetch_order_status_by_cloid_def read split_beta)

lemma fetch_user_fills_by_time_keeps [simp]:
  "I w \<Longrightarrow> I (snd (fetch_user_fills_by_time E u t0 t1 w))"
  by (simp add: fetch_user_fills_by_time_def read split_beta)

lemma sleep_until_keeps [simp]: "I w \<Longrightarrow> I (sleep_until t w)"
  by (simp add: sleep_until_def later)

lemma sleep_or_shutdown_keeps [simp]: "I w \<Longrightarrow> I (snd (sleep_or_shutdown E d w))"
  by (simp add: sleep_or_shutdown_def split: option.split)

end

locale calm_inv =
  fixes I :: "world \<Rightarrow> bool"
  assumes passing: "I w \<Longrightarrow> w_now w \<le> t \<Longrightarrow> I (w\<lparr>w_now := t\<rparr>)"
    and quiet: "I w \<Longrightarrow> \<not> is_place ev \<Longrightarrow> \<not> opens_intent ev \<Longrightarrow> I (log_event ev w)"
    and recorded: "I w \<Longrightarrow> I (w\<lparr>w_journal := w_journal w @ [r]\<rparr>)"

sublocale calm_inv \<subseteq> read_inv I
  by unfold_locales (auto intro: passing quiet dest: is_record_cases)

context calm_inv
begin

lemma record_durable_keeps [simp]: "I w \<Longrightarrow> \<not> is_prepared r \<Longrightarrow> I (snd (record_durable E r w))"
  by (cases "e_record E w r") (simp add: record_durable_def Let_def quiet recorded)

lemma journal_write_keeps [simp]: "I w \<Longrightarrow> \<not> is_prepared r \<Longrightarrow> I (snd (journal_write E what r w))"
  by (simp add: journal_write_def split_beta)

end

locale passive_inv = calm_inv I for I :: "world \<Rightarrow> bool" +
  assumes opened: "I w \<Longrightarrow> is_prepared r \<Longrightarrow> I (log_event (EvRecord r ok) w)"
begin

lemma record_any_keeps [simp]: "I w \<Longrightarrow> I (snd (record_durable E r w))"
  by (cases "e_record E w r"; cases "is_prepared r")
    (simp_all add: record_durable_def Let_def opened quiet recorded)

lemma journal_write_any_keeps [simp]: "I w \<Longrightarrow> I (snd (journal_write E what r w))"
  by (simp add: journal_write_def split_beta)

end

lemma passive_invI:
  assumes "\<And>w t. I w \<Longrightarrow> w_now w \<le> t \<Longrightarrow> I (w\<lparr>w_now := t\<rparr>)"
    and "\<And>w ev. I w \<Longrightarrow> \<not> is_place ev \<Longrightarrow> I (log_event ev w)"
    and "\<And>w r. I w \<Longrightarrow> I (w\<lparr>w_journal := w_journal w @ [r]\<rparr>)"
  shows "passive_inv I"
  using assms by unfold_locales auto

end
