(* ===== verification/Settle.thy ===== *)
theory Settle
  imports World
begin

text \<open>
  The parts of \<open>src/twap.rs\<close> that read the exchange without sending an order: the validated book
  fetch with its retry budget, the settle cancel, the terminal-status poll, the fill-ledger
  aggregation, the recovery and settlement of a resting child, and the reconciliation of an
  ambiguous cloid. Loops are recursive on the attempts that are left.
\<close>

section \<open>A fresh book\<close>

text \<open>\<open>tokio::time::timeout\<close> around the call: the response when it arrives within the budget, otherwise
  nothing, at the instant the budget ends.\<close>

definition fetch_l2_book_timeout ::
  "env \<Rightarrow> symbol \<Rightarrow> nanos \<Rightarrow> world \<Rightarrow> (hl_error + order_book) option \<times> world" where
  "fetch_l2_book_timeout E s budget w =
     (case e_book E w s of
        (r, lat) \<Rightarrow>
          if lat \<le> budget then (Some r, elapse lat (log_event (EvBook s r) w))
          else (None, elapse budget (log_event (EvBook s (Inl (Other ''elapsed''))) w)))"

definition book_attempt ::
  "env \<Rightarrow> symbol \<Rightarrow> execution_deadline option \<Rightarrow> world \<Rightarrow> (hl_error + order_book) option \<times> world" where
  "book_attempt E s deadline w =
     (case deadline of
        Some dl \<Rightarrow> fetch_l2_book_timeout E s (deadline_remaining dl (w_now w)) w
      | None \<Rightarrow> (case fetch_l2_book E s w of (r, w1) \<Rightarrow> (Some r, w1)))"

definition book_sleep :: "execution_deadline option \<Rightarrow> world \<Rightarrow> nanos" where
  "book_sleep deadline w =
     (case deadline of
        Some dl \<Rightarrow> min STALE_BOOK_RETRY_INTERVAL (deadline_remaining dl (w_now w))
      | None \<Rightarrow> STALE_BOOK_RETRY_INTERVAL)"

fun fresh_book_loop ::
  "dec_lib \<Rightarrow> env \<Rightarrow> symbol \<Rightarrow> u64 \<Rightarrow> execution_deadline option \<Rightarrow> nat \<Rightarrow> world \<Rightarrow>
     (hl_error + snapshot) \<times> world" where
  "fresh_book_loop D E s max_age deadline left w =
     (if (case deadline of Some dl \<Rightarrow> has_passed dl (w_now w) | None \<Rightarrow> False)
      then (Inl (InvalidResponse ''execution deadline elapsed while fetching a fresh book''), w)
      else
        (case book_attempt E s deadline w of
           (None, w1) \<Rightarrow>
             (Inl (InvalidResponse ''execution deadline elapsed while awaiting an in-flight book fetch''), w1)
         | (Some (Inl e), w1) \<Rightarrow> (Inl e, w1)
         | (Some (Inr book), w1) \<Rightarrow>
             (case validate_snapshot D (e_chrono E w1) book s max_age of
                Inr snap \<Rightarrow> (Inr snap, w1)
              | Inl e \<Rightarrow>
                  (case left of
                     0 \<Rightarrow> (Inl (InvalidResponse ''book still invalid after retries''), w1)
                   | Suc l \<Rightarrow>
                       let sleep_for = book_sleep deadline w1 in
                       if sleep_for = 0
                       then (Inl (InvalidResponse
                               ''execution deadline elapsed; refusing to spend further retry budget on a book fetch''), w1)
                       else fresh_book_loop D E s max_age deadline l (elapse sleep_for w1)))))"

declare fresh_book_loop.simps [simp del]

definition fetch_fresh_book ::
  "dec_lib \<Rightarrow> env \<Rightarrow> symbol \<Rightarrow> u64 \<Rightarrow> execution_deadline option \<Rightarrow> world \<Rightarrow>
     (hl_error + snapshot) \<times> world" where
  "fetch_fresh_book D E s max_age deadline w =
     fresh_book_loop D E s max_age deadline STALE_BOOK_RETRIES w"

section \<open>The settle cancel\<close>

datatype cancel_confirmation = Unconfirmed | Cancelled | NotLive

record settle_cancel =
  stc_intent :: cancel_intent
  stc_confirmation :: cancel_confirmation

definition settle_cancel_new :: "twap_plan \<Rightarrow> cloid \<Rightarrow> settle_cancel" where
  "settle_cancel_new plan c =
     \<lparr>stc_intent = \<lparr>ci_symbol = pl_symbol plan, ci_cloid = c\<rparr>, stc_confirmation = Unconfirmed\<rparr>"

definition confirmed :: "settle_cancel \<Rightarrow> bool" where
  "confirmed sc \<longleftrightarrow> stc_confirmation sc \<noteq> Unconfirmed"

fun is_cancel_of_non_live_order :: "hl_error \<Rightarrow> bool" where
  "is_cancel_of_non_live_order (Exchange (Some code) message) =
     (code = ''cancel_error'' \<and>
      contains message ''Order was never placed, already canceled, or filled'')"
| "is_cancel_of_non_live_order _ = False"

definition settle_cancel_send ::
  "env \<Rightarrow> nat \<Rightarrow> settle_cancel \<Rightarrow> world \<Rightarrow> settle_cancel \<times> world" where
  "settle_cancel_send E asset sc w =
     (if confirmed sc then (sc, w)
      else
        (case cancel_by_cloid E (stc_intent sc) asset w of
           (Inr _, w1) \<Rightarrow> (sc\<lparr>stc_confirmation := Cancelled\<rparr>, w1)
         | (Inl e, w1) \<Rightarrow>
             if is_cancel_of_non_live_order e then (sc\<lparr>stc_confirmation := NotLive\<rparr>, w1)
             else (sc, w1)))"

section \<open>Polling for a terminal status\<close>

text \<open>Between two polls: re-send an unconfirmed cancel, then back off.\<close>

definition poll_wait ::
  "env \<Rightarrow> twap_plan \<Rightarrow> nat \<Rightarrow> settle_cancel option \<Rightarrow> world \<Rightarrow> settle_cancel option \<times> world" where
  "poll_wait E plan attempt cancel w =
     (if attempt + 1 < pl_settle_retries plan then
        (case cancel of
           None \<Rightarrow> (None, elapse (order_status_retry_delay_settle attempt) w)
         | Some sc \<Rightarrow>
             (case settle_cancel_send E (pl_asset_index plan) sc w of
                (sc', w1) \<Rightarrow> (Some sc', elapse (order_status_retry_delay_settle attempt) w1)))
      else (cancel, w))"

definition adopt_terminal ::
  "twap_plan \<Rightarrow> order_id \<Rightarrow> cloid \<Rightarrow> order_status_fill \<Rightarrow> hl_error + order_status_fill" where
  "adopt_terminal plan oid c st =
     (if os_oid st \<noteq> oid then Inl (InvalidResponse ''orderStatus cross-check: oid mismatch'')
      else and_then (cross_check st (pl_symbol plan) (pl_side plan) (Some c)) (\<lambda>_. Inr st))"

fun poll_loop ::
  "env \<Rightarrow> twap_plan \<Rightarrow> address \<Rightarrow> order_id \<Rightarrow> cloid \<Rightarrow> nat \<Rightarrow> nat \<Rightarrow> settle_cancel option \<Rightarrow> world \<Rightarrow>
     (hl_error + order_status_fill) \<times> settle_cancel option \<times> world" where
  "poll_loop E plan user oid c 0 attempt cancel w =
     (Inl (InvalidResponse ''could not determine a terminal fill; stopping rather than risk over-ordering''),
      cancel, w)"
| "poll_loop E plan user oid c (Suc left) attempt cancel w =
     (case fetch_order_status E user oid w of
        (r, w1) \<Rightarrow>
          (case (case r of Inr (Some st) \<Rightarrow> if os_is_terminal st then Some st else None | _ \<Rightarrow> None) of
             Some st \<Rightarrow> (adopt_terminal plan oid c st, cancel, w1)
           | None \<Rightarrow>
               (case poll_wait E plan attempt cancel w1 of
                  (cancel', w2) \<Rightarrow> poll_loop E plan user oid c left (attempt + 1) cancel' w2)))"

definition poll_terminal_status ::
  "env \<Rightarrow> twap_plan \<Rightarrow> address \<Rightarrow> order_id \<Rightarrow> cloid \<Rightarrow> settle_cancel option \<Rightarrow> world \<Rightarrow>
     (hl_error + order_status_fill) \<times> settle_cancel option \<times> world" where
  "poll_terminal_status E plan user oid c cancel w =
     poll_loop E plan user oid c (pl_settle_retries plan) 0 cancel w"

section \<open>The fill ledger\<close>

record slice_outcome =
  so_sz :: decimal
  so_px :: decimal

record ledger_acc =
  la_seen :: "u64 \<Rightarrow> user_fill option"
  la_sz :: decimal
  la_notional :: decimal

definition ledger_step ::
  "dec_lib \<Rightarrow> order_intent \<Rightarrow> ledger_acc \<Rightarrow> user_fill \<Rightarrow> hl_error + ledger_acc" where
  "ledger_step D intent acc fill =
     (if uf_coin fill \<noteq> oi_symbol intent \<or> uf_side fill \<noteq> side_wire (oi_side intent)
      then Inl (InvalidResponse ''userFillsByTime identity mismatch'')
      else if uf_cloid fill \<noteq> None \<and> uf_cloid fill \<noteq> Some (oi_cloid intent)
      then Inl (InvalidResponse ''userFillsByTime cloid mismatch'')
      else if uf_sz fill \<le> 0 \<or> uf_px fill \<le> 0
      then Inl (InvalidResponse ''userFillsByTime has non-positive px/sz'')
      else
        (case la_seen acc (uf_tid fill) of
           Some previous \<Rightarrow>
             if previous \<noteq> fill then Inl (InvalidResponse ''userFillsByTime has conflicting duplicate tid'')
             else Inr acc
         | None \<Rightarrow>
             and_then (ok_or (InvalidResponse ''userFillsByTime size overflow'')
                        (d_checked_add D (la_sz acc) (uf_sz fill))) (\<lambda>sz.
             and_then (ok_or (InvalidResponse ''userFillsByTime notional overflow'')
                        (d_checked_mul D (uf_sz fill) (uf_px fill))) (\<lambda>fill_notional.
             and_then (ok_or (InvalidResponse ''userFillsByTime notional overflow'')
                        (d_checked_add D (la_notional acc) fill_notional)) (\<lambda>ntl.
             Inr \<lparr>la_seen = (la_seen acc)(uf_tid fill \<mapsto> fill), la_sz = sz, la_notional = ntl\<rparr>)))))"

definition aggregate_verified_user_fills ::
  "dec_lib \<Rightarrow> user_fill list \<Rightarrow> order_intent \<Rightarrow> order_id \<Rightarrow> bool \<Rightarrow> hl_error + slice_outcome" where
  "aggregate_verified_user_fills D fills intent oid cancel_acknowledged_or_full =
     (if \<not> cancel_acknowledged_or_full
      then Inl (InvalidResponse
             ''refusing to adopt userFillsByTime before cancel acknowledgement or full fill'')
      else
        let matching = filter (\<lambda>f. uf_oid f = oid) fills in
        if matching = [] then Inl (InvalidResponse ''userFillsByTime contains no fill for cancelled oid'')
        else
          and_then (fold_ok (ledger_step D intent)
                     \<lparr>la_seen = (\<lambda>_. None), la_sz = 0, la_notional = 0\<rparr> matching) (\<lambda>acc.
          if oi_sz intent < la_sz acc then Inl (InvalidResponse ''userFillsByTime total exceeds requested'')
          else if la_sz acc < oi_sz intent
          then Inl (InvalidResponse ''userFillsByTime returned only partial total'')
          else if la_sz acc \<le> 0
          then Inl (InvalidResponse ''userFillsByTime has no unique positive fill'')
          else
            and_then (ok_or (InvalidResponse ''userFillsByTime invalid aggregate price'')
                       (d_checked_div D (la_notional acc) (la_sz acc)))
              (\<lambda>px. Inr \<lparr>so_sz = la_sz acc, so_px = px\<rparr>)))"

section \<open>Recovering and settling a resting order\<close>

definition canceled_status ::
  "twap_plan \<Rightarrow> order_id \<Rightarrow> cloid \<Rightarrow> slice_outcome \<Rightarrow> order_status_fill" where
  "canceled_status plan oid c aggregate =
     \<lparr>os_filled_sz = so_sz aggregate, os_avg_px = Some (so_px aggregate), os_status = ''canceled'',
      os_oid = oid, os_cloid = Some c, os_coin = pl_symbol plan, os_side = side_wire (pl_side plan)\<rparr>"

text \<open>The ledger fallback after a confirmed cancel.\<close>

definition recover_from_ledger ::
  "dec_lib \<Rightarrow> env \<Rightarrow> twap_plan \<Rightarrow> cloid \<Rightarrow> order_id \<Rightarrow> order_intent \<Rightarrow> address \<Rightarrow> u64 \<Rightarrow> world \<Rightarrow>
     (hl_error + order_status_fill) \<times> world" where
  "recover_from_ledger D E plan c oid intent user cancel_started_ms w =
     (case e_wall E w of
        None \<Rightarrow> (Inl (InvalidResponse ''system clock before Unix epoch''), w)
      | Some settled \<Rightarrow>
          let cancel_settled_ms = max settled cancel_started_ms in
          (case fetch_user_fills_by_time E user (sat_sub_u64 cancel_started_ms 10000)
                  (Some cancel_settled_ms) w of
             (Inl e, w1) \<Rightarrow> (Inl (InvalidResponse ''userFillsByTime fallback failed''), w1)
           | (Inr fills, w1) \<Rightarrow>
               (case aggregate_verified_user_fills D fills intent oid True of
                  Inl e \<Rightarrow> (Inl (InvalidResponse ''userFillsByTime fallback rejected''), w1)
                | Inr aggregate \<Rightarrow>
                    let st = canceled_status plan oid c aggregate in
                    (case try_from_status st intent of
                       Inl e \<Rightarrow> (Inl e, w1)
                     | Inr _ \<Rightarrow> (Inr st, w1)))))"

definition recover_resting_fill ::
  "dec_lib \<Rightarrow> env \<Rightarrow> twap_plan \<Rightarrow> cloid \<Rightarrow> order_id \<Rightarrow> order_intent \<Rightarrow> world \<Rightarrow>
     (hl_error + order_status_fill) \<times> world" where
  "recover_resting_fill D E plan c oid intent w =
     (case e_wall E w of
        None \<Rightarrow> (Inl (InvalidResponse ''system clock before Unix epoch''), w)
      | Some cancel_started_ms \<Rightarrow>
          (case settle_cancel_send E (pl_asset_index plan) (settle_cancel_new plan c) w of
             (cancel, w1) \<Rightarrow>
               (case status_user plan of
                  Inl e \<Rightarrow> (Inl e, w1)
                | Inr user \<Rightarrow>
                    (case poll_terminal_status E plan user oid c (Some cancel) w1 of
                       (Inr st, _, w2) \<Rightarrow> (Inr st, w2)
                     | (Inl status_err, cancel', w2) \<Rightarrow>
                         if (case cancel' of Some sc \<Rightarrow> confirmed sc | None \<Rightarrow> False)
                         then recover_from_ledger D E plan c oid intent user cancel_started_ms w2
                         else (Inl status_err, w2)))))"

record resting_child =
  rc_cloid :: cloid
  rc_oid :: order_id
  rc_requested_sz :: decimal
  rc_px :: decimal
  rc_slice_idx :: nat

definition journal_terminal ::
  "dec_lib \<Rightarrow> env \<Rightarrow> nat \<Rightarrow> cloid \<Rightarrow> string \<Rightarrow> decimal \<Rightarrow> decimal option \<Rightarrow> world \<Rightarrow>
     (hl_error + unit) \<times> world" where
  "journal_terminal D E slice_idx c status filled_sz avg_px w =
     journal_write E ''journal write (Terminal) failed''
       (Terminal slice_idx c status (d_to_string D filled_sz) (map_option (d_to_string D) avg_px)) w"

definition unwrap_or :: "'a option \<Rightarrow> 'a \<Rightarrow> 'a" where
  "unwrap_or x d = (case x of Some a \<Rightarrow> a | None \<Rightarrow> d)"

definition settle_resting_child ::
  "dec_lib \<Rightarrow> env \<Rightarrow> twap_plan \<Rightarrow> resting_child \<Rightarrow> world \<Rightarrow> (hl_error + slice_outcome) \<times> world" where
  "settle_resting_child D E plan resting w =
     (let intent = \<lparr>oi_cloid = rc_cloid resting, oi_symbol = pl_symbol plan, oi_side = pl_side plan,
                    oi_px = rc_px resting, oi_sz = rc_requested_sz resting, oi_tif = Alo,
                    oi_reduce_only = pl_reduce_only plan\<rparr>
      in case recover_resting_fill D E plan (rc_cloid resting) (rc_oid resting) intent w of
           (Inl e, w1) \<Rightarrow> (Inl e, w1)
         | (Inr st, w1) \<Rightarrow>
             (case try_from_status st intent of
                Inl e \<Rightarrow> (Inl e, w1)
              | Inr vf \<Rightarrow>
                  (case journal_terminal D E (rc_slice_idx resting) (rc_cloid resting) (os_status st)
                          (vf_filled_sz vf) (vf_avg_px vf) w1 of
                     (Inl e, w2) \<Rightarrow> (Inl e, w2)
                   | (Inr _, w2) \<Rightarrow>
                       (Inr \<lparr>so_sz = vf_filled_sz vf, so_px = unwrap_or (vf_avg_px vf) (rc_px resting)\<rparr>,
                        w2))))"

section \<open>Reconciling an ambiguous cloid\<close>

definition reconcile_wait :: "nat \<Rightarrow> world \<Rightarrow> world" where
  "reconcile_wait attempt w =
     (if attempt + 1 < UNKNOWN_OID_MAX_ATTEMPTS then elapse UNKNOWN_OID_POLL_INTERVAL w else w)"

fun reconcile_loop ::
  "env \<Rightarrow> twap_plan \<Rightarrow> address \<Rightarrow> cloid \<Rightarrow> nat \<Rightarrow> nat \<Rightarrow> nanos option \<Rightarrow> nat \<Rightarrow> world \<Rightarrow>
     (hl_error + order_status_fill option) \<times> world" where
  "reconcile_loop E plan user c 0 attempt streak_start streak_count w =
     (Inl (InvalidResponse ''reconciliation could not establish a safe-resend basis''), w)"
| "reconcile_loop E plan user c (Suc left) attempt streak_start streak_count w =
     (case fetch_order_status_by_cloid E user c w of
        (r, w1) \<Rightarrow>
          (case r of
             Inr (Some st) \<Rightarrow>
               if os_is_terminal st then
                 (case cross_check st (pl_symbol plan) (pl_side plan) (Some c) of
                    Inl e \<Rightarrow> (Inl e, w1)
                  | Inr _ \<Rightarrow> (Inr (Some st), w1))
               else reconcile_loop E plan user c left (attempt + 1) None 0 (reconcile_wait attempt w1)
           | Inr None \<Rightarrow>
               let count = streak_count + 1;
                   start = unwrap_or streak_start (w_now w1);
                   elapsed = w_now w1 - start
               in if UNKNOWN_OID_MIN_CONSECUTIVE \<le> count \<and> UNKNOWN_OID_MIN_WINDOW \<le> elapsed
                  then (Inr None, w1)
                  else reconcile_loop E plan user c left (attempt + 1) (Some start) count (reconcile_wait attempt w1)
           | Inl e \<Rightarrow> reconcile_loop E plan user c left (attempt + 1) None 0 (reconcile_wait attempt w1)))"

definition reconcile_by_cloid ::
  "env \<Rightarrow> twap_plan \<Rightarrow> address \<Rightarrow> cloid \<Rightarrow> world \<Rightarrow> (hl_error + order_status_fill option) \<times> world" where
  "reconcile_by_cloid E plan user c w =
     reconcile_loop E plan user c UNKNOWN_OID_MAX_ATTEMPTS 0 None 0 w"

end
