(* ===== verification/Place.thy ===== *)
theory Place
  imports Settle_Facts
begin

text \<open>
  The two sending operations of \<open>src/twap.rs\<close>: \<open>place_alo_child\<close>, which sends a post-only order at
  most once, and \<open>place_slice_reconciled\<close>, which sends an IOC order and resends it only after the
  exchange has proved it absent. \<open>try_w\<close> is the \<open>?\<close> operator on a stateful result; the messages of
  \<open>abort_reason\<close> are their constant parts.
\<close>

definition try_w :: "('e + 'a) \<times> world \<Rightarrow> ('a \<Rightarrow> world \<Rightarrow> ('e + 'b) \<times> world) \<Rightarrow> ('e + 'b) \<times> world" where
  "try_w m f = (case m of (Inl e, w) \<Rightarrow> (Inl e, w) | (Inr a, w) \<Rightarrow> f a w)"

definition err_w :: "('e \<Rightarrow> 'f) \<Rightarrow> ('e + 'a) \<times> world \<Rightarrow> ('f + 'a) \<times> world" where
  "err_w f m = (map_err f (fst m), snd m)"

definition AMBIGUOUS_ALO_CANCEL_ATTEMPTS :: nat where
  "AMBIGUOUS_ALO_CANCEL_ATTEMPTS = 3"

definition PLACE_RESEND_LIMIT :: nat where
  "PLACE_RESEND_LIMIT = 2"

definition RECONCILE_DELAY :: nanos where
  "RECONCILE_DELAY = 500 * ns_per_ms"

definition ALO_REJECT_EXACT :: "string list" where
  "ALO_REJECT_EXACT = [''badalopxrejected'', ''post only order would have immediately matched'']"

definition is_alo_reject :: "string option \<Rightarrow> string \<Rightarrow> bool" where
  "is_alo_reject code message \<longleftrightarrow>
     code = Some ''badAloPxRejected'' \<or>
     list_ex (contains (to_ascii_lowercase message)) ALO_REJECT_EXACT"

definition check_before_place :: "env \<Rightarrow> position_guard \<Rightarrow> symbol \<Rightarrow> world \<Rightarrow> (hl_error + bool) \<times> world" where
  "check_before_place E g s w =
     try_w (fetch_perp_position E (pg_master g) s w)
       (\<lambda>p w1. (Inr (reached_or_crossed g (sp_szi p)), w1))"

definition prepared_record :: "dec_lib \<Rightarrow> nat \<Rightarrow> order_intent \<Rightarrow> journal_record" where
  "prepared_record D slice_idx i =
     Prepared slice_idx (oi_cloid i) None (oi_symbol i) (oi_side i) (Some (oi_tif i))
       (d_to_string D (oi_px i)) (d_to_string D (oi_sz i))"

section \<open>Before a send\<close>

datatype gate = Proceed | TargetReached | ShutdownSeen

text \<open>
  The commit point both sends share: the deadline, the authoritative position when the phase has a
  guard, the deadline again, the shutdown flag. An intent that is not sent is closed as a terminal
  record of size zero.
\<close>

definition position_gate ::
  "dec_lib \<Rightarrow> env \<Rightarrow> position_guard option \<Rightarrow> symbol \<Rightarrow> nat \<Rightarrow> cloid \<Rightarrow> world \<Rightarrow> (hl_error + bool) \<times> world" where
  "position_gate D E guard s slice_idx c w =
     (case guard of
        None \<Rightarrow> (Inr False, w)
      | Some g \<Rightarrow>
          (case check_before_place E g s w of
             (Inr True, w1) \<Rightarrow>
               try_w (journal_terminal D E slice_idx c ''positionTargetReached'' 0 None w1)
                 (\<lambda>_ w2. (Inr True, w2))
           | (Inr False, w1) \<Rightarrow> (Inr False, w1)
           | (Inl e, w1) \<Rightarrow>
               try_w (journal_terminal D E slice_idx c ''neverReceived'' 0 None w1)
                 (\<lambda>_ w2. (Inl (InvalidResponse ''authoritative position check failed closed''), w2))))"

definition commit_gate ::
  "dec_lib \<Rightarrow> env \<Rightarrow> execution_deadline \<Rightarrow> position_guard option \<Rightarrow> symbol \<Rightarrow> nat \<Rightarrow> cloid \<Rightarrow> world \<Rightarrow>
     (hl_error + gate) \<times> world" where
  "commit_gate D E dl guard s slice_idx c w =
     try_w (check_before_send dl (w_now w), w) (\<lambda>_ w1.
     try_w (position_gate D E guard s slice_idx c w1) (\<lambda>reached w2.
       if reached then (Inr TargetReached, w2)
       else
         try_w (check_before_send dl (w_now w2), w2) (\<lambda>_ w3.
           if is_triggered E w3 then
             try_w (journal_terminal D E slice_idx c ''neverReceived'' 0 None w3)
               (\<lambda>_ w4. (Inr ShutdownSeen, w4))
           else (Inr Proceed, w3))))"

section \<open>A post-only child\<close>

datatype alo_outcome =
    AloResting resting_child
  | AloRejectedSkip
  | AloSettled slice_outcome
  | AloTargetReached
  | AloShutdown

definition alo_intent :: "twap_plan \<Rightarrow> cloid \<Rightarrow> decimal \<Rightarrow> decimal \<Rightarrow> order_intent" where
  "alo_intent plan c px sz =
     \<lparr>oi_cloid = c, oi_symbol = pl_symbol plan, oi_side = pl_side plan, oi_px = px, oi_sz = sz,
      oi_tif = Alo, oi_reduce_only = pl_reduce_only plan\<rparr>"

text \<open>Validate a terminal status against the intent and journal it, as every settlement does.\<close>

definition adopt_status ::
  "dec_lib \<Rightarrow> env \<Rightarrow> nat \<Rightarrow> order_intent \<Rightarrow> order_status_fill \<Rightarrow> world \<Rightarrow>
     (hl_error + slice_outcome) \<times> world" where
  "adopt_status D E slice_idx i st w =
     try_w (try_from_status st i, w) (\<lambda>vf w1.
     try_w (journal_terminal D E slice_idx (oi_cloid i) (os_status st) (vf_filled_sz vf)
              (vf_avg_px vf) w1)
       (\<lambda>_ w2. (Inr \<lparr>so_sz = vf_filled_sz vf, so_px = unwrap_or (vf_avg_px vf) (oi_px i)\<rparr>, w2)))"

fun ambiguous_cancel_loop ::
  "env \<Rightarrow> twap_plan \<Rightarrow> nat \<Rightarrow> nat \<Rightarrow> settle_cancel \<Rightarrow> world \<Rightarrow> settle_cancel \<times> world" where
  "ambiguous_cancel_loop E plan 0 attempt sc w = (sc, w)"
| "ambiguous_cancel_loop E plan (Suc left) attempt sc w =
     (case settle_cancel_send E (pl_asset_index plan) sc w of
        (sc', w1) \<Rightarrow>
          if confirmed sc' then (sc', w1)
          else ambiguous_cancel_loop E plan left (attempt + 1) sc'
                 (if attempt + 1 < AMBIGUOUS_ALO_CANCEL_ATTEMPTS
                  then elapse (order_status_retry_delay_settle attempt) w1 else w1))"

fun ambiguous_error :: "cancel_confirmation \<Rightarrow> string" where
  "ambiguous_error Cancelled = ''failed after ambiguous ALO send; a cancel was acknowledged''"
| "ambiguous_error NotLive = ''failed after ambiguous ALO send; no live order for this cloid''"
| "ambiguous_error Unconfirmed = ''failed after ambiguous ALO send; the order may still be live''"

definition alo_ambiguous ::
  "dec_lib \<Rightarrow> env \<Rightarrow> twap_plan \<Rightarrow> nat \<Rightarrow> order_intent \<Rightarrow> world \<Rightarrow> (string + alo_outcome) \<times> world" where
  "alo_ambiguous D E plan slice_idx i w =
     try_w (err_w (\<lambda>_. ''journal write (SubmittedUnknown) failed'')
              (journal_write E [] (SubmittedUnknown slice_idx (oi_cloid i)) w)) (\<lambda>_ w1.
     try_w (err_w (\<lambda>_. ''failed after ambiguous ALO send'') (status_user plan, w1)) (\<lambda>user w2.
       (case fetch_order_status_by_cloid E user (oi_cloid i) w2 of
          (Inr (Some st), w3) \<Rightarrow>
            try_w (err_w (\<lambda>_. ''ambiguous ALO status cross-check failed'')
                     (cross_check st (pl_symbol plan) (pl_side plan) (Some (oi_cloid i)), w3)) (\<lambda>_ w4.
            if os_is_terminal st then
              try_w (err_w (\<lambda>_. ''ambiguous ALO terminal fill not adopted'')
                       (adopt_status D E slice_idx i st w4)) (\<lambda>out w5. (Inr (AloSettled out), w5))
            else
              try_w (err_w (\<lambda>_. ''ambiguous ALO was live but cancel/settle failed'')
                       (recover_resting_fill D E plan (oi_cloid i) (os_oid st) i w4)) (\<lambda>settled w5.
              try_w (err_w (\<lambda>_. ''ambiguous ALO settled fill not adopted'')
                       (adopt_status D E slice_idx i settled w5)) (\<lambda>out w6. (Inr (AloSettled out), w6))))
        | (_, w3) \<Rightarrow>
            (case ambiguous_cancel_loop E plan AMBIGUOUS_ALO_CANCEL_ATTEMPTS 0
                    (settle_cancel_new plan (oi_cloid i)) w3 of
               (sc, w4) \<Rightarrow> (Inl (ambiguous_error (stc_confirmation sc)), w4)))))"

definition alo_response ::
  "dec_lib \<Rightarrow> env \<Rightarrow> twap_plan \<Rightarrow> nat \<Rightarrow> order_intent \<Rightarrow> hl_error + u64 \<times> place_outcome \<Rightarrow> world \<Rightarrow>
     (string + alo_outcome) \<times> world" where
  "alo_response D E plan slice_idx i r w =
     (case r of
        Inr (_, Resting oid) \<Rightarrow>
          try_w (err_w (\<lambda>_. ''journal write (Acknowledged) failed'')
                   (journal_write E [] (Acknowledged slice_idx (oi_cloid i) (Some oid) ''resting'') w))
            (\<lambda>_ w1. (Inr (AloResting \<lparr>rc_cloid = oi_cloid i, rc_oid = oid, rc_requested_sz = oi_sz i,
                              rc_px = oi_px i, rc_slice_idx = slice_idx\<rparr>), w1))
      | Inr (_, Filled oid sz px) \<Rightarrow>
          (Inl ''ALO placement returned an unexpected Filled outcome'', w)
      | Inl (Exchange code message) \<Rightarrow>
          if is_alo_reject code message then
            try_w (err_w (\<lambda>_. ''journal write (Terminal, aloRejected) failed'')
                     (journal_terminal D E slice_idx (oi_cloid i) ''aloRejected'' 0 None w))
              (\<lambda>_ w1. (Inr AloRejectedSkip, w1))
          else (Inl (''rejected by exchange: '' @ message @ '' - '' @ advice (classify message)), w)
      | Inl _ \<Rightarrow> alo_ambiguous D E plan slice_idx i w)"

definition place_alo_child ::
  "dec_lib \<Rightarrow> env \<Rightarrow> twap_plan \<Rightarrow> execution_deadline \<Rightarrow> nat \<Rightarrow> cloid \<Rightarrow> decimal \<Rightarrow> decimal \<Rightarrow>
     position_guard option \<Rightarrow> world \<Rightarrow> (string + alo_outcome) \<times> world" where
  "place_alo_child D E plan dl slice_idx c px order_sz guard w =
     (let i = alo_intent plan c px order_sz in
      try_w (err_w (\<lambda>_. ''journal write (Prepared) failed'')
               (journal_write E [] (prepared_record D slice_idx i) w)) (\<lambda>_ w1.
      try_w (err_w (\<lambda>_. ''execution deadline elapsed or position check failed before ALO send'')
               (commit_gate D E dl guard (pl_symbol plan) slice_idx c w1)) (\<lambda>g w2.
        (case g of
           TargetReached \<Rightarrow> (Inr AloTargetReached, w2)
         | ShutdownSeen \<Rightarrow> (Inr AloShutdown, w2)
         | Proceed \<Rightarrow>
             (case place_order_once E i (pl_asset_index plan) (dl_expires_after_ms dl) w2 of
                (r, w3) \<Rightarrow> alo_response D E plan slice_idx i r w3)))))"

section \<open>An IOC slice\<close>

datatype place_slice_outcome = Settled slice_outcome | SliceTargetReached | SliceShutdown

text \<open>The response to one send: \<open>None\<close> is an ambiguous transport failure.\<close>

definition ioc_response ::
  "dec_lib \<Rightarrow> env \<Rightarrow> twap_plan \<Rightarrow> nat \<Rightarrow> order_intent \<Rightarrow> hl_error + u64 \<times> place_outcome \<Rightarrow> world \<Rightarrow>
     (hl_error + slice_outcome option) \<times> world" where
  "ioc_response D E plan slice_idx i r w =
     (case r of
        Inr (_, Filled oid sz px) \<Rightarrow>
          try_w (try_from_place (Filled oid sz px) i, w) (\<lambda>vf w1.
          try_w (journal_terminal D E slice_idx (oi_cloid i) ''filled'' (vf_filled_sz vf)
                   (Some (unwrap_or (vf_avg_px vf) (oi_px i))) w1)
            (\<lambda>_ w2. (Inr (Some \<lparr>so_sz = vf_filled_sz vf, so_px = unwrap_or (vf_avg_px vf) (oi_px i)\<rparr>), w2)))
      | Inr (_, Resting oid) \<Rightarrow>
          try_w (journal_write E ''journal write (Acknowledged) failed''
                   (Acknowledged slice_idx (oi_cloid i) (Some oid) ''resting'') w) (\<lambda>_ w1.
          try_w (recover_resting_fill D E plan (oi_cloid i) oid i w1) (\<lambda>st w2.
          try_w (adopt_status D E slice_idx i st w2) (\<lambda>out w3. (Inr (Some out), w3))))
      | Inl (Exchange code message) \<Rightarrow>
          try_w (journal_terminal D E slice_idx (oi_cloid i) ''rejected'' 0 None w)
            (\<lambda>_ w1. (Inl (Exchange code message), w1))
      | Inl (Network m) \<Rightarrow> (Inr None, w)
      | Inl e \<Rightarrow> (Inl e, w))"

text \<open>
  After an ambiguous send: one durable marker, a pause, then the reconciliation. \<open>Inr None\<close> lets the
  loop send again.
\<close>

definition ioc_reconcile ::
  "dec_lib \<Rightarrow> env \<Rightarrow> twap_plan \<Rightarrow> execution_deadline \<Rightarrow> nat \<Rightarrow> order_intent \<Rightarrow> bool \<Rightarrow> world \<Rightarrow>
     (hl_error + place_slice_outcome option) \<times> world" where
  "ioc_reconcile D E plan dl slice_idx i recorded w =
     try_w (if recorded then (Inr (), w)
            else journal_write E ''journal write (SubmittedUnknown) failed''
                   (SubmittedUnknown slice_idx (oi_cloid i)) w) (\<lambda>_ w1.
     try_w (status_user plan, elapse RECONCILE_DELAY w1) (\<lambda>user w2.
       (case reconcile_by_cloid E plan user (oi_cloid i) w2 of
          (Inr (Some st), w3) \<Rightarrow>
            try_w (adopt_status D E slice_idx i st w3) (\<lambda>out w4. (Inr (Some (Settled out)), w4))
        | (Inr None, w3) \<Rightarrow>
            if pl_reduce_only plan then
              (Inl (InvalidResponse ''ambiguous reduce-only order was absent; refusing all in-process resends''),
               w3)
            else if is_triggered E w3 then
              try_w (journal_terminal D E slice_idx (oi_cloid i) ''neverReceived'' 0 None w3)
                (\<lambda>_ w4. (Inr (Some SliceShutdown), w4))
            else try_w (check_before_send dl (w_now w3), w3) (\<lambda>_ w4. (Inr None, w4))
        | (Inl e, w3) \<Rightarrow>
            (Inl (InvalidResponse ''place outcome UNKNOWN and reconciliation failed''), w3))))"

fun place_loop ::
  "dec_lib \<Rightarrow> env \<Rightarrow> twap_plan \<Rightarrow> execution_deadline \<Rightarrow> nat \<Rightarrow> order_intent \<Rightarrow> position_guard option \<Rightarrow>
     nat \<Rightarrow> bool \<Rightarrow> world \<Rightarrow> (hl_error + place_slice_outcome) \<times> world" where
  "place_loop D E plan dl slice_idx i guard left recorded w =
     try_w (commit_gate D E dl guard (pl_symbol plan) slice_idx (oi_cloid i) w) (\<lambda>g w1.
       (case g of
          TargetReached \<Rightarrow> (Inr SliceTargetReached, w1)
        | ShutdownSeen \<Rightarrow> (Inr SliceShutdown, w1)
        | Proceed \<Rightarrow>
            (case place_order_once E i (pl_asset_index plan) (dl_expires_after_ms dl) w1 of
               (r, w2) \<Rightarrow>
                 try_w (ioc_response D E plan slice_idx i r w2) (\<lambda>done w3.
                   (case done of
                      Some out \<Rightarrow> (Inr (Settled out), w3)
                    | None \<Rightarrow>
                        try_w (ioc_reconcile D E plan dl slice_idx i recorded w3) (\<lambda>resolved w4.
                          (case resolved of
                             Some out \<Rightarrow> (Inr out, w4)
                           | None \<Rightarrow>
                               (case left of
                                  0 \<Rightarrow> (Inl (Network ''place failed and HL never received the order''), w4)
                                | Suc l \<Rightarrow> place_loop D E plan dl slice_idx i guard l True w4))))))))"

declare place_loop.simps [simp del]

definition place_slice_reconciled ::
  "dec_lib \<Rightarrow> env \<Rightarrow> twap_plan \<Rightarrow> order_intent \<Rightarrow> execution_deadline \<Rightarrow> nat \<Rightarrow> position_guard option \<Rightarrow>
     world \<Rightarrow> (hl_error + place_slice_outcome) \<times> world" where
  "place_slice_reconciled D E plan i dl slice_idx guard w =
     try_w (check_before_send dl (w_now w), w) (\<lambda>_ w1.
     try_w (journal_write E ''journal write (Prepared) failed'' (prepared_record D slice_idx i) w1)
       (\<lambda>_ w2. place_loop D E plan dl slice_idx i guard PLACE_RESEND_LIMIT False w2))"

end
