(* ===== verification/Place_Facts.thy ===== *)
theory Place_Facts
  imports Place
begin

text \<open>
  What the sending operations guarantee. \<open>guarded_sends\<close> is the interface of the safety proofs: a
  predicate on worlds kept by every call but a send, and by a send from a world where it is allowed.
  Its lemmas hold for each such predicate; the trace predicates below are its instances.
\<close>

section \<open>Sequencing\<close>

lemma try_w_split:
  "P (try_w m f) \<longleftrightarrow>
     (\<forall>e. fst m = Inl e \<longrightarrow> P (Inl e, snd m)) \<and> (\<forall>a. fst m = Inr a \<longrightarrow> P (f a (snd m)))"
  by (cases m; cases "fst m") (auto simp: try_w_def)

lemma try_w_Inr:
  "try_w m f = (Inr b, w') \<longleftrightarrow> (\<exists>a w1. m = (Inr a, w1) \<and> f a w1 = (Inr b, w'))"
  by (cases m; cases "fst m") (auto simp: try_w_def)

lemma fst_try_w_Inr:
  "fst (try_w m f) = Inr b \<longleftrightarrow> (\<exists>a. fst m = Inr a \<and> fst (f a (snd m)) = Inr b)"
  by (cases m; cases "fst m") (auto simp: try_w_def)

lemma snd_try_w_Inr: "fst m = Inr a \<Longrightarrow> snd (try_w m f) = snd (f a (snd m))"
  by (cases m) (simp add: try_w_def)

lemma err_w_simps [simp]: "snd (err_w g m) = snd m" "fst (err_w g m) = map_err g (fst m)"
  by (simp_all add: err_w_def)

text \<open>A postcondition of the successful result.\<close>

definition yields :: "('a \<Rightarrow> world \<Rightarrow> bool) \<Rightarrow> ('e + 'a) \<times> world \<Rightarrow> bool" where
  "yields R m = (case m of (Inl _, _) \<Rightarrow> True | (Inr a, w) \<Rightarrow> R a w)"

lemma yields_simps [simp]: "yields R (Inl e, w)" "yields R (Inr a, w) = R a w"
  by (simp_all add: yields_def)

lemma yields_try: "(\<And>a w. m = (Inr a, w) \<Longrightarrow> yields R (f a w)) \<Longrightarrow> yields R (try_w m f)"
  by (cases m; cases "fst m") (auto simp: try_w_def)

lemma yieldsD: "yields R m \<Longrightarrow> m = (Inr a, w) \<Longrightarrow> R a w"
  by simp

lemma yields_fst: "yields R m \<Longrightarrow> fst m = Inr a \<Longrightarrow> R a (snd m)"
  by (cases m) simp

lemma yields_alt: "(\<And>a. fst m = Inr a \<Longrightarrow> R a (snd m)) \<Longrightarrow> yields R m"
  by (cases m; cases "fst m") auto

text \<open>One rule per kind of first step: any step, a pure check, a step whose error is mapped.\<close>

lemma yields_bind:
  "yields Q m \<Longrightarrow> (\<And>a w. Q a w \<Longrightarrow> yields R (f a w)) \<Longrightarrow> yields R (try_w m f)"
  by (cases m; cases "fst m") (auto simp: try_w_def)

lemma yields_any: "(\<And>a w. yields R (f a w)) \<Longrightarrow> yields R (try_w m f)"
  by (cases m; cases "fst m") (auto simp: try_w_def)

lemma yields_pure: "(\<And>a. r = Inr a \<Longrightarrow> yields R (f a w)) \<Longrightarrow> yields R (try_w (r, w) f)"
  by (cases r) (auto simp: try_w_def)

lemma yields_err: "yields Q m \<Longrightarrow> yields Q (err_w g m)"
  by (cases m; cases "fst m") (auto simp: err_w_def map_err_def)

lemma yields_bind_err:
  "yields Q m \<Longrightarrow> (\<And>a w. Q a w \<Longrightarrow> yields R (f a w)) \<Longrightarrow> yields R (try_w (err_w g m) f)"
  by (rule yields_bind [OF yields_err])

lemma yields_any_err: "(\<And>a w. yields R (f a w)) \<Longrightarrow> yields R (try_w (err_w g m) f)"
  by (rule yields_any)

lemma yields_pure_err: "(\<And>a. r = Inr a \<Longrightarrow> yields R (f a w)) \<Longrightarrow> yields R (try_w (err_w g (r, w)) f)"
  by (cases r) (auto simp: try_w_def err_w_def map_err_def)

context read_inv
begin

lemma try_w_keeps [simp]:
  "I (snd m) \<Longrightarrow> (\<And>a w. I w \<Longrightarrow> I (snd (f a w))) \<Longrightarrow> I (snd (try_w m f))"
  by (cases m; cases "fst m") (auto simp: try_w_def)

lemma check_before_place_keeps [simp]: "I w \<Longrightarrow> I (snd (check_before_place E g s w))"
  by (simp add: check_before_place_def)

end

context calm_inv
begin

lemma position_gate_keeps [simp]: "I w \<Longrightarrow> I (snd (position_gate D E g s k c w))"
  by (simp add: position_gate_def split_beta split: option.split sum.split bool.split)

lemma commit_gate_keeps [simp]: "I w \<Longrightarrow> I (snd (commit_gate D E dl g s k c w))"
  by (simp add: commit_gate_def)

lemma adopt_status_keeps [simp]: "I w \<Longrightarrow> I (snd (adopt_status D E k i st w))"
  by (simp add: adopt_status_def)

lemma ambiguous_cancel_loop_keeps [simp]:
  "I w \<Longrightarrow> I (snd (ambiguous_cancel_loop E plan left k sc w))"
  by (induction left arbitrary: k sc w) (simp_all add: split_beta)

lemma alo_ambiguous_keeps [simp]: "I w \<Longrightarrow> I (snd (alo_ambiguous D E plan k i w))"
  by (simp add: alo_ambiguous_def split_beta split: option.split sum.split)

lemma alo_response_keeps [simp]: "I w \<Longrightarrow> I (snd (alo_response D E plan k i r w))"
  by (simp add: alo_response_def split_beta
      split: sum.split hl_error.split place_outcome.split)

lemma ioc_response_keeps [simp]: "I w \<Longrightarrow> I (snd (ioc_response D E plan k i r w))"
  by (simp add: ioc_response_def split_beta
      split: sum.split hl_error.split place_outcome.split)

lemma ioc_reconcile_keeps [simp]: "I w \<Longrightarrow> I (snd (ioc_reconcile D E plan dl k i b w))"
  by (simp add: ioc_reconcile_def split_beta split: sum.split option.split)

end

section \<open>When a send is allowed\<close>

fun is_prepared_event :: "dec_lib \<Rightarrow> order_intent \<Rightarrow> event \<Rightarrow> bool" where
  "is_prepared_event D i (EvRecord (Prepared k c n s sd tf px sz) ok) \<longleftrightarrow>
     ok \<and> Prepared k c n s sd tf px sz = prepared_record D k i"
| "is_prepared_event D i _ = False"

definition prepared_world :: "dec_lib \<Rightarrow> order_intent \<Rightarrow> world \<Rightarrow> bool" where
  "prepared_world D i w = list_ex (\<lambda>te. is_prepared_event D i (snd te)) (w_trace w)"

interpretation prep: passive_inv "prepared_world D i" for D i
  by (rule passive_invI) (auto simp: prepared_world_def log_event_def)

lemma prepared_after_place [simp]:
  "prepared_world D i w \<Longrightarrow> prepared_world D i (snd (place_order_once E j a x w))"
  by (simp add: place_order_once_def prepared_world_def elapse_def log_event_def split_beta)

lemma prepared_after_write:
  "e_has_journal E \<Longrightarrow> fst (journal_write E m (prepared_record D k i) w) = Inr u \<Longrightarrow>
     prepared_world D i (snd (journal_write E m (prepared_record D k i) w))"
  by (auto simp: journal_write_def record_durable_def split_beta Let_def prepared_world_def elapse_def
      log_event_def prepared_record_def split: if_splits)

definition may_send ::
  "dec_lib \<Rightarrow> env \<Rightarrow> execution_deadline \<Rightarrow> (order_intent \<Rightarrow> nat \<Rightarrow> bool) \<Rightarrow> order_intent \<Rightarrow> nat \<Rightarrow> world \<Rightarrow> bool" where
  "may_send D E dl C i a w \<longleftrightarrow>
     w_now w < dl_monotonic dl \<and> \<not> is_triggered E w \<and> (e_has_journal E \<longrightarrow> prepared_world D i w) \<and> C i a"

lemma commit_gate_Proceed:
  "fst (commit_gate D E dl g s k c w) = Inr Proceed \<Longrightarrow>
     w_now (snd (commit_gate D E dl g s k c w)) < dl_monotonic dl \<and>
     \<not> is_triggered E (snd (commit_gate D E dl g s k c w))"
  unfolding commit_gate_def
  by (auto simp: fst_try_w_Inr check_before_send_ok snd_try_w_Inr split: if_splits)

locale guarded_sends = passive_inv I for I :: "world \<Rightarrow> bool" +
  fixes D :: dec_lib and E :: env and dl :: execution_deadline and C :: "order_intent \<Rightarrow> nat \<Rightarrow> bool"
  assumes sent: "I w \<Longrightarrow> may_send D E dl C i a w \<Longrightarrow>
                   I (snd (place_order_once E i a (dl_expires_after_ms dl) w))"
begin

lemma gated_send:
  assumes "I w" and "e_has_journal E \<longrightarrow> prepared_world D i w" and "C i a"
    and "fst (commit_gate D E dl g s k c w) = Inr Proceed"
  shows "I (snd (place_order_once E i a (dl_expires_after_ms dl) (snd (commit_gate D E dl g s k c w))))"
  using assms commit_gate_Proceed [OF assms(4)] by (intro sent) (auto simp: may_send_def)

lemma place_alo_child_guarded [simp]:
  assumes "I w" and "C (alo_intent plan c px sz) (pl_asset_index plan)"
  shows "I (snd (place_alo_child D E plan dl k c px sz g w))"
  using assms prepared_after_write
  by (simp add: place_alo_child_def Let_def split_beta gated_send split: try_w_split gate.split)

lemma place_loop_guarded:
  "I w \<Longrightarrow> e_has_journal E \<longrightarrow> prepared_world D i w \<Longrightarrow> C i (pl_asset_index plan) \<Longrightarrow>
     I (snd (place_loop D E plan dl k i g left b w))"
proof (induction left arbitrary: b w)
  case 0
  then show ?case
    by (subst place_loop.simps)
      (simp add: split_beta gated_send split: try_w_split gate.split option.split)
next
  case (Suc left)
  then show ?case
    by (subst place_loop.simps)
      (simp add: split_beta gated_send split: try_w_split gate.split option.split)
qed

lemma place_slice_reconciled_guarded [simp]:
  assumes "I w" and "C i (pl_asset_index plan)"
  shows "I (snd (place_slice_reconciled D E plan i dl k g w))"
  using assms prepared_after_write
  by (simp add: place_slice_reconciled_def place_loop_guarded split: try_w_split)

end

end
