(* ===== verification/Scripts.thy ===== *)
theory Scripts
  imports Place_Facts
begin

text \<open>
  Concrete plans, books and scripts, on which the witnesses of the properties of a run are evaluated.
\<close>

definition demo_plan :: twap_plan where
  "demo_plan =
     \<lparr>pl_symbol = ''BTC'', pl_side = Long, pl_asset_index = 0, pl_sz_decimals = 2, pl_per_slice = 1,
      pl_total_adjusted = 2, pl_total_requested = 2, pl_slices = 2, pl_duration = secs 60,
      pl_absolute_deadline_unix_ms = None, pl_slippage_bps = 50, pl_max_book_age_ms = 0,
      pl_settle_retries = 3, pl_read_only = False, pl_reduce_only = False, pl_max_notional_usd = 1000,
      pl_agent = Some ''0xa'', pl_master = Some ''0xm'', pl_child_algo = Market,
      pl_follow_poll_secs = 5, pl_follow_repost_secs = 5, pl_follow_threshold_bps = 5\<rparr>"

definition demo_intent :: order_intent where
  "demo_intent =
     \<lparr>oi_cloid = 7, oi_symbol = ''BTC'', oi_side = Long, oi_px = 101, oi_sz = 1, oi_tif = Ioc,
      oi_reduce_only = False\<rparr>"

definition demo_deadline :: execution_deadline where
  "demo_deadline = \<lparr>dl_monotonic = secs 60, dl_expires_after_ms = 60000\<rparr>"

definition demo_script :: script where
  "demo_script =
     \<lparr>sc_books = [], sc_default_book = None, sc_positions = [], sc_places = [], sc_cancels = [],
      sc_statuses = [], sc_fills = []\<rparr>"

text \<open>The first send is lost, the exchange does not know the order, the second send fills.\<close>

definition lost_send :: script where
  "lost_send =
     demo_script\<lparr>sc_places := [Inl (Network ''timeout''), Inr (Filled 42 1 100)],
                 sc_statuses := [Inr None, Inr None, Inr None]\<rparr>"

definition scripted_env :: "script \<Rightarrow> bool \<Rightarrow> nanos option \<Rightarrow> env" where
  "scripted_env sc journal shutdown = scripted sc 1000000 journal (\<lambda>w. of_nat (length (w_trace w))) 0 shutdown"

section \<open>Evaluation\<close>

text \<open>
  Facts with which \<open>simp\<close> runs an operation on a scripted environment; the environment stays folded
  and a continuation is not rewritten before its argument is a value.
\<close>

lemma scripted_env_simps:
  "e_book (scripted_env sc j s) w sy = (scripted_book sc w, 1000000)"
  "e_position (scripted_env sc j s) w u sy =
     (or_exhausted ''ScriptedApi: position queue exhausted'' (pop_front (sc_positions sc) is_position w), 1000000)"
  "e_place (scripted_env sc j s) w i a x = (scripted_place sc w, 1000000)"
  "e_cancel (scripted_env sc j s) w c a =
     (case pop_front (sc_cancels sc) is_cancel w of Some r \<Rightarrow> r | None \<Rightarrow> Inr (), 1000000)"
  "e_status (scripted_env sc j s) w u oid =
     (or_exhausted ''ScriptedApi: status queue exhausted'' (pop_front (sc_statuses sc) is_status w), 1000000)"
  "e_status_cloid (scripted_env sc j s) w u cl =
     (or_exhausted ''ScriptedApi: status queue exhausted'' (pop_front (sc_statuses sc) is_status w), 1000000)"
  "e_fills (scripted_env sc j s) w u t0 t1 =
     (or_exhausted ''ScriptedApi: fills queue exhausted'' (pop_front (sc_fills sc) is_fills w), 1000000)"
  "e_record (scripted_env sc j s) w r = (True, 0)"
  "e_has_journal (scripted_env sc j s) = j"
  "e_read_journal (scripted_env sc j s) w = Inr (w_journal w)"
  "e_order (scripted_env sc j s) xs = xs"
  "e_cloid (scripted_env sc j s) w = of_nat (length (w_trace w))"
  "e_wall (scripted_env sc j s) w = Some (of_nat (as_millis (w_now w)))"
  "e_chrono (scripted_env sc j s) w = of_nat (as_millis (w_now w))"
  "e_shutdown (scripted_env sc j s) = s"
  "e_race (scripted_env sc j s) w = True"
  by (simp_all add: scripted_env_def scripted_def)

lemma try_w_simps: "try_w (Inl e, w) f = (Inl e, w)" "try_w (Inr a, w) f = f a w"
  by (simp_all add: try_w_def)

lemma try_w_cong_weak: "m = m' \<Longrightarrow> try_w m f = try_w m' f"
  by simp

lemmas reconcile_loop_numeral = reconcile_loop.simps(2) [of _ _ _ _ "pred_numeral v", folded numeral_eq_Suc] for v
lemmas poll_loop_numeral = poll_loop.simps(2) [of _ _ _ _ _ "pred_numeral v", folded numeral_eq_Suc] for v

lemmas world_defs = elapse_def log_event_def fetch_l2_book_def fetch_perp_position_def place_order_once_def
  cancel_by_cloid_def fetch_order_status_def fetch_order_status_by_cloid_def fetch_user_fills_by_time_def
  record_durable_def journal_write_def wall_clock_now_ms_def is_triggered_def sleep_until_def sleep_or_shutdown_def
  scripted_book_def scripted_place_def or_exhausted_def pop_front_def count_events_def nth_opt_def world_init_def
  secs_def ns_per_ms_def as_millis_def

lemmas demo_defs = demo_plan_def demo_intent_def demo_deadline_def demo_script_def lost_send_def scripted_env_simps

lemmas settle_defs = fetch_fresh_book_def fresh_book_loop.simps book_attempt_def book_sleep_def
  fetch_l2_book_timeout_def settle_cancel_new_def confirmed_def settle_cancel_send_def poll_wait_def
  adopt_terminal_def poll_loop_numeral poll_terminal_status_def canceled_status_def recover_resting_fill_def
  journal_terminal_def settle_resting_child_def reconcile_loop_numeral reconcile_by_cloid_def
  reconcile_wait_def unwrap_or_def status_user_def validate_fill_def price_within_limit_def ok_or_def
  try_from_status_def cross_check_def
  UNKNOWN_OID_MIN_CONSECUTIVE_def UNKNOWN_OID_MIN_WINDOW_def UNKNOWN_OID_POLL_INTERVAL_def
  UNKNOWN_OID_MAX_ATTEMPTS_def

lemmas place_defs = place_slice_reconciled_def place_loop.simps try_w_simps err_w_def commit_gate_def
  position_gate_def check_before_place_def check_before_send_def has_passed_def prepared_record_def
  ioc_response_def ioc_reconcile_def adopt_status_def PLACE_RESEND_LIMIT_def RECONCILE_DELAY_def

lemmas alo_defs = place_alo_child_def alo_intent_def alo_response_def alo_ambiguous_def

lemmas run_eval = world_defs demo_defs settle_defs place_defs alo_defs Let_def

end
