(* ===== verification/Resend.thy ===== *)
theory Resend
  imports Scripts
begin

text \<open>
  The safe-resend policy of \<open>place_slice_reconciled\<close> as a predicate on the trace of calls: an order is
  sent again under its cloid only after at least three consecutive \<open>unknownOid\<close> answers for it, over at
  least two seconds, none of them older than the previous send.
\<close>

section \<open>The trace predicates\<close>

fun is_place_of :: "cloid \<Rightarrow> event \<Rightarrow> bool" where
  "is_place_of c (EvPlace i a x r) \<longleftrightarrow> oi_cloid i = c"
| "is_place_of c _ = False"

definition places_of :: "cloid \<Rightarrow> (nanos \<times> event) list \<Rightarrow> nat" where
  "places_of c tr = length (filter (\<lambda>te. is_place_of c (snd te)) tr)"

text \<open>The by-cloid status queries since the last send of \<open>c\<close>, newest first: when, and whether the
  answer was \<open>unknownOid\<close>.\<close>

fun queries_since_send :: "cloid \<Rightarrow> (nanos \<times> event) list \<Rightarrow> (nanos \<times> bool) list" where
  "queries_since_send c [] = []"
| "queries_since_send c ((t, ev) # tr) =
     (if is_place_of c ev then []
      else
        (case ev of
           EvStatusCloid u c' r \<Rightarrow>
             if c' = c then (t, r = Inr None) # queries_since_send c tr else queries_since_send c tr
         | _ \<Rightarrow> queries_since_send c tr))"

definition streak_of :: "nat \<Rightarrow> (nanos \<times> bool) list \<Rightarrow> bool" where
  "streak_of n qs \<longleftrightarrow>
     n \<le> length qs \<and> list_all snd (take n qs) \<and>
     UNKNOWN_OID_MIN_CONSECUTIVE \<le> n \<and> UNKNOWN_OID_MIN_WINDOW \<le> fst (qs ! 0) - fst (qs ! (n - 1))"

definition absent_proved :: "cloid \<Rightarrow> (nanos \<times> event) list \<Rightarrow> bool" where
  "absent_proved c tr =
     (let qs = queries_since_send c tr in list_ex (\<lambda>n. streak_of n qs) [0 ..< Suc (length qs)])"

fun resends_justified :: "cloid \<Rightarrow> (nanos \<times> event) list \<Rightarrow> bool" where
  "resends_justified c [] = True"
| "resends_justified c ((t, ev) # tr) \<longleftrightarrow>
     (is_place_of c ev \<longrightarrow> places_of c tr = 0 \<or> absent_proved c tr) \<and> resends_justified c tr"

lemma absent_provedI: "streak_of n (queries_since_send c tr) \<Longrightarrow> absent_proved c tr"
  unfolding absent_proved_def Let_def list_ex_iff
  by (rule bexI [of _ n]) (auto simp: streak_of_def simp del: upt_Suc)

section \<open>The reconciliation proves absence\<close>

definition paced :: "nat \<Rightarrow> nanos \<Rightarrow> (nanos \<times> bool) list \<Rightarrow> bool" where
  "paced n now qs \<longleftrightarrow>
     n \<le> length qs \<and> list_all snd (take n qs) \<and>
     (0 < n \<longrightarrow> fst (qs ! (n - 1)) + n * UNKNOWN_OID_POLL_INTERVAL \<le> now)"

lemma paced_0 [simp]: "paced 0 now qs"
  by (simp add: paced_def)

lemma queries_elapse [simp]: "w_trace (elapse d w) = w_trace w"
  by (simp add: elapse_def)

lemma fetch_status_cloid_trace:
  "w_trace (snd (fetch_order_status_by_cloid E u c w)) =
     (w_now w, EvStatusCloid u c (fst (fetch_order_status_by_cloid E u c w))) # w_trace w"
  by (simp add: fetch_order_status_by_cloid_def split_beta log_event_def elapse_def)

lemma fetch_status_cloid_now: "w_now w \<le> w_now (snd (fetch_order_status_by_cloid E u c w))"
  by (simp add: fetch_order_status_by_cloid_def split_beta log_event_def elapse_def)

lemma paced_step:
  assumes "paced n now qs" and "now + UNKNOWN_OID_POLL_INTERVAL \<le> later"
  shows "paced (Suc n) later ((now, True) # qs)"
  using assms by (cases n) (auto simp: paced_def nth_Cons split: nat.split)

lemma paced_streak:
  assumes "paced n now qs" and "UNKNOWN_OID_MIN_CONSECUTIVE \<le> Suc n"
  shows "streak_of (Suc n) ((now, True) # qs)"
proof -
  have "2 \<le> n" using assms(2) by (simp add: UNKNOWN_OID_MIN_CONSECUTIVE_def)
  then have "2 * UNKNOWN_OID_POLL_INTERVAL \<le> n * UNKNOWN_OID_POLL_INTERVAL" by (rule mult_le_mono1)
  moreover have "UNKNOWN_OID_MIN_WINDOW \<le> 2 * UNKNOWN_OID_POLL_INTERVAL"
    by (simp add: UNKNOWN_OID_MIN_WINDOW_def UNKNOWN_OID_POLL_INTERVAL_def secs_def ns_per_ms_def)
  moreover have "fst (qs ! (n - 1)) + n * UNKNOWN_OID_POLL_INTERVAL \<le> now"
    using assms(1) \<open>2 \<le> n\<close> by (simp add: paced_def)
  ultimately have "UNKNOWN_OID_MIN_WINDOW \<le> now - fst (qs ! (n - 1))" by linarith
  then show ?thesis using assms \<open>2 \<le> n\<close> by (auto simp: paced_def streak_of_def nth_Cons')
qed

lemma reconcile_loop_absent:
  assumes "fst (reconcile_loop E plan u c left k start n w) = Inr None"
    and "k + left = UNKNOWN_OID_MAX_ATTEMPTS"
    and "0 < left \<Longrightarrow> paced n (w_now w) (queries_since_send c (w_trace w))"
  shows "absent_proved c (w_trace (snd (reconcile_loop E plan u c left k start n w)))"
  using assms
proof (induction left arbitrary: k start n w)
  case (Suc left)
  define r where "r = fst (fetch_order_status_by_cloid E u c w)"
  define w1 where "w1 = snd (fetch_order_status_by_cloid E u c w)"
  define wait where "wait = reconcile_wait k w1"
  have f: "fetch_order_status_by_cloid E u c w = (r, w1)" by (simp add: r_def w1_def)
  have tr: "w_trace w1 = (w_now w, EvStatusCloid u c r) # w_trace w"
    by (simp add: r_def w1_def fetch_status_cloid_trace)
  have wait_tr: "w_trace wait = w_trace w1" by (simp add: wait_def reconcile_wait_def)
  have qs: "queries_since_send c (w_trace w1) = (w_now w, r = Inr None) # queries_since_send c (w_trace w)"
    by (simp add: tr)
  have later: "w_now w + UNKNOWN_OID_POLL_INTERVAL \<le> w_now wait" if "0 < left"
    using that Suc.prems(2) fetch_status_cloid_now [of w E u c]
    by (simp add: wait_def reconcile_wait_def elapse_def w1_def)
  have k: "k + 1 + left = UNKNOWN_OID_MAX_ATTEMPTS" using Suc.prems(2) by simp
  have p: "paced n (w_now w) (queries_since_send c (w_trace w))" using Suc.prems(3) by simp
  have again: "absent_proved c (w_trace (snd (reconcile_loop E plan u c left (k + 1) s m wait)))"
    if "fst (reconcile_loop E plan u c left (k + 1) s m wait) = Inr None"
      and "m = 0 \<or> (r = Inr None \<and> m = Suc n)" for s m
  proof (rule Suc.IH [OF that(1) k])
    assume "0 < left"
    then show "paced m (w_now wait) (queries_since_send c (w_trace wait))"
      using that(2) paced_step [OF p later] by (auto simp: wait_tr qs)
  qed
  have fin: "absent_proved c (w_trace w1)"
    if "r = Inr None" and "UNKNOWN_OID_MIN_CONSECUTIVE \<le> n + 1"
    using paced_streak [OF p] that by (intro absent_provedI [of "Suc n"]) (simp add: qs)
  show ?case
  proof (cases r)
    case (Inl e)
    with again [of None 0] Suc.prems(1) show ?thesis by (simp add: f wait_def [symmetric])
  next
    case (Inr so)
    then show ?thesis
    proof (cases so)
      case None
      with Inr again [of _ "Suc n"] fin Suc.prems(1) show ?thesis
        by (simp add: f Let_def wait_def [symmetric] split: if_splits)
    next
      case (Some st)
      with Inr again [of None 0] Suc.prems(1) show ?thesis
        by (simp add: f wait_def [symmetric] split: if_splits sum.splits)
    qed
  qed
qed simp

lemma reconcile_by_cloid_absent:
  "fst (reconcile_by_cloid E plan u c w) = Inr None \<Longrightarrow>
     absent_proved c (w_trace (snd (reconcile_by_cloid E plan u c w)))"
  unfolding reconcile_by_cloid_def by (rule reconcile_loop_absent) simp_all

section \<open>The resend loop\<close>

definition resend_inv :: "cloid \<Rightarrow> nat \<Rightarrow> world \<Rightarrow> bool" where
  "resend_inv c n w \<longleftrightarrow> resends_justified c (w_trace w) \<and> places_of c (w_trace w) = n"

interpretation rsd: passive_inv "resend_inv c n" for c n
proof (rule passive_invI)
  fix w ev
  assume "resend_inv c n w" "\<not> is_place ev"
  then show "resend_inv c n (log_event ev w)"
    by (cases ev) (auto simp: resend_inv_def log_event_def places_of_def)
qed (auto simp: resend_inv_def)

lemma fresh_resend_inv: "places_of c (w_trace w) = 0 \<Longrightarrow> resend_inv c 0 w"
proof -
  have "places_of c tr = 0 \<Longrightarrow> resends_justified c tr" for tr
    by (induction c tr rule: resends_justified.induct) (auto simp: places_of_def split: if_splits)
  then show "places_of c (w_trace w) = 0 \<Longrightarrow> resend_inv c 0 w" by (simp add: resend_inv_def)
qed

lemma send_resend_inv:
  assumes "resend_inv (oi_cloid i) n w" and "n = 0 \<or> absent_proved (oi_cloid i) (w_trace w)"
  shows "resend_inv (oi_cloid i) (Suc n) (snd (place_order_once E i a x w))"
  using assms
  by (auto simp: resend_inv_def place_order_once_def split_beta elapse_def log_event_def places_of_def)

text \<open>The commit point asks for positions only, so a proof of absence reaches the send.\<close>

definition same_queries :: "cloid \<Rightarrow> (nanos \<times> bool) list \<Rightarrow> world \<Rightarrow> bool" where
  "same_queries c qs w \<longleftrightarrow> queries_since_send c (w_trace w) = qs"

lemma same_queries_steps [simp]:
  "same_queries c qs (elapse d w) = same_queries c qs w"
  "same_queries c qs (log_event (EvPosition u s p) w) = same_queries c qs w"
  "same_queries c qs (log_event (EvRecord r b) w) = same_queries c qs w"
  "same_queries c qs (w\<lparr>w_journal := js\<rparr>) = same_queries c qs w"
  by (simp_all add: same_queries_def log_event_def)

lemma same_queries_journal [simp]:
  "same_queries c qs (snd (journal_write E m r w)) = same_queries c qs w"
  by (simp add: journal_write_def record_durable_def split_beta Let_def)

lemma same_queries_try:
  "same_queries c qs (snd m) \<Longrightarrow> (\<And>a w. same_queries c qs w \<Longrightarrow> same_queries c qs (snd (f a w))) \<Longrightarrow>
     same_queries c qs (snd (try_w m f))"
  by (cases m; cases "fst m") (auto simp: try_w_def)

lemma same_queries_position: "same_queries c qs w \<Longrightarrow> same_queries c qs (snd (position_gate D E g s k c' w))"
  by (simp add: position_gate_def check_before_place_def fetch_perp_position_def journal_terminal_def
      split_beta same_queries_try split: option.split sum.split bool.split)

lemma same_queries_gate: "same_queries c qs w \<Longrightarrow> same_queries c qs (snd (commit_gate D E dl g s k c' w))"
  by (simp add: commit_gate_def journal_terminal_def same_queries_try same_queries_position)

lemma absent_proved_gate [simp]:
  "absent_proved c (w_trace (snd (commit_gate D E dl g s k c' w))) \<longleftrightarrow> absent_proved c (w_trace w)"
  using same_queries_gate [of c "queries_since_send c (w_trace w)" w]
  by (simp add: absent_proved_def same_queries_def)

lemma ioc_reconcile_yields:
  "yields (\<lambda>r w'. r = None \<longrightarrow> absent_proved (oi_cloid i) (w_trace w') \<and> \<not> pl_reduce_only plan)
     (ioc_reconcile D E plan dl k i b w)"
proof -
  have absent: "absent_proved c (w_trace w')" if "reconcile_by_cloid E plan u c w2 = (Inr None, w')" for u c w2 w'
    using reconcile_by_cloid_absent [of E plan u c w2] that by simp
  show ?thesis
    unfolding ioc_reconcile_def
    by (intro yields_try) (auto intro!: yields_try simp: absent split: prod.splits sum.splits option.splits)
qed

lemmas ioc_reconcile_None = yields_fst [OF ioc_reconcile_yields, simplified]

lemma place_loop_resend_inv:
  assumes "resend_inv (oi_cloid i) n w" and "n = 0 \<or> absent_proved (oi_cloid i) (w_trace w)"
  shows "\<exists>m \<le> n + (if pl_reduce_only plan then 1 else left + 1).
           resend_inv (oi_cloid i) m (snd (place_loop D E plan dl k i g left b w))"
  using assms
proof (induction left arbitrary: n b w)
  case 0
  have "resend_inv (oi_cloid i) (Suc n) (snd (place_order_once E i a x (snd (commit_gate D E dl g s k c w))))"
    for a x s c using 0 by (intro send_resend_inv) auto
  then show ?case using 0
    by (subst place_loop.simps)
      (auto simp: split_beta intro: exI [of _ n] exI [of _ "Suc n"] split: try_w_split gate.split option.split)
next
  case (Suc left)
  have sent: "resend_inv (oi_cloid i) (Suc n) (snd (place_order_once E i a x (snd (commit_gate D E dl g s k c w))))"
    for a x s c using Suc.prems by (intro send_resend_inv) auto
  have again: "\<exists>m \<le> n + (if pl_reduce_only plan then 1 else Suc left + 1). resend_inv (oi_cloid i) m
      (snd (place_loop D E plan dl k i g left True (snd (ioc_reconcile D E plan dl k i b w1))))"
    if "resend_inv (oi_cloid i) (Suc n) w1" and "fst (ioc_reconcile D E plan dl k i b w1) = Inr None" for w1
    using Suc.IH [of "Suc n" "snd (ioc_reconcile D E plan dl k i b w1)" True] that ioc_reconcile_None [OF that(2)]
    by auto
  show ?case using Suc.prems sent again
    by (subst place_loop.simps)
      (auto simp: split_beta intro: exI [of _ n] exI [of _ "Suc n"] split: try_w_split gate.split option.split)
qed

section \<open>Properties\<close>

text \<open>C6: \<open>place_slice_reconciled\<close> sends an order again only after the exchange has answered
  \<open>unknownOid\<close> for its cloid at least three times in a row over at least two seconds since the previous
  send; it sends at most three times in all, and a reduce-only order at most once.\<close>

theorem resend_only_after_absence:
  assumes "places_of (oi_cloid i) (w_trace w) = 0"
    and "place_slice_reconciled D E plan i dl k g w = (r, w')"
  shows "resends_justified (oi_cloid i) (w_trace w') \<and>
         places_of (oi_cloid i) (w_trace w') \<le> (if pl_reduce_only plan then 1 else 1 + PLACE_RESEND_LIMIT)"
proof -
  have w': "w' = snd (place_slice_reconciled D E plan i dl k g w)" using assms(2) by simp
  have start: "resend_inv (oi_cloid i) 0 w" by (rule fresh_resend_inv [OF assms(1)])
  define bound :: nat where "bound = (if pl_reduce_only plan then 1 else PLACE_RESEND_LIMIT + 1)"
  have loop: "\<exists>m \<le> bound. resend_inv (oi_cloid i) m (snd (place_loop D E plan dl k i g PLACE_RESEND_LIMIT False w2))"
    if "resend_inv (oi_cloid i) 0 w2" for w2
    using place_loop_resend_inv [OF that, of plan PLACE_RESEND_LIMIT] by (simp add: bound_def)
  have "resend_inv (oi_cloid i) 0 w2 \<Longrightarrow> \<exists>m \<le> bound. resend_inv (oi_cloid i) m w2" for w2 by auto
  with loop start have "\<exists>m \<le> bound. resend_inv (oi_cloid i) m w'"
    unfolding w' place_slice_reconciled_def by (simp split: try_w_split)
  then show ?thesis by (auto simp: resend_inv_def bound_def split: if_splits)
qed

theorem resend_only_after_absence_witness:
  "\<exists>w'. place_slice_reconciled exact_dec (scripted_env lost_send True None) demo_plan demo_intent
          demo_deadline 1 None world_init = (Inr (Settled \<lparr>so_sz = 1, so_px = 100\<rparr>), w') \<and>
        places_of 7 (w_trace w') = 2 \<and> resends_justified 7 (w_trace w')"
proof -
  let ?run = "place_slice_reconciled exact_dec (scripted_env lost_send True None) demo_plan demo_intent
      demo_deadline 1 None world_init"
  have out: "fst ?run = Inr (Settled \<lparr>so_sz = 1, so_px = 100\<rparr>) \<and> places_of 7 (w_trace (snd ?run)) = 2"
    by (simp add: run_eval places_of_def cong: try_w_cong_weak)
  then have run: "?run = (Inr (Settled \<lparr>so_sz = 1, so_px = 100\<rparr>), snd ?run)" by (metis prod.collapse)
  have "oi_cloid demo_intent = 7" "places_of (oi_cloid demo_intent) (w_trace world_init) = 0"
    by (simp_all add: demo_intent_def world_init_def places_of_def)
  with out run resend_only_after_absence [OF _ run] show ?thesis by metis
qed

end
