(* ===== verification/Follow.thy ===== *)
theory Follow
  imports Place_Facts
begin

text \<open>
  The re-quoting loop of \<open>src/twap.rs\<close>: \<open>place_follow_child\<close> sizes and gates one quote,
  \<open>follow_tick\<close> is one iteration of \<open>run_follow_loop\<close>, split where the code splits it, and the loop
  itself is a partial function, so that a loop that does not end has the value \<open>None\<close>.
\<close>

datatype follow_exit = SliceEndReached | DeadlinePassed | FollowShutdown | FollowTargetReached

datatype follow_place =
    FpPlaced resting_child
  | FpSettled slice_outcome
  | FpAloRejected
  | FpTargetMet
  | FpBelowMinNotional
  | FpTargetReached
  | FpShutdown

fun follow_of_alo :: "alo_outcome \<Rightarrow> follow_place" where
  "follow_of_alo (AloResting child) = FpPlaced child"
| "follow_of_alo (AloSettled out) = FpSettled out"
| "follow_of_alo AloRejectedSkip = FpAloRejected"
| "follow_of_alo AloTargetReached = FpTargetReached"
| "follow_of_alo AloShutdown = FpShutdown"

definition place_follow_child ::
  "dec_lib \<Rightarrow> env \<Rightarrow> twap_plan \<Rightarrow> execution_deadline \<Rightarrow> nat \<Rightarrow> decimal \<Rightarrow> fill_stats \<Rightarrow>
     position_guard option \<Rightarrow> world \<Rightarrow> (string + follow_place) \<times> world" where
  "place_follow_child D E plan dl slice_idx new_px stats guard w =
     (case decide_slice D slice_idx (pl_slices plan) (pl_per_slice plan) (pl_total_adjusted plan)
             (fs_filled stats) (pl_sz_decimals plan) new_px of
        SkipAhead \<Rightarrow> (Inr FpTargetMet, w)
      | SkipBelowMinNotional sz ntl \<Rightarrow> (Inr FpBelowMinNotional, w)
      | Place order_sz \<Rightarrow>
          if \<not> is_ok (validate_limit_price new_px (pl_side plan) (pl_slippage_bps plan) new_px new_px)
          then (Inl ''follow: risk envelope rejected the re-quoted limit price'', w)
          else if \<not> is_ok (check_notional_cap
                    (d_add D (cumulative_notional D stats) (d_mul D order_sz new_px))
                    (pl_max_notional_usd plan))
          then (Inl ''follow: risk envelope rejected the re-quoted notional'', w)
          else
            try_w (place_alo_child D E plan dl slice_idx (e_cloid E w) new_px order_sz guard w)
              (\<lambda>out w1. (Inr (follow_of_alo out), w1)))"

definition sleep_until_slice_end_or_shutdown :: "env \<Rightarrow> nanos \<Rightarrow> world \<Rightarrow> follow_exit \<times> world" where
  "sleep_until_slice_end_or_shutdown E slice_end w =
     (if is_triggered E w then (FollowShutdown, w)
      else
        (case sleep_or_shutdown E (slice_end - w_now w) w of
           (interrupted, w1) \<Rightarrow> (if interrupted then FollowShutdown else SliceEndReached, w1)))"

record follow_state =
  fo_resting :: "resting_child option"
  fo_stats :: fill_stats
  fo_last_place_at :: nanos
  fo_rejects :: nat

datatype follow_step = FExit "string + follow_exit" | FAgain

section \<open>One tick\<close>

text \<open>The poll pause with the checks around it; \<open>None\<close> lets the tick go on.\<close>

definition follow_pause ::
  "env \<Rightarrow> twap_plan \<Rightarrow> execution_deadline \<Rightarrow> nanos \<Rightarrow> world \<Rightarrow> follow_exit option \<times> world" where
  "follow_pause E plan dl slice_end w =
     (if slice_end \<le> w_now w then (Some SliceEndReached, w)
      else if is_triggered E w then (Some FollowShutdown, w)
      else
        (case sleep_or_shutdown E (min (secs (pl_follow_poll_secs plan)) (slice_end - w_now w)) w of
           (interrupted, w1) \<Rightarrow>
             (if interrupted then Some FollowShutdown
              else if slice_end \<le> w_now w1 then Some SliceEndReached
              else if has_passed dl (w_now w1) then Some DeadlinePassed
              else None, w1)))"

text \<open>One placing attempt and what its outcome does to the state of the loop.\<close>

definition follow_quote ::
  "dec_lib \<Rightarrow> env \<Rightarrow> twap_plan \<Rightarrow> execution_deadline \<Rightarrow> nat \<Rightarrow> nanos \<Rightarrow> decimal \<Rightarrow>
     position_guard option \<Rightarrow> follow_state \<Rightarrow> world \<Rightarrow> follow_step \<times> follow_state \<times> world" where
  "follow_quote D E plan dl slice_idx slice_end touch guard st w =
     (case place_follow_child D E plan dl slice_idx (round_price D touch (pl_sz_decimals plan) (pl_side plan))
             (fo_stats st) guard w of
        (Inl reason, w1) \<Rightarrow> (FExit (Inl reason), st, w1)
      | (Inr out, w1) \<Rightarrow>
          (case out of
             FpPlaced child \<Rightarrow>
               (FAgain, st\<lparr>fo_resting := Some child, fo_last_place_at := w_now w1, fo_rejects := 0\<rparr>, w1)
           | FpSettled o1 \<Rightarrow>
               (FAgain, st\<lparr>fo_stats := stats_add D (fo_stats st) (so_sz o1) (so_px o1),
                            fo_last_place_at := w_now w1\<rparr>, w1)
           | FpAloRejected \<Rightarrow>
               (FAgain, st\<lparr>fo_last_place_at := w_now w1, fo_rejects := fo_rejects st + 1\<rparr>, w1)
           | FpTargetMet \<Rightarrow>
               (case sleep_until_slice_end_or_shutdown E slice_end w1 of (e, w2) \<Rightarrow> (FExit (Inr e), st, w2))
           | FpBelowMinNotional \<Rightarrow>
               (case sleep_until_slice_end_or_shutdown E slice_end w1 of (e, w2) \<Rightarrow> (FExit (Inr e), st, w2))
           | FpTargetReached \<Rightarrow> (FExit (Inr FollowTargetReached), st, w1)
           | FpShutdown \<Rightarrow> (FExit (Inr FollowShutdown), st, w1)))"

text \<open>Settle the resting child and credit it; \<open>FAgain\<close> means the target is not reached yet.\<close>

definition follow_settle ::
  "dec_lib \<Rightarrow> env \<Rightarrow> twap_plan \<Rightarrow> resting_child \<Rightarrow> follow_state \<Rightarrow> world \<Rightarrow>
     follow_step \<times> follow_state \<times> world" where
  "follow_settle D E plan child st w =
     (case settle_resting_child D E plan child w of
        (Inl e, w1) \<Rightarrow> (FExit (Inl ''follow: failed to settle the resting order''), st\<lparr>fo_resting := None\<rparr>, w1)
      | (Inr out, w1) \<Rightarrow>
          let stats = (if 0 < so_sz out then stats_add D (fo_stats st) (so_sz out) (so_px out) else fo_stats st);
              st' = st\<lparr>fo_resting := None, fo_stats := stats\<rparr>
          in (if pl_total_adjusted plan \<le> fs_filled stats then FExit (Inr SliceEndReached) else FAgain, st', w1))"

definition touch_of :: "side \<Rightarrow> snapshot \<Rightarrow> decimal" where
  "touch_of sd snap = (case sd of Long \<Rightarrow> sn_best_bid snap | Short \<Rightarrow> sn_best_ask snap)"

definition moved_through :: "side \<Rightarrow> decimal \<Rightarrow> decimal \<Rightarrow> bool" where
  "moved_through sd touch px \<longleftrightarrow> (case sd of Long \<Rightarrow> touch < px | Short \<Rightarrow> px < touch)"

definition moved_away :: "side \<Rightarrow> decimal \<Rightarrow> decimal \<Rightarrow> bool" where
  "moved_away sd touch px \<longleftrightarrow> (case sd of Long \<Rightarrow> px < touch | Short \<Rightarrow> touch < px)"

definition distance_bps :: "dec_lib \<Rightarrow> decimal \<Rightarrow> decimal \<Rightarrow> decimal" where
  "distance_bps D touch px =
     (if 0 < px then d_mul D (d_div D \<bar>d_sub D touch px\<bar> px) 10000 else 0)"

definition repost_due :: "twap_plan \<Rightarrow> follow_state \<Rightarrow> world \<Rightarrow> bool" where
  "repost_due plan st w \<longleftrightarrow> secs (pl_follow_repost_secs plan) \<le> w_now w - fo_last_place_at st"

definition follow_react ::
  "dec_lib \<Rightarrow> env \<Rightarrow> twap_plan \<Rightarrow> execution_deadline \<Rightarrow> nat \<Rightarrow> nanos \<Rightarrow> decimal \<Rightarrow>
     position_guard option \<Rightarrow> follow_state \<Rightarrow> world \<Rightarrow> follow_step \<times> follow_state \<times> world" where
  "follow_react D E plan dl slice_idx slice_end touch guard st w =
     (case fo_resting st of
        None \<Rightarrow>
          if \<not> repost_due plan st w then (FAgain, st, w)
          else follow_quote D E plan dl slice_idx slice_end touch guard st w
      | Some child \<Rightarrow>
          if moved_through (pl_side plan) touch (rc_px child) then follow_settle D E plan child st w
          else if moved_away (pl_side plan) touch (rc_px child) then
            if pl_follow_threshold_bps plan \<le> distance_bps D touch (rc_px child) \<and> repost_due plan st w
            then
              (case follow_settle D E plan child st w of
                 (FExit e, st1, w1) \<Rightarrow> (FExit e, st1, w1)
               | (FAgain, st1, w1) \<Rightarrow> follow_quote D E plan dl slice_idx slice_end touch guard st1 w1)
            else (FAgain, st, w)
          else (FAgain, st, w))"

definition follow_tick ::
  "dec_lib \<Rightarrow> env \<Rightarrow> twap_plan \<Rightarrow> execution_deadline \<Rightarrow> nat \<Rightarrow> nanos \<Rightarrow> position_guard option \<Rightarrow>
     follow_state \<Rightarrow> world \<Rightarrow> follow_step \<times> follow_state \<times> world" where
  "follow_tick D E plan dl slice_idx slice_end guard st w =
     (case follow_pause E plan dl slice_end w of
        (Some e, w1) \<Rightarrow> (FExit (Inr e), st, w1)
      | (None, w1) \<Rightarrow>
          (case fetch_fresh_book D E (pl_symbol plan) (pl_max_book_age_ms plan) (Some dl) w1 of
             (Inl e, w2) \<Rightarrow>
               if has_passed dl (w_now w2) then (FExit (Inr DeadlinePassed), st, w2) else (FAgain, st, w2)
           | (Inr snap, w2) \<Rightarrow>
               follow_react D E plan dl slice_idx slice_end (touch_of (pl_side plan) snap) guard st w2))"

section \<open>The loop\<close>

partial_function (option) follow_loop ::
  "(follow_state \<Rightarrow> world \<Rightarrow> follow_step \<times> follow_state \<times> world) \<Rightarrow> follow_state \<Rightarrow> world \<Rightarrow>
     ((string + follow_exit) \<times> follow_state \<times> world) option" where
  "follow_loop tick st w =
     (case tick st w of
        (FExit e, st1, w1) \<Rightarrow> Some (e, st1, w1)
      | (FAgain, st1, w1) \<Rightarrow> follow_loop tick st1 w1)"

definition run_follow_loop ::
  "dec_lib \<Rightarrow> env \<Rightarrow> twap_plan \<Rightarrow> execution_deadline \<Rightarrow> nat \<Rightarrow> nanos \<Rightarrow> resting_child option \<Rightarrow>
     fill_stats \<Rightarrow> position_guard option \<Rightarrow> world \<Rightarrow>
     ((string + follow_exit) \<times> follow_state \<times> world) option" where
  "run_follow_loop D E plan dl slice_idx slice_end resting stats guard w =
     follow_loop (follow_tick D E plan dl slice_idx slice_end guard)
       \<lparr>fo_resting = resting, fo_stats = stats, fo_last_place_at = w_now w, fo_rejects = 0\<rparr> w"

end
