(* ===== verification/Run.thy ===== *)
theory Run
  imports Follow
begin

text \<open>
  The slice loop of \<open>src/twap.rs\<close>
  (\<open>run_twap_journaled_with_prior_notional_and_completion\<close>): the checks at the top of a slice, the
  gates that size and price its order, the send for each child algorithm, the wait for the slice to
  end, the final cleanup, the finalization of the journal and the report. \<open>Stop\<close> is the \<open>break\<close> of
  the loop. The result is \<open>None\<close> exactly when a re-quoting loop does not end.
\<close>

record run_state =
  rn_stats :: fill_stats
  rn_executed :: nat
  rn_skipped :: nat
  rn_abort :: "string option"
  rn_resting :: "resting_child option"

datatype flow = Next | Stop

definition abort_with :: "string \<Rightarrow> run_state \<Rightarrow> world \<Rightarrow> flow \<times> run_state \<times> world" where
  "abort_with reason st w = (Stop, st\<lparr>rn_abort := Some reason\<rparr>, w)"

definition run_deadline :: "env \<Rightarrow> twap_plan \<Rightarrow> world \<Rightarrow> execution_deadline" where
  "run_deadline E plan w =
     (case pl_absolute_deadline_unix_ms plan of
        Some expires \<Rightarrow>
          \<lparr>dl_monotonic = w_now w + unat (sat_sub_u64 expires (wall_clock_now_ms E w)) * ns_per_ms,
           dl_expires_after_ms = expires\<rparr>
      | None \<Rightarrow> deadline_new (w_now w) (pl_duration plan) (wall_clock_now_ms E w))"

definition run_state_init :: "decimal \<Rightarrow> run_state" where
  "run_state_init prior =
     \<lparr>rn_stats = with_prior_notional prior, rn_executed = 0, rn_skipped = 0, rn_abort = None,
      rn_resting = None\<rparr>"

definition credit_positive :: "dec_lib \<Rightarrow> slice_outcome \<Rightarrow> run_state \<Rightarrow> run_state" where
  "credit_positive D out st =
     (if 0 < so_sz out then st\<lparr>rn_stats := stats_add D (rn_stats st) (so_sz out) (so_px out)\<rparr> else st)"

section \<open>The top of a slice\<close>

definition settle_previous ::
  "dec_lib \<Rightarrow> env \<Rightarrow> twap_plan \<Rightarrow> run_state \<Rightarrow> world \<Rightarrow> flow \<times> run_state \<times> world" where
  "settle_previous D E plan st w =
     (case rn_resting st of
        None \<Rightarrow> (Next, st, w)
      | Some child \<Rightarrow>
          (case settle_resting_child D E plan child w of
             (Inl e, w1) \<Rightarrow>
               abort_with ''failed to settle the resting passive child order'' (st\<lparr>rn_resting := None\<rparr>) w1
           | (Inr out, w1) \<Rightarrow> (Next, credit_positive D out (st\<lparr>rn_resting := None\<rparr>), w1)))"

definition slice_top ::
  "dec_lib \<Rightarrow> env \<Rightarrow> twap_plan \<Rightarrow> execution_deadline \<Rightarrow> decimal \<Rightarrow> position_guard option \<Rightarrow> nat \<Rightarrow>
     run_state \<Rightarrow> world \<Rightarrow> flow \<times> run_state \<times> world" where
  "slice_top D E plan dl prior guard slice_idx st w =
     (if slice_idx = 1 \<and> \<not> pl_read_only plan \<and> pl_max_notional_usd plan \<le> prior
      then abort_with ''risk envelope rejected the resumed run before execution'' st w
      else if is_triggered E w then abort_with ''shutdown requested; stopped before slice'' st w
      else
        (case settle_previous D E plan st w of
           (Stop, st1, w1) \<Rightarrow> (Stop, st1, w1)
         | (Next, st1, w1) \<Rightarrow>
             (case (case guard of None \<Rightarrow> (Inr False, w1)
                    | Some g \<Rightarrow> check_before_place E g (pl_symbol plan) w1) of
                (Inr True, w2) \<Rightarrow> (Stop, st1, w2)
              | (Inl e, w2) \<Rightarrow>
                  abort_with ''authoritative position check failed closed before placing'' st1 w2
              | (Inr False, w2) \<Rightarrow>
                  if has_passed dl (w_now w2) then abort_with ''duration elapsed'' st1 w2
                  else (Next, st1, w2))))"

section \<open>Pricing, sizing and the gates\<close>

definition slice_price :: "dec_lib \<Rightarrow> twap_plan \<Rightarrow> snapshot \<Rightarrow> decimal" where
  "slice_price D plan snap =
     (if pl_child_algo plan = Market
      then taker_limit_price D (sn_best_bid snap) (sn_best_ask snap) (pl_side plan)
             (pl_slippage_bps plan) (pl_sz_decimals plan)
      else round_price D (touch_of (pl_side plan) snap) (pl_sz_decimals plan) (pl_side plan))"

definition slice_cap_price :: "twap_plan \<Rightarrow> snapshot \<Rightarrow> decimal \<Rightarrow> decimal" where
  "slice_cap_price plan snap px =
     (if pl_child_algo plan = Market then taker_notional_price px (sn_best_bid snap) (pl_side plan)
      else px)"

datatype slice_gate = GateAbort string | GateSkip | GateOrder decimal decimal

definition slice_gates ::
  "dec_lib \<Rightarrow> twap_plan \<Rightarrow> nat \<Rightarrow> fill_stats \<Rightarrow> snapshot \<Rightarrow> slice_gate" where
  "slice_gates D plan slice_idx stats snap =
     (let px = slice_price D plan snap in
      if \<not> is_ok (validate_limit_price px (pl_side plan) (pl_slippage_bps plan)
                    (sn_best_bid snap) (sn_best_ask snap))
      then GateAbort ''risk envelope rejected the computed limit price''
      else
        (case decide_slice D slice_idx (pl_slices plan) (pl_per_slice plan) (pl_total_adjusted plan)
                (fs_filled stats) (pl_sz_decimals plan) px of
           SkipAhead \<Rightarrow> GateSkip
         | SkipBelowMinNotional sz ntl \<Rightarrow> GateSkip
         | Place sz \<Rightarrow>
             if is_ok (check_notional_cap
                  (d_add D (cumulative_notional D stats) (d_mul D sz (slice_cap_price plan snap px)))
                  (pl_max_notional_usd plan))
             then GateOrder sz px
             else GateAbort ''risk envelope rejected the notional''))"

section \<open>Sending\<close>

definition slice_intent :: "twap_plan \<Rightarrow> cloid \<Rightarrow> decimal \<Rightarrow> decimal \<Rightarrow> order_intent" where
  "slice_intent plan c px sz =
     \<lparr>oi_cloid = c, oi_symbol = pl_symbol plan, oi_side = pl_side plan, oi_px = px, oi_sz = sz,
      oi_tif = Ioc, oi_reduce_only = pl_reduce_only plan\<rparr>"

definition credit :: "dec_lib \<Rightarrow> slice_outcome \<Rightarrow> run_state \<Rightarrow> run_state" where
  "credit D out st =
     st\<lparr>rn_stats := stats_add D (rn_stats st) (so_sz out) (so_px out), rn_executed := rn_executed st + 1\<rparr>"

definition send_market ::
  "dec_lib \<Rightarrow> env \<Rightarrow> twap_plan \<Rightarrow> execution_deadline \<Rightarrow> position_guard option \<Rightarrow> nat \<Rightarrow> cloid \<Rightarrow>
     decimal \<Rightarrow> decimal \<Rightarrow> run_state \<Rightarrow> world \<Rightarrow> flow \<times> run_state \<times> world" where
  "send_market D E plan dl guard slice_idx c px sz st w =
     (case place_slice_reconciled D E plan (slice_intent plan c px sz) dl slice_idx guard w of
        (Inr (Settled out), w1) \<Rightarrow> (Next, credit D out st, w1)
      | (Inr SliceTargetReached, w1) \<Rightarrow> (Stop, st, w1)
      | (Inr SliceShutdown, w1) \<Rightarrow> abort_with ''shutdown requested at the IOC send boundary'' st w1
      | (Inl e, w1) \<Rightarrow>
          (case e of
             Exchange code message \<Rightarrow>
               abort_with (''rejected by exchange: '' @ message @ '' - '' @ advice (classify message)) st w1
           | _ \<Rightarrow> abort_with ''slice failed'' st w1))"

definition send_alo ::
  "dec_lib \<Rightarrow> env \<Rightarrow> twap_plan \<Rightarrow> execution_deadline \<Rightarrow> position_guard option \<Rightarrow> nat \<Rightarrow> cloid \<Rightarrow>
     decimal \<Rightarrow> decimal \<Rightarrow> run_state \<Rightarrow> world \<Rightarrow> flow \<times> run_state \<times> world" where
  "send_alo D E plan dl guard slice_idx c px sz st w =
     (case place_alo_child D E plan dl slice_idx c px sz guard w of
        (Inr (AloResting child), w1) \<Rightarrow>
          (Next, st\<lparr>rn_resting := Some child, rn_executed := rn_executed st + 1\<rparr>, w1)
      | (Inr (AloSettled out), w1) \<Rightarrow> (Next, credit D out st, w1)
      | (Inr AloRejectedSkip, w1) \<Rightarrow> (Next, st\<lparr>rn_skipped := rn_skipped st + 1\<rparr>, w1)
      | (Inr AloTargetReached, w1) \<Rightarrow> (Stop, st, w1)
      | (Inr AloShutdown, w1) \<Rightarrow> abort_with ''shutdown requested at the ALO send boundary'' st w1
      | (Inl reason, w1) \<Rightarrow> abort_with reason st w1)"

definition after_follow ::
  "(string + follow_exit) \<times> follow_state \<times> world \<Rightarrow> run_state \<Rightarrow> flow \<times> run_state \<times> world" where
  "after_follow r st =
     (case r of
        (e, fo, w) \<Rightarrow>
          let st1 = st\<lparr>rn_resting := fo_resting fo, rn_stats := fo_stats fo\<rparr>
          in (case e of
                Inr SliceEndReached \<Rightarrow> (Next, st1, w)
              | Inr DeadlinePassed \<Rightarrow> abort_with ''duration elapsed'' st1 w
              | Inr FollowShutdown \<Rightarrow> abort_with ''shutdown requested during follow loop'' st1 w
              | Inr FollowTargetReached \<Rightarrow> (Stop, st1, w)
              | Inl reason \<Rightarrow> abort_with reason st1 w))"

definition send_slice ::
  "dec_lib \<Rightarrow> env \<Rightarrow> twap_plan \<Rightarrow> execution_deadline \<Rightarrow> position_guard option \<Rightarrow> nat \<Rightarrow> nanos \<Rightarrow>
     decimal \<Rightarrow> decimal \<Rightarrow> run_state \<Rightarrow> world \<Rightarrow> (flow \<times> run_state \<times> world) option" where
  "send_slice D E plan dl guard slice_idx slice_end px sz st w =
     (case pl_child_algo plan of
        Market \<Rightarrow> Some (send_market D E plan dl guard slice_idx (e_cloid E w) px sz st w)
      | Passive \<Rightarrow> Some (send_alo D E plan dl guard slice_idx (e_cloid E w) px sz st w)
      | Follow \<Rightarrow>
          (case send_alo D E plan dl guard slice_idx (e_cloid E w) px sz st w of
             (Stop, st1, w1) \<Rightarrow> Some (Stop, st1, w1)
           | (Next, st1, w1) \<Rightarrow>
               map_option (\<lambda>r. after_follow r st1)
                 (run_follow_loop D E plan dl slice_idx slice_end (rn_resting st1) (rn_stats st1) guard w1)))"

definition slice_tail ::
  "env \<Rightarrow> twap_plan \<Rightarrow> nanos \<Rightarrow> run_state \<Rightarrow> world \<Rightarrow> flow \<times> run_state \<times> world" where
  "slice_tail E plan slice_end st w =
     (if pl_total_adjusted plan \<le> fs_filled (rn_stats st) then (Stop, st, w)
      else if is_triggered E w
      then abort_with ''shutdown requested during inter-slice wait'' st w
      else
        (case sleep_or_shutdown E (slice_end - w_now w) w of
           (interrupted, w1) \<Rightarrow>
             if interrupted then abort_with ''shutdown requested during inter-slice wait'' st w1
             else (Next, st, w1)))"

section \<open>One slice\<close>

definition slice_order ::
  "dec_lib \<Rightarrow> env \<Rightarrow> twap_plan \<Rightarrow> execution_deadline \<Rightarrow> position_guard option \<Rightarrow> nat \<Rightarrow> nanos \<Rightarrow>
     decimal \<Rightarrow> decimal \<Rightarrow> run_state \<Rightarrow> world \<Rightarrow> (flow \<times> run_state \<times> world) option" where
  "slice_order D E plan dl guard slice_idx slice_end sz px st w =
     (if pl_read_only plan
      then Some (Next, st\<lparr>rn_stats := stats_add D (rn_stats st) sz px, rn_executed := rn_executed st + 1\<rparr>,
                 sleep_until slice_end w)
      else
        (case send_slice D E plan dl guard slice_idx slice_end px sz st w of
           None \<Rightarrow> None
         | Some (Stop, st1, w1) \<Rightarrow> Some (Stop, st1, w1)
         | Some (Next, st1, w1) \<Rightarrow> Some (slice_tail E plan slice_end st1 w1)))"

definition run_slice ::
  "dec_lib \<Rightarrow> env \<Rightarrow> twap_plan \<Rightarrow> execution_deadline \<Rightarrow> nanos \<Rightarrow> decimal \<Rightarrow> position_guard option \<Rightarrow>
     nat \<Rightarrow> run_state \<Rightarrow> world \<Rightarrow> (flow \<times> run_state \<times> world) option" where
  "run_slice D E plan dl start prior guard slice_idx st w =
     (case slice_top D E plan dl prior guard slice_idx st w of
        (Stop, st1, w1) \<Rightarrow> Some (Stop, st1, w1)
      | (Next, st1, w1) \<Rightarrow>
          let slice_end = slice_deadline start (pl_duration plan) slice_idx (pl_slices plan)
          in (case fetch_fresh_book D E (pl_symbol plan) (pl_max_book_age_ms plan) (Some dl) w1 of
                (Inl e, w2) \<Rightarrow> Some (abort_with ''book fetch failed'' st1 w2)
              | (Inr snap, w2) \<Rightarrow>
                  (case slice_gates D plan slice_idx (rn_stats st1) snap of
                     GateAbort reason \<Rightarrow> Some (abort_with reason st1 w2)
                   | GateSkip \<Rightarrow>
                       Some (Next, st1\<lparr>rn_skipped := rn_skipped st1 + 1\<rparr>, sleep_until slice_end w2)
                   | GateOrder sz px \<Rightarrow>
                       slice_order D E plan dl guard slice_idx slice_end sz px st1 w2)))"

fun run_slices ::
  "(nat \<Rightarrow> run_state \<Rightarrow> world \<Rightarrow> (flow \<times> run_state \<times> world) option) \<Rightarrow> nat list \<Rightarrow> run_state \<Rightarrow>
     world \<Rightarrow> (run_state \<times> world) option" where
  "run_slices one_slice [] st w = Some (st, w)"
| "run_slices one_slice (k # ks) st w =
     (case one_slice k st w of
        None \<Rightarrow> None
      | Some (Stop, st1, w1) \<Rightarrow> Some (st1, w1)
      | Some (Next, st1, w1) \<Rightarrow> run_slices one_slice ks st1 w1)"

section \<open>After the loop\<close>

definition get_or_insert :: "'a option \<Rightarrow> 'a \<Rightarrow> 'a option" where
  "get_or_insert x d = Some (unwrap_or x d)"

definition final_cleanup ::
  "dec_lib \<Rightarrow> env \<Rightarrow> twap_plan \<Rightarrow> run_state \<Rightarrow> world \<Rightarrow> run_state \<times> world" where
  "final_cleanup D E plan st w =
     (case rn_resting st of
        None \<Rightarrow> (st, w)
      | Some child \<Rightarrow>
          (case settle_resting_child D E plan child w of
             (Inl e, w1) \<Rightarrow>
               (st\<lparr>rn_resting := None,
                   rn_abort := get_or_insert (rn_abort st)
                     ''final cleanup: failed to settle the resting order''\<rparr>, w1)
           | (Inr out, w1) \<Rightarrow> (credit_positive D out (st\<lparr>rn_resting := None\<rparr>), w1)))"

definition final_cap_remaining :: "dec_lib \<Rightarrow> validated_replay \<Rightarrow> string + string option" where
  "final_cap_remaining D rep =
     (case map_option rh_fingerprint (su_header (vr_summary rep)) of
        Some (Some fp) \<Rightarrow>
          and_then (ok_or ''FinalReport: validated fingerprint cap could not be restored''
                     (d_parse D (fp_max_notional_usd fp))) (\<lambda>cap.
          and_then (ok_or ''FinalReport: cap remaining calculation overflowed''
                     (d_checked_sub D cap (ft_notional (vr_fill_totals rep)))) (\<lambda>remaining.
          Inr (Some (d_to_string D (max remaining 0)))))
      | _ \<Rightarrow> Inr None)"

definition final_total ::
  "dec_lib \<Rightarrow> (fingerprint \<Rightarrow> string) \<Rightarrow> validated_replay \<Rightarrow> string option" where
  "final_total D field rep =
     (case map_option rh_fingerprint (su_header (vr_summary rep)) of
        Some (Some fp) \<Rightarrow> Some (unwrap_or (logical_position_total D fp) (field fp))
      | _ \<Rightarrow> None)"

definition whole_run_of :: "dec_lib \<Rightarrow> env \<Rightarrow> validated_replay \<Rightarrow> string option \<Rightarrow> world \<Rightarrow> whole_run_summary" where
  "whole_run_of D E rep cap_remaining w =
     (let now = wall_clock_now_ms E w;
          started = (case su_header (vr_summary rep) of Some h \<Rightarrow> rh_started_at_unix_ms h | None \<Rightarrow> now)
      in \<lparr>wr_requested_total = final_total D fp_total_requested rep,
          wr_adjusted_total = final_total D fp_total_adjusted rep,
          wr_accounted_notional = d_to_string D (ft_notional (vr_fill_totals rep)),
          wr_cap_remaining = cap_remaining,
          wr_trusted_vwap = map_option (d_to_string D) (vr_vwap rep),
          wr_logical_elapsed_ms = sat_sub_u64 now started,
          wr_unresolved_cloids = length (unresolved_cloids (vr_summary rep))\<rparr>)"

definition final_report_of ::
  "dec_lib \<Rightarrow> env \<Rightarrow> twap_plan \<Rightarrow> bool \<Rightarrow> string option \<Rightarrow> validated_replay \<Rightarrow> string option \<Rightarrow> world \<Rightarrow>
     journal_record" where
  "final_report_of D E plan defer abort rep cap_remaining w =
     FinalReport (abort = None \<and> \<not> pl_reduce_only plan \<and> \<not> defer)
       (d_to_string D (ft_filled_sz (vr_fill_totals rep)))
       (unresolved_cloids (vr_summary rep))
       (unwrap_or abort
          (if pl_reduce_only plan \<or> defer then ''phase completed; final position verification deferred''
           else ''completed''))
       (Some (whole_run_of D E rep cap_remaining w))"

definition finalize_journal ::
  "dec_lib \<Rightarrow> env \<Rightarrow> twap_plan \<Rightarrow> bool \<Rightarrow> string option \<Rightarrow> world \<Rightarrow> (string + unit) \<times> world" where
  "finalize_journal D E plan defer abort w =
     try_w (e_read_journal E w, w) (\<lambda>records w1.
     try_w (map_err (\<lambda>_. ''FinalReport: failed to validate this run's journal'')
              (replay D (e_order E) records), w1) (\<lambda>rep w2.
     try_w (final_cap_remaining D rep, w2) (\<lambda>cap w3.
     err_w (\<lambda>_. ''FinalReport: failed to durably record final state'')
       (journal_write E [] (final_report_of D E plan defer abort rep cap w3) w3))))"

definition finalize ::
  "dec_lib \<Rightarrow> env \<Rightarrow> twap_plan \<Rightarrow> bool \<Rightarrow> run_state \<Rightarrow> world \<Rightarrow> run_state \<times> world" where
  "finalize D E plan defer st w =
     (if e_has_journal E then
        (case finalize_journal D E plan defer (rn_abort st) w of
           (Inr _, w1) \<Rightarrow> (st, w1)
         | (Inl e, w1) \<Rightarrow>
             (st\<lparr>rn_abort := Some (case rn_abort st of
                                     Some existing \<Rightarrow> existing @ ''; additionally, '' @ e
                                   | None \<Rightarrow> e)\<rparr>, w1))
      else (st, w))"

section \<open>The run and its report\<close>

record twap_report =
  rp_symbol :: symbol
  rp_side :: side
  rp_total_requested :: decimal
  rp_total_adjusted :: decimal
  rp_filled :: decimal
  rp_avg_px :: "decimal option"
  rp_slices_executed :: nat
  rp_slices_skipped :: nat
  rp_elapsed :: nanos
  rp_abort_reason :: "string option"
  rp_read_only :: bool

definition report_of :: "dec_lib \<Rightarrow> twap_plan \<Rightarrow> nanos \<Rightarrow> run_state \<Rightarrow> world \<Rightarrow> twap_report" where
  "report_of D plan start st w =
     \<lparr>rp_symbol = pl_symbol plan, rp_side = pl_side plan, rp_total_requested = pl_total_requested plan,
      rp_total_adjusted = pl_total_adjusted plan, rp_filled = fs_filled (rn_stats st),
      rp_avg_px = stats_avg_px D (rn_stats st), rp_slices_executed = rn_executed st,
      rp_slices_skipped = rn_skipped st, rp_elapsed = w_now w - start, rp_abort_reason = rn_abort st,
      rp_read_only = pl_read_only plan\<rparr>"

definition run_loop ::
  "dec_lib \<Rightarrow> env \<Rightarrow> twap_plan \<Rightarrow> decimal \<Rightarrow> position_guard option \<Rightarrow> world \<Rightarrow> (run_state \<times> world) option" where
  "run_loop D E plan prior guard w =
     run_slices (run_slice D E plan (run_deadline E plan w) (w_now w) prior guard)
       [1 ..< Suc (pl_slices plan)] (run_state_init prior) w"

definition run_twap_completion ::
  "dec_lib \<Rightarrow> env \<Rightarrow> twap_plan \<Rightarrow> decimal \<Rightarrow> bool \<Rightarrow> position_guard option \<Rightarrow> world \<Rightarrow>
     (twap_report \<times> world) option" where
  "run_twap_completion D E plan prior defer guard w =
     (case run_loop D E plan prior guard w of
        None \<Rightarrow> None
      | Some (st, w1) \<Rightarrow>
          (case final_cleanup D E plan st w1 of
             (st2, w2) \<Rightarrow>
               (case finalize D E plan defer st2 w2 of
                  (st3, w3) \<Rightarrow> Some (report_of D plan (w_now w) st3 w3, w3))))"

definition run_twap_journaled_with_prior_notional ::
  "dec_lib \<Rightarrow> env \<Rightarrow> twap_plan \<Rightarrow> decimal \<Rightarrow> world \<Rightarrow> (twap_report \<times> world) option" where
  "run_twap_journaled_with_prior_notional D E plan prior w =
     run_twap_completion D E plan prior False None w"

definition run_twap_journaled_with_prior_notional_deferred ::
  "dec_lib \<Rightarrow> env \<Rightarrow> twap_plan \<Rightarrow> decimal \<Rightarrow> world \<Rightarrow> (twap_report \<times> world) option" where
  "run_twap_journaled_with_prior_notional_deferred D E plan prior w =
     run_twap_completion D E plan prior True None w"

definition run_twap_deferred_position_guard ::
  "dec_lib \<Rightarrow> env \<Rightarrow> twap_plan \<Rightarrow> decimal \<Rightarrow> position_guard \<Rightarrow> world \<Rightarrow> (twap_report \<times> world) option" where
  "run_twap_deferred_position_guard D E plan prior guard w =
     run_twap_completion D E plan prior True (Some guard) w"

definition run_twap_journaled ::
  "dec_lib \<Rightarrow> env \<Rightarrow> twap_plan \<Rightarrow> world \<Rightarrow> (twap_report \<times> world) option" where
  "run_twap_journaled D E plan w = run_twap_journaled_with_prior_notional D E plan 0 w"

definition run_twap :: "dec_lib \<Rightarrow> env \<Rightarrow> twap_plan \<Rightarrow> world \<Rightarrow> (twap_report \<times> world) option" where
  "run_twap D E plan w =
     run_twap_journaled D (E\<lparr>e_has_journal := False, e_shutdown := None\<rparr>) plan w"

definition exit_code :: "twap_report \<Rightarrow> nat" where
  "exit_code r = (if rp_abort_reason r \<noteq> None then 1 else 0)"

definition is_partial :: "twap_report \<Rightarrow> bool" where
  "is_partial r \<longleftrightarrow> rp_filled r < rp_total_adjusted r"

definition rounding_dropped :: "dec_lib \<Rightarrow> twap_report \<Rightarrow> decimal option" where
  "rounding_dropped D r =
     (let diff = d_sub D (rp_total_requested r) (rp_total_adjusted r)
      in if 0 < diff then Some diff else None)"

end
