(* ===== verification/Run_Scripts.thy ===== *)
theory Run_Scripts
  imports Run Scripts
begin

text \<open>Concrete runs on scripted environments, and the facts with which \<open>simp\<close> evaluates them.\<close>

definition demo_book :: order_book where
  "demo_book =
     \<lparr>ob_coin = ''BTC'', ob_bids = [\<lparr>bl_px = 99, bl_sz = 5, bl_n = 1\<rparr>],
      ob_asks = [\<lparr>bl_px = 100, bl_sz = 5, bl_n = 1\<rparr>], ob_time_ms = 0\<rparr>"

text \<open>Both IOC slices fill at once, the second only in part.\<close>

definition two_fills :: script where
  "two_fills =
     demo_script\<lparr>sc_default_book := Some demo_book,
                 sc_places := [Inr (Filled 41 1 100), Inr (Filled 42 (1 / 2) 100)]\<rparr>"

lemma demo_taker_price: "taker_limit_price exact_dec 99 100 Long 50 2 = 201 / 2"
  by code_simp

lemma demo_touch_price: "round_price exact_dec 99 2 Long = 99"
  by code_simp

lemma demo_size: "round_size exact_dec 1 2 = 1" "round_size exact_dec 2 2 = 2"
  by code_simp+

lemmas run_defs = run_twap_completion_def run_loop_def run_deadline_def deadline_new_def run_state_init_def
  with_prior_notional_def run_slice_def slice_top_def settle_previous_def abort_with_def slice_gates_def
  slice_price_def slice_cap_price_def touch_of_def validate_limit_price_def check_notional_cap_def
  is_ok_def decide_slice_def slice_order_size_def target_at_slice_def min_notional_gate_def
  MIN_NOTIONAL_USD_def MIN_NOTIONAL_MARGIN_def cumulative_notional_def slice_order_def send_slice_def
  send_market_def slice_intent_def credit_def stats_add_def slice_tail_def slice_deadline_def u64_max_def
  send_alo_def credit_positive_def final_cleanup_def finalize_def report_of_def stats_avg_px_def
  validate_snapshot_def snapshot_semantics_def first_opt_def nonpositive_level_def is_sorted_desc_def
  is_sorted_asc_def snapshot_fresh_def MAX_FUTURE_SKEW_MS_def STALE_BOOK_RETRIES_def
  deadline_remaining_def demo_book_def two_fills_def demo_taker_price demo_touch_price demo_size

lemma demo_run:
  "\<exists>rep w'. run_twap_completion exact_dec (scripted_env two_fills True None) demo_plan 0 False None
       world_init = Some (rep, w') \<and> rp_filled rep = 3 / 2 \<and> count_events is_place w' = 2"
  by (simp add: run_eval run_defs finalize_journal_def replay_def map_err_def upt_conv_Cons
      cong: try_w_cong_weak)

lemma demo_read_only_run:
  "\<exists>rep w'. run_twap_completion exact_dec (scripted_env two_fills False None)
       (demo_plan\<lparr>pl_read_only := True\<rparr>) 0 False None world_init = Some (rep, w') \<and>
     rp_filled rep = 2 \<and> rp_slices_executed rep = 2 \<and> count_events is_book w' = 2"
  by (simp add: run_eval run_defs upt_conv_Cons cong: try_w_cong_weak)

end
