(* ===== verification/Run_Safety.thy ===== *)
theory Run_Safety
  imports Run_Scripts
begin

text \<open>
  Safety of a whole run. Inside \<open>guarded_sends\<close>, every operation up to the run keeps the predicate;
  its instances on the trace and on the clock give the properties: every send is in time, prepared in
  the journal and within the plan, a read-only run sends nothing, and every run returns.
\<close>

section \<open>Preservation up to the run\<close>

lemma decide_slice_Place_gate:
  "decide_slice D k n per tot filled d px = Place sz \<Longrightarrow> 0 < sz \<and> min_notional_gate D \<le> d_mul D sz px"
  by (auto simp: decide_slice_def Let_def split: if_splits)

context calm_inv
begin

lemma follow_pause_keeps [simp]: "I w \<Longrightarrow> I (snd (follow_pause E plan dl slice_end w))"
  by (simp add: follow_pause_def split_beta)

lemma sleep_slice_end_keeps [simp]: "I w \<Longrightarrow> I (snd (sleep_until_slice_end_or_shutdown E slice_end w))"
  by (simp add: sleep_until_slice_end_or_shutdown_def split_beta)

lemma follow_settle_keeps [simp]: "I w \<Longrightarrow> I (snd (snd (follow_settle D E plan child st w)))"
  by (simp add: follow_settle_def split_beta Let_def split: sum.split)

lemma settle_previous_keeps [simp]: "I w \<Longrightarrow> I (snd (snd (settle_previous D E plan st w)))"
  by (simp add: settle_previous_def abort_with_def split_beta split: option.split sum.split)

lemma slice_top_keeps [simp]: "I w \<Longrightarrow> I (snd (snd (slice_top D E plan dl prior g k st w)))"
  by (simp add: slice_top_def abort_with_def split_beta split: option.split sum.split flow.split bool.split)

lemma slice_tail_keeps [simp]: "I w \<Longrightarrow> I (snd (snd (slice_tail E plan slice_end st w)))"
  by (simp add: slice_tail_def abort_with_def split_beta)

lemma final_cleanup_keeps [simp]: "I w \<Longrightarrow> I (snd (final_cleanup D E plan st w))"
  by (simp add: final_cleanup_def split_beta split: option.split sum.split)

lemma finalize_journal_keeps [simp]: "I w \<Longrightarrow> I (snd (finalize_journal D E plan b a w))"
  by (simp add: finalize_journal_def final_report_of_def)

lemma finalize_keeps [simp]: "I w \<Longrightarrow> I (snd (finalize D E plan b st w))"
  by (simp add: finalize_def split_beta split: sum.split)

end

lemma follow_loop_keeps:
  "follow_loop tick st w = Some r \<Longrightarrow> (\<And>st w. J w \<Longrightarrow> J (snd (snd (tick st w)))) \<Longrightarrow> J w \<Longrightarrow>
     J (snd (snd r))"
proof (induction tick st w r rule: follow_loop.raw_induct [rotated, consumes 1, case_names 1])
  case (1 fl tick st w r)
  obtain s st1 w1 where t: "tick st w = (s, st1, w1)" by (cases "tick st w")
  with 1(3) [OF 1(4), of st] have J: "J w1" by simp
  show ?case
  proof (cases s)
    case (FExit e)
    with 1(2) t J show ?thesis by auto
  next
    case FAgain
    with 1(2) t have "fl tick st1 w1 = Some r" by simp
    from 1(1) [OF this 1(3) J] show ?thesis .
  qed
qed

text \<open>What the gates establish of every intent a run sends.\<close>

definition within_plan :: "dec_lib \<Rightarrow> twap_plan \<Rightarrow> order_intent \<Rightarrow> nat \<Rightarrow> bool" where
  "within_plan D plan i a \<longleftrightarrow>
     a = pl_asset_index plan \<and> oi_symbol i = pl_symbol plan \<and> oi_side i = pl_side plan \<and>
     oi_reduce_only i = pl_reduce_only plan \<and>
     oi_tif i = (if pl_child_algo plan = Market then Ioc else Alo) \<and>
     0 < oi_px i \<and> 0 < oi_sz i \<and> min_notional_gate D \<le> d_mul D (oi_sz i) (oi_px i)"

lemma within_plan_alo:
  "pl_child_algo plan \<noteq> Market \<Longrightarrow> 0 < px \<Longrightarrow> 0 < sz \<Longrightarrow> min_notional_gate D \<le> d_mul D sz px \<Longrightarrow>
     within_plan D plan (alo_intent plan c px sz) (pl_asset_index plan)"
  by (simp add: within_plan_def alo_intent_def)

lemma within_plan_ioc:
  "pl_child_algo plan = Market \<Longrightarrow> 0 < px \<Longrightarrow> 0 < sz \<Longrightarrow> min_notional_gate D \<le> d_mul D sz px \<Longrightarrow>
     within_plan D plan (slice_intent plan c px sz) (pl_asset_index plan)"
  by (simp add: within_plan_def slice_intent_def)

lemma slice_gates_GateOrder:
  "slice_gates D plan k stats snap = GateOrder sz px \<Longrightarrow>
     0 < px \<and> 0 < sz \<and> min_notional_gate D \<le> d_mul D sz px \<and> px = slice_price D plan snap \<and>
     d_add D (cumulative_notional D stats) (d_mul D sz (slice_cap_price plan snap px))
       \<le> pl_max_notional_usd plan \<and>
     decide_slice D k (pl_slices plan) (pl_per_slice plan) (pl_total_adjusted plan) (fs_filled stats)
       (pl_sz_decimals plan) px = Place sz"
  by (auto simp: slice_gates_def Let_def is_ok_def validate_limit_price_def check_notional_cap_def
      split: if_splits slice_decision.splits sum.splits dest: decide_slice_Place_gate)

context guarded_sends
begin

lemma place_follow_child_guarded:
  assumes "I w" and "\<forall>i a. within_plan D plan i a \<longrightarrow> C i a" and "pl_child_algo plan \<noteq> Market"
  shows "I (snd (place_follow_child D E plan dl k px stats g w))"
  using assms within_plan_alo [OF assms(3)]
  by (auto simp: place_follow_child_def is_ok_def validate_limit_price_def
      split: slice_decision.split sum.splits if_splits dest!: decide_slice_Place_gate)

lemma follow_quote_guarded:
  assumes "I w" and "\<forall>i a. within_plan D plan i a \<longrightarrow> C i a" and "pl_child_algo plan \<noteq> Market"
  shows "I (snd (snd (follow_quote D E plan dl k slice_end touch g st w)))"
  using place_follow_child_guarded [OF assms]
  by (simp add: follow_quote_def split_beta split: sum.split follow_place.split)

lemma follow_react_guarded:
  assumes "I w" and "\<forall>i a. within_plan D plan i a \<longrightarrow> C i a" and "pl_child_algo plan \<noteq> Market"
  shows "I (snd (snd (follow_react D E plan dl k slice_end touch g st w)))"
  using assms follow_quote_guarded [OF _ assms(2,3)]
  by (simp add: follow_react_def split_beta split: option.split follow_step.split)

lemma follow_tick_guarded:
  assumes "I w" and "\<forall>i a. within_plan D plan i a \<longrightarrow> C i a" and "pl_child_algo plan \<noteq> Market"
  shows "I (snd (snd (follow_tick D E plan dl k slice_end g st w)))"
  using assms follow_react_guarded [OF _ assms(2,3)]
  by (simp add: follow_tick_def split_beta split: option.split sum.split)

lemma run_follow_loop_guarded:
  assumes "run_follow_loop D E plan dl k slice_end rst stats g w = Some r" and "I w"
    and "\<forall>i a. within_plan D plan i a \<longrightarrow> C i a" and "pl_child_algo plan \<noteq> Market"
  shows "I (snd (snd r))"
  using follow_loop_keeps [OF assms(1) [unfolded run_follow_loop_def], of I]
    follow_tick_guarded [OF _ assms(3,4)] assms(2) by blast

lemma send_alo_guarded:
  assumes "I w" and "C (alo_intent plan c px sz) (pl_asset_index plan)"
  shows "I (snd (snd (send_alo D E plan dl g k c px sz st w)))"
  using place_alo_child_guarded [OF assms]
  by (simp add: send_alo_def abort_with_def split_beta split: sum.split alo_outcome.split)

lemma send_market_guarded:
  assumes "I w" and "C (slice_intent plan c px sz) (pl_asset_index plan)"
  shows "I (snd (snd (send_market D E plan dl g k c px sz st w)))"
  using place_slice_reconciled_guarded [OF assms(1), of "slice_intent plan c px sz" plan] assms(2)
  by (simp add: send_market_def abort_with_def split_beta
      split: sum.split place_slice_outcome.split hl_error.split)

lemma after_follow_world: "snd (snd (after_follow r st)) = snd (snd r)"
  by (simp add: after_follow_def abort_with_def split_beta Let_def split: sum.split follow_exit.split)

lemma send_slice_guarded:
  assumes "send_slice D E plan dl g k slice_end px sz st w = Some r" and "I w"
    and "\<forall>i a. within_plan D plan i a \<longrightarrow> C i a"
    and "0 < px" "0 < sz" "min_notional_gate D \<le> d_mul D sz px"
  shows "I (snd (snd r))"
proof (cases "pl_child_algo plan = Market")
  case True
  then have "I (snd (snd (send_market D E plan dl g k c px sz st w)))" for c
    using assms within_plan_ioc by (intro send_market_guarded) blast+
  with True assms(1) show ?thesis by (auto simp: send_slice_def)
next
  case False
  then have alo: "I (snd (snd (send_alo D E plan dl g k c px sz st w)))" for c
    using assms within_plan_alo by (intro send_alo_guarded) blast+
  show ?thesis
  proof (cases "pl_child_algo plan")
    case Market
    with False show ?thesis by simp
  next
    case Passive
    with assms(1) alo show ?thesis by (auto simp: send_slice_def)
  next
    case Follow
    obtain f st1 w1 where s: "send_alo D E plan dl g k (e_cloid E w) px sz st w = (f, st1, w1)"
      by (cases "send_alo D E plan dl g k (e_cloid E w) px sz st w") auto
    with alo [of "e_cloid E w"] have I1: "I w1" by simp
    show ?thesis
    proof (cases f)
      case Next
      with s assms(1) Follow show ?thesis
        by (auto simp: send_slice_def after_follow_world dest: run_follow_loop_guarded [OF _ I1 assms(3) False])
    next
      case Stop
      with s assms(1) Follow have "r = (Stop, st1, w1)" by (simp add: send_slice_def)
      with I1 show ?thesis by simp
    qed
  qed
qed

lemma run_slice_guarded:
  assumes "run_slice D E plan dl start prior g k st w = Some r" and "I w"
    and "\<forall>i a. within_plan D plan i a \<longrightarrow> C i a"
  shows "I (snd (snd r))"
proof -
  obtain f st1 w1 where top: "slice_top D E plan dl prior g k st w = (f, st1, w1)"
    by (cases "slice_top D E plan dl prior g k st w") auto
  with slice_top_keeps [OF assms(2), of D E plan dl prior g k st] have I1: "I w1" by simp
  define slice_end where "slice_end = slice_deadline start (pl_duration plan) k (pl_slices plan)"
  obtain b w2 where bk: "fetch_fresh_book D E (pl_symbol plan) (pl_max_book_age_ms plan) (Some dl) w1 = (b, w2)"
    by (cases "fetch_fresh_book D E (pl_symbol plan) (pl_max_book_age_ms plan) (Some dl) w1") auto
  with fetch_fresh_book_keeps [OF I1, of D E "pl_symbol plan" "pl_max_book_age_ms plan" "Some dl"]
  have I2: "I w2" by simp
  have order: "I (snd (snd r'))"
    if "slice_order D E plan dl g k slice_end sz px st1 w2 = Some r'"
      and "0 < px" "0 < sz" "min_notional_gate D \<le> d_mul D sz px" for sz px r'
    using that I2 send_slice_guarded [OF _ I2 assms(3) that(2-)]
    by (force simp: slice_order_def split: if_splits option.splits prod.splits flow.splits)
  show ?thesis
  proof (cases f)
    case Next
    with assms(1) top bk I2 show ?thesis
      by (auto simp: run_slice_def Let_def slice_end_def [symmetric] abort_with_def
          split: sum.splits slice_gate.splits dest!: slice_gates_GateOrder dest: order)
  next
    case Stop
    with assms(1) top have "r = (Stop, st1, w1)" by (simp add: run_slice_def)
    with I1 show ?thesis by simp
  qed
qed

end

lemma run_slices_keeps:
  assumes "run_slices f ks st w = Some (st', w')" and "J st w"
    and "\<And>k st w flow st1 w1. k \<in> set ks \<Longrightarrow> f k st w = Some (flow, st1, w1) \<Longrightarrow> J st w \<Longrightarrow> J st1 w1"
  shows "J st' w'"
  using assms
proof (induction ks arbitrary: st w)
  case (Cons k ks)
  then show ?case
    by (auto split: option.splits prod.splits flow.splits) (metis list.set_intros)+
qed simp

context guarded_sends
begin

lemma run_guarded:
  assumes "run_twap_completion D E plan prior b g w = Some (rep, w')" and "I w"
    and "\<forall>i a. within_plan D plan i a \<longrightarrow> C i a" and "dl = run_deadline E plan w"
  shows "I w'"
proof -
  obtain st w1 where l: "run_loop D E plan prior g w = Some (st, w1)"
    and w': "w' = snd (finalize D E plan b (fst (final_cleanup D E plan st w1))
                     (snd (final_cleanup D E plan st w1)))"
    using assms(1) by (auto simp: run_twap_completion_def split: option.splits prod.splits)
  have "I w1"
    using run_slices_keeps [OF l [unfolded run_loop_def], of "\<lambda>_. I"] assms(2,4)
      run_slice_guarded [OF _ _ assms(3)] by fastforce
  then show ?thesis by (simp add: w')
qed

end

section \<open>Every run returns\<close>

definition not_before :: "nanos \<Rightarrow> world \<Rightarrow> bool" where
  "not_before t w \<longleftrightarrow> t \<le> w_now w"

interpretation clk: passive_inv "not_before t" for t
  by (rule passive_invI) (auto simp: not_before_def log_event_def)

interpretation tm: guarded_sends "not_before t" D E dl "\<lambda>_ _. True" for t D E dl
  by unfold_locales (auto simp: not_before_def place_order_once_def split_beta elapse_def log_event_def)

lemma follow_pause_progress:
  assumes "follow_pause E plan dl slice_end w = (None, w1)" and "0 < pl_follow_poll_secs plan"
  shows "w_now w < w_now w1 \<and> w_now w < slice_end"
  using assms
  by (auto simp: follow_pause_def sleep_or_shutdown_def elapse_def secs_def
      split: if_splits option.splits)

lemma follow_tick_progress:
  assumes "follow_tick D E plan dl k slice_end g st w = (FAgain, st1, w1)"
    and "0 < pl_follow_poll_secs plan" and "pl_child_algo plan \<noteq> Market"
  shows "w_now w < w_now w1 \<and> w_now w < slice_end"
proof -
  obtain e w2 where p: "follow_pause E plan dl slice_end w = (e, w2)"
    by (cases "follow_pause E plan dl slice_end w") auto
  with assms(1) have e: "e = None" by (auto simp: follow_tick_def split: option.splits)
  define bk where "bk = fetch_fresh_book D E (pl_symbol plan) (pl_max_book_age_ms plan) (Some dl) w2"
  have "not_before (w_now w2) w2" by (simp add: not_before_def)
  then have 1: "not_before (w_now w2) (snd bk)" by (simp add: bk_def)
  have 2: "not_before (w_now w2) (snd (snd (follow_react D E plan dl k slice_end t g st (snd bk))))" for t
    by (rule tm.follow_react_guarded [OF 1 _ assms(3)]) simp
  have "not_before (w_now w2) w1"
  proof (cases "fst bk")
    case (Inl e')
    with assms(1) p e have "w1 = snd bk"
      by (auto simp: follow_tick_def bk_def [symmetric] split_beta split: if_splits)
    with 1 show ?thesis by simp
  next
    case (Inr snap)
    with assms(1) p e
    have "follow_react D E plan dl k slice_end (touch_of (pl_side plan) snap) g st (snd bk) = (FAgain, st1, w1)"
      by (simp add: follow_tick_def bk_def [symmetric] split_beta)
    with 2 [of "touch_of (pl_side plan) snap"] show ?thesis by simp
  qed
  with follow_pause_progress [OF p [unfolded e] assms(2)] show ?thesis by (auto simp: not_before_def)
qed

lemma follow_loop_total:
  assumes "\<And>st w st1 w1. tick st w = (FAgain, st1, w1) \<Longrightarrow> w_now w < w_now w1 \<and> w_now w < bound"
  shows "\<exists>r. follow_loop tick st w = Some r"
proof (induction "bound - w_now w" arbitrary: st w rule: less_induct)
  case less
  obtain s st1 w1 where t: "tick st w = (s, st1, w1)" by (cases "tick st w")
  show ?case
  proof (cases s)
    case (FExit e)
    with t show ?thesis by (subst follow_loop.simps) simp
  next
    case FAgain
    with assms [of st w] t have "bound - w_now w1 < bound - w_now w" by auto
    from less [OF this, of st1] FAgain t show ?thesis by (subst follow_loop.simps) simp
  qed
qed

lemma run_follow_loop_total:
  assumes "0 < pl_follow_poll_secs plan" and "pl_child_algo plan \<noteq> Market"
  shows "\<exists>r. run_follow_loop D E plan dl k slice_end rst stats g w = Some r"
  unfolding run_follow_loop_def
  by (rule follow_loop_total) (rule follow_tick_progress [OF _ assms])

lemma run_slice_total:
  assumes "pl_child_algo plan = Follow \<longrightarrow> 0 < pl_follow_poll_secs plan"
  shows "\<exists>r. run_slice D E plan dl start prior g k st w = Some r"
proof -
  have follow: "\<exists>r. run_follow_loop D E plan dl k e rst stats g w = Some r"
    if "pl_child_algo plan = Follow" for e rst stats w
    using run_follow_loop_total [of plan] assms that by simp
  have "send_slice D E plan dl g k e px sz st w \<noteq> None" for e px sz st w
  proof (cases "pl_child_algo plan")
    case Follow
    obtain f st1 w1 where "send_alo D E plan dl g k (e_cloid E w) px sz st w = (f, st1, w1)"
      by (cases "send_alo D E plan dl g k (e_cloid E w) px sz st w") auto
    with Follow follow [of e "rn_resting st1" "rn_stats st1" w1] show ?thesis
      by (cases f) (auto simp: send_slice_def)
  qed (simp_all add: send_slice_def)
  then have order: "\<exists>r. slice_order D E plan dl g k e px sz st w = Some r" for e px sz st w
  proof -
    obtain f st1 w1 where "send_slice D E plan dl g k e sz px st w = Some (f, st1, w1)"
      using \<open>\<And>e px sz st w. send_slice D E plan dl g k e px sz st w \<noteq> None\<close> [of e sz px st w] by auto
    then show ?thesis by (cases f) (simp_all add: slice_order_def del: split_paired_Ex)
  qed
  have order': "slice_order D E plan dl g k e px sz st w \<noteq> None" for e px sz st w
    using order [of e px sz st w] by blast
  have "run_slice D E plan dl start prior g k st w \<noteq> None"
    by (simp add: run_slice_def Let_def order' del: not_None_eq
        split: flow.split prod.split sum.split slice_gate.split)
  then show ?thesis by blast
qed

lemma run_slices_total: "(\<And>k st w. \<exists>r. f k st w = Some r) \<Longrightarrow> \<exists>r. run_slices f ks st w = Some r"
proof (induction ks arbitrary: st w)
  case (Cons k ks)
  obtain fl st1 w1 where "f k st w = Some (fl, st1, w1)" using Cons.prems [of k st w] by auto
  with Cons show ?case by (cases fl) auto
qed simp

section \<open>The sends of a run\<close>

text \<open>
  The guard of every send, read off the trace: newest first, so the tail at a send holds what
  happened before it.
\<close>

definition guarded_send ::
  "dec_lib \<Rightarrow> env \<Rightarrow> execution_deadline \<Rightarrow> (order_intent \<Rightarrow> nat \<Rightarrow> bool) \<Rightarrow> nanos \<Rightarrow> order_intent \<Rightarrow> nat \<Rightarrow>
     u64 \<Rightarrow> (nanos \<times> event) list \<Rightarrow> bool" where
  "guarded_send D E dl C t i a x earlier \<longleftrightarrow>
     t < dl_monotonic dl \<and> x = dl_expires_after_ms dl \<and>
     (case e_shutdown E of Some s \<Rightarrow> t < s | None \<Rightarrow> True) \<and>
     (e_has_journal E \<longrightarrow> list_ex (\<lambda>te. is_prepared_event D i (snd te)) earlier) \<and> C i a"

fun guarded_trace ::
  "dec_lib \<Rightarrow> env \<Rightarrow> execution_deadline \<Rightarrow> (order_intent \<Rightarrow> nat \<Rightarrow> bool) \<Rightarrow> (nanos \<times> event) list \<Rightarrow> bool" where
  "guarded_trace D E dl C [] = True"
| "guarded_trace D E dl C ((t, ev) # tr) \<longleftrightarrow>
     (case ev of EvPlace i a x r \<Rightarrow> guarded_send D E dl C t i a x tr | _ \<Rightarrow> True) \<and>
     guarded_trace D E dl C tr"

definition guarded_world where
  "guarded_world D E dl C w \<longleftrightarrow> guarded_trace D E dl C (w_trace w)"

lemma guarded_log [simp]:
  "\<not> is_place ev \<Longrightarrow> guarded_world D E dl C w \<Longrightarrow> guarded_world D E dl C (log_event ev w)"
  by (cases ev) (auto simp: guarded_world_def log_event_def)

interpretation gp: passive_inv "guarded_world D E dl C" for D E dl C
  by (rule passive_invI) (auto simp: guarded_world_def log_event_def split: event.split)

interpretation gs: guarded_sends "guarded_world D E dl C" D E dl C for D E dl C
  by unfold_locales
    (auto simp: guarded_world_def place_order_once_def split_beta elapse_def log_event_def
      guarded_send_def may_send_def is_triggered_def prepared_world_def split: option.split)

lemma guarded_traceD:
  "guarded_trace D E dl C (later @ (t, EvPlace i a x r) # earlier) \<Longrightarrow> guarded_send D E dl C t i a x earlier"
  by (induction later) auto

section \<open>Read-only runs\<close>

context calm_inv
begin

lemma run_slice_read_only_keeps:
  assumes "pl_read_only plan" and "run_slice D E plan dl start prior g k st w = Some r" and "I w"
  shows "I (snd (snd r))"
proof -
  obtain f st1 w1 where top: "slice_top D E plan dl prior g k st w = (f, st1, w1)"
    by (cases "slice_top D E plan dl prior g k st w") auto
  with slice_top_keeps [OF assms(3), of D E plan dl prior g k st] have I1: "I w1" by simp
  obtain b w2 where bk: "fetch_fresh_book D E (pl_symbol plan) (pl_max_book_age_ms plan) (Some dl) w1 = (b, w2)"
    by (cases "fetch_fresh_book D E (pl_symbol plan) (pl_max_book_age_ms plan) (Some dl) w1") auto
  with fetch_fresh_book_keeps [OF I1, of D E "pl_symbol plan" "pl_max_book_age_ms plan" "Some dl"]
  have I2: "I w2" by simp
  show ?thesis
  proof (cases f)
    case Next
    with assms(1,2) top bk I2 show ?thesis
      by (auto simp: run_slice_def Let_def slice_order_def abort_with_def split: sum.splits slice_gate.splits)
  next
    case Stop
    with assms(2) top have "r = (Stop, st1, w1)" by (simp add: run_slice_def)
    with I1 show ?thesis by simp
  qed
qed

lemma run_read_only_keeps:
  assumes "pl_read_only plan" and "run_twap_completion D E plan prior b g w = Some (rep, w')" and "I w"
  shows "I w'"
proof -
  obtain st w1 where l: "run_loop D E plan prior g w = Some (st, w1)"
    and w': "w' = snd (finalize D E plan b (fst (final_cleanup D E plan st w1))
                     (snd (final_cleanup D E plan st w1)))"
    using assms(2) by (auto simp: run_twap_completion_def split: option.splits prod.splits)
  have "I w1"
    using run_slices_keeps [OF l [unfolded run_loop_def], of "\<lambda>_. I"] assms(3)
      run_slice_read_only_keeps [OF assms(1)] by fastforce
  then show ?thesis by (simp add: w')
qed

end

lemma run_completion_total:
  assumes "pl_child_algo plan = Follow \<longrightarrow> 0 < pl_follow_poll_secs plan"
  shows "\<exists>rep w'. run_twap_completion D E plan prior defer guard w = Some (rep, w')"
proof -
  have "\<exists>r. run_loop D E plan prior guard w = Some r"
    unfolding run_loop_def using run_slice_total [OF assms] by (rule run_slices_total)
  then show ?thesis by (auto simp: run_twap_completion_def split: prod.split)
qed

lemma run_send_guarded:
  assumes "run_twap_completion D E plan prior defer guard w = Some (rep, w')" and "w_trace w = []"
    and "w_trace w' = later @ (t, EvPlace i a x r) # earlier"
  shows "guarded_send D E (run_deadline E plan w) (within_plan D plan) t i a x earlier"
proof -
  have "guarded_world D E (run_deadline E plan w) (within_plan D plan) w'"
    by (rule gs.run_guarded [OF assms(1)]) (simp_all add: guarded_world_def assms(2))
  with assms(3) show ?thesis by (auto simp: guarded_world_def dest!: guarded_traceD)
qed

section \<open>Properties\<close>

text \<open>C2: every order a run sends is sent strictly before the deadline of the run and carries its
  expiry, is sent before the shutdown, has its intent durably recorded beforehand when a journal is
  attached, and is an order of the plan: its symbol, side, asset, reduce-only flag and time in force,
  a positive price and size, and a notional above the exchange's minimum.\<close>

theorem run_sends_guarded:
  assumes "run_twap_completion D E plan prior defer guard w = Some (rep, w')"
    and "w_trace w = []"
    and "w_trace w' = later @ (t, EvPlace i a x r) # earlier"
  shows "t < dl_monotonic (run_deadline E plan w) \<and> x = dl_expires_after_ms (run_deadline E plan w) \<and>
         (case e_shutdown E of Some s \<Rightarrow> t < s | None \<Rightarrow> True) \<and>
         (e_has_journal E \<longrightarrow> list_ex (\<lambda>te. is_prepared_event D i (snd te)) earlier) \<and>
         within_plan D plan i a"
  using run_send_guarded [OF assms] by (simp add: guarded_send_def)

theorem run_sends_guarded_witness:
  "\<exists>rep w' later t i a x r earlier.
     run_twap_completion exact_dec (scripted_env two_fills True None) demo_plan 0 False None world_init
       = Some (rep, w') \<and>
     w_trace w' = later @ (t, EvPlace i a x r) # earlier \<and> t < secs 60 \<and> x = 60000 \<and>
     list_ex (\<lambda>te. is_prepared_event exact_dec i (snd te)) earlier \<and> within_plan exact_dec demo_plan i a"
proof -
  let ?E = "scripted_env two_fills True None"
  obtain rep w' where run: "run_twap_completion exact_dec ?E demo_plan 0 False None world_init = Some (rep, w')"
    and n: "count_events is_place w' = 2"
    using demo_run by blast
  from n have "filter (\<lambda>te. is_place (snd te)) (w_trace w') \<noteq> []" by (auto simp: count_events_def)
  then obtain te where "te \<in> set (w_trace w')" "is_place (snd te)" by (auto simp: filter_empty_conv)
  moreover obtain t ev where te: "te = (t, ev)" by (cases te)
  ultimately obtain i a x r where "(t, EvPlace i a x r) \<in> set (w_trace w')" by (cases ev) auto
  then obtain later earlier where tr: "w_trace w' = later @ (t, EvPlace i a x r) # earlier"
    by (auto simp: in_set_conv_decomp)
  have dl: "run_deadline ?E demo_plan world_init = \<lparr>dl_monotonic = secs 60, dl_expires_after_ms = 60000\<rparr>"
    by (simp add: run_deadline_def demo_plan_def deadline_new_def wall_clock_now_ms_def scripted_env_simps
        as_millis_def world_init_def secs_def ns_per_ms_def sat_add_u64_def u64_max_def)
  have "w_trace world_init = []" by (simp add: world_init_def)
  from run_sends_guarded [OF run this tr] dl
  have "t < secs 60 \<and> x = 60000 \<and> list_ex (\<lambda>te. is_prepared_event exact_dec i (snd te)) earlier \<and>
        within_plan exact_dec demo_plan i a" by (simp add: scripted_env_simps)
  with run tr show ?thesis by blast
qed

text \<open>A read-only run never sends an order, whatever the exchange answers.\<close>

theorem read_only_never_sends:
  assumes "pl_read_only plan" and "run_twap_completion D E plan prior defer guard w = Some (rep, w')"
  shows "count_events is_place w' = count_events is_place w"
proof -
  have "extends w w'" by (rule ext.run_read_only_keeps [OF assms]) simp
  then obtain es where es: "w_trace w' = es @ w_trace w" "\<forall>e\<in>set es. \<not> is_place (snd e)"
    by (auto simp: extends_def)
  then have "filter (\<lambda>te. is_place (snd te)) es = []" by (simp add: filter_empty_conv)
  with es(1) show ?thesis by (simp add: count_events_def)
qed

theorem read_only_never_sends_witness:
  "\<exists>rep w'. run_twap_completion exact_dec (scripted_env two_fills False None)
       (demo_plan\<lparr>pl_read_only := True\<rparr>) 0 False None world_init = Some (rep, w') \<and>
     rp_filled rep = 2 \<and> count_events is_place w' = 0"
proof -
  obtain rep w' where run: "run_twap_completion exact_dec (scripted_env two_fills False None)
      (demo_plan\<lparr>pl_read_only := True\<rparr>) 0 False None world_init = Some (rep, w')" and "rp_filled rep = 2"
    using demo_read_only_run by blast
  then show ?thesis
    using read_only_never_sends [OF _ run] by (auto simp: world_init_def count_events_def)
qed

text \<open>C8: every run returns a report: the slice loop, the settlements, the reconciliations and, with
  a positive poll interval, the re-quoting loop all end, whatever the exchange answers.\<close>

theorem run_returns:
  assumes "pl_child_algo plan = Follow \<longrightarrow> 0 < pl_follow_poll_secs plan"
  shows "\<exists>rep w'. run_twap_completion D E plan prior defer guard w = Some (rep, w')"
  using assms by (rule run_completion_total)

theorem run_returns_witness:
  "\<exists>rep w'. run_twap_completion exact_dec (scripted_env two_fills True None)
       (demo_plan\<lparr>pl_child_algo := Follow\<rparr>) 0 True None world_init = Some (rep, w')"
  by (rule run_returns) (simp add: demo_plan_def)

end
