(* ===== verification/Run_Ledger.thy ===== *)
theory Run_Ledger
  imports Run_Safety
begin

text \<open>
  The interface of the accounting proofs about a run. \<open>run_ledger\<close> is a predicate \<open>J\<close> on the credited
  fills, the order that rests and the world, kept while nothing is sent and restored by each operation
  that sends, settles or credits; \<open>K\<close> is what remains true of the credited fills when an operation
  fails and the run aborts. The theorem of the locale lifts both to the end of a run, so a property of
  the accounting is proved once per operation and not once per path.
\<close>

definition step_ledger ::
  "(fill_stats \<Rightarrow> resting_child option \<Rightarrow> world \<Rightarrow> bool) \<Rightarrow> fill_stats \<Rightarrow> alo_outcome \<Rightarrow> world \<Rightarrow> dec_lib \<Rightarrow> bool" where
  "step_ledger J fs out w D =
     (case out of
        AloResting child \<Rightarrow> J fs (Some child) w
      | AloSettled o1 \<Rightarrow> J (stats_add D fs (so_sz o1) (so_px o1)) None w
      | _ \<Rightarrow> J fs None w)"

text \<open>What a step of the re-quoting loop leaves; a failure leaves nothing resting.\<close>

fun follow_ledger ::
  "(fill_stats \<Rightarrow> resting_child option \<Rightarrow> world \<Rightarrow> bool) \<Rightarrow> (fill_stats \<Rightarrow> bool) \<Rightarrow>
     follow_step \<times> follow_state \<times> world \<Rightarrow> bool" where
  "follow_ledger J K (FExit (Inl e), st, w) \<longleftrightarrow> fo_resting st = None \<and> K (fo_stats st)"
| "follow_ledger J K (FExit (Inr e), st, w) \<longleftrightarrow> J (fo_stats st) (fo_resting st) w"
| "follow_ledger J K (FAgain, st, w) \<longleftrightarrow> J (fo_stats st) (fo_resting st) w"

text \<open>The state of a run that goes on, and of one that has stopped.\<close>

definition run_live where
  "run_live J st w \<longleftrightarrow> rn_abort st = None \<and> J (rn_stats st) (rn_resting st) w"

definition run_over where
  "run_over J K st w \<longleftrightarrow>
     J (rn_stats st) (rn_resting st) w \<or> rn_abort st \<noteq> None \<and> rn_resting st = None \<and> K (rn_stats st)"

fun run_step :: "(fill_stats \<Rightarrow> resting_child option \<Rightarrow> world \<Rightarrow> bool) \<Rightarrow> (fill_stats \<Rightarrow> bool) \<Rightarrow>
    flow \<times> run_state \<times> world \<Rightarrow> bool" where
  "run_step J K (Next, st, w) = run_live J st w"
| "run_step J K (Stop, st, w) = run_over J K st w"

lemma run_live_over: "run_live J st w \<Longrightarrow> run_over J K st w"
  by (simp add: run_live_def run_over_def)

lemma credit_fields [simp]:
  "rn_resting (credit D out st) = rn_resting st" "rn_abort (credit D out st) = rn_abort st"
  "rn_stats (credit D out st) = stats_add D (rn_stats st) (so_sz out) (so_px out)"
  "rn_resting (credit_positive D out st) = rn_resting st" "rn_abort (credit_positive D out st) = rn_abort st"
  "rn_stats (credit_positive D out st) =
     (if 0 < so_sz out then stats_add D (rn_stats st) (so_sz out) (so_px out) else rn_stats st)"
  by (simp_all add: credit_def credit_positive_def)

lemma follow_loop_result:
  "follow_loop tick st w = Some r \<Longrightarrow> J st w \<Longrightarrow>
     (\<And>st w. J st w \<Longrightarrow> (case tick st w of (FAgain, st1, w1) \<Rightarrow> J st1 w1 | (FExit e, st1, w1) \<Rightarrow> Q e st1 w1)) \<Longrightarrow>
     Q (fst r) (fst (snd r)) (snd (snd r))"
proof (induction tick st w r rule: follow_loop.raw_induct [rotated, consumes 1, case_names 1])
  case (1 fl tick st w r)
  obtain s st1 w1 where t: "tick st w = (s, st1, w1)" by (cases "tick st w")
  show ?case
  proof (cases s)
    case (FExit e)
    with 1(2) t 1(4) [OF 1(3)] show ?thesis by auto
  next
    case FAgain
    with 1(2) t have "fl tick st1 w1 = Some r" by simp
    moreover have "J st1 w1" using 1(4) [OF 1(3)] t FAgain by simp
    ultimately show ?thesis using 1(1) 1(4) by blast
  qed
qed

lemma run_slices_result:
  assumes "\<And>k st w r. one_slice k st w = Some r \<Longrightarrow> run_live J st w \<Longrightarrow> run_step J K r"
    and "run_slices one_slice ks st w = Some (st', w')" and "run_live J st w"
  shows "run_over J K st' w'"
  using assms(2,3)
proof (induction ks arbitrary: st w)
  case (Cons k ks)
  then obtain f st1 w1 where o: "one_slice k st w = Some (f, st1, w1)" by (auto split: option.splits)
  note c = assms(1) [OF this Cons.prems(2)]
  show ?case
  proof (cases f)
    case Next
    with c o Cons.prems(1) show ?thesis by (intro Cons.IH [of st1 w1]) simp_all
  next
    case Stop
    with c o Cons.prems(1) show ?thesis by simp
  qed
qed (simp add: run_live_over)

locale run_ledger =
  fixes D :: dec_lib and E :: env and plan :: twap_plan
    and J :: "fill_stats \<Rightarrow> resting_child option \<Rightarrow> world \<Rightarrow> bool" and K :: "fill_stats \<Rightarrow> bool"
  assumes calm: "calm_inv (J fs r)"
    and weaker: "J fs r w \<Longrightarrow> K fs"
    and settled: "J fs (Some child) w \<Longrightarrow>
      yields (\<lambda>out. J (if 0 < so_sz out then stats_add D fs (so_sz out) (so_px out) else fs) None)
        (settle_resting_child D E plan child w)"
    and posted: "J fs None w \<Longrightarrow>
      decide_slice D k (pl_slices plan) (pl_per_slice plan) (pl_total_adjusted plan) (fs_filled fs)
        (pl_sz_decimals plan) px = Place sz \<Longrightarrow>
      yields (\<lambda>out w'. step_ledger J fs out w' D) (place_alo_child D E plan dl k c px sz g w)"
    and taken: "J fs None w \<Longrightarrow>
      decide_slice D k (pl_slices plan) (pl_per_slice plan) (pl_total_adjusted plan) (fs_filled fs)
        (pl_sz_decimals plan) px = Place sz \<Longrightarrow>
      yields (\<lambda>out. J (case out of Settled o1 \<Rightarrow> stats_add D fs (so_sz o1) (so_px o1) | _ \<Rightarrow> fs) None)
        (place_slice_reconciled D E plan (slice_intent plan c px sz) dl k g w)"
    and dry: "J fs None w \<Longrightarrow> pl_read_only plan \<Longrightarrow>
      decide_slice D k (pl_slices plan) (pl_per_slice plan) (pl_total_adjusted plan) (fs_filled fs)
        (pl_sz_decimals plan) px = Place sz \<Longrightarrow>
      J (stats_add D fs sz px) None w"
begin

lemma reads: "read_inv (J fs r)"
  using calm [of fs r] by (auto simp: calm_inv_def read_inv_def dest: is_record_cases)

lemmas calm_keeps = read_inv.elapse_keeps [OF reads] read_inv.sleep_until_keeps [OF reads]
  read_inv.sleep_or_shutdown_keeps [OF reads] read_inv.fetch_fresh_book_keeps [OF reads]
  read_inv.check_before_place_keeps [OF reads] calm_inv.follow_pause_keeps [OF calm]
  calm_inv.sleep_slice_end_keeps [OF calm] calm_inv.finalize_keeps [OF calm]

section \<open>The re-quoting loop\<close>

lemma follow_settle_ledger:
  assumes "J (fo_stats st) (Some child) w"
  shows "follow_ledger J K (follow_settle D E plan child st w)"
  using yields_fst [OF settled [OF assms]] weaker [OF assms]
  by (auto simp: follow_settle_def split_beta Let_def split: sum.split)

lemma follow_settle_cleared: "fo_resting (fst (snd (follow_settle D E plan child st w))) = None"
  by (simp add: follow_settle_def split_beta Let_def split: sum.split)

definition follow_placed where
  "follow_placed fs out w' \<longleftrightarrow>
     (case out of
        FpPlaced child \<Rightarrow> J fs (Some child) w'
      | FpSettled o1 \<Rightarrow> J (stats_add D fs (so_sz o1) (so_px o1)) None w'
      | _ \<Rightarrow> J fs None w')"

lemma place_follow_ledger:
  assumes "J fs None w"
  shows "yields (follow_placed fs) (place_follow_child D E plan dl k px fs g w)"
proof -
  have "yields (follow_placed fs)
      (try_w (place_alo_child D E plan dl k (e_cloid E w) px sz g w) (\<lambda>out w1. (Inr (follow_of_alo out), w1)))"
    if "decide_slice D k (pl_slices plan) (pl_per_slice plan) (pl_total_adjusted plan) (fs_filled fs)
          (pl_sz_decimals plan) px = Place sz" for sz
    by (rule yields_bind [OF posted [OF assms that]])
      (auto simp: step_ledger_def follow_placed_def split: alo_outcome.splits)
  with assms show ?thesis
    by (auto simp: place_follow_child_def follow_placed_def split: slice_decision.split)
qed

lemma follow_quote_ledger:
  assumes "J (fo_stats st) None w" and "fo_resting st = None"
  shows "follow_ledger J K (follow_quote D E plan dl k slice_end touch g st w)"
proof -
  let ?p = "place_follow_child D E plan dl k (round_price D touch (pl_sz_decimals plan) (pl_side plan))
              (fo_stats st) g w"
  have "follow_placed (fo_stats st) out (snd ?p)" if "fst ?p = Inr out" for out
    using yields_fst [OF place_follow_ledger [OF assms(1)] that] .
  then show ?thesis
    using assms(2) weaker [OF assms(1)]
    by (cases "fst ?p") (auto simp: calm_keeps follow_quote_def split_beta follow_placed_def split: follow_place.split)
qed

lemma follow_react_ledger:
  assumes "J (fo_stats st) (fo_resting st) w"
  shows "follow_ledger J K (follow_react D E plan dl k slice_end touch g st w)"
proof (cases "fo_resting st")
  case None
  with assms follow_quote_ledger show ?thesis by (simp add: follow_react_def)
next
  case (Some child)
  with assms have r: "J (fo_stats st) (Some child) w" by simp
  obtain s st1 w1 where fs: "follow_settle D E plan child st w = (s, st1, w1)"
    by (cases "follow_settle D E plan child st w") auto
  note c = follow_settle_ledger [OF r, unfolded fs]
  note n = follow_settle_cleared [of child st w, unfolded fs, simplified]
  have "follow_ledger J K (follow_quote D E plan dl k slice_end touch g st1 w1)" if "s = FAgain"
    using c n that by (intro follow_quote_ledger) simp_all
  with c fs r Some show ?thesis by (cases s) (simp_all add: follow_react_def)
qed

lemma follow_tick_ledger:
  assumes "J (fo_stats st) (fo_resting st) w"
  shows "follow_ledger J K (follow_tick D E plan dl k slice_end g st w)"
  using assms follow_react_ledger by (simp add: calm_keeps follow_tick_def split_beta split: option.split sum.split)

lemma run_follow_loop_ledger:
  assumes "J stats rst w"
    and "run_follow_loop D E plan dl k slice_end rst stats g w = Some (e, fo, w')"
  shows "follow_ledger J K (FExit e, fo, w')"
proof -
  have step: "case follow_tick D E plan dl k slice_end g st w of
      (FAgain, st1, w1) \<Rightarrow> J (fo_stats st1) (fo_resting st1) w1
    | (FExit e, st1, w1) \<Rightarrow> follow_ledger J K (FExit e, st1, w1)"
    if "J (fo_stats st) (fo_resting st) w" for st w
    using follow_tick_ledger [OF that, of dl k slice_end g] by (auto split: follow_step.split)
  show ?thesis
    using follow_loop_result [OF assms(2) [unfolded run_follow_loop_def], of "\<lambda>st. J (fo_stats st) (fo_resting st)"
        "\<lambda>e fo w. follow_ledger J K (FExit e, fo, w)", OF _ step] assms(1) by simp
qed

section \<open>The slices\<close>

lemma abort_ledger [simp]: "J (rn_stats st) (rn_resting st) w \<Longrightarrow> run_step J K (abort_with reason st w)"
  by (simp add: abort_with_def run_over_def)

lemma abort_failed [simp]: "rn_resting st = None \<Longrightarrow> K (rn_stats st) \<Longrightarrow> run_step J K (abort_with reason st w)"
  by (simp add: abort_with_def run_over_def)

lemma settle_previous_ledger:
  assumes "run_live J st w"
  shows "run_step J K (settle_previous D E plan st w) \<and>
     (\<forall>st1 w1. settle_previous D E plan st w = (Next, st1, w1) \<longrightarrow> rn_resting st1 = None)"
proof (cases "rn_resting st")
  case None
  with assms show ?thesis by (simp add: settle_previous_def)
next
  case (Some child)
  with assms have r: "J (rn_stats st) (Some child) w" by (simp add: run_live_def)
  show ?thesis
    using Some yields_fst [OF settled [OF r]] assms weaker [OF r]
    by (auto simp: settle_previous_def split_beta run_live_def abort_with_def run_over_def split: sum.split)
qed

lemma slice_top_ledger:
  assumes "run_live J st w"
  shows "run_step J K (slice_top D E plan dl prior g k st w) \<and>
     (\<forall>st1 w1. slice_top D E plan dl prior g k st w = (Next, st1, w1) \<longrightarrow> rn_resting st1 = None)"
proof -
  obtain f st1 w1 where sp: "settle_previous D E plan st w = (f, st1, w1)"
    by (cases "settle_previous D E plan st w") auto
  note c = settle_previous_ledger [OF assms, unfolded sp]
  have j: "J (rn_stats st) (rn_resting st) w" using assms by (simp add: run_live_def)
  show ?thesis
  proof (cases f)
    case Next
    with c have "run_live J st1 w1" "rn_resting st1 = None" by simp_all
    then show ?thesis using sp Next j
      by (auto simp: calm_keeps slice_top_def run_live_def run_over_def split_beta split: option.split sum.split bool.split)
        (auto simp: abort_with_def)
  next
    case Stop
    with c sp j show ?thesis by (auto simp: calm_keeps slice_top_def split_beta) (auto simp: abort_with_def)
  qed
qed

lemma send_market_ledger:
  assumes "run_live J st w" and "rn_resting st = None"
    and "decide_slice D k (pl_slices plan) (pl_per_slice plan) (pl_total_adjusted plan)
           (fs_filled (rn_stats st)) (pl_sz_decimals plan) px = Place sz"
  shows "run_step J K (send_market D E plan dl g k c px sz st w)"
proof -
  have j: "J (rn_stats st) None w" using assms by (simp add: run_live_def)
  let ?p = "place_slice_reconciled D E plan (slice_intent plan c px sz) dl k g w"
  have "J (case a of Settled o1 \<Rightarrow> stats_add D (rn_stats st) (so_sz o1) (so_px o1) | _ \<Rightarrow> rn_stats st) None (snd ?p)"
    if "fst ?p = Inr a" for a
    using yields_fst [OF taken [OF j assms(3)] that] .
  then show ?thesis
    using weaker [OF j] assms(1,2)
    by (cases "fst ?p") (auto simp: send_market_def split_beta run_live_def run_over_def
        split: place_slice_outcome.split hl_error.split)
qed

lemma send_alo_ledger:
  assumes "run_live J st w" and "rn_resting st = None"
    and "decide_slice D k (pl_slices plan) (pl_per_slice plan) (pl_total_adjusted plan)
           (fs_filled (rn_stats st)) (pl_sz_decimals plan) px = Place sz"
  shows "run_step J K (send_alo D E plan dl g k c px sz st w)"
proof -
  have j: "J (rn_stats st) None w" using assms by (simp add: run_live_def)
  let ?p = "place_alo_child D E plan dl k c px sz g w"
  have "step_ledger J (rn_stats st) a (snd ?p) D" if "fst ?p = Inr a" for a
    using yields_fst [OF posted [OF j assms(3)] that] .
  then show ?thesis
    using weaker [OF j] assms(1,2)
    by (cases "fst ?p") (auto simp: send_alo_def split_beta run_live_def run_over_def step_ledger_def
        split: alo_outcome.split)
qed

lemma send_slice_ledger:
  assumes "run_live J st w" and "rn_resting st = None"
    and "decide_slice D k (pl_slices plan) (pl_per_slice plan) (pl_total_adjusted plan)
           (fs_filled (rn_stats st)) (pl_sz_decimals plan) px = Place sz"
    and "send_slice D E plan dl g k slice_end px sz st w = Some r"
  shows "run_step J K r"
proof (cases "pl_child_algo plan")
  case Market
  with assms(4) send_market_ledger [OF assms(1-3)] show ?thesis by (auto simp: send_slice_def)
next
  case Passive
  with assms(4) send_alo_ledger [OF assms(1-3)] show ?thesis by (auto simp: send_slice_def)
next
  case Follow
  obtain f st1 w1 where sa: "send_alo D E plan dl g k (e_cloid E w) px sz st w = (f, st1, w1)"
    by (cases "send_alo D E plan dl g k (e_cloid E w) px sz st w") auto
  note c = send_alo_ledger [OF assms(1-3), of dl g "e_cloid E w", unfolded sa]
  show ?thesis
  proof (cases f)
    case Next
    with c have a: "rn_abort st1 = None" and j: "J (rn_stats st1) (rn_resting st1) w1"
      by (simp_all add: run_live_def)
    from assms(4) Follow sa Next obtain e fo w2 where
      rf: "run_follow_loop D E plan dl k slice_end (rn_resting st1) (rn_stats st1) g w1 = Some (e, fo, w2)"
      and r: "r = after_follow (e, fo, w2) st1" by (auto simp: send_slice_def)
    from run_follow_loop_ledger [OF j rf] a show ?thesis
      by (auto simp: r after_follow_def Let_def run_live_def run_over_def split: sum.split follow_exit.split)
  next
    case Stop
    with assms(4) Follow sa c show ?thesis by (auto simp: send_slice_def)
  qed
qed

lemma slice_tail_ledger:
  assumes "run_live J st w"
  shows "run_step J K (slice_tail E plan slice_end st w)"
  using assms by (auto simp: calm_keeps slice_tail_def split_beta run_live_def run_over_def)

lemma slice_order_ledger:
  assumes "run_live J st w" and "rn_resting st = None"
    and "decide_slice D k (pl_slices plan) (pl_per_slice plan) (pl_total_adjusted plan)
           (fs_filled (rn_stats st)) (pl_sz_decimals plan) px = Place sz"
    and "slice_order D E plan dl g k slice_end sz px st w = Some r"
  shows "run_step J K r"
proof (cases "pl_read_only plan")
  case True
  with assms have "J (stats_add D (rn_stats st) sz px) None w" by (intro dry) (auto simp: run_live_def)
  with True assms show ?thesis by (auto simp: calm_keeps slice_order_def run_live_def)
next
  case False
  with assms(4) obtain f st1 w1 where s: "send_slice D E plan dl g k slice_end px sz st w = Some (f, st1, w1)"
    by (auto simp: slice_order_def split: option.splits)
  note c = send_slice_ledger [OF assms(1-3) s]
  show ?thesis
  proof (cases f)
    case Next
    with c have "run_step J K (slice_tail E plan slice_end st1 w1)" by (intro slice_tail_ledger) simp
    with assms(4) False s Next show ?thesis by (simp add: slice_order_def)
  next
    case Stop
    with assms(4) False s c show ?thesis by (simp add: slice_order_def)
  qed
qed

lemma run_slice_ledger:
  assumes "run_live J st w" and "run_slice D E plan dl start prior g k st w = Some r"
  shows "run_step J K r"
proof -
  obtain f st1 w1 where top: "slice_top D E plan dl prior g k st w = (f, st1, w1)"
    by (cases "slice_top D E plan dl prior g k st w") auto
  note c = slice_top_ledger [OF assms(1), of dl prior g k, unfolded top]
  obtain b w2 where bk: "fetch_fresh_book D E (pl_symbol plan) (pl_max_book_age_ms plan) (Some dl) w1 = (b, w2)"
    by (cases "fetch_fresh_book D E (pl_symbol plan) (pl_max_book_age_ms plan) (Some dl) w1") auto
  show ?thesis
  proof (cases f)
    case Next
    with c have l1: "run_live J st1 w1" and n1: "rn_resting st1 = None" by simp_all
    then have l2: "run_live J st1 w2"
      using read_inv.fetch_fresh_book_keeps [OF reads, of _ _ w1 D E "pl_symbol plan" "pl_max_book_age_ms plan" "Some dl"] bk
      by (simp add: run_live_def)
    have order: "run_step J K r'"
      if "slice_gates D plan k (rn_stats st1) snap = GateOrder sz px"
        and "slice_order D E plan dl g k e sz px st1 w2 = Some r'" for snap sz px e r'
      using slice_order_ledger [OF l2 n1 _ that(2)] slice_gates_GateOrder [OF that(1)] by blast
    from assms(2) top bk Next l2 show ?thesis
      by (auto simp: calm_keeps run_slice_def Let_def run_live_def run_over_def split: sum.splits slice_gate.splits dest: order)
  next
    case Stop
    with assms(2) top c show ?thesis by (auto simp: run_slice_def)
  qed
qed

section \<open>The run\<close>

lemma final_cleanup_ledger:
  assumes "run_over J K st w" and "final_cleanup D E plan st w = (st', w')"
  shows "K (rn_stats st') \<and> (rn_abort st' = None \<longrightarrow> J (rn_stats st') None w')"
proof (cases "rn_resting st")
  case None
  with assms weaker show ?thesis by (auto simp: final_cleanup_def run_over_def)
next
  case (Some child)
  with assms(1) have j: "J (rn_stats st) (Some child) w" by (simp add: run_over_def)
  show ?thesis
    using assms(2) Some yields_fst [OF settled [OF j]] weaker [OF j] weaker
    by (auto simp: final_cleanup_def split_beta get_or_insert_def split: sum.splits)
qed

lemma finalize_stats: "rn_stats (fst (finalize D E plan b st w)) = rn_stats st"
  by (simp add: finalize_def split_beta split: sum.split)

lemma finalize_abort: "rn_abort (fst (finalize D E plan b st w)) = None \<Longrightarrow> rn_abort st = None"
  by (auto simp: finalize_def split_beta split: if_splits sum.splits)

theorem run_accounted:
  assumes "run_twap_completion D E plan prior defer guard w = Some (rep, w')"
    and "J (with_prior_notional prior) None w"
  shows "\<exists>fs. rp_filled rep = fs_filled fs \<and> K fs \<and> (rp_abort_reason rep = None \<longrightarrow> J fs None w')"
proof -
  obtain st w1 where l: "run_loop D E plan prior guard w = Some (st, w1)"
    using assms(1) by (auto simp: run_twap_completion_def split: option.splits)
  obtain st2 w2 where fc: "final_cleanup D E plan st w1 = (st2, w2)"
    by (cases "final_cleanup D E plan st w1")
  from assms(1) l fc have w': "w' = snd (finalize D E plan defer st2 w2)"
    and rep: "rp_filled rep = fs_filled (rn_stats st2)"
      "rp_abort_reason rep = rn_abort (fst (finalize D E plan defer st2 w2))"
    by (auto simp: run_twap_completion_def report_of_def finalize_stats split_beta)
  have "run_live J (run_state_init prior) w" using assms(2) by (simp add: run_live_def run_state_init_def)
  with l have "run_over J K st w1"
    unfolding run_loop_def by (intro run_slices_result) (auto intro: run_slice_ledger)
  note fin = final_cleanup_ledger [OF this fc]
  have "rp_abort_reason rep = None \<longrightarrow> rn_abort st2 = None" using rep(2) finalize_abort by metis
  with fin rep(1) show ?thesis by (auto simp: w' calm_keeps)
qed

end

end
