(* ===== verification/Run_Bounds.thy ===== *)
theory Run_Bounds
  imports Run_Ledger Replay_Facts
begin

text \<open>
  A run never executes more than its plan: what it has filled, plus what rests on the book, stays
  within the adjusted total. The code does not check that a reported size lies on the size grid of the
  asset, so the sizes are assumed only to have at most \<open>n\<close> decimals, for some \<open>n\<close> up to 28 at which the
  total of the plan is still exact in 96 bits: then no addition of the accounting is rounded. Everything
  else the exchange answers is arbitrary, and is validated by the code.
\<close>

definition grid_env :: "nat \<Rightarrow> env \<Rightarrow> bool" where
  "grid_env n E \<longleftrightarrow>
     (\<forall>w i a x v oid sz px. fst (e_place E w i a x) = Inr (v, Filled oid sz px) \<longrightarrow> on_grid n sz) \<and>
     (\<forall>w u oid st. fst (e_status E w u oid) = Inr (Some st) \<longrightarrow> on_grid n (os_filled_sz st)) \<and>
     (\<forall>w u c st. fst (e_status_cloid E w u c) = Inr (Some st) \<longrightarrow> on_grid n (os_filled_sz st))"

lemma grid_env_mono:
  assumes "grid_env m E" and "m \<le> n"
  shows "grid_env n E"
  using assms(1) on_grid_mono [OF _ assms(2)] unfolding grid_env_def by meson

text \<open>
  A plan as pre-flight sizing or the continuation of a resumed run makes it: on the size grid, with every
  cumulative target before the last slice within the adjusted total.
\<close>

definition sized_plan :: "twap_plan \<Rightarrow> bool" where
  "sized_plan plan \<longleftrightarrow>
     on_grid (pl_sz_decimals plan) (pl_per_slice plan) \<and> 0 \<le> pl_per_slice plan \<and>
     on_grid (pl_sz_decimals plan) (pl_total_adjusted plan) \<and> 0 \<le> pl_total_adjusted plan \<and>
     pl_per_slice plan * of_nat (pl_slices plan - 1) \<le> pl_total_adjusted plan \<and>
     pl_sz_decimals plan \<le> 28 \<and> pl_total_adjusted plan * 10 ^ pl_sz_decimals plan < 2 ^ 96"

text \<open>The decimals at which the accounting of a plan is exact; the size grid itself is one choice.\<close>

definition exact_decimals :: "twap_plan \<Rightarrow> nat \<Rightarrow> bool" where
  "exact_decimals plan n \<longleftrightarrow> pl_sz_decimals plan \<le> n \<and> n \<le> 28 \<and> pl_total_adjusted plan * 10 ^ n < 2 ^ 96"

lemma sized_exact_decimals: "sized_plan plan \<Longrightarrow> exact_decimals plan (pl_sz_decimals plan)"
  by (simp add: sized_plan_def exact_decimals_def)

section \<open>Every adopted size\<close>

lemmas yields_writes = yields_any [where m = "journal_write E m r w" for E m r w]
  yields_any [where m = "journal_terminal D E k c st z a w" for D E k c st z a w]
  yields_any_err [where m = "journal_write E m r w" for E m r w]
  yields_any_err [where m = "journal_terminal D E k c st z a w" for D E k c st z a w]

definition size_ok :: "nat \<Rightarrow> order_intent \<Rightarrow> slice_outcome \<Rightarrow> bool" where
  "size_ok n i out \<longleftrightarrow> on_grid n (so_sz out) \<and> 0 \<le> so_sz out \<and> so_sz out \<le> oi_sz i"

definition status_ok :: "nat \<Rightarrow> order_status_fill \<Rightarrow> bool" where
  "status_ok n st \<longleftrightarrow> on_grid n (os_filled_sz st)"

lemma status_reply:
  assumes "grid_env n E"
  shows "fst (fetch_order_status E u oid w) = Inr (Some st) \<Longrightarrow> status_ok n st"
    and "fst (fetch_order_status_by_cloid E u c w) = Inr (Some st) \<Longrightarrow> status_ok n st"
  using assms by (auto simp: grid_env_def status_ok_def fetch_order_status_def fetch_order_status_by_cloid_def split_beta)

lemma poll_size:
  assumes "grid_env n E" and "fst (poll_loop E plan user oid c left k sc w) = Inr st"
  shows "status_ok n st"
  using assms(2)
proof (induction left arbitrary: k sc w)
  case (Suc left)
  then show ?case
    using status_reply(1) [OF assms(1), of user oid w]
    by (auto simp: split_beta adopt_terminal_def and_then_Inr split: sum.splits option.splits if_splits)
qed simp

lemma ledger_size:
  "aggregate_verified_user_fills D fills i oid b = Inr out \<Longrightarrow> so_sz out = oi_sz i"
  by (auto simp: aggregate_verified_user_fills_def and_then_Inr Let_def split: if_splits)

lemma recover_size:
  assumes "grid_env n E" and "on_grid n (oi_sz i)"
  shows "yields (\<lambda>st _. status_ok n st) (recover_resting_fill D E plan c oid i w)"
proof (rule yields_alt)
  fix st assume "fst (recover_resting_fill D E plan c oid i w) = Inr st"
  then show "status_ok n st"
    using assms(2) poll_size [OF assms(1)]
    by (auto simp: recover_resting_fill_def recover_from_ledger_def poll_terminal_status_def split_beta Let_def
        canceled_status_def status_ok_def ledger_size split: option.splits sum.splits if_splits)
qed

lemma adopt_size:
  "status_ok n st \<Longrightarrow> yields (\<lambda>out _. size_ok n i out) (adopt_status D E k i st w)"
  unfolding adopt_status_def
  by (rule yields_pure, rule yields_any) (auto simp: size_ok_def status_ok_def try_from_status_def guard_simps)

lemma reconcile_loop_size:
  assumes "grid_env n E"
  shows "fst (reconcile_loop E plan u c left k start m w) = Inr (Some st) \<Longrightarrow> status_ok n st"
proof (induction left arbitrary: k start m w)
  case (Suc left)
  then show ?case
    using status_reply(2) [OF assms, of u c w]
    by (auto simp: split_beta Let_def split: sum.splits option.splits if_splits)
qed simp

lemma reconcile_size:
  "grid_env n E \<Longrightarrow> fst (reconcile_by_cloid E plan u c w) = Inr (Some st) \<Longrightarrow> status_ok n st"
  unfolding reconcile_by_cloid_def by (rule reconcile_loop_size)

lemma ioc_response_size:
  assumes "grid_env n E" and "on_grid n (oi_sz i)" and "\<And>v oid sz px. r = Inr (v, Filled oid sz px) \<Longrightarrow> on_grid n sz"
  shows "yields (\<lambda>out _. case out of None \<Rightarrow> True | Some o1 \<Rightarrow> size_ok n i o1) (ioc_response D E plan k i r w)"
proof (cases r)
  case (Inl e)
  then show ?thesis by (cases e) (auto simp: ioc_response_def intro!: yields_writes)
next
  case (Inr p)
  show ?thesis
  proof (cases "snd p")
    case (Resting oid)
    have "yields (\<lambda>out _. case out of None \<Rightarrow> True | Some o1 \<Rightarrow> size_ok n i o1)
        (try_w (recover_resting_fill D E plan (oi_cloid i) oid i w1)
          (\<lambda>st w2. try_w (adopt_status D E k i st w2) (\<lambda>out w3. (Inr (Some out), w3))))" for w1
      by (rule yields_bind [OF recover_size [OF assms(1,2)]], erule yields_bind [OF adopt_size]) simp
    with Inr Resting show ?thesis by (cases p) (auto simp: ioc_response_def intro!: yields_writes)
  next
    case (Filled oid sz px)
    with Inr assms(3) have "on_grid n sz" by (cases p) auto
    with Inr Filled show ?thesis
      by (cases p) (auto simp: ioc_response_def size_ok_def guard_simps intro!: yields_pure yields_writes)
  qed
qed

definition settled_ok :: "nat \<Rightarrow> order_intent \<Rightarrow> place_slice_outcome \<Rightarrow> bool" where
  "settled_ok n i out \<longleftrightarrow> (case out of Settled o1 \<Rightarrow> size_ok n i o1 | _ \<Rightarrow> True)"

lemma ioc_reconcile_size:
  assumes "grid_env n E"
  shows "yields (\<lambda>out _. case out of None \<Rightarrow> True | Some o1 \<Rightarrow> settled_ok n i o1)
    (ioc_reconcile D E plan dl k i b w)"
proof -
  have ad: "yields (\<lambda>out _. case out of None \<Rightarrow> True | Some o1 \<Rightarrow> settled_ok n i o1)
      (try_w (adopt_status D E k i st w3) (\<lambda>out w4. (Inr (Some (Settled out)), w4)))"
    if "fst (reconcile_by_cloid E plan u c w2) = Inr (Some st)" for st w3 u c w2
    by (rule yields_bind [OF adopt_size [OF reconcile_size [OF assms that]]]) (simp add: settled_ok_def)
  show ?thesis
    unfolding ioc_reconcile_def split_beta
    by (rule yields_any, rule yields_pure)
      (auto simp: settled_ok_def [of _ _ SliceShutdown] split: sum.split option.split intro!: yields_pure yields_writes ad)
qed

lemma place_reply:
  assumes "grid_env n E" and "fst (place_order_once E i a x w) = Inr (v, Filled oid sz px)"
  shows "on_grid n sz"
  using assms unfolding grid_env_def place_order_once_def split_beta fst_conv by blast

lemma place_loop_size:
  assumes "grid_env n E" and "on_grid n (oi_sz i)"
  shows "yields (\<lambda>out _. settled_ok n i out) (place_loop D E plan dl k i g left b w)"
proof (induction left arbitrary: b w)
  case 0
  show ?case
    by (subst place_loop.simps, rule yields_any)
      (auto simp: split_beta settled_ok_def [of _ _ SliceTargetReached] settled_ok_def [of _ _ SliceShutdown]
        settled_ok_def [of _ _ "Settled out" for out]
        split: gate.split option.splits dest: place_reply [OF assms(1)]
        intro!: yields_bind [OF ioc_response_size [OF assms]] yields_bind [OF ioc_reconcile_size [OF assms(1)]])
next
  case (Suc left)
  then show ?case
    by (subst place_loop.simps, intro yields_any)
      (auto simp: split_beta settled_ok_def [of _ _ SliceTargetReached] settled_ok_def [of _ _ SliceShutdown]
        settled_ok_def [of _ _ "Settled out" for out]
        split: gate.split option.splits dest: place_reply [OF assms(1)]
        intro!: yields_bind [OF ioc_response_size [OF assms]] yields_bind [OF ioc_reconcile_size [OF assms(1)]])
qed

lemma place_slice_size:
  assumes "grid_env n E" and "on_grid n (oi_sz i)"
  shows "yields (\<lambda>out _. settled_ok n i out) (place_slice_reconciled D E plan i dl k g w)"
  unfolding place_slice_reconciled_def
  by (rule yields_any, rule yields_any, rule place_loop_size [OF assms])

definition alo_ok :: "nat \<Rightarrow> order_intent \<Rightarrow> alo_outcome \<Rightarrow> bool" where
  "alo_ok n i out \<longleftrightarrow>
     (case out of AloSettled o1 \<Rightarrow> size_ok n i o1 | AloResting child \<Rightarrow> rc_requested_sz child = oi_sz i | _ \<Rightarrow> True)"

lemma alo_ambiguous_size:
  assumes "grid_env n E" and "on_grid n (oi_sz i)"
  shows "yields (\<lambda>out _. alo_ok n i out) (alo_ambiguous D E plan k i w)"
proof -
  have ad: "yields (\<lambda>out _. alo_ok n i out)
      (try_w (err_w h (adopt_status D E k i st w3)) (\<lambda>out w4. (Inr (AloSettled out), w4)))"
    if "status_ok n st" for st w3 h
    by (rule yields_bind_err [OF adopt_size [OF that]]) (simp add: alo_ok_def)
  have rec: "yields (\<lambda>out _. alo_ok n i out)
      (try_w (err_w h (recover_resting_fill D E plan (oi_cloid i) oid i w3)) (\<lambda>st w4.
         try_w (err_w h' (adopt_status D E k i st w4)) (\<lambda>out w5. (Inr (AloSettled out), w5))))" for w3 oid h h'
    by (rule yields_bind_err [OF recover_size [OF assms]]) (rule ad)
  show ?thesis
    unfolding alo_ambiguous_def split_beta
    by (rule yields_any_err, rule yields_pure_err)
      (auto split: sum.split option.split intro!: yields_pure_err rec ad dest: status_reply(2) [OF assms(1)])
qed

lemma alo_response_size:
  assumes "grid_env n E" and "on_grid n (oi_sz i)"
  shows "yields (\<lambda>out _. alo_ok n i out) (alo_response D E plan k i r w)"
  using alo_ambiguous_size [OF assms] unfolding alo_response_def
  by (auto simp: alo_ok_def [of _ _ AloRejectedSkip] alo_ok_def [of _ _ "AloResting ch" for ch] intro!: yields_writes
      split: sum.split hl_error.split place_outcome.split)

lemma place_alo_size:
  assumes "grid_env n E" and "on_grid n sz"
  shows "yields (\<lambda>out _. alo_ok n (alo_intent plan c px sz) out) (place_alo_child D E plan dl k c px sz g w)"
proof -
  have "on_grid n (oi_sz (alo_intent plan c px sz))" by (simp add: alo_intent_def assms(2))
  note resp = alo_response_size [OF assms(1) this]
  show ?thesis
    unfolding place_alo_child_def Let_def
    by (rule yields_any_err, rule yields_any_err)
      (auto simp: split_beta alo_ok_def [of _ _ AloTargetReached] alo_ok_def [of _ _ AloShutdown]
        split: gate.split intro!: resp)
qed

lemma settle_resting_size:
  assumes "grid_env n E" and "on_grid n (rc_requested_sz child)"
  shows "yields (\<lambda>out _. on_grid n (so_sz out) \<and> 0 \<le> so_sz out \<and> so_sz out \<le> rc_requested_sz child)
           (settle_resting_child D E plan child w)"
proof -
  define i where "i = \<lparr>oi_cloid = rc_cloid child, oi_symbol = pl_symbol plan, oi_side = pl_side plan,
    oi_px = rc_px child, oi_sz = rc_requested_sz child, oi_tif = Alo, oi_reduce_only = pl_reduce_only plan\<rparr>"
  have sz: "oi_sz i = rc_requested_sz child" by (simp add: i_def)
  have r: "fst (recover_resting_fill D E plan c oid i w) = Inr st \<Longrightarrow> on_grid n (os_filled_sz st)" for c oid w st
    using yields_fst [OF recover_size [OF assms(1), of i]] assms(2) sz by (simp add: status_ok_def)
  show ?thesis
    unfolding settle_resting_child_def i_def [symmetric] Let_def split_beta
    by (rule yields_alt) (auto simp: try_from_status_def guard_simps sz split: sum.splits dest!: r)
qed

section \<open>The accounting of a run\<close>

definition room :: "twap_plan \<Rightarrow> resting_child option \<Rightarrow> decimal" where
  "room plan r = pl_total_adjusted plan - (case r of None \<Rightarrow> 0 | Some child \<Rightarrow> rc_requested_sz child)"

definition filled_ok :: "nat \<Rightarrow> twap_plan \<Rightarrow> fill_stats \<Rightarrow> resting_child option \<Rightarrow> bool" where
  "filled_ok n plan fs r \<longleftrightarrow>
     on_grid n (fs_filled fs) \<and> 0 \<le> fs_filled fs \<and> fs_filled fs \<le> room plan r \<and>
     (case r of None \<Rightarrow> True
      | Some child \<Rightarrow> on_grid n (rc_requested_sz child) \<and> 0 \<le> rc_requested_sz child)"

lemma room_simps: "room plan None = pl_total_adjusted plan"
  "room plan (Some child) = pl_total_adjusted plan - rc_requested_sz child"
  by (simp_all add: room_def)

context decimal_crate
begin

lemma representable_in_plan:
  assumes "exact_decimals plan n" and "on_grid n x" and "\<bar>x\<bar> \<le> pl_total_adjusted plan"
  shows "representable x"
  using assms unfolding exact_decimals_def
  by (intro representableI [of n])
    (auto intro: le_less_trans [OF mult_right_mono])

lemma credit_ok:
  assumes "exact_decimals plan n" and "filled_ok n plan fs None" and "on_grid n sz"
    and "0 \<le> sz" and "fs_filled fs + sz \<le> pl_total_adjusted plan"
  shows "filled_ok n plan (stats_add D fs sz px) None"
proof -
  have g: "on_grid n (fs_filled fs + sz)"
    using assms(2,3) by (simp add: filled_ok_def on_grid_add)
  have "representable (fs_filled fs + sz)"
    using assms by (intro representable_in_plan [OF assms(1) g]) (simp add: filled_ok_def)
  with g assms show ?thesis by (simp add: filled_ok_def stats_add_def d_add_exact room_simps)
qed

lemma target_in_plan:
  fixes k :: nat
  assumes "sized_plan plan"
  defines "T \<equiv> target_at_slice D k (pl_slices plan) (pl_per_slice plan) (pl_total_adjusted plan)"
  shows "on_grid (pl_sz_decimals plan) T \<and> 0 \<le> T \<and> T \<le> pl_total_adjusted plan"
proof -
  have tot: "on_grid (pl_sz_decimals plan) (pl_total_adjusted plan)" "0 \<le> pl_total_adjusted plan"
    using assms(1) by (auto simp: sized_plan_def on_grid_mult_nat)
  show ?thesis
  proof (cases "pl_slices plan \<le> k")
    case True
    with tot show ?thesis by (simp add: T_def target_at_slice_def)
  next
    case False
    then have "pl_per_slice plan * of_nat k \<le> pl_per_slice plan * of_nat (pl_slices plan - 1)"
      using assms(1) by (intro mult_left_mono) (auto simp: sized_plan_def)
    then have le: "pl_per_slice plan * of_nat k \<le> pl_total_adjusted plan" using assms(1) by (simp add: sized_plan_def)
    have g: "on_grid (pl_sz_decimals plan) (pl_per_slice plan * of_nat k)" "0 \<le> pl_per_slice plan * of_nat k"
      using assms(1) by (simp_all add: sized_plan_def on_grid_mult_nat)
    with le have "representable (pl_per_slice plan * of_nat k)"
      by (intro representable_in_plan [OF sized_exact_decimals [OF assms(1)]]) simp_all
    with False le g show ?thesis by (simp add: T_def target_at_slice_def d_mul_exact)
  qed
qed

lemma order_in_room:
  assumes "sized_plan plan" and "exact_decimals plan n" and "filled_ok n plan fs None"
    and "decide_slice D k (pl_slices plan) (pl_per_slice plan) (pl_total_adjusted plan) (fs_filled fs)
           (pl_sz_decimals plan) px = Place sz"
  shows "on_grid n sz \<and> 0 < sz \<and> fs_filled fs + sz \<le> pl_total_adjusted plan"
proof -
  let ?T = "target_at_slice D k (pl_slices plan) (pl_per_slice plan) (pl_total_adjusted plan)"
  note T = target_in_plan [OF assms(1), of k]
  have le: "pl_sz_decimals plan \<le> n" using assms(2) by (simp add: exact_decimals_def)
  have f: "on_grid n (fs_filled fs)" "0 \<le> fs_filled fs" "fs_filled fs \<le> pl_total_adjusted plan"
    using assms(3) by (simp_all add: filled_ok_def room_simps)
  have "on_grid n (?T - fs_filled fs)" using T f(1) le by (blast intro: on_grid_diff on_grid_mono)
  then have "representable (?T - fs_filled fs)"
    by (rule representable_in_plan [OF assms(2)]) (use T f in auto)
  from slice_order_size_bounds [OF this, of "pl_sz_decimals plan"] decide_slice_Place [OF assms(4)] T
  show ?thesis using on_grid_mono [OF _ le] by auto
qed

end

text \<open>What the bound rests on, carried by the accounting predicate.\<close>

definition bounded_run :: "nat \<Rightarrow> dec_lib \<Rightarrow> env \<Rightarrow> twap_plan \<Rightarrow> bool" where
  "bounded_run n D E plan \<longleftrightarrow> decimal_crate D \<and> grid_env n E \<and> sized_plan plan \<and> exact_decimals plan n"

interpretation bd: run_ledger D E plan "\<lambda>fs r w. bounded_run n D E plan \<and> filled_ok n plan fs r"
  "\<lambda>fs. 0 \<le> fs_filled fs \<and> fs_filled fs \<le> pl_total_adjusted plan" for D E plan n
proof (rule run_ledger.intro)
  fix fs r
  show "calm_inv (\<lambda>w. bounded_run n D E plan \<and> filled_ok n plan fs r)" by unfold_locales simp_all
next
  fix fs r and w :: world
  assume "bounded_run n D E plan \<and> filled_ok n plan fs r"
  then show "0 \<le> fs_filled fs \<and> fs_filled fs \<le> pl_total_adjusted plan"
    by (cases r) (auto simp: filled_ok_def room_simps)
next
  fix fs child w
  assume j: "bounded_run n D E plan \<and> filled_ok n plan fs (Some child)"
  then have b: "decimal_crate D" "grid_env n E" "sized_plan plan" "exact_decimals plan n"
    and c: "on_grid n (rc_requested_sz child)" "filled_ok n plan fs None"
      "fs_filled fs + rc_requested_sz child \<le> pl_total_adjusted plan"
    by (auto simp: bounded_run_def filled_ok_def room_simps)
  show "yields (\<lambda>out w. bounded_run n D E plan \<and>
      filled_ok n plan (if 0 < so_sz out then stats_add D fs (so_sz out) (so_px out) else fs) None)
      (settle_resting_child D E plan child w)"
  proof (rule yields_alt)
    fix out assume "fst (settle_resting_child D E plan child w) = Inr out"
    from yields_fst [OF settle_resting_size [OF b(2) c(1)] this]
    have "on_grid n (so_sz out)" "0 \<le> so_sz out" "so_sz out \<le> rc_requested_sz child" by auto
    with c j decimal_crate.credit_ok [OF b(1,4) c(2), of "so_sz out" "so_px out"]
    show "bounded_run n D E plan \<and>
      filled_ok n plan (if 0 < so_sz out then stats_add D fs (so_sz out) (so_px out) else fs) None" by simp
  qed
next
  fix fs and w :: world and k px sz dl c g
  assume j: "bounded_run n D E plan \<and> filled_ok n plan fs None"
    and "decide_slice D k (pl_slices plan) (pl_per_slice plan) (pl_total_adjusted plan) (fs_filled fs)
           (pl_sz_decimals plan) px = Place sz"
  then have b: "decimal_crate D" "grid_env n E" "sized_plan plan" "exact_decimals plan n"
    and s: "on_grid n sz" "0 < sz" "fs_filled fs + sz \<le> pl_total_adjusted plan"
    using decimal_crate.order_in_room by (auto simp: bounded_run_def)
  have credit: "filled_ok n plan (stats_add D fs (so_sz out) p) None"
    if "size_ok n i out" and "oi_sz i = sz" for out i p
    using that s j by (intro decimal_crate.credit_ok [OF b(1,4)]) (auto simp: size_ok_def)
  show "yields (\<lambda>out w'. step_ledger (\<lambda>fs r w. bounded_run n D E plan \<and> filled_ok n plan fs r) fs out w' D)
          (place_alo_child D E plan dl k c px sz g w)"
  proof (rule yields_alt)
    fix out assume "fst (place_alo_child D E plan dl k c px sz g w) = Inr out"
    from yields_fst [OF place_alo_size [OF b(2) s(1)] this] j credit s
    show "step_ledger (\<lambda>fs r w. bounded_run n D E plan \<and> filled_ok n plan fs r) fs out
            (snd (place_alo_child D E plan dl k c px sz g w)) D"
      by (auto simp: step_ledger_def alo_ok_def alo_intent_def filled_ok_def room_simps split: alo_outcome.splits)
  qed
  show "yields (\<lambda>out w. bounded_run n D E plan \<and>
      filled_ok n plan (case out of Settled o1 \<Rightarrow> stats_add D fs (so_sz o1) (so_px o1) | _ \<Rightarrow> fs) None)
      (place_slice_reconciled D E plan (slice_intent plan c px sz) dl k g w)"
  proof (rule yields_alt)
    fix out assume a: "fst (place_slice_reconciled D E plan (slice_intent plan c px sz) dl k g w) = Inr out"
    have i: "oi_sz (slice_intent plan c px sz) = sz" by (simp add: slice_intent_def)
    from yields_fst [OF place_slice_size [OF b(2)] a] i s(1) j credit
    show "bounded_run n D E plan \<and>
      filled_ok n plan (case out of Settled o1 \<Rightarrow> stats_add D fs (so_sz o1) (so_px o1) | _ \<Rightarrow> fs) None"
      by (auto simp: settled_ok_def split: place_slice_outcome.splits)
  qed
  show "bounded_run n D E plan \<and> filled_ok n plan (stats_add D fs sz px) None"
    using j s by (auto intro: decimal_crate.credit_ok [OF b(1,4)])
qed

lemma run_filled_bounds_at:
  assumes "decimal_crate D" and "grid_env n E" and "sized_plan plan" and "exact_decimals plan n"
    and "run_twap_completion D E plan prior defer guard w = Some (rep, w')"
  shows "0 \<le> rp_filled rep \<and> rp_filled rep \<le> pl_total_adjusted plan"
proof -
  have "0 \<le> pl_total_adjusted plan" using assms(3) by (simp add: sized_plan_def)
  then have "bounded_run n D E plan \<and> filled_ok n plan (with_prior_notional prior) None"
    using assms(1-4) by (simp add: bounded_run_def filled_ok_def room_simps with_prior_notional_def)
  from bd.run_accounted [OF assms(5) this] show ?thesis by auto
qed

lemma run_filled_bounds:
  assumes "decimal_crate D" and "grid_env (pl_sz_decimals plan) E" and "sized_plan plan"
    and "run_twap_completion D E plan prior defer guard w = Some (rep, w')"
  shows "0 \<le> rp_filled rep \<and> rp_filled rep \<le> pl_total_adjusted plan"
  by (rule run_filled_bounds_at [OF assms(1-3) sized_exact_decimals [OF assms(3)] assms(4)])

section \<open>The property\<close>

text \<open>C3: a run never executes more than it planned: for a plan as pre-flight sizing makes it, and an exchange
  that reports filled sizes with at most \<open>n\<close> decimals, the quantity the report credits lies between zero and
  the adjusted total of the plan, whatever aborts the run. Here \<open>n\<close> is any number of decimals, at least those
  of the asset's size grid, at which the total is exact in the decimal crate's 96 bits; the code does not
  check the decimals of a reported size. Nothing else is assumed of what the exchange answers.\<close>

theorem run_never_overfills:
  assumes "decimal_crate D" and "grid_env n E" and "sized_plan plan" and "exact_decimals plan n"
    and "run_twap_completion D E plan prior defer guard w = Some (rep, w')"
  shows "0 \<le> rp_filled rep \<and> rp_filled rep \<le> pl_total_adjusted plan"
  using assms by (rule run_filled_bounds_at)

lemma two_fills_grid: "grid_env 2 (scripted_env two_fills j s)"
proof -
  have one: "on_grid 2 1" by (simp add: on_grid_def)
  have half: "on_grid 2 sz" if "sz * 2 = 1" for sz :: rat
  proof -
    from that have "sz * 10 ^ 2 = of_int 50" by simp
    then show ?thesis unfolding on_grid_def by (simp only: Ints_of_int)
  qed
  from one show ?thesis
    by (auto intro: half simp: grid_env_def scripted_env_simps scripted_place_def or_exhausted_def pop_front_def nth_opt_def
        two_fills_def demo_script_def less_Suc_eq nth_Cons' split: option.splits sum.splits if_splits)
qed

theorem run_never_overfills_witness:
  "\<exists>rep w'. run_twap_completion exact_dec (scripted_env two_fills True None) demo_plan 0 False None
       world_init = Some (rep, w') \<and> rp_filled rep = 3 / 2 \<and> rp_filled rep \<le> pl_total_adjusted demo_plan"
proof -
  have p: "sized_plan demo_plan" by (simp add: sized_plan_def demo_plan_def on_grid_def)
  have g: "grid_env 4 (scripted_env two_fills True None)"
    by (rule grid_env_mono [OF two_fills_grid]) simp
  obtain rep w' where run: "run_twap_completion exact_dec (scripted_env two_fills True None) demo_plan 0 False
      None world_init = Some (rep, w')" "rp_filled rep = 3 / 2"
    using demo_run by blast
  have n: "exact_decimals demo_plan 4" by (simp add: exact_decimals_def demo_plan_def)
  from run_never_overfills [OF exact.decimal_crate_axioms g p n run(1)] run show ?thesis by blast
qed

end
