(* ===== verification/Run_Closes.thy ===== *)
theory Run_Closes
  imports Run_Ledger Replay_Facts
begin

text \<open>
  No order is left dangling: a journaled run that ends without an abort reason has durably closed every
  intent it opened. \<open>open_intents\<close> reads the open cloids off the trace; the only one that may be open
  between two operations of the slice loop is that of the order that rests.
\<close>

fun open_intents :: "(nanos \<times> event) list \<Rightarrow> cloid list" where
  "open_intents [] = []"
| "open_intents ((t, ev) # tr) =
     (case ev of
        EvRecord (Prepared k c n s sd tf px sz) ok \<Rightarrow> c # open_intents tr
      | EvRecord (Terminal k c st f a) True \<Rightarrow> removeAll c (open_intents tr)
      | _ \<Rightarrow> open_intents tr)"

definition open_within :: "cloid set \<Rightarrow> world \<Rightarrow> bool" where
  "open_within S w \<longleftrightarrow> set (open_intents (w_trace w)) \<subseteq> S"

lemma open_quiet: "\<not> opens_intent ev \<Longrightarrow> set (open_intents ((t, ev) # tr)) \<subseteq> set (open_intents tr)"
proof (cases ev)
  case (EvRecord r ok)
  assume "\<not> opens_intent ev"
  with EvRecord show ?thesis by (cases r) (auto split: bool.split)
qed auto

interpretation opn: calm_inv "open_within S" for S
proof
  fix w ev
  assume "open_within S w" "\<not> opens_intent ev"
  then show "open_within S (log_event ev w)"
    using open_quiet [of ev "w_now w" "w_trace w"] by (auto simp: open_within_def log_event_def)
qed (auto simp: open_within_def)

lemma open_place [simp]: "open_within S w \<Longrightarrow> open_within S (snd (place_order_once E i a x w))"
  by (simp add: open_within_def place_order_once_def split_beta elapse_def log_event_def)

lemma open_mono: "open_within S w \<Longrightarrow> S \<subseteq> T \<Longrightarrow> open_within T w"
  by (auto simp: open_within_def)

lemma terminal_closes:
  assumes "e_has_journal E" and "open_within (insert c S) w"
  shows "yields (\<lambda>_. open_within S) (journal_terminal D E k c st f a w)"
proof (cases "e_record E w (Terminal k c st (d_to_string D f) (map_option (d_to_string D) a))")
  case (Pair ok lat)
  then show ?thesis using assms
    by (cases ok) (auto simp: journal_terminal_def journal_write_def record_durable_def Let_def open_within_def
        elapse_def log_event_def)
qed

section \<open>The sends\<close>

lemma yields_keep: "(\<And>a. R a (snd m)) \<Longrightarrow> yields R m"
  by (cases m; cases "fst m") auto

text \<open>One rule per kind of step: a pure check, a terminal record, a step that keeps the open set.\<close>

lemma yields_calm:
  "open_within T (snd m) \<Longrightarrow> (\<And>a w. open_within T w \<Longrightarrow> yields R (f a w)) \<Longrightarrow> yields R (try_w m f)"
  by (cases m; cases "fst m") (auto simp: try_w_def)

lemma yields_write:
  "open_within T w \<Longrightarrow> \<not> is_prepared r \<Longrightarrow> (\<And>a w. open_within T w \<Longrightarrow> yields R (f a w)) \<Longrightarrow>
     yields R (try_w (journal_write E m r w) f)"
  by (rule yields_calm [where T = T]) simp_all

lemma yields_recover:
  "open_within T w \<Longrightarrow> (\<And>a w. open_within T w \<Longrightarrow> yields R (f a w)) \<Longrightarrow>
     yields R (try_w (recover_resting_fill D E plan c oid i w) f)"
  by (rule yields_calm [where T = T]) simp_all

lemma yields_term:
  assumes "e_has_journal E" and "open_within (insert c S) w" and "\<And>u w. open_within S w \<Longrightarrow> yields R (f u w)"
  shows "yields R (try_w (journal_terminal D E k c st z a w) f)"
  using terminal_closes [OF assms(1,2)] assms(3) by (rule yields_bind)

lemma adopt_closes:
  assumes "e_has_journal E" and "open_within (insert (oi_cloid i) S) w"
  shows "yields (\<lambda>_. open_within S) (adopt_status D E k i st w)"
  unfolding adopt_status_def using assms(2) by (auto intro!: yields_pure yields_term [OF assms(1), where S = S])

lemma yields_adopt:
  assumes "e_has_journal E" and "open_within (insert (oi_cloid i) S) w"
    and "\<And>u w. open_within S w \<Longrightarrow> yields R (f u w)"
  shows "yields R (try_w (adopt_status D E k i st w) f)"
  using adopt_closes [OF assms(1,2)] assms(3) by (rule yields_bind)

lemma position_gate_closes:
  assumes "e_has_journal E" and "open_within (insert c S) w"
  shows "yields (\<lambda>r w'. open_within (if r then S else insert c S) w') (position_gate D E g s k c w)"
  using assms(2) unfolding position_gate_def
  by (auto simp: split_beta intro!: yields_term [OF assms(1), where S = S] split: option.split sum.split bool.split)

lemma commit_gate_closes:
  assumes "e_has_journal E" and "open_within (insert c S) w"
  shows "yields (\<lambda>g w'. open_within (if g = Proceed then insert c S else S) w') (commit_gate D E dl g s k c w)"
  unfolding commit_gate_def
  by (rule yields_pure, rule yields_bind [OF position_gate_closes [OF assms]])
    (auto intro!: yields_pure yields_term [OF assms(1), where S = S])

lemma ioc_response_closes:
  assumes "e_has_journal E" and "open_within (insert (oi_cloid i) S) w"
  shows "yields (\<lambda>r w'. open_within (if r = None then insert (oi_cloid i) S else S) w')
           (ioc_response D E plan k i r w)"
  using assms(2) unfolding ioc_response_def
  by (auto intro!: yields_pure yields_term [OF assms(1), where S = S] yields_adopt [OF assms(1), where S = S]
      yields_write [where T = "insert (oi_cloid i) S"] yields_recover [where T = "insert (oi_cloid i) S"]
      split: sum.split hl_error.split place_outcome.split)

lemma ioc_reconcile_closes:
  assumes "e_has_journal E" and "open_within (insert (oi_cloid i) S) w"
  shows "yields (\<lambda>r w'. open_within (if r = None then insert (oi_cloid i) S else S) w')
           (ioc_reconcile D E plan dl k i b w)"
  using assms(2) unfolding ioc_reconcile_def split_beta
  by (auto intro!: yields_pure yields_term [OF assms(1), where S = S] yields_adopt [OF assms(1), where S = S]
      yields_write [where T = "insert (oi_cloid i) S"] yields_recover [where T = "insert (oi_cloid i) S"] split: sum.split option.split)

text \<open>One send of the loop, with whatever follows when the exchange has proved the order absent.\<close>

lemma place_round_closes:
  assumes "e_has_journal E" and "open_within (insert (oi_cloid i) S) w"
    and again: "\<And>w. open_within (insert (oi_cloid i) S) w \<Longrightarrow> yields (\<lambda>_. open_within S) (again w)"
  shows "yields (\<lambda>_. open_within S)
     (try_w (ioc_response D E plan k i r w) (\<lambda>done w3.
        (case done of
           Some out \<Rightarrow> (Inr (Settled out), w3)
         | None \<Rightarrow>
             try_w (ioc_reconcile D E plan dl k i b w3) (\<lambda>resolved w4.
               (case resolved of Some out \<Rightarrow> (Inr out, w4) | None \<Rightarrow> again w4)))))"
  by (rule yields_bind [OF ioc_response_closes [OF assms(1), where S = S]])
    (auto simp: assms(2) again split: option.split
      intro!: yields_bind [OF ioc_reconcile_closes [OF assms(1), where S = S]])

lemma place_loop_closes:
  assumes "e_has_journal E" and "open_within (insert (oi_cloid i) S) w"
  shows "yields (\<lambda>_. open_within S) (place_loop D E plan dl k i g left b w)"
  using assms(2)
proof (induction left arbitrary: b w)
  case 0
  show ?case
    by (subst place_loop.simps, rule yields_bind [OF commit_gate_closes [OF assms(1) 0]])
      (auto simp: split_beta split: gate.split if_splits intro!: place_round_closes [OF assms(1)])
next
  case (Suc left)
  show ?case
    by (subst place_loop.simps, rule yields_bind [OF commit_gate_closes [OF assms(1) Suc.prems]])
      (auto simp: split_beta Suc.IH split: gate.split if_splits intro!: place_round_closes [OF assms(1)])
qed

lemma open_prepared:
  "open_within S w \<Longrightarrow> open_within (insert (oi_cloid i) S) (snd (journal_write E m (prepared_record D k i) w))"
  by (auto simp: journal_write_def record_durable_def split_beta Let_def open_within_def elapse_def
      log_event_def prepared_record_def)

lemma place_slice_closes:
  assumes "e_has_journal E" and "open_within S w"
  shows "yields (\<lambda>_. open_within S) (place_slice_reconciled D E plan i dl k g w)"
  unfolding place_slice_reconciled_def
  by (rule yields_pure, rule yields_calm [OF open_prepared [OF assms(2)]], rule place_loop_closes [OF assms(1)])

definition alo_open :: "cloid \<Rightarrow> cloid set \<Rightarrow> alo_outcome \<Rightarrow> world \<Rightarrow> bool" where
  "alo_open c S out w \<longleftrightarrow>
     (case out of AloResting child \<Rightarrow> rc_cloid child = c \<and> open_within (insert c S) w
      | _ \<Rightarrow> open_within S w)"

lemma yields_keep_err:
  "open_within T (snd m) \<Longrightarrow> (\<And>a w. open_within T w \<Longrightarrow> yields R (f a w)) \<Longrightarrow> yields R (try_w (err_w g m) f)"
  by (rule yields_calm [where T = T]) simp_all

lemma yields_adopt_err:
  assumes "e_has_journal E" and "open_within (insert (oi_cloid i) S) w"
    and "\<And>u w. open_within S w \<Longrightarrow> yields R (f u w)"
  shows "yields R (try_w (err_w g (adopt_status D E k i st w)) f)"
  using adopt_closes [OF assms(1,2)] assms(3) by (rule yields_bind_err)

lemma yields_recover_err:
  "open_within T w \<Longrightarrow> (\<And>a w. open_within T w \<Longrightarrow> yields R (f a w)) \<Longrightarrow>
     yields R (try_w (err_w g (recover_resting_fill D E plan c oid i w)) f)"
  by (rule yields_keep_err [where T = T]) simp_all

lemma alo_ambiguous_closes:
  assumes "e_has_journal E" and "open_within (insert (oi_cloid i) S) w"
  shows "yields (alo_open (oi_cloid i) S) (alo_ambiguous D E plan k i w)"
  unfolding alo_ambiguous_def split_beta
  by (rule yields_keep_err [where T = "insert (oi_cloid i) S"], simp add: assms(2), rule yields_pure_err)
    (auto simp: alo_open_def split: sum.split option.split
      intro!: yields_pure_err yields_adopt_err [OF assms(1), where S = S]
        yields_recover_err [where T = "insert (oi_cloid i) S"])

lemma alo_response_closes:
  assumes "e_has_journal E" and "open_within (insert (oi_cloid i) S) w"
  shows "yields (alo_open (oi_cloid i) S) (alo_response D E plan k i r w)"
  using alo_ambiguous_closes [OF assms, of D plan k] unfolding alo_response_def
  by (auto simp: alo_open_def assms(2) 
      intro!: yields_keep_err [where T = "insert (oi_cloid i) S" and m = "journal_write E [] r w" for r w]
        yields_bind_err [OF terminal_closes [OF assms(1), where S = S]]
      split: sum.split hl_error.split place_outcome.split)

lemma place_alo_closes:
  assumes "e_has_journal E" and "open_within S w"
  shows "yields (alo_open c S) (place_alo_child D E plan dl k c px sz g w)"
proof -
  let ?i = "alo_intent plan c px sz"
  have c: "oi_cloid ?i = c" by (simp add: alo_intent_def)
  have p: "open_within (insert c S) (snd (journal_write E m (prepared_record D k ?i) w))" for m
    using open_prepared [OF assms(2), of ?i] c by simp
  have resp: "open_within (insert c S) w \<Longrightarrow> yields (alo_open c S) (alo_response D E plan k ?i r w)" for r w
    using alo_response_closes [of E ?i S w D plan k r] assms(1) c by simp
  show ?thesis
    unfolding place_alo_child_def Let_def
    by (rule yields_keep_err [OF p], rule yields_bind_err [OF commit_gate_closes [OF assms(1)]], assumption)
      (auto simp: split_beta alo_open_def [of _ _ AloTargetReached] alo_open_def [of _ _ AloShutdown]
        split: gate.split if_splits intro!: resp)
qed

section \<open>The order that rests\<close>

definition rests :: "cloid set \<Rightarrow> resting_child option \<Rightarrow> world \<Rightarrow> bool" where
  "rests S r w \<longleftrightarrow> open_within (case r of None \<Rightarrow> S | Some child \<Rightarrow> insert (rc_cloid child) S) w"

lemma rests_simps: "rests S None w = open_within S w" "rests S (Some child) w = open_within (insert (rc_cloid child) S) w"
  by (simp_all add: rests_def)

interpretation rst: calm_inv "rests S r" for S r
  unfolding rests_def by (rule opn.calm_inv_axioms)

lemma settle_resting_closes:
  assumes "e_has_journal E" and "rests S (Some child) w"
  shows "yields (\<lambda>_. open_within S) (settle_resting_child D E plan child w)"
proof -
  have t: "fst (journal_terminal D E k (rc_cloid child) st f a w') = Inr u \<Longrightarrow>
      open_within S (snd (journal_terminal D E k (rc_cloid child) st f a w'))"
    if "open_within (insert (rc_cloid child) S) w'" for k st f a w' u
    using terminal_closes [OF assms(1) that] by (rule yields_fst)
  show ?thesis
    using assms(2) by (auto simp: settle_resting_child_def rests_simps Let_def split_beta intro: t split: sum.split)
qed

text \<open>The accounting interface at work: the open set and the resting order, in a journaled run.\<close>

interpretation cl: run_ledger D E plan "\<lambda>fs r w. e_has_journal E \<and> rests S r w" "\<lambda>_. True" for D E plan S
proof (rule run_ledger.intro)
  fix fs r
  show "calm_inv (\<lambda>w. e_has_journal E \<and> rests S r w)"
    by unfold_locales (auto simp: rst.later rst.quiet rst.recorded)
next
  fix fs :: fill_stats and child w
  assume "e_has_journal E \<and> rests S (Some child) w"
  then show "yields (\<lambda>out w. e_has_journal E \<and> rests S None w) (settle_resting_child D E plan child w)"
    using settle_resting_closes [of E S child w D plan] by (simp add: rests_simps yields_def)
next
  fix fs :: fill_stats and w k px sz dl c g
  assume j: "e_has_journal E \<and> rests S None w"
  show "yields (\<lambda>out w'. step_ledger (\<lambda>fs r w. e_has_journal E \<and> rests S r w) fs out w' D)
          (place_alo_child D E plan dl k c px sz g w)"
    using j place_alo_closes [of E S w c D plan dl k px sz g]
    by (auto simp: rests_simps yields_def alo_open_def step_ledger_def split: sum.splits alo_outcome.splits)
  show "yields (\<lambda>out w. e_has_journal E \<and> rests S None w)
          (place_slice_reconciled D E plan (slice_intent plan c px sz) dl k g w)"
    using j place_slice_closes [of E S w D plan "slice_intent plan c px sz" dl k g] by (simp add: rests_simps yields_def)
qed simp_all

text \<open>C5: a journaled run that ends without an abort reason leaves no order dangling: every order
  intent it opened in the journal has been closed by a durable terminal record, whatever the child
  algorithm and whatever the exchange answered on the way.\<close>

theorem clean_run_closes_every_intent:
  assumes "e_has_journal E" and "run_twap_completion D E plan prior defer guard w = Some (rep, w')"
    and "rp_abort_reason rep = None"
  shows "set (open_intents (w_trace w')) \<subseteq> set (open_intents (w_trace w))"
proof -
  have 0: "e_has_journal E \<and> rests (set (open_intents (w_trace w))) None w"
    unfolding rests_simps open_within_def using assms(1) by blast
  from cl.run_accounted [OF assms(2) 0] assms(3) have "rests (set (open_intents (w_trace w))) None w'" by blast
  then show ?thesis unfolding rests_simps open_within_def .
qed

definition headed_world :: world where
  "headed_world = world_init\<lparr>w_journal := [Header demo_header]\<rparr>"

lemma read_shown: "read_rat (show_rat 1) = Some 1" "read_rat (show_rat (1 / 2)) = Some (1 / 2)"
  "read_rat (show_rat (201 / 2)) = Some (201 / 2)" "read_rat (show_rat 100) = Some 100"
  by code_simp+

lemma demo_clean_run:
  "\<exists>rep w'. run_twap_completion exact_dec (scripted_env two_fills True None) demo_plan 0 False None
       headed_world = Some (rep, w') \<and> rp_abort_reason rep = None \<and> length (w_journal w') = 6"
  by (simp add: run_eval run_defs headed_world_def finalize_journal_def replay_eval read_shown map_err_def
      upt_conv_Cons final_cap_remaining_def final_report_of_def whole_run_of_def cong: try_w_cong_weak)

theorem clean_run_closes_every_intent_witness:
  "\<exists>rep w'. run_twap_completion exact_dec (scripted_env two_fills True None) demo_plan 0 False None
       headed_world = Some (rep, w') \<and> length (w_journal w') = 6 \<and> open_intents (w_trace w') = []"
proof -
  obtain rep w' where run: "run_twap_completion exact_dec (scripted_env two_fills True None) demo_plan 0 False None
       headed_world = Some (rep, w')" "rp_abort_reason rep = None" "length (w_journal w') = 6"
    using demo_clean_run by blast
  from clean_run_closes_every_intent [OF _ run(1,2)] run show ?thesis
    by (auto simp: scripted_env_simps headed_world_def world_init_def)
qed

end
