(* ===== verification/Trigger.thy ===== *)
theory Trigger
  imports Settle_Facts Scripts
begin

text \<open>
  The trigger wait of \<open>src/trigger.rs\<close>: a price condition on validated books and a time condition,
  whichever comes first, with an expiry and a grace period for failing polls. \<open>trigger_step\<close> is one
  iteration of the loop of \<open>wait_for_trigger\<close>; the loop is a partial function, so that a wait that never
  ends has the value \<open>None\<close>. Log lines are left out; the heartbeat keeps its state.
\<close>

definition HEARTBEAT_INTERVAL :: nanos where
  "HEARTBEAT_INTERVAL = secs 300"

datatype trigger_when = Above | Below

record trigger_config =
  tc_price :: "(trigger_when \<times> decimal) option"
  tc_start_after :: "nanos option"
  tc_poll_interval :: nanos
  tc_max_book_age_ms :: u64
  tc_wait_network_grace :: nanos
  tc_expire_after :: "nanos option"

definition is_immediate :: "trigger_config \<Rightarrow> bool" where
  "is_immediate cfg \<longleftrightarrow> tc_price cfg = None \<and> tc_start_after cfg = None"

definition is_time_only :: "trigger_config \<Rightarrow> bool" where
  "is_time_only cfg \<longleftrightarrow> tc_price cfg = None \<and> tc_start_after cfg \<noteq> None"

datatype trigger_reason =
    Immediate
  | PriceMet trigger_when decimal decimal snapshot
  | Elapsed nanos

datatype trigger_outcome = Fired trigger_reason | Expired nanos

fun price_condition_met :: "trigger_when \<Rightarrow> decimal \<Rightarrow> decimal \<Rightarrow> bool" where
  "price_condition_met Above threshold mid = (threshold \<le> mid)"
| "price_condition_met Below threshold mid = (mid \<le> threshold)"

definition streak_exceeds_grace :: "nanos \<Rightarrow> nanos \<Rightarrow> bool" where
  "streak_exceeds_grace streak grace \<longleftrightarrow> grace < streak"

definition heartbeat_due :: "nanos \<Rightarrow> nanos \<Rightarrow> bool" where
  "heartbeat_due since_last interval \<longleftrightarrow> interval \<le> since_last"

section \<open>One iteration\<close>

record trigger_state =
  tg_streak_since :: "nanos option"
  tg_last_error :: "hl_error option"
  tg_last_heartbeat :: nanos
  tg_last_mid :: "decimal option"

datatype trigger_next = TDone "hl_error + trigger_outcome" | TAgain

definition time_condition :: "trigger_config \<Rightarrow> nanos \<Rightarrow> world \<Rightarrow> trigger_outcome option" where
  "time_condition cfg start w =
     (case tc_start_after cfg of
        Some d \<Rightarrow> if start + d \<le> w_now w then Some (Fired (Elapsed d)) else None
      | None \<Rightarrow> None)"

definition poll_price ::
  "dec_lib \<Rightarrow> env \<Rightarrow> symbol \<Rightarrow> trigger_config \<Rightarrow> world \<Rightarrow> (hl_error + snapshot) \<times> world" where
  "poll_price D E s cfg w =
     try_w (fetch_l2_book E s w)
       (\<lambda>book w1. (validate_snapshot D (e_chrono E w1) book s (tc_max_book_age_ms cfg), w1))"

definition price_condition ::
  "dec_lib \<Rightarrow> env \<Rightarrow> symbol \<Rightarrow> trigger_config \<Rightarrow> trigger_state \<Rightarrow> world \<Rightarrow>
     trigger_next \<times> trigger_state \<times> world" where
  "price_condition D E s cfg st w =
     (case tc_price cfg of
        None \<Rightarrow> (TAgain, st, w)
      | Some (wh, threshold) \<Rightarrow>
          (case poll_price D E s cfg w of
             (Inr snap, w1) \<Rightarrow>
               let st1 = st\<lparr>tg_last_mid := Some (sn_mid snap), tg_streak_since := None\<rparr>
               in if price_condition_met wh threshold (sn_mid snap)
                  then (TDone (Inr (Fired (PriceMet wh threshold (sn_mid snap) snap))), st1, w1)
                  else (TAgain, st1, w1)
           | (Inl e, w1) \<Rightarrow>
               let since = unwrap_or (tg_streak_since st) (w_now w1);
                   st1 = st\<lparr>tg_streak_since := Some since, tg_last_error := Some e\<rparr>
               in if streak_exceeds_grace (w_now w1 - since) (tc_wait_network_grace cfg)
                  then (TDone (Inl (Network ''trigger polling blind; aborting'')), st1, w1)
                  else (TAgain, st1, w1)))"

definition expiry_condition :: "trigger_config \<Rightarrow> nanos \<Rightarrow> world \<Rightarrow> trigger_outcome option" where
  "expiry_condition cfg start w =
     (case tc_expire_after cfg of
        Some d \<Rightarrow> if start + d \<le> w_now w then Some (Expired d) else None
      | None \<Rightarrow> None)"

definition heartbeat :: "trigger_state \<Rightarrow> world \<Rightarrow> trigger_state" where
  "heartbeat st w =
     (if heartbeat_due (w_now w - tg_last_heartbeat st) HEARTBEAT_INTERVAL
      then st\<lparr>tg_last_heartbeat := w_now w\<rparr> else st)"

definition sleep_for :: "trigger_config \<Rightarrow> nanos \<Rightarrow> world \<Rightarrow> nanos" where
  "sleep_for cfg start w =
     (let upto = (\<lambda>d s. case d of Some x \<Rightarrow> min s (start + x - w_now w) | None \<Rightarrow> s)
      in upto (tc_expire_after cfg) (upto (tc_start_after cfg) (tc_poll_interval cfg)))"

definition trigger_step ::
  "dec_lib \<Rightarrow> env \<Rightarrow> symbol \<Rightarrow> trigger_config \<Rightarrow> nanos \<Rightarrow> trigger_state \<Rightarrow> world \<Rightarrow>
     trigger_next \<times> trigger_state \<times> world" where
  "trigger_step D E s cfg start st w =
     (case time_condition cfg start w of
        Some out \<Rightarrow> (TDone (Inr out), st, w)
      | None \<Rightarrow>
          (case price_condition D E s cfg st w of
             (TDone r, st1, w1) \<Rightarrow> (TDone r, st1, w1)
           | (TAgain, st1, w1) \<Rightarrow>
               (case expiry_condition cfg start w1 of
                  Some out \<Rightarrow> (TDone (Inr out), st1, w1)
                | None \<Rightarrow> (TAgain, heartbeat st1 w1, elapse (sleep_for cfg start w1) w1))))"

section \<open>The wait\<close>

partial_function (option) trigger_loop ::
  "(trigger_state \<Rightarrow> world \<Rightarrow> trigger_next \<times> trigger_state \<times> world) \<Rightarrow> trigger_state \<Rightarrow> world \<Rightarrow>
     ((hl_error + trigger_outcome) \<times> world) option" where
  "trigger_loop step st w =
     (case step st w of
        (TDone r, st1, w1) \<Rightarrow> Some (r, w1)
      | (TAgain, st1, w1) \<Rightarrow> trigger_loop step st1 w1)"

definition trigger_state_init :: "nanos \<Rightarrow> trigger_state" where
  "trigger_state_init start =
     \<lparr>tg_streak_since = None, tg_last_error = None, tg_last_heartbeat = start, tg_last_mid = None\<rparr>"

definition wait_for_trigger ::
  "dec_lib \<Rightarrow> env \<Rightarrow> symbol \<Rightarrow> trigger_config \<Rightarrow> world \<Rightarrow>
     ((hl_error + trigger_outcome) \<times> world) option" where
  "wait_for_trigger D E s cfg w =
     (if is_immediate cfg then Some (Inr (Fired Immediate), w)
      else trigger_loop (trigger_step D E s cfg (w_now w)) (trigger_state_init (w_now w)) w)"

section \<open>Lemmas\<close>

context read_inv
begin

lemma poll_price_keeps [simp]: "I w \<Longrightarrow> I (snd (poll_price D E s cfg w))"
  by (simp add: poll_price_def)

lemma price_condition_keeps [simp]: "I w \<Longrightarrow> I (snd (snd (price_condition D E s cfg st w)))"
  by (simp add: price_condition_def split_beta Let_def split: option.split sum.split)

lemma trigger_step_keeps [simp]: "I w \<Longrightarrow> I (snd (snd (trigger_step D E s cfg start st w)))"
  by (simp add: trigger_step_def split_beta split: option.split trigger_next.split)

end

lemma trigger_loop_total:
  assumes "\<And>st w st1 w1. step st w = (TAgain, st1, w1) \<Longrightarrow> w_now w < w_now w1 \<and> w_now w < bound"
  shows "\<exists>r. trigger_loop step st w = Some r"
proof (induction "bound - w_now w" arbitrary: st w rule: less_induct)
  case less
  obtain s st1 w1 where t: "step st w = (s, st1, w1)" by (cases "step st w")
  show ?case
  proof (cases s)
    case (TDone r)
    with t show ?thesis by (subst trigger_loop.simps) simp
  next
    case TAgain
    with assms [of st w] t have "bound - w_now w1 < bound - w_now w" by auto
    from less [OF this, of st1] TAgain t show ?thesis by (subst trigger_loop.simps) simp
  qed
qed

lemma trigger_loop_result:
  "trigger_loop step st w = Some r \<Longrightarrow> J st w \<Longrightarrow>
     (\<And>st w. J st w \<Longrightarrow> (case step st w of (TAgain, st1, w1) \<Rightarrow> J st1 w1 | (TDone e, st1, w1) \<Rightarrow> Q e w1)) \<Longrightarrow>
     Q (fst r) (snd r)"
proof (induction step st w r rule: trigger_loop.raw_induct [rotated, consumes 1, case_names 1])
  case (1 fl step st w r)
  obtain s st1 w1 where t: "step st w = (s, st1, w1)" by (cases "step st w")
  show ?case
  proof (cases s)
    case (TDone e)
    with 1(2) t 1(4) [OF 1(3)] show ?thesis by auto
  next
    case TAgain
    with 1(2) t have "fl step st1 w1 = Some r" by simp
    moreover have "J st1 w1" using 1(4) [OF 1(3)] t TAgain by simp
    ultimately show ?thesis using 1(1) 1(4) by blast
  qed
qed

interpretation later: read_inv "\<lambda>w. t \<le> w_now w" for t
  by unfold_locales (auto simp: log_event_def)

lemma trigger_step_progress:
  assumes "trigger_step D E s cfg start st w = (TAgain, st1, w1)" and "0 < tc_poll_interval cfg"
    and "tc_start_after cfg = Some d \<or> tc_expire_after cfg = Some d"
  shows "w_now w < w_now w1 \<and> w_now w < start + d"
proof -
  obtain r st2 w2 where p: "price_condition D E s cfg st w = (r, st2, w2)"
    by (cases "price_condition D E s cfg st w")
  have le: "w_now w \<le> w_now w2" using later.price_condition_keeps [of "w_now w" w D E s cfg st] p by simp
  have sa: "tc_start_after cfg = Some a \<Longrightarrow> w_now w < start + a" for a
    using assms(1) by (auto simp: trigger_step_def time_condition_def split: if_splits)
  have ex: "tc_expire_after cfg = Some e \<Longrightarrow> w_now w2 < start + e" for e
    using assms(1) p by (auto simp: trigger_step_def expiry_condition_def
        split: option.splits trigger_next.splits if_splits)
  have w1: "w1 = elapse (sleep_for cfg start w2) w2"
    using assms(1) p by (auto simp: trigger_step_def split: option.splits trigger_next.splits)
  have "w_now w < w_now w1"
    using assms(2) le sa ex
    by (auto simp: w1 elapse_def sleep_for_def Let_def min_def split: option.splits)
  then show ?thesis using assms(3) sa ex le by force
qed

text \<open>
  The trace, newest event first, says that polling has been blind: every poll, from the newest back to one
  that was answered at \<open>since\<close>, has failed. Each poll is repeated in the world it was made in.
\<close>

fun blind_from ::
  "dec_lib \<Rightarrow> env \<Rightarrow> symbol \<Rightarrow> trigger_config \<Rightarrow> journal_record list \<Rightarrow> nanos \<Rightarrow> (nanos \<times> event) list \<Rightarrow> bool" where
  "blind_from D E s cfg js since [] = False"
| "blind_from D E s cfg js since ((t, ev) # older) =
     (case poll_price D E s cfg \<lparr>w_now = t, w_trace = older, w_journal = js\<rparr> of
        (Inl e, v) \<Rightarrow> w_trace v = (t, ev) # older \<and> (w_now v = since \<or> blind_from D E s cfg js since older)
      | (Inr snap, v) \<Rightarrow> False)"

text \<open>What a result says, read against the configuration and the polls of the trace.\<close>

fun sound_outcome ::
  "dec_lib \<Rightarrow> env \<Rightarrow> symbol \<Rightarrow> trigger_config \<Rightarrow> nanos \<Rightarrow> hl_error + trigger_outcome \<Rightarrow> world \<Rightarrow> bool" where
  "sound_outcome D E s cfg start (Inr (Fired Immediate)) w = is_immediate cfg"
| "sound_outcome D E s cfg start (Inr (Fired (PriceMet wh threshold mid snap))) w \<longleftrightarrow>
     tc_price cfg = Some (wh, threshold) \<and> price_condition_met wh threshold mid \<and> mid = sn_mid snap \<and>
     (\<exists>t b tr. w_trace w = (t, EvBook s (Inr b)) # tr \<and>
        validate_snapshot D (e_chrono E w) b s (tc_max_book_age_ms cfg) = Inr snap)"
| "sound_outcome D E s cfg start (Inr (Fired (Elapsed d))) w \<longleftrightarrow>
     tc_start_after cfg = Some d \<and> start + d \<le> w_now w"
| "sound_outcome D E s cfg start (Inr (Expired d)) w \<longleftrightarrow>
     tc_expire_after cfg = Some d \<and> start + d \<le> w_now w"
| "sound_outcome D E s cfg start (Inl e) w \<longleftrightarrow>
     tc_price cfg \<noteq> None \<and> e = Network ''trigger polling blind; aborting'' \<and>
     (\<exists>since. start \<le> since \<and> tc_wait_network_grace cfg < w_now w - since \<and>
        blind_from D E s cfg (w_journal w) since (w_trace w))"

lemma poll_price_sound:
  "poll_price D E s cfg w = (Inr snap, w1) \<Longrightarrow>
     \<exists>t b tr. w_trace w1 = (t, EvBook s (Inr b)) # tr \<and>
       validate_snapshot D (e_chrono E w1) b s (tc_max_book_age_ms cfg) = Inr snap"
  by (auto simp: poll_price_def try_w_Inr fetch_l2_book_def elapse_def log_event_def split: prod.splits)

lemma poll_price_effect:
  assumes "poll_price D E s cfg w = (r, w1)"
  shows "\<exists>b. w_trace w1 = (w_now w, EvBook s b) # w_trace w" and "w_journal w1 = w_journal w"
  using assms by (auto simp: poll_price_def try_w_def fetch_l2_book_def elapse_def log_event_def
      split: prod.splits sum.splits)

text \<open>A failing poll extends the streak, or begins one at the instant of its answer.\<close>

lemma blind_from_poll:
  assumes "poll_price D E s cfg w = (Inl e, w1)"
    and "w_now w1 = since \<or> blind_from D E s cfg (w_journal w) since (w_trace w)"
  shows "blind_from D E s cfg (w_journal w1) since (w_trace w1)"
proof -
  obtain b where "w_trace w1 = (w_now w, EvBook s b) # w_trace w" "w_journal w1 = w_journal w"
    using poll_price_effect [OF assms(1)] by blast
  then show ?thesis using assms by (cases w) simp
qed

definition streak_after ::
  "dec_lib \<Rightarrow> env \<Rightarrow> symbol \<Rightarrow> trigger_config \<Rightarrow> nanos \<Rightarrow> trigger_state \<Rightarrow> world \<Rightarrow> bool" where
  "streak_after D E s cfg start st w \<longleftrightarrow>
     start \<le> w_now w \<and>
     (case tg_streak_since st of
        Some t \<Rightarrow> start \<le> t \<and> blind_from D E s cfg (w_journal w) t (w_trace w)
      | None \<Rightarrow> True)"

lemma price_condition_sound:
  assumes "streak_after D E s cfg start st w" and "price_condition D E s cfg st w = (r, st1, w1)"
  shows "streak_after D E s cfg start st1 w1 \<and> (case r of TDone out \<Rightarrow> sound_outcome D E s cfg start out w1 | TAgain \<Rightarrow> True)"
proof (cases "tc_price cfg")
  case None
  with assms show ?thesis by (auto simp: price_condition_def)
next
  case (Some wt)
  obtain wh threshold where wt: "wt = (wh, threshold)" by (cases wt)
  obtain b w2 where p: "poll_price D E s cfg w = (b, w2)" by (cases "poll_price D E s cfg w")
  have "w_now w \<le> w_now w2" using later.poll_price_keeps [of "w_now w" w D E s cfg] p by simp
  with assms(1) have st: "start \<le> w_now w2" by (simp add: streak_after_def)
  show ?thesis
  proof (cases b)
    case (Inl e)
    define since where "since = unwrap_or (tg_streak_since st) (w_now w2)"
    have "start \<le> since" using assms(1) st by (auto simp: since_def streak_after_def unwrap_or_def split: option.splits)
    moreover have "blind_from D E s cfg (w_journal w2) since (w_trace w2)"
      using assms(1) by (intro blind_from_poll [OF p [unfolded Inl]])
        (auto simp: since_def streak_after_def unwrap_or_def split: option.splits)
    ultimately show ?thesis using Inl Some wt p assms(2) st
      by (auto simp: price_condition_def Let_def since_def [symmetric] streak_after_def streak_exceeds_grace_def
          split: if_splits)
  next
    case (Inr snap)
    with Some wt p assms(2) st poll_price_sound [of D E s cfg w snap w2] show ?thesis
      by (auto simp: price_condition_def Let_def streak_after_def split: if_splits)
  qed
qed

lemma trigger_step_sound:
  assumes "streak_after D E s cfg start st w"
  shows "case trigger_step D E s cfg start st w of
      (TAgain, st1, w1) \<Rightarrow> streak_after D E s cfg start st1 w1 | (TDone out, st1, w1) \<Rightarrow> sound_outcome D E s cfg start out w1"
proof -
  obtain r st1 w1 where p: "price_condition D E s cfg st w = (r, st1, w1)"
    by (cases "price_condition D E s cfg st w")
  note c = price_condition_sound [OF assms p]
  have h: "streak_after D E s cfg start (heartbeat st1 w1) (elapse x w1)" for x
    using c by (auto simp: streak_after_def heartbeat_def elapse_def split: option.splits)
  show ?thesis
    using c p h
    by (auto simp: trigger_step_def time_condition_def expiry_condition_def split: option.split trigger_next.split)
qed

lemma time_only_loop:
  assumes "tc_price cfg = None" and "tc_start_after cfg = Some d" and "0 < tc_poll_interval cfg"
    and "case tc_expire_after cfg of Some e \<Rightarrow> d < e | None \<Rightarrow> True" and "w_now w \<le> start + d"
  shows "trigger_loop (trigger_step D E s cfg start) st w =
           Some (Inr (Fired (Elapsed d)), w\<lparr>w_now := start + d\<rparr>)"
  using assms(5)
proof (induction "start + d - w_now w" arbitrary: st w rule: less_induct)
  case less
  show ?case
  proof (cases "w_now w = start + d")
    case True
    then have "w\<lparr>w_now := start + d\<rparr> = w" by simp
    with True assms(2) show ?thesis by (subst trigger_loop.simps) (simp add: trigger_step_def time_condition_def)
  next
    case False
    with less.prems have lt: "w_now w < start + d" by simp
    define z where "z = min (tc_poll_interval cfg) (start + d - w_now w)"
    have z: "0 < z" "w_now w + z \<le> start + d" using lt assms(3) by (auto simp: z_def)
    have sf: "sleep_for cfg start w = z"
      using assms(2,4) by (auto simp: sleep_for_def Let_def z_def split: option.splits)
    have "trigger_step D E s cfg start st w = (TAgain, heartbeat st w, elapse z w)"
      using lt assms(1,2,4) sf
      by (auto simp: trigger_step_def time_condition_def price_condition_def expiry_condition_def split: option.splits)
    then have "trigger_loop (trigger_step D E s cfg start) st w =
        trigger_loop (trigger_step D E s cfg start) (heartbeat st w) (elapse z w)"
      by (subst trigger_loop.simps) simp
    also have "\<dots> = Some (Inr (Fired (Elapsed d)), (elapse z w)\<lparr>w_now := start + d\<rparr>)"
      using z lt by (intro less.hyps) (auto simp: elapse_def)
    finally show ?thesis by (simp add: elapse_def)
  qed
qed

text \<open>An expiry after the start delay: the last poll was in flight across both.\<close>

definition late_expiry :: "nanos \<Rightarrow> nanos \<Rightarrow> hl_error + trigger_outcome \<Rightarrow> world \<Rightarrow> bool" where
  "late_expiry start a out w \<longleftrightarrow>
     (case out of
        Inr (Expired d) \<Rightarrow>
          a \<le> d \<longrightarrow> (\<exists>t s r tr. w_trace w = (t, EvBook s r) # tr \<and> t < start + a \<and> start + d \<le> w_now w)
      | _ \<Rightarrow> True)"

lemma price_condition_trace:
  "price_condition D E s cfg st w = (r, st1, w1) \<Longrightarrow>
     w1 = w \<or> (\<exists>b tr. w_trace w1 = (w_now w, EvBook s b) # tr)"
  by (auto simp: price_condition_def poll_price_def try_w_def fetch_l2_book_def elapse_def log_event_def Let_def
      split: option.splits prod.splits sum.splits if_splits)

lemma price_condition_not_expired:
  "price_condition D E s cfg st w = (TDone r, st1, w1) \<Longrightarrow> late_expiry start a r w2"
  by (auto simp: price_condition_def late_expiry_def Let_def split: option.splits prod.splits sum.splits if_splits)

lemma trigger_step_late:
  assumes "tc_start_after cfg = Some a"
  shows "case trigger_step D E s cfg start st w of
      (TAgain, st1, w1) \<Rightarrow> True | (TDone out, st1, w1) \<Rightarrow> late_expiry start a out w1"
proof -
  obtain r st1 w1 where p: "price_condition D E s cfg st w = (r, st1, w1)"
    by (cases "price_condition D E s cfg st w")
  show ?thesis
  proof (cases r)
    case (TDone out)
    with p assms price_condition_not_expired [OF p [unfolded TDone], of start a w1] show ?thesis
      by (auto simp: trigger_step_def time_condition_def late_expiry_def split: option.split)
  next
    case TAgain
    with p assms price_condition_trace [OF p] show ?thesis
      by (auto simp: trigger_step_def time_condition_def expiry_condition_def late_expiry_def split: option.split)
  qed
qed

section \<open>Properties\<close>

text \<open>C21: a trigger fires only for the reason it gives: immediately only when no condition is configured,
  on a price only when the configured condition holds for the mid price of the book it has just fetched
  and validated, on time only once the configured delay has elapsed. It expires only once the configured
  expiry has elapsed. It fails only when a price is polled and the polling has been blind for more than the
  grace period: every poll has failed since an instant further back than the grace, so one success in
  between starts the grace anew.\<close>

theorem trigger_outcome_sound:
  assumes "wait_for_trigger D E s cfg w = Some (out, w')"
  shows "sound_outcome D E s cfg (w_now w) out w'"
proof (cases "is_immediate cfg")
  case True
  with assms show ?thesis by (auto simp: wait_for_trigger_def)
next
  case False
  with assms have l: "trigger_loop (trigger_step D E s cfg (w_now w)) (trigger_state_init (w_now w)) w = Some (out, w')"
    by (simp add: wait_for_trigger_def)
  have "streak_after D E s cfg (w_now w) (trigger_state_init (w_now w)) w"
    by (simp add: streak_after_def trigger_state_init_def)
  from trigger_loop_result [OF l this trigger_step_sound] show ?thesis by simp
qed

definition demo_trigger :: trigger_config where
  "demo_trigger =
     \<lparr>tc_price = Some (Above, 99), tc_start_after = Some (secs 60), tc_poll_interval = secs 5,
      tc_max_book_age_ms = 0, tc_wait_network_grace = secs 1800, tc_expire_after = Some (secs 61)\<rparr>"

definition trigger_script :: script where
  "trigger_script = demo_script\<lparr>sc_books := [Inr
     \<lparr>ob_coin = ''BTC'', ob_bids = [\<lparr>bl_px = 99, bl_sz = 5, bl_n = 1\<rparr>],
      ob_asks = [\<lparr>bl_px = 100, bl_sz = 5, bl_n = 1\<rparr>], ob_time_ms = 0\<rparr>]\<rparr>"

lemmas trigger_eval = wait_for_trigger_def is_immediate_def trigger_state_init_def trigger_step_def
  time_condition_def expiry_condition_def price_condition_def poll_price_def try_w_simps demo_trigger_def

theorem trigger_outcome_sound_witness:
  "\<exists>snap w'. wait_for_trigger exact_dec (scripted_env trigger_script False None) ''BTC'' demo_trigger world_init =
       Some (Inr (Fired (PriceMet Above 99 (199 / 2) snap)), w') \<and> sn_mid snap = 199 / 2"
proof -
  let ?E = "scripted_env trigger_script False None"
  have "\<exists>snap w'. wait_for_trigger exact_dec ?E ''BTC'' demo_trigger world_init =
       Some (Inr (Fired (PriceMet Above 99 (199 / 2) snap)), w')"
    by (subst wait_for_trigger_def, subst trigger_loop.simps)
      (simp add: run_eval trigger_eval trigger_script_def validate_snapshot_def snapshot_semantics_def first_opt_def
        nonpositive_level_def is_sorted_desc_def is_sorted_asc_def snapshot_fresh_def MAX_FUTURE_SKEW_MS_def)
  then obtain snap w' where run: "wait_for_trigger exact_dec ?E ''BTC'' demo_trigger world_init =
       Some (Inr (Fired (PriceMet Above 99 (199 / 2) snap)), w')" by blast
  from trigger_outcome_sound [OF this] run show ?thesis by auto
qed

text \<open>A wait with a time condition or an expiry always ends, whatever the exchange answers and however
  long its answers take.\<close>

theorem bounded_trigger_returns:
  assumes "0 < tc_poll_interval cfg" and "tc_start_after cfg \<noteq> None \<or> tc_expire_after cfg \<noteq> None"
  shows "\<exists>out w'. wait_for_trigger D E s cfg w = Some (out, w')"
proof -
  from assms(2) obtain d where d: "tc_start_after cfg = Some d \<or> tc_expire_after cfg = Some d" by auto
  have "\<exists>r. trigger_loop (trigger_step D E s cfg (w_now w)) st w = Some r" for st
    by (rule trigger_loop_total) (rule trigger_step_progress [OF _ assms(1) d])
  then show ?thesis by (auto simp: wait_for_trigger_def)
qed

theorem bounded_trigger_returns_witness:
  "\<exists>out w'. wait_for_trigger exact_dec (scripted_env demo_script False None) ''BTC'' demo_trigger world_init =
     Some (out, w')"
  by (rule bounded_trigger_returns) (simp_all add: demo_trigger_def secs_def)

text \<open>A time-only wait never touches the exchange and fires exactly when the configured delay has
  elapsed, whatever the poll interval: the world it ends in differs from the one it started in by the
  clock only.\<close>

theorem time_only_wait_exact:
  assumes "is_time_only cfg" and "tc_start_after cfg = Some d" and "0 < tc_poll_interval cfg"
    and "case tc_expire_after cfg of Some e \<Rightarrow> d < e | None \<Rightarrow> True"
  shows "wait_for_trigger D E s cfg w = Some (Inr (Fired (Elapsed d)), w\<lparr>w_now := w_now w + d\<rparr>)"
  using time_only_loop [of cfg d w "w_now w"] assms by (simp add: is_time_only_def wait_for_trigger_def is_immediate_def)

theorem time_only_wait_exact_witness:
  "wait_for_trigger exact_dec (scripted_env demo_script False None) ''BTC'' (demo_trigger\<lparr>tc_price := None\<rparr>) world_init =
     Some (Inr (Fired (Elapsed (secs 60))), world_init\<lparr>w_now := secs 60\<rparr>)"
  using time_only_wait_exact [of "demo_trigger\<lparr>tc_price := None\<rparr>" "secs 60" exact_dec
      "scripted_env demo_script False None" "''BTC''" world_init]
  by (simp add: is_time_only_def demo_trigger_def secs_def world_init_def)

text \<open>A wait whose start delay comes before its expiry expires only when one poll was in flight
  across both: it was sent before the delay elapsed and answered after the expiry. The expiry then wins
  over the delay, although the delay had elapsed first.\<close>

theorem expiry_beats_delay_only_across_poll:
  assumes "wait_for_trigger D E s cfg w = Some (Inr (Expired d), w')"
    and "tc_start_after cfg = Some a" and "a \<le> d"
  shows "\<exists>t b tr. w_trace w' = (t, b) # tr \<and> is_book b \<and> t < w_now w + a \<and> w_now w + d \<le> w_now w'"
proof -
  from assms(1,2) have l: "trigger_loop (trigger_step D E s cfg (w_now w)) (trigger_state_init (w_now w)) w =
      Some (Inr (Expired d), w')"
    by (simp add: wait_for_trigger_def is_immediate_def)
  have step: "case trigger_step D E s cfg (w_now w) st w1 of
      (TAgain, st1, w2) \<Rightarrow> True | (TDone out, st1, w2) \<Rightarrow> late_expiry (w_now w) a out w2" for st w1
    using trigger_step_late [OF assms(2), of "w_now w" D E s st w1] by (auto split: trigger_next.splits)
  have "late_expiry (w_now w) a (Inr (Expired d)) w'"
    using trigger_loop_result [OF l, of "\<lambda>_ _. True" "late_expiry (w_now w) a", OF TrueI step] by simp
  with assms(3) show ?thesis by (auto simp: late_expiry_def)
qed

definition slow_env :: env where
  "slow_env = (scripted_env demo_script False None)\<lparr>e_book := \<lambda>w s. (Inl (Network ''timeout''), secs 70)\<rparr>"

theorem expiry_beats_delay_only_across_poll_witness:
  "\<exists>w' t b tr. wait_for_trigger exact_dec slow_env ''BTC'' demo_trigger world_init = Some (Inr (Expired (secs 61)), w') \<and>
     w_trace w' = (t, b) # tr \<and> is_book b \<and> t < secs 60 \<and> secs 61 \<le> w_now w'"
proof -
  have "\<exists>w'. wait_for_trigger exact_dec slow_env ''BTC'' demo_trigger world_init = Some (Inr (Expired (secs 61)), w')"
    by (subst wait_for_trigger_def, subst trigger_loop.simps)
      (simp add: run_eval trigger_eval slow_env_def streak_exceeds_grace_def)
  then obtain w' where run: "wait_for_trigger exact_dec slow_env ''BTC'' demo_trigger world_init =
      Some (Inr (Expired (secs 61)), w')" by blast
  from expiry_beats_delay_only_across_poll [OF this, of "secs 60"] run show ?thesis
    by (auto simp: demo_trigger_def secs_def world_init_def)
qed

end
