(* ===== verification/Decimal_Text.thy ===== *)
theory Decimal_Text
  imports Decimal_Lib
begin

text \<open>
  Printing and parsing of decimals. \<open>decimal_text\<close> is the law the durable journal relies on: what
  \<open>Display\<close> prints, normalised or not, \<open>FromStr\<close> reads back. The library functions are only ever applied to numbers a
  \<open>Decimal\<close> can hold, so the law is stated without that side condition; the executable instance
  satisfies it, printing a number that no \<open>Decimal\<close> denotes as a fraction.
\<close>

locale decimal_text =
  fixes D :: dec_lib
  assumes parse_to_string [simp]: "d_parse D (d_to_string D x) = Some x"
    and parse_canonical [simp]: "d_parse D (d_canonical D x) = Some x"

section \<open>Digits\<close>

lemma digit_val_char: "d < 10 \<Longrightarrow> digit_val (char_of (48 + d)) = Some d"
  by (simp add: digit_val_def Let_def)

lemma read_digits_append:
  "read_digits acc (s @ t) = (case read_digits acc s of Some a \<Rightarrow> read_digits a t | None \<Rightarrow> None)"
  by (induction acc s rule: read_digits.induct) (auto split: option.split)

lemma read_nat_digits: "read_digits 0 (nat_digits n) = Some n"
proof (induction n rule: nat_digits.induct)
  case (1 n)
  show ?case
  proof (cases "n < 10")
    case True
    then show ?thesis by (subst nat_digits.simps) (simp add: digit_val_char)
  next
    case False
    with 1 show ?thesis by (subst nat_digits.simps) (simp add: read_digits_append digit_val_char)
  qed
qed

lemma read_frac_digits: "n < 10 ^ k \<Longrightarrow> read_digits 0 (frac_digits k n) = Some n"
proof (induction k arbitrary: n)
  case (Suc k)
  have "n div 10 < 10 ^ k" using Suc.prems by (simp add: less_mult_imp_div_less)
  with Suc.IH [of "n div 10"] show ?case by (simp add: read_digits_append digit_val_char)
qed simp

lemma length_frac_digits: "length (frac_digits k n) = k"
  by (induction k arbitrary: n) simp_all

definition is_digit :: "char \<Rightarrow> bool" where
  "is_digit c \<longleftrightarrow> 48 \<le> (of_char c :: nat) \<and> (of_char c :: nat) \<le> 57"

lemma is_digit_char: "(d::nat) < 10 \<Longrightarrow> is_digit (char_of (48 + d))"
  by (simp add: is_digit_def)

lemma nat_digits_digits: "\<forall>c\<in>set (nat_digits n). is_digit c"
proof (induction n rule: nat_digits.induct)
  case (1 n)
  then show ?case by (subst nat_digits.simps) (auto simp: is_digit_char)
qed

lemma nat_digits_nonempty: "nat_digits n \<noteq> []"
  by (subst nat_digits.simps) simp

lemma is_digit_other: "is_digit c \<Longrightarrow> c \<noteq> CHR ''.'' \<and> c \<noteq> CHR ''/'' \<and> c \<noteq> CHR ''-''"
  by (auto simp: is_digit_def)

lemma split_integer:
  "\<forall>c\<in>set i. is_digit c \<Longrightarrow>
     takeWhile (\<lambda>c. c \<noteq> CHR ''.'' \<and> c \<noteq> CHR ''/'') (i @ r) =
       i @ takeWhile (\<lambda>c. c \<noteq> CHR ''.'' \<and> c \<noteq> CHR ''/'') r \<and>
     dropWhile (\<lambda>c. c \<noteq> CHR ''.'' \<and> c \<noteq> CHR ''/'') (i @ r) =
       dropWhile (\<lambda>c. c \<noteq> CHR ''.'' \<and> c \<noteq> CHR ''/'') r"
  using is_digit_other by (simp add: takeWhile_append2 dropWhile_append2)

lemma split_digits:
  "takeWhile (\<lambda>c. c \<noteq> CHR ''.'' \<and> c \<noteq> CHR ''/'') (nat_digits n) = nat_digits n"
  "dropWhile (\<lambda>c. c \<noteq> CHR ''.'' \<and> c \<noteq> CHR ''/'') (nat_digits n) = []"
  using split_integer [OF nat_digits_digits, of n "[]"] by simp_all

section \<open>The executable instance\<close>

lemma least_scale_exact:
  "least_scale k s x = Some t \<Longrightarrow> s \<le> t \<and> of_int \<lfloor>x * 10 ^ (t - s)\<rfloor> = x * 10 ^ (t - s)"
proof (induction k s x arbitrary: t rule: least_scale.induct)
  case (2 k s x)
  show ?case
  proof (cases "of_int \<lfloor>x\<rfloor> = x")
    case True
    with 2(2) show ?thesis by simp
  next
    case False
    with 2(2) have "least_scale k (Suc s) (x * 10) = Some t" by simp
    from 2(1) [OF False this] have t: "Suc s \<le> t"
      "of_int \<lfloor>x * 10 * 10 ^ (t - Suc s)\<rfloor> = x * 10 * 10 ^ (t - Suc s)" by auto
    then have "x * 10 * 10 ^ (t - Suc s) = x * 10 ^ (t - s)"
      by (metis Suc_diff_le diff_Suc_Suc mult.assoc power_Suc)
    with t show ?thesis by simp
  qed
qed (auto split: if_splits)

lemma read_show_nonneg:
  assumes "0 \<le> x"
  shows "read_nonneg (show_nonneg x) = Some x"
proof (cases "least_scale 28 0 x")
  case (Some s)
  define N where "N = nat \<lfloor>x * 10 ^ s\<rfloor>"
  have N: "of_nat N = x * 10 ^ s"
    using least_scale_exact [OF Some] assms by (simp add: N_def)
  have fl: "nat \<lfloor>x\<rfloor> = N div 10 ^ s"
  proof -
    have "x = of_nat N / of_nat (10 ^ s)" using N by (simp add: field_simps)
    then have "\<lfloor>x\<rfloor> = int (N div 10 ^ s)" by (simp only: floor_divide_of_nat_eq)
    then show ?thesis by simp
  qed
  have sum: "of_nat (N div 10 ^ s) + of_nat (N mod 10 ^ s) / 10 ^ s = x"
  proof -
    define a where "a = N div 10 ^ s"
    define b where "b = N mod 10 ^ s"
    have "a * 10 ^ s + b = N" by (simp only: a_def b_def div_mult_mod_eq)
    then have "of_nat (a * 10 ^ s + b) = x * 10 ^ s" using N by simp
    then have "of_nat a + of_nat b / 10 ^ s = x" by (simp add: field_simps)
    then show ?thesis by (simp only: a_def b_def)
  qed
  show ?thesis
  proof (cases "s = 0")
    case True
    have "show_nonneg x = nat_digits (nat \<lfloor>x\<rfloor>)" using Some True by (simp add: show_nonneg_def)
    moreover have "of_nat (nat \<lfloor>x\<rfloor>) = x" using sum True by (simp add: fl)
    ultimately show ?thesis
      by (simp add: split_digits read_nonneg_def Let_def nat_digits_nonempty read_nat_digits)
  next
    case False
    have "show_nonneg x = nat_digits (nat \<lfloor>x\<rfloor>) @ CHR ''.'' # frac_digits s (N mod 10 ^ s)"
      using Some False by (simp add: show_nonneg_def N_def)
    then show ?thesis
      using split_integer [OF nat_digits_digits, of "nat \<lfloor>x\<rfloor>" "CHR ''.'' # frac_digits s (N mod 10 ^ s)"] sum
      by (simp add: read_nonneg_def Let_def nat_digits_nonempty read_nat_digits read_frac_digits length_frac_digits fl)
  qed
next
  case None
  obtain p q where pq: "quotient_of x = (p, q)" by (cases "quotient_of x")
  then have q: "0 < q" and x: "x = of_int p / of_int q"
    by (simp_all add: quotient_of_denom_pos quotient_of_div)
  with assms have p: "0 \<le> p" by (simp add: zero_le_divide_iff)
  have s: "show_nonneg x = nat_digits (nat p) @ CHR ''/'' # nat_digits (nat q)"
    using None pq by (simp add: show_nonneg_def)
  have "of_nat (nat p) / of_nat (nat q) = x" using p q x by simp
  then show ?thesis
    using split_integer [OF nat_digits_digits, of "nat p" "CHR ''/'' # nat_digits (nat q)"] q
    unfolding read_nonneg_def s Let_def by (simp add: nat_digits_nonempty read_nat_digits)
qed

lemma show_nonneg_head: "\<exists>c r. show_nonneg x = c # r \<and> c \<noteq> CHR ''-''"
proof -
  have "\<exists>n r. show_nonneg x = nat_digits n @ r" by (auto simp: show_nonneg_def split: option.split)
  then obtain n r where "show_nonneg x = nat_digits n @ r" by blast
  moreover obtain c s where "nat_digits n = c # s" using nat_digits_nonempty [of n] by (cases "nat_digits n") auto
  moreover from this have "is_digit c" using nat_digits_digits [of n] by simp
  ultimately show ?thesis using is_digit_other [of c] by auto
qed

lemma read_show_rat: "read_rat (show_rat x) = Some x"
proof (cases "x < 0")
  case True
  then show ?thesis using read_show_nonneg [of "- x"] by (simp add: show_rat_def read_rat_def)
next
  case False
  obtain c r where "show_nonneg x = c # r" "c \<noteq> CHR ''-''" using show_nonneg_head by blast
  with False read_show_nonneg [of x] show ?thesis by (simp add: show_rat_def read_rat_def)
qed

interpretation exact_text: decimal_text exact_dec
  by unfold_locales (simp_all add: read_show_rat)

end
