(* ===== verification/Cli.thy ===== *)
theory Cli
  imports Trigger Risk Position Decimal_Text
begin

text \<open>
  The command line of \<open>src/main.rs\<close>: the parsed options, the validation that \<open>clap\<close> cannot express,
  the trigger configuration, and what the process derives from the options before it trades: the
  sizing, the price that the notional cap is checked with, the remaining window of a resumed run and the
  durable execution fingerprint. The argument enums convert one to one into the domain types, which are
  used directly. Strings are ASCII; a path is its string.
\<close>

record cli =
  cl_symbol :: symbol
  cl_side :: "side option"
  cl_size :: "decimal option"
  cl_usd :: "decimal option"
  cl_flatten :: bool
  cl_confirm_flatten :: "string option"
  cl_flatten_deadline_unix_ms :: "u64 option"
  cl_target_sz :: "decimal option"
  cl_target_usd :: "decimal option"
  cl_json :: bool
  cl_master_address :: "string option"
  cl_duration :: nanos
  cl_slices :: nat
  cl_trigger_price :: "decimal option"
  cl_trigger_when :: "trigger_when option"
  cl_start_after :: "nanos option"
  cl_live :: bool
  cl_read_only :: bool
  cl_metrics_bind :: "string option"
  cl_allow_external_metrics :: bool
  cl_event_jsonl :: "string option"
  cl_network :: network
  cl_slippage_bps :: decimal
  cl_allow_high_slippage :: bool
  cl_max_notional_usd :: "decimal option"
  cl_allow_custom_endpoints :: bool
  cl_max_book_age_ms :: u64
  cl_settle_retries :: nat
  cl_trigger_poll_secs :: u64
  cl_wait_network_grace :: nanos
  cl_expire_after :: "nanos option"
  cl_state_dir :: "string option"
  cl_resume :: "string option"
  cl_abandon_incomplete_run :: bool
  cl_shutdown_grace :: nanos
  cl_report_json :: "string option"
  cl_child_algo :: child_algo
  cl_follow_poll_secs :: u64
  cl_follow_repost_secs :: u64
  cl_follow_threshold_bps :: decimal
  cl_pair_ready_file :: "string option"
  cl_pair_start_file :: "string option"
  cl_pair_run_id :: "string option"
  cl_pair_barrier_timeout :: "nanos option"

text \<open>The \<open>conflicts_with\<close> and \<open>requires\<close> attributes of the options, which \<open>clap\<close> enforces.\<close>

definition clap_accepts :: "cli \<Rightarrow> bool" where
  "clap_accepts cli \<longleftrightarrow>
     (cl_size cli \<noteq> None \<longrightarrow>
        cl_usd cli = None \<and> \<not> cl_flatten cli \<and> cl_target_sz cli = None \<and> cl_target_usd cli = None) \<and>
     (cl_usd cli \<noteq> None \<longrightarrow> \<not> cl_flatten cli \<and> cl_target_sz cli = None \<and> cl_target_usd cli = None) \<and>
     (cl_flatten cli \<longrightarrow> cl_target_sz cli = None \<and> cl_target_usd cli = None) \<and>
     (cl_confirm_flatten cli \<noteq> None \<longrightarrow> cl_flatten cli) \<and>
     (cl_target_sz cli \<noteq> None \<longrightarrow> cl_target_usd cli = None) \<and>
     (cl_trigger_price cli \<noteq> None \<longleftrightarrow> cl_trigger_when cli \<noteq> None) \<and>
     (cl_resume cli \<noteq> None \<longrightarrow> \<not> cl_abandon_incomplete_run cli)"

definition is_read_only :: "cli \<Rightarrow> bool" where
  "is_read_only cli \<longleftrightarrow> cl_read_only cli \<and> \<not> cl_live cli"

definition is_live :: "cli \<Rightarrow> bool" where
  "is_live cli \<longleftrightarrow> \<not> is_read_only cli"

definition position_mode_requested :: "cli \<Rightarrow> bool" where
  "position_mode_requested cli \<longleftrightarrow> cl_flatten cli \<or> cl_target_sz cli \<noteq> None \<or> cl_target_usd cli \<noteq> None"

section \<open>Validation\<close>

definition check :: "bool \<Rightarrow> 'e \<Rightarrow> 'e + unit" where
  "check ok e = (if ok then Inr () else Inl e)"

definition positive_opt :: "decimal option \<Rightarrow> bool" where
  "positive_opt x \<longleftrightarrow> (case x of Some v \<Rightarrow> 0 < v | None \<Rightarrow> True)"

definition validate_mode :: "cli \<Rightarrow> string + unit" where
  "validate_mode cli =
     (if position_mode_requested cli then
        and_then (check (cl_size cli = None \<and> cl_usd cli = None)
          ''position modes cannot be combined with --size or --usd'') (\<lambda>_.
        check (cl_side cli = None) ''position modes derive side from current and target exposure; omit --side'')
      else
        and_then (check (cl_size cli \<noteq> None \<or> cl_usd cli \<noteq> None)
          ''exactly one of --size or --usd is required'') (\<lambda>_.
        check (cl_side cli \<noteq> None) ''--side is required with --size or --usd''))"

definition validate_amounts :: "cli \<Rightarrow> string + unit" where
  "validate_amounts cli =
     and_then (check (positive_opt (cl_size cli)) ''--size must be > 0'') (\<lambda>_.
     and_then (check (positive_opt (cl_usd cli)) ''--usd must be > 0'') (\<lambda>_.
     and_then (check (0 < cl_duration cli) ''--duration must be > 0'') (\<lambda>_.
     and_then (check (cl_slices cli \<noteq> 0) ''--slices must be > 0'') (\<lambda>_.
     and_then (check (cl_settle_retries cli \<noteq> 0) ''--settle-retries must be > 0'') (\<lambda>_.
     check (cl_flatten_deadline_unix_ms cli = None \<or> cl_flatten cli)
       ''--flatten-deadline-unix-ms requires --flatten'')))))"

definition validate_risk :: "dec_lib \<Rightarrow> cli \<Rightarrow> string + unit" where
  "validate_risk D cli =
     and_then (map_err (\<lambda>_. ''slippage rejected'')
       (validate_slippage (cl_slippage_bps cli) (cl_allow_high_slippage cli))) (\<lambda>_.
     and_then (map_err (\<lambda>_. ''max notional rejected'')
       (validate_max_notional_required D (is_read_only cli) (cl_max_notional_usd cli))) (\<lambda>_. Inr ()))"

definition validate_expiry :: "cli \<Rightarrow> string + unit" where
  "validate_expiry cli =
     (case cl_expire_after cli of
        None \<Rightarrow> Inr ()
      | Some expire_after \<Rightarrow>
          and_then (check (0 < expire_after) ''--expire-after must be > 0'') (\<lambda>_.
          and_then (check (case cl_start_after cli of Some s \<Rightarrow> s < expire_after | None \<Rightarrow> True)
            ''--expire-after must be greater than --start-after (start would always fire first, making expiry unreachable)'') (\<lambda>_.
          check (cl_trigger_price cli \<noteq> None \<or> cl_start_after cli \<noteq> None)
            ''--expire-after requires a trigger (--trigger-price or --start-after); it is meaningless with immediate start'')))"

definition validate_trigger :: "cli \<Rightarrow> string + unit" where
  "validate_trigger cli =
     and_then (check ((cl_trigger_price cli \<noteq> None) = (cl_trigger_when cli \<noteq> None))
       ''--trigger-price and --trigger-when must be given together'') (\<lambda>_.
     and_then (check (positive_opt (cl_trigger_price cli)) ''--trigger-price must be > 0'') (\<lambda>_.
     and_then (check (cl_trigger_poll_secs cli \<noteq> 0) ''--trigger-poll-secs must be > 0'') (\<lambda>_.
     and_then (check (0 < cl_wait_network_grace cli) ''--wait-network-grace must be > 0'') (\<lambda>_.
     validate_expiry cli))))"

definition validate_follow :: "cli \<Rightarrow> string + unit" where
  "validate_follow cli =
     and_then (check (cl_follow_poll_secs cli \<noteq> 0) ''--follow-poll-secs must be > 0'') (\<lambda>_.
     and_then (check (cl_follow_repost_secs cli \<noteq> 0) ''--follow-repost-secs must be > 0'') (\<lambda>_.
     check (0 \<le> cl_follow_threshold_bps cli) ''--follow-threshold-bps must be >= 0''))"

definition validate_cli :: "dec_lib \<Rightarrow> cli \<Rightarrow> string + unit" where
  "validate_cli D cli =
     and_then (check (\<not> (is_live cli \<and> cl_event_jsonl cli \<noteq> None))
       ''--event-jsonl is for read-only simulations; live runs use the run-directory events.jsonl sidecar'') (\<lambda>_.
     and_then (validate_mode cli) (\<lambda>_.
     and_then (validate_amounts cli) (\<lambda>_.
     and_then (validate_risk D cli) (\<lambda>_.
     and_then (validate_trigger cli) (\<lambda>_.
     validate_follow cli)))))"

definition trigger_config_of :: "cli \<Rightarrow> trigger_config" where
  "trigger_config_of cli =
     \<lparr>tc_price = (case (cl_trigger_price cli, cl_trigger_when cli) of
                    (Some px, Some wh) \<Rightarrow> Some (wh, px) | _ \<Rightarrow> None),
      tc_start_after = cl_start_after cli,
      tc_poll_interval = secs (unat (cl_trigger_poll_secs cli)),
      tc_max_book_age_ms = cl_max_book_age_ms cli,
      tc_wait_network_grace = cl_wait_network_grace cli,
      tc_expire_after = cl_expire_after cli\<rparr>"

section \<open>Addresses, windows and sizes\<close>

definition is_space :: "char \<Rightarrow> bool" where
  "is_space c = (let n = (of_char c :: nat) in n = 32 \<or> (9 \<le> n \<and> n \<le> 13))"

definition trim :: "string \<Rightarrow> string" where
  "trim s = rev (dropWhile is_space (rev (dropWhile is_space s)))"

definition is_hex :: "char \<Rightarrow> bool" where
  "is_hex c =
     (let n = (of_char c :: nat)
      in (48 \<le> n \<and> n \<le> 57) \<or> (65 \<le> n \<and> n \<le> 70) \<or> (97 \<le> n \<and> n \<le> 102))"

definition parse_public_address :: "string \<Rightarrow> string + address" where
  "parse_public_address value =
     (let v = trim value in
      if length v = 42 \<and> prefix ''0x'' v \<and> list_all is_hex (drop 2 v)
      then Inr (to_ascii_lowercase v)
      else Inl ''must be a public 0x-prefixed 20-byte hex address'')"

definition duration_of_millis :: "u64 \<Rightarrow> nanos" where
  "duration_of_millis ms = unat ms * ns_per_ms"

definition remaining_execution_window :: "u64 \<Rightarrow> u64 \<Rightarrow> nanos option" where
  "remaining_execution_window deadline_unix_ms now_unix_ms =
     (case checked_sub_u64 deadline_unix_ms now_unix_ms of
        Some remaining_ms \<Rightarrow> if 0 < remaining_ms then Some (duration_of_millis remaining_ms) else None
      | None \<Rightarrow> None)"

definition requested_mode_and_value :: "dec_lib \<Rightarrow> cli \<Rightarrow> string \<times> string" where
  "requested_mode_and_value D cli =
     (case cl_size cli of
        Some v \<Rightarrow> (''size'', d_canonical D v)
      | None \<Rightarrow>
          (case cl_usd cli of
             Some v \<Rightarrow> (''usd'', d_canonical D v)
           | None \<Rightarrow>
               if cl_flatten cli then (''flatten'', ''0'')
               else
                 (case cl_target_sz cli of
                    Some v \<Rightarrow> (''target_sz'', d_canonical D v)
                  | None \<Rightarrow>
                      (case cl_target_usd cli of
                         Some v \<Rightarrow> (''target_usd'', d_canonical D v)
                       | None \<Rightarrow> (''unknown'', [])))))"

definition execution_sizing ::
  "dec_lib \<Rightarrow> decimal \<Rightarrow> nat \<Rightarrow> nat \<Rightarrow> decimal \<Rightarrow> bool \<Rightarrow> preflight_error + sizing" where
  "execution_sizing D total_coin slices sz_decimals mid require_exact =
     and_then (compute_sizing D total_coin slices sz_decimals mid) (\<lambda>s.
     Inr (if require_exact then s\<lparr>sg_total_adjusted := total_coin\<rparr> else s))"

definition preflight_cap_price ::
  "dec_lib \<Rightarrow> child_algo \<Rightarrow> side \<Rightarrow> decimal \<Rightarrow> decimal \<Rightarrow> decimal \<Rightarrow> nat \<Rightarrow> decimal" where
  "preflight_cap_price D algo sd taker_limit_px bid ask sz_decimals =
     (let taker = taker_notional_price taker_limit_px bid sd
      in if algo \<noteq> Market \<and> sd = Short then max taker (round_price D ask sz_decimals sd) else taker)"

section \<open>The execution fingerprint\<close>

fun network_name :: "network \<Rightarrow> string" where
  "network_name Mainnet = ''mainnet''"
| "network_name Testnet = ''testnet''"

fun child_algo_name :: "child_algo \<Rightarrow> string" where
  "child_algo_name Market = ''market''"
| "child_algo_name Passive = ''passive''"
| "child_algo_name Follow = ''follow''"

fun phase_kind_name :: "phase_kind \<Rightarrow> string" where
  "phase_kind_name Adjust = ''adjust''"
| "phase_kind_name CloseToFlat = ''close_to_flat''"
| "phase_kind_name OpenFromFlat = ''open_from_flat''"

definition phase_fingerprint_of :: "dec_lib \<Rightarrow> position_phase \<Rightarrow> phase_fingerprint" where
  "phase_fingerprint_of D ph =
     \<lparr>pf_kind = phase_kind_name (ph_kind ph), pf_side = side_name (ph_side ph),
      pf_size = d_canonical D (ph_size ph), pf_reduce_only = ph_reduce_only ph\<rparr>"

definition position_mode_of :: "cli \<Rightarrow> string option" where
  "position_mode_of cli =
     (if cl_flatten cli then Some ''flatten''
      else if cl_target_sz cli \<noteq> None then Some ''target_sz''
      else if cl_target_usd cli \<noteq> None then Some ''target_usd''
      else None)"

definition or_else :: "'a option \<Rightarrow> 'a option \<Rightarrow> 'a option" where
  "or_else a b = (case a of Some x \<Rightarrow> Some x | None \<Rightarrow> b)"

definition position_requested_value_of :: "dec_lib \<Rightarrow> cli \<Rightarrow> string option" where
  "position_requested_value_of D cli = map_option (d_canonical D) (or_else (cl_target_sz cli) (cl_target_usd cli))"

definition millis_u64 :: "nanos \<Rightarrow> u64" where
  "millis_u64 d = (if as_millis d \<le> u64_max then of_nat (as_millis d) else - 1)"

definition execution_fingerprint ::
  "dec_lib \<Rightarrow> network \<Rightarrow> twap_plan \<Rightarrow> position_plan option \<Rightarrow> cli \<Rightarrow> decimal option \<Rightarrow> fingerprint" where
  "execution_fingerprint D net plan position cli reference =
     \<lparr>fp_version = FINGERPRINT_VERSION,
      fp_symbol = pl_symbol plan,
      fp_side = side_name (pl_side plan),
      fp_request_mode = fst (requested_mode_and_value D cli),
      fp_request_value = snd (requested_mode_and_value D cli),
      fp_per_slice = d_canonical D (pl_per_slice plan),
      fp_total_adjusted = d_canonical D (pl_total_adjusted plan),
      fp_total_requested = d_canonical D (pl_total_requested plan),
      fp_slices = pl_slices plan,
      fp_duration_ms = millis_u64 (pl_duration plan),
      fp_slippage_bps = d_canonical D (pl_slippage_bps plan),
      fp_max_notional_usd = d_canonical D (pl_max_notional_usd plan),
      fp_max_book_age_ms = pl_max_book_age_ms plan,
      fp_settle_retries = pl_settle_retries plan,
      fp_child_algo = child_algo_name (pl_child_algo plan),
      fp_follow_poll_secs = of_nat (pl_follow_poll_secs plan),
      fp_follow_repost_secs = of_nat (pl_follow_repost_secs plan),
      fp_follow_threshold_bps = d_canonical D (pl_follow_threshold_bps plan),
      fp_network = network_name net,
      fp_agent = pl_agent plan,
      fp_master = pl_master plan,
      fp_position_mode = position_mode_of cli,
      fp_initial_position_szi = map_option (\<lambda>p. d_canonical D (pp_current_szi p)) position,
      fp_target_position_szi = map_option (\<lambda>p. d_canonical D (pp_target_szi p)) position,
      fp_position_requested_value = position_requested_value_of D cli,
      fp_position_reference_price =
        (if cl_target_usd cli = None then None else map_option (d_canonical D) reference),
      fp_position_phases =
        (case position of Some p \<Rightarrow> map (phase_fingerprint_of D) (pp_phases p) | None \<Rightarrow> []),
      fp_reduce_only = pl_reduce_only plan,
      fp_absolute_deadline_unix_ms = pl_absolute_deadline_unix_ms plan\<rparr>"

end
