(* ===== verification/Resume.thy ===== *)
theory Resume
  imports Run_Closes Decimal_Text
begin

text \<open>
  Resuming a run: \<open>reconcile_unresolved_cloid\<close> (\<open>src/twap.rs\<close>) settles one cloid that an earlier
  process left unresolved, and \<open>reconcile_incomplete_run\<close> (\<open>src/main.rs\<close>) settles all of them from the
  validated replay. The journal is always attached here. The theorems show that a resume never sends an
  order, that it resolves every cloid within its prepared intent, and that the journal it leaves replays
  with nothing unresolved.
\<close>

record resume_intent =
  ri_symbol :: symbol
  ri_side :: side
  ri_tif :: "tif option"
  ri_px :: decimal
  ri_sz :: decimal

definition as_order_intent :: "resume_intent \<Rightarrow> cloid \<Rightarrow> order_intent" where
  "as_order_intent p c =
     \<lparr>oi_cloid = c, oi_symbol = ri_symbol p, oi_side = ri_side p, oi_px = ri_px p, oi_sz = ri_sz p,
      oi_tif = unwrap_or (ri_tif p) Ioc, oi_reduce_only = False\<rparr>"

definition journaled :: "env \<Rightarrow> env" where
  "journaled E = E\<lparr>e_has_journal := True\<rparr>"

text \<open>Validate a terminal status against the prepared intent and journal it.\<close>

definition resume_credit ::
  "dec_lib \<Rightarrow> env \<Rightarrow> nat \<Rightarrow> order_intent \<Rightarrow> order_status_fill \<Rightarrow> world \<Rightarrow> (hl_error + unit) \<times> world" where
  "resume_credit D E slice_idx i st w =
     try_w (try_from_status st i, w) (\<lambda>vf w1.
       journal_terminal D (journaled E) slice_idx (oi_cloid i) (os_status st) (vf_filled_sz vf) (vf_avg_px vf) w1)"

text \<open>A status that is not terminal: cancel the order and poll it to a terminal status.\<close>

definition resume_live ::
  "dec_lib \<Rightarrow> env \<Rightarrow> twap_plan \<Rightarrow> cloid \<Rightarrow> nat \<Rightarrow> order_intent \<Rightarrow> order_status_fill \<Rightarrow> world \<Rightarrow>
     (hl_error + unit) \<times> world" where
  "resume_live D E plan c slice_idx i st w =
     try_w (recover_resting_fill D E plan c (os_oid st) i w) (\<lambda>settled w1.
     try_w (cross_check settled (pl_symbol plan) (pl_side plan) (Some c), w1) (\<lambda>_ w2.
       resume_credit D E slice_idx i settled w2))"

text \<open>The reconciliation by cloid, when the probe settled nothing.\<close>

definition resume_reconcile ::
  "dec_lib \<Rightarrow> env \<Rightarrow> twap_plan \<Rightarrow> address \<Rightarrow> cloid \<Rightarrow> nat \<Rightarrow> order_intent \<Rightarrow> world \<Rightarrow>
     (hl_error + unit) \<times> world" where
  "resume_reconcile D E plan user c slice_idx i w =
     try_w (reconcile_by_cloid E plan user c w) (\<lambda>found w1.
       (case found of
          Some st \<Rightarrow> resume_credit D E slice_idx i st w1
        | None \<Rightarrow> journal_terminal D (journaled E) slice_idx c ''neverReceived'' 0 None w1))"

definition reconcile_unresolved_cloid ::
  "dec_lib \<Rightarrow> env \<Rightarrow> twap_plan \<Rightarrow> cloid \<Rightarrow> nat \<Rightarrow> resume_intent \<Rightarrow> world \<Rightarrow> (hl_error + unit) \<times> world" where
  "reconcile_unresolved_cloid D E plan c slice_idx p w =
     try_w (status_user plan, w) (\<lambda>user w1.
       (case fetch_order_status_by_cloid E user c w1 of
          (Inr (Some st), w2) \<Rightarrow>
            try_w (cross_check st (pl_symbol plan) (pl_side plan) (Some c), w2) (\<lambda>_ w3.
              if \<not> os_is_terminal st then resume_live D E plan c slice_idx (as_order_intent p c) st w3
              else resume_reconcile D E plan user c slice_idx (as_order_intent p c) w3)
        | (_, w2) \<Rightarrow> resume_reconcile D E plan user c slice_idx (as_order_intent p c) w2))"

section \<open>All unresolved cloids\<close>

definition resume_intent_of :: "dec_lib \<Rightarrow> prepared_intent \<Rightarrow> string + resume_intent" where
  "resume_intent_of D stored =
     and_then (ok_or ''cannot reconcile cloid: invalid durable Prepared.px'' (d_parse D (pi_px stored))) (\<lambda>px.
     and_then (ok_or ''cannot reconcile cloid: invalid durable Prepared.sz'' (d_parse D (pi_sz stored))) (\<lambda>sz.
     Inr \<lparr>ri_symbol = pi_symbol stored, ri_side = pi_side stored, ri_tif = pi_tif stored, ri_px = px, ri_sz = sz\<rparr>))"

definition resume_one ::
  "dec_lib \<Rightarrow> env \<Rightarrow> twap_plan \<Rightarrow> (cloid \<Rightarrow> prepared_intent option) \<Rightarrow> cloid \<Rightarrow> world \<Rightarrow>
     (string + unit) \<times> world" where
  "resume_one D E plan prepared c w =
     try_w (ok_or ''cannot reconcile cloid: no Prepared record found in this run's own journal''
              (prepared c), w) (\<lambda>stored w1.
     try_w (resume_intent_of D stored, w1) (\<lambda>p w2.
     err_w (\<lambda>_. ''reconciliation failed'')
       (reconcile_unresolved_cloid D E (plan\<lparr>pl_symbol := pi_symbol stored, pl_side := pi_side stored\<rparr>) c
          (pi_slice_idx stored) p w2)))"

fun resume_all ::
  "(cloid \<Rightarrow> world \<Rightarrow> (string + unit) \<times> world) \<Rightarrow> cloid list \<Rightarrow> world \<Rightarrow> (string + unit) \<times> world" where
  "resume_all one [] w = (Inr (), w)"
| "resume_all one (c # cs) w = try_w (one c w) (\<lambda>_ w1. resume_all one cs w1)"

definition reconcile_incomplete_run ::
  "dec_lib \<Rightarrow> env \<Rightarrow> twap_plan \<Rightarrow> world \<Rightarrow> (string + unit) \<times> world" where
  "reconcile_incomplete_run D E plan w =
     try_w (e_read_journal E w, w) (\<lambda>records w1.
     try_w (map_err (\<lambda>_. ''cannot reconcile invalid journal'') (replay D (e_order E) records), w1) (\<lambda>rep w2.
       resume_all (resume_one D E plan (vr_prepared rep)) (unresolved_cloids (vr_summary rep)) w2))"

section \<open>A resume sends nothing\<close>

context calm_inv
begin

lemma err_w_keeps [simp]: "I (snd m) \<Longrightarrow> I (snd (err_w g m))"
  by simp

lemma resume_credit_keeps [simp]: "I w \<Longrightarrow> I (snd (resume_credit D E k i st w))"
  by (simp add: resume_credit_def)

lemma resume_live_keeps [simp]: "I w \<Longrightarrow> I (snd (resume_live D E plan c k i st w))"
  by (simp add: resume_live_def)

lemma resume_reconcile_keeps [simp]: "I w \<Longrightarrow> I (snd (resume_reconcile D E plan u c k i w))"
  by (simp add: resume_reconcile_def split: option.split)

lemma reconcile_unresolved_keeps [simp]: "I w \<Longrightarrow> I (snd (reconcile_unresolved_cloid D E plan c k p w))"
  by (simp add: reconcile_unresolved_cloid_def split_beta split: sum.split option.split)

lemma resume_one_keeps [simp]: "I w \<Longrightarrow> I (snd (resume_one D E plan prep c w))"
  by (simp add: resume_one_def)

lemma resume_all_keeps [simp]: "I w \<Longrightarrow> (\<And>c w. I w \<Longrightarrow> I (snd (one c w))) \<Longrightarrow> I (snd (resume_all one cs w))"
  by (induction cs arbitrary: w) simp_all

lemma reconcile_incomplete_keeps [simp]: "I w \<Longrightarrow> I (snd (reconcile_incomplete_run D E plan w))"
  by (simp add: reconcile_incomplete_run_def)

end

section \<open>What one cloid is resolved to\<close>

text \<open>The bounds of an adopted fill: its size within the order, its average price within the limit.\<close>

definition fill_within :: "order_intent \<Rightarrow> decimal \<Rightarrow> decimal option \<Rightarrow> bool" where
  "fill_within i z a \<longleftrightarrow>
     0 \<le> z \<and> z \<le> oi_sz i \<and>
     (if z = 0 then a = None
      else case a of
        None \<Rightarrow> oi_side i = Long \<or> oi_tif i = Alo
      | Some p \<Rightarrow> 0 < p \<and> (case oi_side i of Long \<Rightarrow> p \<le> oi_px i | Short \<Rightarrow> oi_px i \<le> p))"

definition resolution :: "dec_lib \<Rightarrow> nat \<Rightarrow> order_intent \<Rightarrow> journal_record \<Rightarrow> bool" where
  "resolution D k i r \<longleftrightarrow>
     (\<exists>s z a. r = Terminal k (oi_cloid i) s (d_to_string D z) (map_option (d_to_string D) a) \<and>
        is_valid_journal_terminal_status s \<and> fill_within i z a)"

lemma resolutionI:
  "is_valid_journal_terminal_status s \<Longrightarrow> fill_within i z a \<Longrightarrow> oi_cloid i = c \<Longrightarrow>
     resolution D k i (Terminal k c s (d_to_string D z) (map_option (d_to_string D) a))"
  unfolding resolution_def by blast

lemma yields_mono: "yields Q m \<Longrightarrow> (\<And>a w. Q a w \<Longrightarrow> R a w) \<Longrightarrow> yields R m"
  by (auto simp: yields_def split: sum.splits prod.splits)

interpretation jr: read_inv "\<lambda>w. w_journal w = js" for js
  by unfold_locales (auto simp: log_event_def)

lemma journal_terminal_writes:
  "yields (\<lambda>_ w'. w_journal w' = w_journal w @ [Terminal k c s (d_to_string D z) (map_option (d_to_string D) a)])
     (journal_terminal D (journaled E) k c s z a w)"
  by (auto simp: journal_terminal_def journal_write_def record_durable_def journaled_def split_beta Let_def
      elapse_def log_event_def)

lemma try_from_status_within:
  "try_from_status st i = Inr v \<Longrightarrow> fill_within i (vf_filled_sz v) (vf_avg_px v)"
  by (auto simp: try_from_status_def guard_simps fill_within_def split: if_splits option.splits)

lemma credit_resolves:
  assumes "os_is_terminal st" and "w_journal w = js"
  shows "yields (\<lambda>_ w'. \<exists>r. w_journal w' = js @ [r] \<and> resolution D k i r) (resume_credit D E k i st w)"
  unfolding resume_credit_def
proof (rule yields_pure)
  fix v assume v: "try_from_status st i = Inr v"
  have "is_valid_journal_terminal_status (os_status st)"
    using assms(1) by (simp add: is_valid_journal_terminal_status_def os_is_terminal_def)
  note r = resolutionI [OF this try_from_status_within [OF v] refl]
  show "yields (\<lambda>_ w'. \<exists>r. w_journal w' = js @ [r] \<and> resolution D k i r)
     (journal_terminal D (journaled E) k (oi_cloid i) (os_status st) (vf_filled_sz v) (vf_avg_px v) w)"
    by (rule yields_mono [OF journal_terminal_writes]) (simp add: assms(2) r)
qed

lemma poll_terminal:
  "fst (poll_loop E plan user oid c left k sc w) = Inr st \<Longrightarrow> os_is_terminal st"
  by (induction left arbitrary: k sc w)
    (auto simp: split_beta adopt_terminal_def and_then_Inr split: sum.splits option.splits if_splits)

lemma canceled_terminal: "os_is_terminal (canceled_status plan oid c agg)"
proof -
  have "is_terminal_order_status ''canceled''" by code_simp
  then show ?thesis by (simp add: os_is_terminal_def canceled_status_def)
qed

lemma recover_terminal:
  "fst (recover_resting_fill D E plan c oid i w) = Inr st \<Longrightarrow> os_is_terminal st"
  by (auto simp: recover_resting_fill_def recover_from_ledger_def poll_terminal_status_def split_beta Let_def
      canceled_terminal dest: poll_terminal split: option.splits sum.splits if_splits)

lemma reconcile_terminal:
  "fst (reconcile_loop E plan u c left k start m w) = Inr (Some st) \<Longrightarrow> os_is_terminal st"
  by (induction left arbitrary: k start m w)
    (auto simp: split_beta Let_def split: sum.splits option.splits if_splits)

lemma live_resolves:
  assumes "w_journal w = js"
  shows "yields (\<lambda>_ w'. \<exists>r. w_journal w' = js @ [r] \<and> resolution D k i r) (resume_live D E plan c k i st w)"
  unfolding resume_live_def
proof (rule yields_try)
  fix settled w1 assume r: "recover_resting_fill D E plan c (os_oid st) i w = (Inr settled, w1)"
  have "w_journal w1 = js" using jr.recover_resting_fill_keeps [OF assms, of D E plan c "os_oid st" i] r by simp
  moreover have "os_is_terminal settled" using recover_terminal [of D E plan c "os_oid st" i w settled] r by simp
  ultimately show "yields (\<lambda>_ w'. \<exists>r. w_journal w' = js @ [r] \<and> resolution D k i r)
     (try_w (cross_check settled (pl_symbol plan) (pl_side plan) (Some c), w1)
        (\<lambda>_ w2. resume_credit D E k i settled w2))"
    by (auto intro: yields_pure credit_resolves)
qed

lemma never_received_valid: "is_valid_journal_terminal_status ''neverReceived''"
  by code_simp

lemma reconcile_resolves:
  assumes "w_journal w = js" and "oi_cloid i = c" and "0 \<le> oi_sz i"
  shows "yields (\<lambda>_ w'. \<exists>r. w_journal w' = js @ [r] \<and> resolution D k i r) (resume_reconcile D E plan u c k i w)"
  unfolding resume_reconcile_def
proof (rule yields_try)
  fix found w1 assume r: "reconcile_by_cloid E plan u c w = (Inr found, w1)"
  have j: "w_journal w1 = js" using jr.reconcile_by_cloid_keeps [OF assms(1), of E plan u c] r by simp
  show "yields (\<lambda>_ w'. \<exists>r. w_journal w' = js @ [r] \<and> resolution D k i r)
     (case found of Some st \<Rightarrow> resume_credit D E k i st w1
      | None \<Rightarrow> journal_terminal D (journaled E) k c ''neverReceived'' 0 None w1)"
  proof (cases found)
    case None
    have "fill_within i 0 None" using assms(3) by (simp add: fill_within_def)
    note r = resolutionI [OF never_received_valid this assms(2)]
    have "yields (\<lambda>_ w'. \<exists>r. w_journal w' = js @ [r] \<and> resolution D k i r)
       (journal_terminal D (journaled E) k c ''neverReceived'' 0 None w1)"
      by (rule yields_mono [OF journal_terminal_writes]) (use r [of D k] j in simp)
    with None show ?thesis by simp
  next
    case (Some st)
    with r have "os_is_terminal st"
      using reconcile_terminal [of E plan u c UNKNOWN_OID_MAX_ATTEMPTS 0 None 0 w st] by (simp add: reconcile_by_cloid_def)
    with Some j show ?thesis by (simp add: credit_resolves)
  qed
qed

lemma reconcile_unresolved_resolves:
  assumes "w_journal w = js" and "0 \<le> ri_sz p"
  shows "yields (\<lambda>_ w'. \<exists>r. w_journal w' = js @ [r] \<and> resolution D k (as_order_intent p c) r)
           (reconcile_unresolved_cloid D E plan c k p w)"
proof -
  have i: "oi_cloid (as_order_intent p c) = c" "0 \<le> oi_sz (as_order_intent p c)"
    using assms(2) by (simp_all add: as_order_intent_def)
  have w2: "w_journal (snd (fetch_order_status_by_cloid E u c w)) = js" for u
    by (rule jr.fetch_order_status_by_cloid_keeps [OF assms(1)])
  show ?thesis
    unfolding reconcile_unresolved_cloid_def split_beta
    by (rule yields_pure)
      (auto intro!: yields_pure live_resolves reconcile_resolves w2 i split: sum.split option.split)
qed

section \<open>All cloids\<close>

text \<open>The record a cloid is resolved with, from its prepared intent.\<close>

definition resolved_by :: "dec_lib \<Rightarrow> (cloid \<Rightarrow> prepared_intent option) \<Rightarrow> cloid \<Rightarrow> journal_record \<Rightarrow> bool" where
  "resolved_by D prepared c r \<longleftrightarrow>
     (\<exists>itn p. prepared c = Some itn \<and> resume_intent_of D itn = Inr p \<and>
        resolution D (pi_slice_idx itn) (as_order_intent p c) r)"

lemma resume_one_resolves:
  assumes "w_journal w = js" and "\<And>itn z. prepared c = Some itn \<Longrightarrow> d_parse D (pi_sz itn) = Some z \<Longrightarrow> 0 \<le> z"
  shows "yields (\<lambda>_ w'. \<exists>r. w_journal w' = js @ [r] \<and> resolved_by D prepared c r) (resume_one D E plan prepared c w)"
  unfolding resume_one_def
proof (intro yields_pure yields_err)
  fix itn p assume a: "ok_or ''cannot reconcile cloid: no Prepared record found in this run's own journal'' (prepared c) = Inr itn"
    and p: "resume_intent_of D itn = Inr p"
  from a have itn: "prepared c = Some itn" by simp
  moreover have "0 \<le> ri_sz p" using assms(2) [OF itn] p by (auto simp: resume_intent_of_def and_then_Inr)
  ultimately show "yields (\<lambda>_ w'. \<exists>r. w_journal w' = js @ [r] \<and> resolved_by D prepared c r)
     (reconcile_unresolved_cloid D E (plan\<lparr>pl_symbol := pi_symbol itn, pl_side := pi_side itn\<rparr>) c
        (pi_slice_idx itn) p w)"
    using p by (intro yields_mono [OF reconcile_unresolved_resolves [OF assms(1)]]) (auto simp: resolved_by_def)
qed

lemma resume_all_resolves:
  assumes "w_journal w = js"
    and "\<And>c itn z. prepared c = Some itn \<Longrightarrow> d_parse D (pi_sz itn) = Some z \<Longrightarrow> 0 \<le> z"
  shows "yields (\<lambda>_ w'. \<exists>ts. w_journal w' = js @ ts \<and> list_all2 (resolved_by D prepared) cs ts)
           (resume_all (resume_one D E plan prepared) cs w)"
  using assms(1)
proof (induction cs arbitrary: w js)
  case (Cons c cs)
  show ?case
    unfolding resume_all.simps
  proof (rule yields_bind [OF resume_one_resolves [OF Cons.prems assms(2)]])
    fix u and w1 :: world assume "\<exists>r. w_journal w1 = js @ [r] \<and> resolved_by D prepared c r"
    then obtain r where r: "w_journal w1 = js @ [r]" "resolved_by D prepared c r" by blast
    show "yields (\<lambda>_ w'. \<exists>ts. w_journal w' = js @ ts \<and> list_all2 (resolved_by D prepared) (c # cs) ts)
        (resume_all (resume_one D E plan prepared) cs w1)"
      by (rule yields_mono [OF Cons.IH [OF r(1)]]) (use r(2) in auto)
  qed
qed simp

section \<open>The resumed journal replays\<close>

definition open_state :: "dec_lib \<Rightarrow> (cloid \<Rightarrow> prepared_intent option) \<Rightarrow> replay_state \<Rightarrow> bool" where
  "open_state D prepared st \<longleftrightarrow>
     replay_inv D st \<and> \<not> rs_completed st \<and> \<not> rs_abandoned st \<and> rs_prepared st = prepared"

definition is_overflow :: "replay_error \<Rightarrow> bool" where
  "is_overflow e \<longleftrightarrow> (\<exists>c op. e = Accounting (Overflow c op))"

context decimal_text
begin

lemma acc_parsed [simp]: "acc_decimal D c f (d_to_string D x) = Inr x"
  by (simp add: acc_decimal_def ok_or_def)

lemma terminal_accounting_within:
  assumes "fill_within (as_order_intent p c) z a" and "ri_px p = ap_px ap" "ri_sz p = ap_sz ap"
    "ri_side p = ap_side ap" "ri_tif p = ap_tif ap"
  shows "(\<exists>x. terminal_accounting D c ap z (map_option (d_to_string D) a) = Inr x) \<or>
         (\<exists>e. terminal_accounting D c ap z (map_option (d_to_string D) a) = Inl e \<and> is_overflow e)"
proof (cases "z = 0")
  case False
  with assms have z: "0 < z" "z \<le> ap_sz ap" by (simp_all add: fill_within_def as_order_intent_def)
  have "\<exists>price. terminal_price D c ap (map_option (d_to_string D) a) = Inr price"
    using assms False
    by (cases a; cases "ap_side ap"; cases "ap_tif ap")
      (auto simp: fill_within_def as_order_intent_def terminal_price_def  unwrap_or_def)
  then obtain price where price: "terminal_price D c ap (map_option (d_to_string D) a) = Inr price" ..
  show ?thesis
  proof (cases "d_checked_mul D z price")
    case None
    with z price show ?thesis
      by (simp add: terminal_accounting_def overflow_def is_overflow_def ok_or_def)
  next
    case (Some ntl)
    with z price show ?thesis
      by (cases a) (simp_all add: terminal_accounting_def ok_or_def)
  qed
qed (simp add: terminal_accounting_def)

lemma replay_resolution:
  assumes "open_state D prepared st" and "resolved_by D prepared c r" and "is_unresolved st c"
  shows "(\<exists>st'. replay_record D ord st (n, r) = Inr st' \<and> open_state D prepared st' \<and>
            rs_unresolved st' = removeAll c (rs_unresolved st)) \<or>
         (\<exists>e. replay_record D ord st (n, r) = Inl e \<and> is_overflow e)"
proof -
  from assms(2) obtain itn p s z a where itn: "prepared c = Some itn" and p: "resume_intent_of D itn = Inr p"
    and r: "r = Terminal (pi_slice_idx itn) c s (d_to_string D z) (map_option (d_to_string D) a)"
    and s: "is_valid_journal_terminal_status s" and fw: "fill_within (as_order_intent p c) z a"
    by (auto simp: resolved_by_def resolution_def as_order_intent_def)
  from assms(1) have inv: "replay_inv D st" and o: "\<not> rs_completed st" "\<not> rs_abandoned st"
    and prep: "rs_prepared st c = Some itn" using itn by (simp_all add: open_state_def)
  from inv have "cloid_ok D st c" by (simp add: replay_inv_def)
  with prep assms(3) obtain ap v l where ap: "rs_accounting st c = Some ap" "rs_state_values st c = Some v"
    "rs_labels st c = Some l" "label_matches l v" "d_parse D (pi_sz itn) = Some (ap_sz ap)"
    "d_parse D (pi_px itn) = Some (ap_px ap)" "ap_side ap = pi_side itn" "ap_tif ap = pi_tif itn"
    and l: "l \<noteq> LTerminal" and fills: "lookup_al (rs_fills st) c = None"
    by (auto simp: cloid_ok_def is_unresolved_def fill_ok_def split: option.splits)
  from p ap have ri: "ri_px p = ap_px ap" "ri_sz p = ap_sz ap" "ri_side p = ap_side ap" "ri_tif p = ap_tif ap"
    by (auto simp: resume_intent_of_def and_then_Inr)
  have g: "progress_guard st (pi_slice_idx itn) c LTerminal = Inr ()"
    using prep ap(3) l by (cases l) (auto simp: guard_simps)
  have z: "0 \<le> z" using fw by (simp add: fill_within_def)
  have step: "replay_record D ord st (n, r) =
      and_then (terminal_accounting D c ap z (map_option (d_to_string D) a)) (\<lambda>(ntl, trusted).
        Inr (set_label (st\<lparr>rs_fills := insert_al c
               \<lparr>tf_filled_sz = z, tf_notional = ntl, tf_avg_px = trusted\<rparr> (rs_fills st)\<rparr>)
             c LTerminal (StTerminal (d_to_string D z) (map_option (d_to_string D) a))))"
    using o g s ap(1) fills z
    by (cases "terminal_accounting D c ap z (map_option (d_to_string D) a)")
      (auto simp: replay_record_def r replay_terminal_def  not_less Let_def)
  show ?thesis
  proof (cases "terminal_accounting D c ap z (map_option (d_to_string D) a)")
    case (Inl e)
    with step terminal_accounting_within [OF fw ri] show ?thesis by auto
  next
    case (Inr x)
    with step obtain st' where st': "replay_record D ord st (n, r) = Inr st'"
      "rs_prepared st' = rs_prepared st" "rs_order st' = rs_order st"
      "rs_state_values st' = (rs_state_values st)(c \<mapsto> StTerminal (d_to_string D z) (map_option (d_to_string D) a))"
      "rs_completed st' = rs_completed st" "rs_abandoned st' = rs_abandoned st"
      by (cases x) simp
    have "rs_unresolved st' = removeAll c (rs_unresolved st)"
      by (auto simp: rs_unresolved_def st'(3) is_unresolved_def st'(4) removeAll_filter_not_eq intro!: filter_cong
          split: if_splits)
    with st' replay_record_inv [OF st'(1) inv] assms(1) show ?thesis by (simp add: open_state_def)
  qed
qed

lemma fold_resolutions:
  assumes "open_state D prepared st" and "list_all2 (resolved_by D prepared) cs ts"
    and "rs_unresolved st = cs" and "distinct cs"
  shows "(\<exists>st'. fold_ok (replay_record D ord) st (enumerate n ts) = Inr st' \<and> rs_unresolved st' = []) \<or>
         (\<exists>e. fold_ok (replay_record D ord) st (enumerate n ts) = Inl e \<and> is_overflow e)"
  using assms
proof (induction cs arbitrary: st ts n)
  case (Cons c cs)
  then obtain r rest where ts: "ts = r # rest" and r: "resolved_by D prepared c r"
    and rest: "list_all2 (resolved_by D prepared) cs rest" by (cases ts) auto
  have "c \<in> set (rs_unresolved st)" using Cons.prems(3) by simp
  then have "is_unresolved st c" by (simp add: rs_unresolved_def)
  from replay_resolution [OF Cons.prems(1) r this, of ord n] show ?case
  proof
    assume "\<exists>st'. replay_record D ord st (n, r) = Inr st' \<and> open_state D prepared st' \<and>
      rs_unresolved st' = removeAll c (rs_unresolved st)"
    then obtain st' where st': "replay_record D ord st (n, r) = Inr st'" "open_state D prepared st'"
      "rs_unresolved st' = removeAll c (rs_unresolved st)" by blast
    have "removeAll c (c # cs) = cs" using Cons.prems(4) by (simp add: removeAll_id)
    with Cons.IH [OF st'(2) rest, of "Suc n"] st' Cons.prems(3,4) ts show ?case by simp
  qed (auto simp: ts)
qed simp

end

section \<open>The resumed journal has nothing unresolved\<close>

lemma resume_resolution:
  assumes "decimal_text D" and "e_read_journal E w = Inr (w_journal w)"
    and "reconcile_incomplete_run D E plan w = (Inr (), w')"
  shows "\<exists>rep ts. replay D (e_order E) (w_journal w) = Inr rep \<and> w_journal w' = w_journal w @ ts \<and>
      list_all2 (resolved_by D (vr_prepared rep)) (unresolved_cloids (vr_summary rep)) ts \<and>
      ((\<exists>rep'. replay D (e_order E) (w_journal w') = Inr rep' \<and> unresolved_cloids (vr_summary rep') = []) \<or>
       (\<exists>e. replay D (e_order E) (w_journal w') = Inl e \<and> is_overflow e))"
proof -
  from assms(2,3) obtain rep where rep: "replay D (e_order E) (w_journal w) = Inr rep"
    and all: "resume_all (resume_one D E plan (vr_prepared rep)) (unresolved_cloids (vr_summary rep)) w = (Inr (), w')"
    by (auto simp: reconcile_incomplete_run_def try_w_Inr map_err_def split: sum.splits)
  from replay_Inr [OF rep] obtain st totals vwap where ne: "w_journal w \<noteq> []" "is_header (hd (w_journal w))"
    and l: "replay_loop D (e_order E) (w_journal w) = Inr st" and inv: "replay_inv D st"
    and v: "su_cloids (vr_summary rep) = final_cloids st" "vr_prepared rep = rs_prepared st" by auto
  have un: "unresolved_cloids (vr_summary rep) = rs_unresolved st"
    using final_cloids_unresolved [OF inv] by (simp add: unresolved_cloids_def v)
  have nonneg: "0 \<le> z" if "vr_prepared rep c = Some itn" "d_parse D (pi_sz itn) = Some z" for c itn z
  proof -
    have "cloid_ok D st c" using inv by (simp add: replay_inv_def)
    with that show ?thesis by (auto simp: cloid_ok_def v)
  qed
  have "yields (\<lambda>_ w'. \<exists>ts. w_journal w' = w_journal w @ ts \<and>
      list_all2 (resolved_by D (vr_prepared rep)) (unresolved_cloids (vr_summary rep)) ts)
    (resume_all (resume_one D E plan (vr_prepared rep)) (unresolved_cloids (vr_summary rep)) w)"
    by (rule resume_all_resolves [OF refl]) (rule nonneg)
  from yieldsD [OF this all] obtain ts where ts: "w_journal w' = w_journal w @ ts"
    "list_all2 (resolved_by D (vr_prepared rep)) (rs_unresolved st) ts" by (auto simp: un)
  have loop: "(\<exists>st'. replay_loop D (e_order E) (w_journal w') = Inr st' \<and> rs_unresolved st' = []) \<or>
      (\<exists>e. replay_loop D (e_order E) (w_journal w') = Inl e \<and> is_overflow e)"
  proof (cases "rs_unresolved st = []")
    case True
    with ts l show ?thesis by simp
  next
    case False
    with inv have o: "open_state D (vr_prepared rep) st" by (auto simp: open_state_def replay_inv_def v)
    have "distinct (rs_unresolved st)" using inv by (simp add: rs_unresolved_def replay_inv_def)
    from decimal_text.fold_resolutions [OF assms(1) o ts(2) refl this, of "e_order E" "length (w_journal w)"] l ts(1)
    show ?thesis by (auto simp: replay_loop_append)
  qed
  have "(\<exists>rep'. replay D (e_order E) (w_journal w') = Inr rep' \<and> unresolved_cloids (vr_summary rep') = []) \<or>
      (\<exists>e. replay D (e_order E) (w_journal w') = Inl e \<and> is_overflow e)"
  proof -
    obtain r q where rq: "w_journal w' = r # q" "is_header r" using ne ts(1) by (cases "w_journal w") auto
    show ?thesis
    proof (cases "replay_loop D (e_order E) (w_journal w')")
      case (Inl e)
      with loop rq show ?thesis by (auto simp: replay_def)
    next
      case (Inr st')
      with loop have st': "rs_unresolved st' = []" by auto
      show ?thesis
      proof (cases "calculate_totals D (e_order E) (rs_fills st')")
        case (Inl e)
        with calculate_totals_overflow [OF Inl] Inr rq show ?thesis by (auto simp: replay_def is_overflow_def)
      next
        case I: (Inr p)
        with Inr rq have "\<exists>rep'. replay D (e_order E) (w_journal w') = Inr rep' \<and>
            su_cloids (vr_summary rep') = final_cloids st'" by (cases p) (simp add: replay_def)
        with final_cloids_unresolved [OF replay_loop_inv [OF Inr]] st' show ?thesis
          by (auto simp: unresolved_cloids_def)
      qed
    qed
  qed
  with rep ts un show ?thesis by auto
qed

section \<open>Properties\<close>

text \<open>Resuming an incomplete run never sends an order, whatever the journal holds and whatever the
  exchange answers: it only cancels, queries and records.\<close>

theorem resume_never_sends:
  "count_events is_place (snd (reconcile_incomplete_run D E plan w)) = count_events is_place w"
proof -
  have "extends w (snd (reconcile_incomplete_run D E plan w))" by (rule ext.reconcile_incomplete_keeps) simp
  then obtain es where es: "w_trace (snd (reconcile_incomplete_run D E plan w)) = es @ w_trace w"
    "\<forall>e\<in>set es. \<not> is_place (snd e)" by (auto simp: extends_def)
  then have "filter (\<lambda>te. is_place (snd te)) es = []" by (simp add: filter_empty_conv)
  with es(1) show ?thesis by (simp add: count_events_def)
qed

text \<open>C22: a resume that succeeds leaves a journal that replays and has nothing unresolved: it has appended
  exactly one terminal record per unresolved cloid, each within its own prepared intent. The only other
  outcome of the replay is an overflow of the accounting. The hypotheses are that decimals are read back
  as they were printed and that the journal reads back as it was written.\<close>

theorem resume_resolves_journal:
  assumes "decimal_text D" and "e_read_journal E w = Inr (w_journal w)"
    and "reconcile_incomplete_run D E plan w = (Inr (), w')"
  shows "\<exists>rep ts. replay D (e_order E) (w_journal w) = Inr rep \<and> w_journal w' = w_journal w @ ts \<and>
      list_all2 (resolved_by D (vr_prepared rep)) (unresolved_cloids (vr_summary rep)) ts \<and>
      ((\<exists>rep'. replay D (e_order E) (w_journal w') = Inr rep' \<and> unresolved_cloids (vr_summary rep') = []) \<or>
       (\<exists>e. replay D (e_order E) (w_journal w') = Inl e \<and> is_overflow e))"
  using assms by (rule resume_resolution)

definition crashed_journal :: "journal_record list" where
  "crashed_journal =
     [Header demo_header, Prepared 1 7 None ''BTC'' Long (Some Ioc) ''62'' ''5'', SubmittedUnknown 1 7]"

definition late_fill :: script where
  "late_fill =
     demo_script\<lparr>sc_statuses := replicate 2 (Inr (Some
       \<lparr>os_filled_sz = 3, os_avg_px = Some 61, os_status = ''filled'', os_oid = 40, os_cloid = Some 7,
        os_coin = ''BTC'', os_side = ''B''\<rparr>))\<rparr>"

lemma filled_terminal: "is_terminal_order_status ''filled''"
  by code_simp

lemma demo_resume:
  "\<exists>w'. reconcile_incomplete_run exact_dec (scripted_env late_fill False None) demo_plan
     (world_init\<lparr>w_journal := crashed_journal\<rparr>) = (Inr (), w') \<and>
     w_journal w' = crashed_journal @ [Terminal 1 7 ''filled'' (show_rat 3) (Some (show_rat 61))]"
  by (simp add: reconcile_incomplete_run_def run_eval crashed_journal_def late_fill_def replay_eval
      replay_submitted_def map_err_def unresolved_cloids_def resume_one_def resume_intent_of_def
      reconcile_unresolved_cloid_def resume_reconcile_def resume_credit_def journaled_def as_order_intent_def
      filled_terminal os_is_terminal_def cong: try_w_cong_weak)

lemma resumed_not_overflow:
  "replay exact_dec (\<lambda>xs. xs) (crashed_journal @ [Terminal 1 7 ''filled'' (show_rat 3) (Some (show_rat 61))]) \<noteq> Inl e"
  by (simp add: crashed_journal_def replay_eval replay_submitted_def read_show_rat ok_or_def)

theorem resume_resolves_journal_witness:
  "\<exists>w' rep'. reconcile_incomplete_run exact_dec (scripted_env late_fill False None) demo_plan
     (world_init\<lparr>w_journal := crashed_journal\<rparr>) = (Inr (), w') \<and> length (w_journal w') = 4 \<and>
     replay exact_dec (\<lambda>xs. xs) (w_journal w') = Inr rep' \<and> unresolved_cloids (vr_summary rep') = []"
proof -
  let ?E = "scripted_env late_fill False None" and ?w = "world_init\<lparr>w_journal := crashed_journal\<rparr>"
  obtain w' where run: "reconcile_incomplete_run exact_dec ?E demo_plan ?w = (Inr (), w')"
    and j: "w_journal w' = crashed_journal @ [Terminal 1 7 ''filled'' (show_rat 3) (Some (show_rat 61))]"
    using demo_resume by blast
  have "e_read_journal ?E ?w = Inr (w_journal ?w)" and ord: "e_order ?E = (\<lambda>xs. xs)"
    by (simp_all add: scripted_env_def scripted_def)
  from resume_resolves_journal [OF exact_text.decimal_text_axioms this(1) run] resumed_not_overflow
  have "\<exists>rep'. replay exact_dec (\<lambda>xs. xs) (w_journal w') = Inr rep' \<and> unresolved_cloids (vr_summary rep') = []"
    unfolding ord j by blast
  moreover have "length (w_journal w') = 4" by (simp add: j crashed_journal_def)
  ultimately show ?thesis using run by blast
qed

end
