(* ===== verification/Resume_Check.thy ===== *)
theory Resume_Check
  imports Cli Resume
begin

text \<open>
  What a resumed process demands of the journal before it may send anything (\<open>src/main.rs\<close>): the
  identity checks, the comparison of the durable execution fingerprint with the command line, the
  reconstruction of the frozen sizing and of the frozen position plan, and the position that the durable
  fills imply. The theorems relate these checks to the fingerprint that a new run writes.
\<close>

datatype resume_error = Refused string | FieldMismatch "string list"

definition no_mismatch :: "string list \<Rightarrow> resume_error + unit" where
  "no_mismatch names = check (names = []) (FieldMismatch names)"

section \<open>The plan, the fingerprint and the header of a new run\<close>

definition fresh_position_plan ::
  "dec_lib \<Rightarrow> cli \<Rightarrow> signed_position \<Rightarrow> symbol \<Rightarrow> decimal \<Rightarrow> nat \<Rightarrow> plan_error + position_plan" where
  "fresh_position_plan D cli pos sy mid sz_decimals =
     (if cl_flatten cli then flatten_plan D pos sy sz_decimals
      else
        (case cl_target_sz cli of
           Some target \<Rightarrow> target_size D pos sy target sz_decimals
         | None \<Rightarrow>
             (case cl_target_usd cli of
                Some target \<Rightarrow> target_usd D pos sy target mid sz_decimals
              | None \<Rightarrow> Inl PlanOverflow)))"

text \<open>The coin quantity of an ordinary run: \<open>--size\<close>, or \<open>--usd\<close> at the pre-flight mid.\<close>

definition ordinary_quantity :: "dec_lib \<Rightarrow> cli \<Rightarrow> decimal \<Rightarrow> string + decimal" where
  "ordinary_quantity D cli mid =
     (case cl_size cli of
        Some sz \<Rightarrow> Inr sz
      | None \<Rightarrow>
          (case cl_usd cli of
             Some usd \<Rightarrow> map_err (\<lambda>_. ''mid is not positive'') (usd_to_coin D usd mid)
           | None \<Rightarrow> Inl ''no size specified''))"

definition original_plan ::
  "cli \<Rightarrow> symbol \<Rightarrow> side \<Rightarrow> nat \<Rightarrow> nat \<Rightarrow> sizing \<Rightarrow> decimal \<Rightarrow> u64 option \<Rightarrow> decimal \<Rightarrow> position_plan option \<Rightarrow>
     address option \<Rightarrow> address option \<Rightarrow> twap_plan" where
  "original_plan cli sy sd asset_index sz_decimals sg requested deadline cap position agent master =
     \<lparr>pl_symbol = sy, pl_side = sd, pl_asset_index = asset_index, pl_sz_decimals = sz_decimals,
      pl_per_slice = sg_per_slice sg, pl_total_adjusted = sg_total_adjusted sg,
      pl_total_requested = requested, pl_slices = cl_slices cli, pl_duration = cl_duration cli,
      pl_absolute_deadline_unix_ms = deadline, pl_slippage_bps = cl_slippage_bps cli,
      pl_max_book_age_ms = cl_max_book_age_ms cli, pl_settle_retries = cl_settle_retries cli,
      pl_read_only = is_read_only cli,
      pl_reduce_only =
        (case position of
           Some p \<Rightarrow> (case pp_phases p of ph # _ \<Rightarrow> ph_reduce_only ph | [] \<Rightarrow> False)
         | None \<Rightarrow> False),
      pl_max_notional_usd = cap, pl_agent = agent, pl_master = master,
      pl_child_algo = cl_child_algo cli,
      pl_follow_poll_secs = unat (cl_follow_poll_secs cli),
      pl_follow_repost_secs = unat (cl_follow_repost_secs cli),
      pl_follow_threshold_bps = cl_follow_threshold_bps cli\<rparr>"

definition fixed_deadline :: "cli \<Rightarrow> u64 \<Rightarrow> u64" where
  "fixed_deadline cli now =
     unwrap_or (cl_flatten_deadline_unix_ms cli) (sat_add_u64 now (of_nat (as_millis (cl_duration cli))))"

definition new_run_header ::
  "string \<Rightarrow> network \<Rightarrow> twap_plan \<Rightarrow> string \<Rightarrow> fingerprint \<Rightarrow> u64 \<Rightarrow> u64 \<Rightarrow> run_header" where
  "new_run_header run_id net plan plan_hash fp started deadline =
     \<lparr>rh_run_id = run_id, rh_network = network_name net, rh_agent = pl_agent plan,
      rh_master = pl_master plan, rh_symbol = pl_symbol plan, rh_side = pl_side plan,
      rh_slices = pl_slices plan, rh_plan_hash = plan_hash, rh_fingerprint = Some fp,
      rh_started_at_unix_ms = started, rh_deadline_unix_ms = Some deadline\<rparr>"

section \<open>Identity\<close>

definition identity_mismatches ::
  "string \<Rightarrow> network \<Rightarrow> address option \<Rightarrow> address option \<Rightarrow> symbol \<Rightarrow> side option \<Rightarrow> run_header \<Rightarrow> string list" where
  "identity_mismatches run_id net agent master sy ordinary_side h =
     changed (rh_run_id h \<noteq> run_id) ''run_id'' @
     changed (rh_network h \<noteq> network_name net) ''network'' @
     changed (rh_agent h \<noteq> agent) ''agent'' @
     changed (master \<noteq> None \<and> rh_master h \<noteq> master) ''master'' @
     changed (rh_symbol h \<noteq> sy) ''symbol'' @
     changed (case ordinary_side of Some sd \<Rightarrow> rh_side h \<noteq> sd | None \<Rightarrow> False) ''side''"

definition prepared_mismatches ::
  "run_header \<Rightarrow> side option \<Rightarrow> prepared_intent option \<Rightarrow> string list" where
  "prepared_mismatches h ordinary_side intent =
     (case intent of
        None \<Rightarrow> []
      | Some i \<Rightarrow>
          changed (pi_symbol i \<noteq> rh_symbol h) ''Prepared symbol'' @
          changed (case ordinary_side of Some sd \<Rightarrow> pi_side i \<noteq> sd | None \<Rightarrow> False) ''Prepared side'')"

definition validated_resume_replay ::
  "dec_lib \<Rightarrow> ((cloid \<times> terminal_fill) list \<Rightarrow> (cloid \<times> terminal_fill) list) \<Rightarrow> string + journal_record list \<Rightarrow>
     string \<Rightarrow> network \<Rightarrow> address option \<Rightarrow> address option \<Rightarrow> symbol \<Rightarrow> side option \<Rightarrow>
     resume_error + validated_replay" where
  "validated_resume_replay D ord records run_id net agent master sy ordinary_side =
     and_then (map_err (\<lambda>_. Refused ''failed to read journal'') records) (\<lambda>rs.
     and_then (map_err (\<lambda>_. Refused ''invalid journal; refusing external API calls'') (replay D ord rs)) (\<lambda>rep.
     and_then (ok_or (Refused ''journal has no Header'') (su_header (vr_summary rep))) (\<lambda>h.
     and_then (no_mismatch
       (identity_mismatches run_id net agent master sy ordinary_side h @
        concat (map (\<lambda>(c, _). prepared_mismatches h ordinary_side (vr_prepared rep c))
          (su_cloids (vr_summary rep))))) (\<lambda>_. Inr rep))))"

section \<open>The frozen sizing\<close>

definition parse_canonical_fingerprint_decimal :: "dec_lib \<Rightarrow> string \<Rightarrow> resume_error + decimal" where
  "parse_canonical_fingerprint_decimal D v =
     and_then (ok_or (Refused ''invalid stored decimal'') (d_parse D v)) (\<lambda>x.
     and_then (check (d_canonical D x = v) (Refused ''stored decimal is not canonical; refusing new orders'')) (\<lambda>_. Inr x))"

definition validate_fingerprint_sizing ::
  "dec_lib \<Rightarrow> fingerprint \<Rightarrow> decimal \<Rightarrow> bool \<Rightarrow> nat \<Rightarrow> bool \<Rightarrow> resume_error + unit" where
  "validate_fingerprint_sizing D fp expected_total expected_reduce_only sz_decimals require_exact =
     and_then (check (fp_slices fp \<noteq> 0) (Refused ''stored slices must be positive; refusing new orders'')) (\<lambda>_.
     and_then (parse_canonical_fingerprint_decimal D (fp_per_slice fp)) (\<lambda>per_slice.
     and_then (parse_canonical_fingerprint_decimal D (fp_total_adjusted fp)) (\<lambda>total_adjusted.
     and_then (parse_canonical_fingerprint_decimal D (fp_total_requested fp)) (\<lambda>total_requested.
     and_then (check (\<not> (expected_total \<le> 0 \<or> per_slice \<le> 0 \<or> total_adjusted \<le> 0 \<or> total_requested \<le> 0))
       (Refused ''stored sizing must be positive; refusing new orders'')) (\<lambda>_.
     let expected_per_slice = round_size D (d_div D expected_total (of_nat (fp_slices fp))) sz_decimals in
     and_then (if require_exact then Inr expected_total
               else ok_or (Refused ''stored sizing overflows'')
                      (d_checked_mul D expected_per_slice (of_nat (fp_slices fp)))) (\<lambda>expected_total_adjusted.
     no_mismatch
       (changed (total_requested \<noteq> expected_total) ''total_requested'' @
        changed (per_slice \<noteq> expected_per_slice) ''per_slice'' @
        changed (total_adjusted \<noteq> expected_total_adjusted) ''total_adjusted'' @
        changed (fp_reduce_only fp \<noteq> expected_reduce_only) ''reduce_only'')))))))"

section \<open>The fingerprint against the command line\<close>

definition resume_mismatches ::
  "dec_lib \<Rightarrow> cli \<Rightarrow> network \<Rightarrow> address option \<Rightarrow> address option \<Rightarrow> run_header \<Rightarrow> fingerprint \<Rightarrow> string list" where
  "resume_mismatches D cli net agent master h st =
     changed (fp_request_mode st \<noteq> fst (requested_mode_and_value D cli)) ''request_mode'' @
     changed (fp_request_value st \<noteq> snd (requested_mode_and_value D cli)) ''request_value'' @
     changed (fp_network st \<noteq> network_name net) ''network'' @
     changed (fp_agent st \<noteq> agent) ''agent'' @
     changed (fp_master st \<noteq> master) ''master'' @
     changed (fp_symbol st \<noteq> rh_symbol h) ''symbol'' @
     changed (fp_side st \<noteq> side_name (rh_side h)) ''side'' @
     changed (fp_slices st \<noteq> rh_slices h) ''header.slices'' @
     changed (fp_slices st \<noteq> cl_slices cli) ''slices'' @
     changed (fp_duration_ms st \<noteq> millis_u64 (cl_duration cli)) ''duration_ms'' @
     changed (fp_slippage_bps st \<noteq> d_canonical D (cl_slippage_bps cli)) ''slippage_bps'' @
     changed (fp_max_notional_usd st \<noteq> d_canonical D (unwrap_or (cl_max_notional_usd cli) (d_max D)))
       ''max_notional_usd'' @
     changed (fp_max_book_age_ms st \<noteq> cl_max_book_age_ms cli) ''max_book_age_ms'' @
     changed (fp_settle_retries st \<noteq> cl_settle_retries cli) ''settle_retries'' @
     changed (fp_child_algo st \<noteq> child_algo_name (cl_child_algo cli)) ''child_algo'' @
     changed (fp_follow_poll_secs st \<noteq> cl_follow_poll_secs cli) ''follow_poll_secs'' @
     changed (fp_follow_repost_secs st \<noteq> cl_follow_repost_secs cli) ''follow_repost_secs'' @
     changed (fp_follow_threshold_bps st \<noteq> d_canonical D (cl_follow_threshold_bps cli))
       ''follow_threshold_bps'' @
     changed (fp_absolute_deadline_unix_ms st \<noteq> rh_deadline_unix_ms h) ''absolute_deadline_unix_ms'' @
     changed (cl_flatten_deadline_unix_ms cli \<noteq> None \<and>
              cl_flatten_deadline_unix_ms cli \<noteq> rh_deadline_unix_ms h) ''flatten_deadline_unix_ms''"

definition resume_ordinary :: "dec_lib \<Rightarrow> cli \<Rightarrow> fingerprint \<Rightarrow> nat \<Rightarrow> resume_error + unit" where
  "resume_ordinary D cli st sz_decimals =
     and_then (check (\<not> position_mode_requested cli)
       (Refused ''ordinary journal cannot be resumed as a position target'')) (\<lambda>_.
     and_then (check (\<not> (fp_initial_position_szi st \<noteq> None \<or> fp_target_position_szi st \<noteq> None \<or>
                         fp_position_requested_value st \<noteq> None \<or> fp_position_reference_price st \<noteq> None \<or>
                         fp_position_phases st \<noteq> []))
       (Refused ''ordinary fingerprint contains position-only fields; refusing new orders'')) (\<lambda>_.
     and_then (parse_canonical_fingerprint_decimal D (fp_total_requested st)) (\<lambda>stored_total.
     and_then (if fst (requested_mode_and_value D cli) = ''size''
               then parse_canonical_fingerprint_decimal D (fp_request_value st)
               else if fst (requested_mode_and_value D cli) = ''usd'' then Inr stored_total
               else Inl (Refused ''invalid ordinary request mode'')) (\<lambda>expected_total.
     validate_fingerprint_sizing D st expected_total False sz_decimals False))))"

definition frozen_plan ::
  "dec_lib \<Rightarrow> cli \<Rightarrow> run_header \<Rightarrow> fingerprint \<Rightarrow> string \<Rightarrow> decimal \<Rightarrow> nat \<Rightarrow> resume_error + position_plan" where
  "frozen_plan D cli h st mode initial_szi sz_decimals =
     (let initial = \<lparr>sp_symbol = rh_symbol h, sp_szi = initial_szi\<rparr>;
          ok = map_err (\<lambda>_. Refused ''invalid frozen position plan'')
      in if mode = ''flatten'' then ok (flatten_plan D initial (rh_symbol h) sz_decimals)
         else if mode = ''target_sz'' then
           and_then (ok_or (Refused ''stored target_sz requires --target-sz'') (cl_target_sz cli)) (\<lambda>target.
           ok (target_size D initial (rh_symbol h) target sz_decimals))
         else if mode = ''target_usd'' then
           and_then (ok_or (Refused ''target_usd fingerprint lacks reference price'')
                       (fp_position_reference_price st)) (\<lambda>text.
           and_then (parse_canonical_fingerprint_decimal D text) (\<lambda>reference.
           and_then (ok_or (Refused ''stored target_usd requires --target-usd'') (cl_target_usd cli)) (\<lambda>target.
           ok (target_usd D initial (rh_symbol h) target reference sz_decimals))))
         else Inl (Refused ''unknown stored position mode''))"

definition first_phase :: "position_plan \<Rightarrow> position_phase option" where
  "first_phase p = first_opt (pp_phases p)"

definition resume_position ::
  "dec_lib \<Rightarrow> cli \<Rightarrow> run_header \<Rightarrow> fingerprint \<Rightarrow> string \<Rightarrow> nat \<Rightarrow> resume_error + position_plan" where
  "resume_position D cli h st mode sz_decimals =
     and_then (check (mode = fst (requested_mode_and_value D cli))
       (Refused ''stored position mode does not match the request'')) (\<lambda>_.
     and_then (ok_or (Refused ''fingerprint lacks initial_position_szi'') (fp_initial_position_szi st)) (\<lambda>initial_text.
     and_then (parse_canonical_fingerprint_decimal D initial_text) (\<lambda>initial_szi.
     and_then (ok_or (Refused ''fingerprint lacks target_position_szi'') (fp_target_position_szi st)) (\<lambda>target_text.
     and_then (parse_canonical_fingerprint_decimal D target_text) (\<lambda>target_szi.
     and_then (frozen_plan D cli h st mode initial_szi sz_decimals) (\<lambda>frozen.
     and_then (check (pp_target_szi frozen = target_szi) (Refused ''frozen target mismatch'')) (\<lambda>_.
     and_then (check (\<not> (map (phase_fingerprint_of D) (pp_phases frozen) \<noteq> fp_position_phases st \<or>
                         (case first_phase frozen of Some ph \<Rightarrow> ph_side ph \<noteq> rh_side h | None \<Rightarrow> False)))
       (Refused ''frozen position phase sequence is inconsistent; refusing new orders'')) (\<lambda>_.
     and_then (check (fp_position_requested_value st =
                        (if mode = ''flatten'' then None else Some (snd (requested_mode_and_value D cli))))
       (FieldMismatch [''position_requested_value''])) (\<lambda>_.
     and_then (check (\<not> (mode \<noteq> ''target_usd'' \<and> fp_position_reference_price st \<noteq> None))
       (FieldMismatch [''position_reference_price''])) (\<lambda>_.
     and_then (ok_or (Refused ''stored position plan has no executable phase'') (first_phase frozen)) (\<lambda>ph.
     and_then (validate_fingerprint_sizing D st (ph_size ph) (ph_reduce_only ph) sz_decimals True) (\<lambda>_.
     Inr frozen))))))))))))"

definition validate_resume_execution_fingerprint ::
  "dec_lib \<Rightarrow> validated_replay \<Rightarrow> cli \<Rightarrow> network \<Rightarrow> address option \<Rightarrow> address option \<Rightarrow> nat \<Rightarrow>
     resume_error + position_plan option" where
  "validate_resume_execution_fingerprint D rep cli net agent master sz_decimals =
     and_then (ok_or (Refused ''journal has no Header'') (su_header (vr_summary rep))) (\<lambda>h.
     and_then (ok_or (Refused ''legacy journal has no typed execution fingerprint'') (rh_fingerprint h)) (\<lambda>st.
     and_then (check (fp_version st = FINGERPRINT_VERSION) (Refused ''fingerprint version is unsupported'')) (\<lambda>_.
     and_then (no_mismatch (resume_mismatches D cli net agent master h st)) (\<lambda>_.
     case fp_position_mode st of
       None \<Rightarrow> and_then (resume_ordinary D cli st sz_decimals) (\<lambda>_. Inr None)
     | Some mode \<Rightarrow> and_then (resume_position D cli h st mode sz_decimals) (\<lambda>p. Inr (Some p))))))"

section \<open>The position the durable fills imply\<close>

definition moving_side :: "position_plan \<Rightarrow> side option" where
  "moving_side p =
     (if pp_current_szi p < pp_target_szi p then Some Long
      else if pp_target_szi p < pp_current_szi p then Some Short else None)"

definition expected_step ::
  "dec_lib \<Rightarrow> validated_replay \<Rightarrow> position_plan \<Rightarrow> decimal \<Rightarrow> cloid \<times> cloid_state \<Rightarrow> resume_error + decimal" where
  "expected_step D rep frozen expected cs =
     (case cs of
        (c, StTerminal filled_sz a) \<Rightarrow>
          and_then (ok_or (Refused ''terminal cloid lacks validated Prepared intent'') (vr_prepared rep c)) (\<lambda>intent.
          and_then (check (case moving_side frozen of Some sd \<Rightarrow> pi_side intent = sd | None \<Rightarrow> True)
            (Refused ''durable cloid moves away from the frozen target'')) (\<lambda>_.
          and_then (ok_or (Refused ''invalid terminal fill'') (d_parse D filled_sz)) (\<lambda>filled.
          and_then (map_err (\<lambda>_. Refused ''cannot reconstruct position'')
                      (apply_signed_fill D expected (pi_side intent) filled)) (\<lambda>nxt.
          and_then (check (is_between_frozen_endpoints nxt (pp_current_szi frozen) (pp_target_szi frozen))
            (Refused ''durable fills imply position beyond frozen target; refusing automatic reversal'')) (\<lambda>_.
          Inr nxt)))))
      | _ \<Rightarrow> Inr expected)"

definition expected_position_from_replay ::
  "dec_lib \<Rightarrow> validated_replay \<Rightarrow> position_plan \<Rightarrow> resume_error + decimal" where
  "expected_position_from_replay D rep frozen =
     fold_ok (expected_step D rep frozen) (pp_current_szi frozen) (su_cloids (vr_summary rep))"

end
