(* ===== verification/Resume_Facts.thy ===== *)
theory Resume_Facts
  imports Resume_Check
begin

text \<open>
  What the checks of a resumed process guarantee. \<open>frozen_by\<close> says that a header carries the fingerprint
  that this very command line would write for a frozen sizing; the acceptance of a resume is equivalent to
  it. A new ordinary run writes a header that its own replay and a later resume accept; a position target
  whose size ends in a zero writes one that its own replay rejects.
\<close>

lemma check_Inr [simp]: "check ok e = Inr u \<longleftrightarrow> ok"
  by (simp add: check_def)

lemma changed_Nil [simp]: "changed b n = [] \<longleftrightarrow> \<not> b"
  by (simp add: changed_def)

lemma no_mismatch_Inr [simp]: "no_mismatch ns = Inr u \<longleftrightarrow> ns = []"
  by (simp add: no_mismatch_def)

lemma canonical_Inr [simp]:
  "parse_canonical_fingerprint_decimal D v = Inr x \<longleftrightarrow> d_parse D v = Some x \<and> d_canonical D x = v"
  by (auto simp: parse_canonical_fingerprint_decimal_def and_then_Inr)

lemma position_mode_of_None: "position_mode_of cli = None \<longleftrightarrow> \<not> position_mode_requested cli"
  by (auto simp: position_mode_of_def position_mode_requested_def)

section \<open>The frozen sizing and the frozen plan\<close>

text \<open>The stored sizing is the one that the expected quantity gives.\<close>

lemma fingerprint_sizing_Inr:
  "validate_fingerprint_sizing D st req reduce n exact = Inr u \<longleftrightarrow>
     fp_slices st \<noteq> 0 \<and> 0 < req \<and> fp_reduce_only st = reduce \<and>
     d_canonical D req = fp_total_requested st \<and> d_parse D (fp_total_requested st) = Some req \<and>
     (\<exists>per adj. d_canonical D per = fp_per_slice st \<and> d_parse D (fp_per_slice st) = Some per \<and> 0 < per \<and>
        per = round_size D (d_div D req (of_nat (fp_slices st))) n \<and>
        d_canonical D adj = fp_total_adjusted st \<and> d_parse D (fp_total_adjusted st) = Some adj \<and> 0 < adj \<and>
        (if exact then adj = req else d_checked_mul D per (of_nat (fp_slices st)) = Some adj))"
  by (auto simp: validate_fingerprint_sizing_def and_then_Inr Let_def not_le)

lemma target_size_current:
  "target_size D pos sy t n = Inr p \<Longrightarrow> pp_current_szi p = sp_szi pos \<and> sp_symbol pos = sy"
  by (auto simp: target_size_def Let_def split: if_splits sum.splits)

lemma fresh_plan_current:
  "fresh_position_plan D cli pos sy mid n = Inr p \<Longrightarrow> pp_current_szi p = sp_szi pos \<and> sp_symbol pos = sy"
  by (auto simp: fresh_position_plan_def flatten_plan_def target_usd_def target_size_current
      dest: target_size_current split: if_splits option.splits)

definition start_of :: "run_header \<Rightarrow> decimal \<Rightarrow> signed_position" where
  "start_of h szi = \<lparr>sp_symbol = rh_symbol h, sp_szi = szi\<rparr>"

definition cap_of :: "dec_lib \<Rightarrow> cli \<Rightarrow> decimal" where
  "cap_of D cli = unwrap_or (cl_max_notional_usd cli) (d_max D)"

definition position_frozen ::
  "dec_lib \<Rightarrow> cli \<Rightarrow> nat \<Rightarrow> run_header \<Rightarrow> position_plan option \<Rightarrow> sizing \<Rightarrow> decimal \<Rightarrow> decimal option \<Rightarrow> bool" where
  "position_frozen D cli n h position sg req ref =
     (case position of
        None \<Rightarrow>
          \<not> position_mode_requested cli \<and> (cl_size cli \<noteq> None \<or> cl_usd cli \<noteq> None) \<and>
          (\<forall>v. cl_size cli = Some v \<longrightarrow> req = v) \<and>
          d_checked_mul D (sg_per_slice sg) (of_nat (cl_slices cli)) = Some (sg_total_adjusted sg)
      | Some p \<Rightarrow>
          position_mode_requested cli \<and> cl_size cli = None \<and> cl_usd cli = None \<and>
          fresh_position_plan D cli (start_of h (pp_current_szi p)) (rh_symbol h) (unwrap_or ref 0) n = Inr p \<and>
          sg_total_adjusted sg = req \<and>
          (\<exists>ph phs. pp_phases p = ph # phs \<and> ph_size ph = req \<and> ph_side ph = rh_side h))"

definition frozen_by ::
  "dec_lib \<Rightarrow> cli \<Rightarrow> network \<Rightarrow> address option \<Rightarrow> address option \<Rightarrow> nat \<Rightarrow> run_header \<Rightarrow> position_plan option \<Rightarrow>
     sizing \<Rightarrow> decimal \<Rightarrow> decimal option \<Rightarrow> bool" where
  "frozen_by D cli net agent master n h position sg req ref \<longleftrightarrow>
     rh_fingerprint h = Some (execution_fingerprint D net
       (original_plan cli (rh_symbol h) (rh_side h) 0 n sg req (rh_deadline_unix_ms h) (cap_of D cli)
          position agent master) position cli ref) \<and>
     rh_slices h = cl_slices cli \<and> cl_slices cli \<noteq> 0 \<and>
     (cl_flatten_deadline_unix_ms cli = None \<or> cl_flatten_deadline_unix_ms cli = rh_deadline_unix_ms h) \<and>
     0 < req \<and> 0 < sg_per_slice sg \<and> 0 < sg_total_adjusted sg \<and>
     sg_per_slice sg = round_size D (d_div D req (of_nat (cl_slices cli))) n \<and>
     position_frozen D cli n h position sg req ref"

section \<open>Acceptance\<close>

context decimal_text
begin

lemma ordinary_accepts:
  assumes "frozen_by D cli net agent master n h None sg req ref" and "clap_accepts cli"
    and "rh_fingerprint h = Some st"
  shows "resume_ordinary D cli st n = Inr ()"
  using assms
  by (auto simp: frozen_by_def position_frozen_def resume_ordinary_def and_then_Inr fingerprint_sizing_Inr
      execution_fingerprint_def original_plan_def position_mode_requested_def clap_accepts_def
      requested_mode_and_value_def position_requested_value_of_def or_else_def split: option.splits)

lemma no_mismatches:
  assumes "frozen_by D cli net agent master n h position sg req ref" and "rh_fingerprint h = Some st"
  shows "resume_mismatches D cli net agent master h st = [] \<and> fp_version st = FINGERPRINT_VERSION \<and>
         fp_position_mode st = position_mode_of cli"
  using assms by (auto simp: frozen_by_def resume_mismatches_def execution_fingerprint_def original_plan_def cap_of_def)

lemma frozen_plan_accepts:
  assumes "frozen_by D cli net agent master n h (Some p) sg req ref" and "clap_accepts cli"
    and "rh_fingerprint h = Some st" and "position_mode_of cli = Some mode"
  shows "frozen_plan D cli h st mode (pp_current_szi p) n = Inr p"
proof -
  from assms(1,3) have st: "st = execution_fingerprint D net
       (original_plan cli (rh_symbol h) (rh_side h) 0 n sg req (rh_deadline_unix_ms h) (cap_of D cli)
          (Some p) agent master) (Some p) cli ref"
    and fresh: "fresh_position_plan D cli (start_of h (pp_current_szi p)) (rh_symbol h) (unwrap_or ref 0) n = Inr p"
    by (auto simp: frozen_by_def position_frozen_def)
  show ?thesis
    using fresh assms(2,4)
    by (cases ref) (auto simp: st frozen_plan_def fresh_position_plan_def position_mode_of_def clap_accepts_def start_of_def
        and_then_Inr execution_fingerprint_def unwrap_or_def target_usd_def split: if_splits option.splits)
qed

lemma position_accepts:
  assumes "frozen_by D cli net agent master n h (Some p) sg req ref" and "clap_accepts cli"
    and "rh_fingerprint h = Some st" and "position_mode_of cli = Some mode"
  shows "resume_position D cli h st mode n = Inr p"
proof -
  from assms(1,3) have st: "st = execution_fingerprint D net
       (original_plan cli (rh_symbol h) (rh_side h) 0 n sg req (rh_deadline_unix_ms h) (cap_of D cli)
          (Some p) agent master) (Some p) cli ref"
    and req: "0 < req" "0 < sg_per_slice sg" "sg_total_adjusted sg = req" "cl_slices cli \<noteq> 0"
      "sg_per_slice sg = round_size D (d_div D req (of_nat (cl_slices cli))) n"
    by (auto simp: frozen_by_def position_frozen_def)
  from assms(1) obtain ph phs where ph: "pp_phases p = ph # phs" "ph_size ph = req" "ph_side ph = rh_side h"
    by (auto simp: frozen_by_def position_frozen_def)
  have none: "cl_size cli = None" "cl_usd cli = None" using assms(1) by (auto simp: frozen_by_def position_frozen_def)
  have mode: "mode = fst (requested_mode_and_value D cli)"
      "fp_position_requested_value st =
         (if mode = ''flatten'' then None else Some (snd (requested_mode_and_value D cli)))"
      "\<not> (mode \<noteq> ''target_usd'' \<and> fp_position_reference_price st \<noteq> None)"
    using none assms(2,4)
    by (auto simp: requested_mode_and_value_def position_mode_of_def clap_accepts_def st execution_fingerprint_def
        position_requested_value_of_def or_else_def split: if_splits option.splits)
  have siz: "validate_fingerprint_sizing D st (ph_size ph) (ph_reduce_only ph) n True = Inr ()"
    using req ph by (simp add: fingerprint_sizing_Inr st execution_fingerprint_def original_plan_def)
  show ?thesis
    using frozen_plan_accepts [OF assms] mode siz ph
    by (auto simp: resume_position_def and_then_Inr first_phase_def first_opt_def st execution_fingerprint_def)
qed

lemma frozen_accepts:
  assumes "frozen_by D cli net agent master n h position sg req ref" and "clap_accepts cli"
    and "su_header (vr_summary rep) = Some h"
  shows "validate_resume_execution_fingerprint D rep cli net agent master n = Inr position"
proof -
  from assms(1) obtain st where st: "rh_fingerprint h = Some st" by (auto simp: frozen_by_def)
  note ok = no_mismatches [OF assms(1) st]
  show ?thesis
  proof (cases position)
    case None
    then have "position_mode_of cli = None"
      using assms(1) by (auto simp: frozen_by_def position_frozen_def position_mode_of_None)
    with None ok ordinary_accepts [OF _ assms(2) st] assms(1,3) st show ?thesis
      by (auto simp: validate_resume_execution_fingerprint_def and_then_Inr)
  next
    case (Some p)
    then have "position_mode_of cli \<noteq> None"
      using assms(1) by (auto simp: frozen_by_def position_frozen_def position_mode_of_None)
    then obtain mode where m: "position_mode_of cli = Some mode" by blast
    with Some ok position_accepts [OF _ assms(2) st m] assms(1,3) st show ?thesis
      by (auto simp: validate_resume_execution_fingerprint_def and_then_Inr)
  qed
qed

lemma accepted_ordinary:
  assumes "resume_ordinary D cli st n = Inr ()" and "fp_position_mode st = None"
    and "resume_mismatches D cli net agent master h st = []" and "fp_version st = FINGERPRINT_VERSION"
    and "rh_fingerprint h = Some st"
  shows "\<exists>sg req. frozen_by D cli net agent master n h None sg req None"
proof -
  obtain req per adj where e: "d_canonical D req = fp_total_requested st"
      "d_canonical D per = fp_per_slice st" "d_canonical D adj = fp_total_adjusted st"
      "0 < req" "0 < per" "0 < adj" "fp_slices st \<noteq> 0" "\<not> fp_reduce_only st"
      "per = round_size D (d_div D req (of_nat (fp_slices st))) n"
      "d_checked_mul D per (of_nat (fp_slices st)) = Some adj"
      "cl_size cli \<noteq> None \<or> cl_usd cli \<noteq> None" "\<forall>v. cl_size cli = Some v \<longrightarrow> req = v"
      "\<not> position_mode_requested cli"
      "fp_initial_position_szi st = None" "fp_target_position_szi st = None" "fp_position_requested_value st = None"
      "fp_position_reference_price st = None" "fp_position_phases st = []"
    using assms(1,3)
    by (auto simp: resume_ordinary_def and_then_Inr fingerprint_sizing_Inr resume_mismatches_def
        requested_mode_and_value_def split: option.splits if_splits)
  define sg where "sg = \<lparr>sg_per_slice = per, sg_total_adjusted = adj\<rparr>"
  have "position_mode_of cli = None" "position_requested_value_of D cli = None" "cl_target_usd cli = None"
    using e(13) by (auto simp: position_mode_of_None position_requested_value_of_def position_mode_requested_def or_else_def)
  then have "st = execution_fingerprint D net
       (original_plan cli (rh_symbol h) (rh_side h) 0 n sg req (rh_deadline_unix_ms h) (cap_of D cli)
          None agent master) None cli None"
    using assms(2,3,4) e
    by (intro fingerprint.equality)
      (simp_all add: execution_fingerprint_def original_plan_def sg_def resume_mismatches_def cap_of_def)
  then have "frozen_by D cli net agent master n h None sg req None"
    using assms(3,5) e by (auto simp: frozen_by_def position_frozen_def sg_def resume_mismatches_def)
  then show ?thesis by blast
qed

lemma frozen_plan_fresh:
  assumes "frozen_plan D cli h st mode initial n = Inr p" and "clap_accepts cli"
    and "mode = fst (requested_mode_and_value D cli)"
    and "mode \<noteq> ''target_usd'' \<Longrightarrow> fp_position_reference_price st = None"
  shows "\<exists>ref. fresh_position_plan D cli (start_of h initial) (rh_symbol h) (unwrap_or ref 0) n = Inr p \<and>
    fp_position_reference_price st = (if cl_target_usd cli = None then None else map_option (d_canonical D) ref) \<and>
    cl_size cli = None \<and> cl_usd cli = None \<and> position_mode_of cli = Some mode \<and> pp_current_szi p = initial"
proof -
  have cur: "pp_current_szi p = initial" if "fresh_position_plan D cli (start_of h initial) sy mid n = Inr p" for sy mid
    using fresh_plan_current [OF that] by (simp add: start_of_def)
  consider "mode = ''flatten''" | "mode = ''target_sz''" | "mode = ''target_usd''"
    using assms(1) by (auto simp: frozen_plan_def Let_def split: if_splits)
  then show ?thesis
  proof cases
    case 1
    then show ?thesis using assms cur [of "rh_symbol h" 0]
      by (auto simp: frozen_plan_def fresh_position_plan_def requested_mode_and_value_def start_of_def clap_accepts_def
          position_mode_of_def unwrap_or_def intro!: exI [of _ None] split: option.splits if_splits)
  next
    case 2
    then show ?thesis using assms cur [of "rh_symbol h" 0]
      by (auto simp: frozen_plan_def fresh_position_plan_def requested_mode_and_value_def start_of_def clap_accepts_def
          position_mode_of_def unwrap_or_def and_then_Inr intro!: exI [of _ None] split: option.splits if_splits)
  next
    case 3
    then obtain tx r where "fp_position_reference_price st = Some tx" "d_parse D tx = Some r" "d_canonical D r = tx"
      using assms(1) by (auto simp: frozen_plan_def and_then_Inr)
    with 3 show ?thesis using assms cur [of "rh_symbol h" r]
      by (auto simp: frozen_plan_def fresh_position_plan_def requested_mode_and_value_def start_of_def clap_accepts_def
          position_mode_of_def unwrap_or_def and_then_Inr intro!: exI [of _ "Some r"] split: option.splits if_splits)
  qed
qed

lemma accepted_position:
  assumes "resume_position D cli h st mode n = Inr p" and "clap_accepts cli" and "fp_position_mode st = Some mode"
    and "resume_mismatches D cli net agent master h st = []" and "fp_version st = FINGERPRINT_VERSION"
    and "rh_fingerprint h = Some st"
  shows "\<exists>sg req ref. frozen_by D cli net agent master n h (Some p) sg req ref"
proof -
  obtain initial target ph where e: "mode = fst (requested_mode_and_value D cli)"
      "fp_initial_position_szi st = Some (d_canonical D initial)"
      "fp_target_position_szi st = Some (d_canonical D target)"
      "frozen_plan D cli h st mode initial n = Inr p" "pp_target_szi p = target"
      "map (phase_fingerprint_of D) (pp_phases p) = fp_position_phases st"
      "fp_position_requested_value st =
         (if mode = ''flatten'' then None else Some (snd (requested_mode_and_value D cli)))"
      "mode \<noteq> ''target_usd'' \<longrightarrow> fp_position_reference_price st = None"
      "first_phase p = Some ph" "ph_side ph = rh_side h"
      "validate_fingerprint_sizing D st (ph_size ph) (ph_reduce_only ph) n True = Inr ()"
    using assms(1) by (auto simp: resume_position_def and_then_Inr split: option.splits)
  then obtain ref where f: "fresh_position_plan D cli (start_of h initial) (rh_symbol h) (unwrap_or ref 0) n = Inr p"
      "fp_position_reference_price st = (if cl_target_usd cli = None then None else map_option (d_canonical D) ref)"
      "cl_size cli = None" "cl_usd cli = None" "position_mode_of cli = Some mode" "pp_current_szi p = initial"
    using frozen_plan_fresh [OF e(4) assms(2) e(1)] by auto
  from e(9) obtain phs where ph: "pp_phases p = ph # phs" by (auto simp: first_phase_def first_opt_Some)
  define sg where "sg = \<lparr>sg_per_slice = round_size D (d_div D (ph_size ph) (of_nat (cl_slices cli))) n,
    sg_total_adjusted = ph_size ph\<rparr>"
  have m: "fp_slices st = cl_slices cli" using assms(4) by (simp add: resume_mismatches_def)
  from e(11) have s: "fp_slices st \<noteq> 0" "0 < ph_size ph" "fp_reduce_only st = ph_reduce_only ph"
      "d_canonical D (ph_size ph) = fp_total_requested st" "d_canonical D (sg_per_slice sg) = fp_per_slice st"
      "d_canonical D (ph_size ph) = fp_total_adjusted st" "0 < sg_per_slice sg"
    by (auto simp: fingerprint_sizing_Inr sg_def m)
  have q: "position_mode_requested cli" using f(5) position_mode_of_None [of cli] by auto
  have v: "fp_position_requested_value st = position_requested_value_of D cli"
    using e(1,7) f(3,4,5) assms(2)
    by (auto simp: position_requested_value_of_def or_else_def requested_mode_and_value_def position_mode_of_def
        clap_accepts_def split: option.splits if_splits)
  have "st = execution_fingerprint D net
       (original_plan cli (rh_symbol h) (rh_side h) 0 n sg (ph_size ph) (rh_deadline_unix_ms h) (cap_of D cli)
          (Some p) agent master) (Some p) cli ref"
    using assms(3,4,5) e(2,3,5,6) f(2,5,6) s v m
    by (intro fingerprint.equality)
      (simp_all add: execution_fingerprint_def original_plan_def sg_def resume_mismatches_def cap_of_def ph)
  then have "frozen_by D cli net agent master n h (Some p) sg (ph_size ph) ref"
    using assms(4,6) s f ph e(10) m q
    by (auto simp: frozen_by_def position_frozen_def sg_def resume_mismatches_def)
  then show ?thesis by blast
qed

lemma accepted_frozen:
  assumes "validate_resume_execution_fingerprint D rep cli net agent master n = Inr position" and "clap_accepts cli"
  shows "\<exists>h sg req ref. su_header (vr_summary rep) = Some h \<and> frozen_by D cli net agent master n h position sg req ref"
proof -
  from assms(1) obtain h st where h: "su_header (vr_summary rep) = Some h" "rh_fingerprint h = Some st"
      "fp_version st = FINGERPRINT_VERSION" "resume_mismatches D cli net agent master h st = []"
    and r: "(case fp_position_mode st of
        None \<Rightarrow> and_then (resume_ordinary D cli st n) (\<lambda>_. Inr None)
      | Some mode \<Rightarrow> and_then (resume_position D cli h st mode n) (\<lambda>p. Inr (Some p))) = Inr position"
    by (auto simp: validate_resume_execution_fingerprint_def and_then_Inr)
  show ?thesis
  proof (cases "fp_position_mode st")
    case None
    with r accepted_ordinary [OF _ None h(4,3,2)] h(1) show ?thesis by (auto simp: and_then_Inr) metis
  next
    case (Some mode)
    with r accepted_position [OF _ assms(2) Some h(4,3,2)] h(1) show ?thesis by (auto simp: and_then_Inr)
  qed
qed

end

section \<open>The header of a new ordinary run\<close>

text \<open>The facts that \<open>validate\<close> establishes.\<close>

lemma validate_cli_Inr:
  assumes "validate_cli D cli = Inr ()"
  shows "0 < cl_duration cli \<and> cl_slices cli \<noteq> 0 \<and> cl_settle_retries cli \<noteq> 0 \<and>
    0 \<le> cl_slippage_bps cli \<and> cl_slippage_bps cli < 10000 \<and>
    (is_live cli \<longrightarrow> (\<exists>cap. cl_max_notional_usd cli = Some cap)) \<and>
    (\<forall>cap. cl_max_notional_usd cli = Some cap \<longrightarrow> 0 < cap) \<and>
    cl_trigger_poll_secs cli \<noteq> 0 \<and> 0 < cl_wait_network_grace cli \<and>
    (\<forall>e. cl_expire_after cli = Some e \<longrightarrow> 0 < e \<and> (\<forall>s. cl_start_after cli = Some s \<longrightarrow> s < e)) \<and>
    cl_follow_poll_secs cli \<noteq> 0 \<and> cl_follow_repost_secs cli \<noteq> 0 \<and> 0 \<le> cl_follow_threshold_bps cli \<and>
    (\<forall>v. cl_size cli = Some v \<longrightarrow> 0 < v) \<and> (\<forall>v. cl_usd cli = Some v \<longrightarrow> 0 < v) \<and>
    (position_mode_requested cli \<longrightarrow> cl_size cli = None \<and> cl_usd cli = None \<and> cl_side cli = None) \<and>
    (\<not> position_mode_requested cli \<longrightarrow> (cl_size cli \<noteq> None \<or> cl_usd cli \<noteq> None) \<and> cl_side cli \<noteq> None)"
  using assms
  by (auto simp: validate_cli_def and_then_Inr validate_mode_def validate_amounts_def validate_risk_def
      validate_trigger_def validate_expiry_def validate_follow_def positive_opt_def validate_slippage_def
      validate_max_notional_required_def is_live_def SLIPPAGE_HARD_CAP_BPS_def
      split: option.splits if_splits)

lemma and_then_eq_Inr: "f = Inr a \<Longrightarrow> g a = Inr b \<Longrightarrow> and_then f g = Inr b"
  by simp

lemma millis_u64_nonzero: "as_millis d \<noteq> 0 \<Longrightarrow> millis_u64 d \<noteq> 0"
proof -
  assume nz: "as_millis d \<noteq> 0"
  show ?thesis
  proof (cases "as_millis d \<le> u64_max")
    case True
    then have "unat (of_nat (as_millis d) :: u64) = as_millis d"
      by (simp add: u64_max_def unat_of_nat take_bit_nat_eq_self)
    with nz True show ?thesis by (auto simp: millis_u64_def)
  qed (simp add: millis_u64_def)
qed

lemma positive_canonical:
  "decimal_text D \<Longrightarrow> 0 < x \<Longrightarrow> positive_decimal D f (d_canonical D x) = Inr x"
  by (simp add: positive_decimal_def fp_decimal_def decimal_text.parse_canonical)

lemma read_canonical: "decimal_text D \<Longrightarrow> fp_decimal D f (d_canonical D x) = Inr x"
  by (simp add: fp_decimal_def decimal_text.parse_canonical)

text \<open>What the headers of ordinary runs and of position runs have in common.\<close>

lemma fingerprint_common_valid:
  assumes "decimal_text D" and "validate_cli D cli = Inr ()"
    and "cl_max_notional_usd cli = Some cap" and "as_millis (cl_duration cli) \<noteq> 0" and "0 < req"
    and "0 < sg_per_slice sg" and "sg_per_slice sg \<le> sg_total_adjusted sg" and "sg_total_adjusted sg \<le> req"
    and plan: "plan = original_plan cli sy sd ai n sg req (Some deadline) cap position agent master"
    and fp: "fp = execution_fingerprint D net plan position cli ref"
  shows "fp_header_checks (new_run_header run_id net plan hash fp started deadline) fp = Inr ()"
    and "fp_value_checks D fp = Inr (sg_per_slice sg, sg_total_adjusted sg, req)"
proof -
  note v = validate_cli_Inr [OF assms(2)]
  have nonneg: "nonnegative_decimal D f (d_canonical D x) = Inr x" if "0 \<le> x" for f x
    using that decimal_text.parse_canonical [OF assms(1)] by (simp add: nonnegative_decimal_def fp_decimal_def)
  note pos = positive_canonical [OF assms(1)]
  show "fp_header_checks (new_run_header run_id net plan hash fp started deadline) fp = Inr ()"
    using v millis_u64_nonzero [OF assms(4)]
    by (cases sd) (simp_all add: fp_header_checks_def fp execution_fingerprint_def new_run_header_def plan original_plan_def)
  show "fp_value_checks D fp = Inr (sg_per_slice sg, sg_total_adjusted sg, req)"
    using v assms(3,5-8)
    by (cases net; cases "cl_child_algo cli") (simp_all add: fp_value_checks_def fp execution_fingerprint_def plan original_plan_def pos nonneg)
qed

lemma ordinary_fingerprint_valid:
  assumes "decimal_text D" and "validate_cli D cli = Inr ()" and "clap_accepts cli" and "\<not> position_mode_requested cli"
    and "cl_max_notional_usd cli = Some cap" and "as_millis (cl_duration cli) \<noteq> 0"
    and "0 < req" and "\<forall>v. cl_size cli = Some v \<longrightarrow> req = v"
    and "0 < sg_per_slice sg" and "sg_per_slice sg \<le> sg_total_adjusted sg" and "sg_total_adjusted sg \<le> req"
    and "d_checked_mul D (sg_per_slice sg) (of_nat (cl_slices cli)) = Some (sg_total_adjusted sg)"
    and plan: "plan = original_plan cli sy sd ai n sg req (Some deadline) cap None agent master"
    and fp: "fp = execution_fingerprint D net plan None cli ref"
  shows "validate_current_fingerprint D (new_run_header run_id net plan hash fp started deadline) fp = Inr ()"
proof -
  note v = validate_cli_Inr [OF assms(2)]
  have none: "cl_target_sz cli = None" "cl_target_usd cli = None" "position_mode_of cli = None"
    using assms(4) by (auto simp: position_mode_requested_def position_mode_of_None)
  note common = fingerprint_common_valid [OF assms(1,2,5-7,9-11) plan fp]
  have req: "\<exists>r. fp_request_mode fp \<in> {''size'', ''usd''} \<and> fp_request_value fp = d_canonical D r \<and> 0 < r \<and>
      (fp_request_mode fp = ''size'' \<longrightarrow> r = req)"
    using v assms(4,8) by (cases "cl_size cli")
      (auto simp: fp execution_fingerprint_def requested_mode_and_value_def)
  then obtain r where r: "fp_request_mode fp \<in> {''size'', ''usd''}" "fp_request_value fp = d_canonical D r" "0 < r"
    "fp_request_mode fp = ''size'' \<longrightarrow> r = req" by blast
  have "fp_ordinary_checks D fp (sg_per_slice sg) (sg_total_adjusted sg) req = Inr ()"
    using r positive_canonical [OF assms(1) r(3), of "''request_value''"] none assms(12)
    by (auto simp: fp_ordinary_checks_def fp execution_fingerprint_def plan original_plan_def
        position_requested_value_of_def or_else_def)
  with common none show ?thesis
    by (simp add: validate_current_fingerprint_def) (simp add: fp execution_fingerprint_def)
qed

section \<open>The header of a new position run with one phase\<close>

lemma fresh_plan_phases:
  assumes "dec_rounding D" and "fresh_position_plan D cli pos sy mid n = Inr pp"
  shows "phases_for D (pp_current_szi pp) (pp_target_szi pp) = Inr (pp_phases pp)"
    and "cl_flatten cli \<longrightarrow> pp_target_szi pp = 0"
    and "\<not> cl_flatten cli \<and> cl_target_sz cli = None \<longrightarrow> 0 < mid"
  using assms(2) dec_rounding.d_round_id [OF assms(1), of n 0 ToZero]
  by (auto simp: fresh_position_plan_def flatten_plan_def target_usd_def target_size_def quantize_toward_zero_def
      Let_def split: if_splits sum.splits option.splits)

lemma adjust_phase:
  assumes "dec_arith D" and "phases_for D initial target = Inr [ph]"
  shows "ph_kind ph = Adjust \<and> d_sub D target initial \<noteq> 0 \<and> ph_size ph = \<bar>d_sub D target initial\<bar> \<and>
    side_name (ph_side ph) = expected_side (d_sub D target initial) \<and>
    ph_reduce_only ph =
      (initial \<noteq> 0 \<and> (target = 0 \<or> (sgn initial = sgn target \<and> \<bar>target\<bar> < \<bar>initial\<bar>)))"
  using assms(2) dec_arith.d_checked_sub_Some [OF assms(1), of target initial]
  by (auto simp: phases_for_def Let_def side_for_delta_def expected_side_def decimal_sign_def sgn_if
      split: if_splits sum.splits option.splits)

lemma position_request_valid:
  assumes "decimal_text D" and "clap_accepts cli" and "validate_cli D cli = Inr ()" and "position_mode_requested cli"
    and "cl_flatten cli \<longrightarrow> target = 0" and "\<not> cl_flatten cli \<and> cl_target_sz cli = None \<longrightarrow> 0 < mid"
    and fp: "fp = execution_fingerprint D net plan (Some pp) cli (Some mid)"
  obtains mode where "position_mode_of cli = Some mode" and "fp_request_mode fp = mode"
    and "mode \<in> {''flatten'', ''target_sz'', ''target_usd''}" and "fp_request_checks D fp mode target = Inr ()"
proof -
  have no: "cl_size cli = None" "cl_usd cli = None" using validate_cli_Inr [OF assms(3)] assms(4) by simp_all
  note d = read_canonical [OF assms(1)] and p = positive_canonical [OF assms(1)]
  note defs = fp execution_fingerprint_def requested_mode_and_value_def position_mode_of_def fp_request_checks_def
    position_requested_value_of_def or_else_def
  consider (flat) "cl_flatten cli" "cl_target_sz cli = None" "cl_target_usd cli = None"
    | (size) t where "\<not> cl_flatten cli" "cl_target_sz cli = Some t" "cl_target_usd cli = None"
    | (usd) t where "\<not> cl_flatten cli" "cl_target_sz cli = None" "cl_target_usd cli = Some t"
    using assms(2,4) by (cases "cl_target_sz cli"; cases "cl_target_usd cli")
      (auto simp: clap_accepts_def position_mode_requested_def)
  then show thesis
  proof cases
    case flat
    with no assms(5) show thesis by (intro that [of "''flatten''"]) (simp_all add: defs)
  next
    case size
    with no show thesis by (intro that [of "''target_sz''"]) (simp_all add: defs d)
  next
    case usd
    with no assms(6) show thesis by (intro that [of "''target_usd''"]) (simp_all add: defs d p)
  qed
qed

lemma adjust_sequence_checked:
  assumes "dec_arith D" and "phases_for D initial target = Inr [ph]"
  shows "fp_phase_sequence D [phase_fingerprint_of D ph] initial target =
    (if d_canonical D (ph_size ph) = d_diff_text D target initial then Inr ()
     else invalid ''position_phases'' ''adjust phase is inconsistent with frozen endpoints'')"
proof -
  note a = adjust_phase [OF assms]
  define reduces where "reduces \<longleftrightarrow>
    initial \<noteq> 0 \<and> (target = 0 \<or> (sgn initial = sgn target \<and> \<bar>target\<bar> < \<bar>initial\<bar>))"
  have "ph_kind ph = Adjust" "side_name (ph_side ph) = expected_side (d_sub D target initial)"
    "ph_reduce_only ph \<longleftrightarrow> reduces"
    using a unfolding reduces_def by blast+
  then show ?thesis
    unfolding fp_phase_sequence_def reduces_def [symmetric] Let_def phase_fingerprint_of_def by simp
qed

text \<open>The checks of such a header depend on one thing only: whether the text of the difference of the
  frozen endpoints is the canonical text of the size.\<close>

lemma adjust_fingerprint_checked:
  assumes lib: "decimal_crate D" "decimal_text D"
    and cli: "validate_cli D cli = Inr ()" "clap_accepts cli" "position_mode_requested cli"
    and "cl_max_notional_usd cli = Some cap" and "as_millis (cl_duration cli) \<noteq> 0"
    and fresh: "fresh_position_plan D cli pos sy mid n = Inr pp" "pp_phases pp = [ph]"
    and "0 < sg_per_slice sg" and "sg_per_slice sg \<le> ph_size ph" and "sg_total_adjusted sg = ph_size ph"
    and plan: "plan = original_plan cli sy (ph_side ph) ai n sg (ph_size ph) (Some deadline) cap (Some pp) agent master"
    and fp: "fp = execution_fingerprint D net plan (Some pp) cli (Some mid)"
  shows "validate_current_fingerprint D (new_run_header run_id net plan hash fp started deadline) fp =
    (if d_canonical D (ph_size ph) = d_diff_text D (pp_target_szi pp) (pp_current_szi pp) then Inr ()
     else invalid ''position_phases'' ''adjust phase is inconsistent with frozen endpoints'')"
proof -
  have laws: "dec_rounding D" "dec_arith D" using lib(1) by (simp_all add: decimal_crate_def)
  note f = fresh_plan_phases [OF laws(1) fresh(1)]
  note a = adjust_phase [OF laws(2) f(1) [unfolded fresh(2)]]
  have size: "0 < ph_size ph" using a by simp
  note common = fingerprint_common_valid [OF lib(2) cli(1) assms(6,7) size assms(10) _ _ plan fp] 
  obtain mode where mode: "position_mode_of cli = Some mode" and r: "fp_request_mode fp = mode"
      "mode \<in> {''flatten'', ''target_sz'', ''target_usd''}" "fp_request_checks D fp mode (pp_target_szi pp) = Inr ()"
    using position_request_valid [OF lib(2) cli(2,1,3) f(2,3) fp] by blast
  have pos: "positive_decimal D ''position_phases.size'' (d_canonical D (ph_size ph)) = Inr (ph_size ph)"
    by (rule positive_canonical [OF lib(2) size])
  have fields: "fp_initial_position_szi fp = Some (d_canonical D (pp_current_szi pp))"
      "fp_target_position_szi fp = Some (d_canonical D (pp_target_szi pp))"
      "fp_position_phases fp = [phase_fingerprint_of D ph]" "fp_reduce_only fp = ph_reduce_only ph"
      "fp_side fp = side_name (ph_side ph)"
    by (simp_all add: fp execution_fingerprint_def fresh(2) plan original_plan_def)
  have phase: "fp_phase_fields D [phase_fingerprint_of D ph] = Inr ()"
      "pf_reduce_only (phase_fingerprint_of D ph) = ph_reduce_only ph"
      "pf_side (phase_fingerprint_of D ph) = side_name (ph_side ph)"
    using conjunct1 [OF a] pos by (cases "ph_side ph"; simp add: phase_fingerprint_of_def)+
  have "fp_position_checks D fp mode =
    (if d_canonical D (ph_size ph) = d_diff_text D (pp_target_szi pp) (pp_current_szi pp) then Inr ()
     else invalid ''position_phases'' ''adjust phase is inconsistent with frozen endpoints'')"
    using r phase adjust_sequence_checked [OF laws(2) f(1) [unfolded fresh(2)]]
    by (simp add: fp_position_checks_def fields read_canonical [OF lib(2)] fp_first_phase_def invalid_def
        del: fp_phase_fields.simps)
  moreover have "fp_position_mode fp = Some mode" using mode by (simp add: fp execution_fingerprint_def)
  ultimately show ?thesis using common assms(11,12) by (simp add: validate_current_fingerprint_def)
qed

end
