(* ===== verification/Resume_Props.thy ===== *)
theory Resume_Props
  imports Resume_Facts
begin

text \<open>
  The properties of the resume checks: acceptance is equivalent to the journal carrying the fingerprint
  that this command line writes; a new ordinary run writes a header its own replay and a later resume
  accept; a new position run with one phase writes one that its own replay accepts only when the text of the
  difference of its endpoints is canonical; and the
  position that the durable fills imply lies between the frozen endpoints.
\<close>

definition demo_cli :: cli where
  "demo_cli =
     \<lparr>cl_symbol = ''BTC'', cl_side = Some Long, cl_size = Some 4, cl_usd = None, cl_flatten = False,
      cl_confirm_flatten = None, cl_flatten_deadline_unix_ms = None, cl_target_sz = None,
      cl_target_usd = None, cl_json = False, cl_master_address = None, cl_duration = secs 60,
      cl_slices = 2, cl_trigger_price = None, cl_trigger_when = None, cl_start_after = None,
      cl_live = True, cl_read_only = True, cl_metrics_bind = None, cl_allow_external_metrics = False,
      cl_event_jsonl = None, cl_network = Testnet,
      cl_slippage_bps = 20, cl_allow_high_slippage = False, cl_max_notional_usd = Some 1000,
      cl_allow_custom_endpoints = False,
      cl_max_book_age_ms = 3000, cl_settle_retries = 25, cl_trigger_poll_secs = 2,
      cl_wait_network_grace = secs 1800, cl_expire_after = None, cl_state_dir = None, cl_resume = None,
      cl_abandon_incomplete_run = False, cl_shutdown_grace = secs 60, cl_report_json = None,
      cl_child_algo = Market, cl_follow_poll_secs = 2,
      cl_follow_repost_secs = 10, cl_follow_threshold_bps = 1, cl_pair_ready_file = None,
      cl_pair_start_file = None, cl_pair_run_id = None, cl_pair_barrier_timeout = None\<rparr>"

text \<open>C23: a resumed process accepts a journal for new orders exactly when the journal carries, in every
  field, the fingerprint that this very command line writes for the header's side and deadline: for an
  ordinary run with the sizing that one frozen quantity gives, for a position run with the phases that the
  frozen start and this target give.\<close>

theorem resume_accepts_exactly:
  assumes "decimal_text D" and "clap_accepts cli"
  shows "validate_resume_execution_fingerprint D rep cli net agent master n = Inr position \<longleftrightarrow>
    (\<exists>h sg req ref. su_header (vr_summary rep) = Some h \<and> frozen_by D cli net agent master n h position sg req ref)"
  using decimal_text.frozen_accepts [OF assms(1) _ assms(2)] decimal_text.accepted_frozen [OF assms(1) _ assms(2)]
  by blast

definition demo_sizing :: sizing where
  "demo_sizing = \<lparr>sg_per_slice = 2, sg_total_adjusted = 4\<rparr>"

definition demo_new_plan :: twap_plan where
  "demo_new_plan = original_plan demo_cli ''BTC'' Long 0 2 demo_sizing 4 (Some (fixed_deadline demo_cli 5)) 1000 None None None"

definition demo_new_header :: run_header where
  "demo_new_header = new_run_header ''run-1'' Testnet demo_new_plan [] 
     (execution_fingerprint exact_dec Testnet demo_new_plan None demo_cli None) 5 (fixed_deadline demo_cli 5)"

definition demo_replayed :: validated_replay where
  "demo_replayed =
     \<lparr>vr_summary = run_summary_default\<lparr>su_header := Some demo_new_header\<rparr>,
      vr_fill_totals = \<lparr>ft_filled_sz = 0, ft_notional = 0\<rparr>, vr_max_notional = Some 1000, vr_vwap = None,
      vr_prepared = Map.empty\<rparr>"

lemma demo_clap: "clap_accepts demo_cli"
  by (simp add: clap_accepts_def demo_cli_def)

lemma demo_frozen: "frozen_by exact_dec demo_cli Testnet None None 2 demo_new_header None demo_sizing 4 None"
  by (simp add: frozen_by_def position_frozen_def demo_new_header_def new_run_header_def demo_new_plan_def
      original_plan_def cap_of_def demo_sizing_def demo_cli_def position_mode_requested_def checked_def dec_max_val_def
      round_size_def round_rat_def trunc_rat_def execution_fingerprint_def requested_mode_and_value_def
      position_mode_of_def position_requested_value_of_def or_else_def is_read_only_def unwrap_or_def)

theorem resume_accepts_exactly_witness:
  "validate_resume_execution_fingerprint exact_dec demo_replayed demo_cli Testnet None None 2 = Inr None"
  using resume_accepts_exactly [OF exact_text.decimal_text_axioms demo_clap, of demo_replayed Testnet None None 2 None]
    demo_frozen by (auto simp: demo_replayed_def)

lemma replay_own_header:
  assumes "rh_fingerprint h = Some fp" and "fp_version fp = FINGERPRINT_VERSION"
    and "d_parse D (fp_max_notional_usd fp) = Some cap" and "0 < cap"
    and "validate_current_fingerprint D h fp = Inr ()" and "ord [] = []"
  shows "\<exists>rep. replay D ord [Header h] = Inr rep \<and> su_header (vr_summary rep) = Some h \<and> su_cloids (vr_summary rep) = []"
  using assms
  by (auto simp: replay_def replay_loop_def replay_record_def replay_header_def replay_init_def calculate_totals_def
      totals_init_def final_cloids_def run_summary_default_def)

text \<open>C24: a live ordinary run that ends right after its header is durable can be resumed with the same
  command line: the header replays, it passes the identity checks, and its fingerprint is accepted. The
  hypotheses are the pre-flight of such a run, with the quantity within the exactness bounds of the sizing.\<close>

theorem new_run_is_resumable:
  assumes lib: "decimal_crate D" "decimal_text D"
    and cli: "clap_accepts cli" "validate_cli D cli = Inr ()" "is_live cli" "\<not> position_mode_requested cli"
    and cap: "cl_max_notional_usd cli = Some cap"
    and sizing: "ordinary_quantity D cli mid = Inr req"
      "execution_sizing D req (cl_slices cli) n mid False = Inr sg"
    and exact: "req / of_nat (cl_slices cli) \<le> 10 ^ k" "k \<le> 28" "on_grid M req" "n \<le> M" "M \<le> 28"
      "of_nat (cl_slices cli) * 10 ^ M < (10::rat) ^ (28 - k)" "req * 10 ^ M < 2 ^ 96"
    and time: "as_millis (cl_duration cli) \<noteq> 0" and ord: "ord [] = []"
    and plan: "plan = original_plan cli sy sd ai n sg req (Some (fixed_deadline cli now)) cap None agent master"
    and h: "h = new_run_header run_id net plan plan_hash (execution_fingerprint D net plan None cli (Some mid))
              started (fixed_deadline cli now)"
  shows "\<exists>rep. validated_resume_replay D ord (Inr [Header h]) run_id net agent master sy (Some sd) = Inr rep \<and>
    validate_resume_execution_fingerprint D rep (cli\<lparr>cl_resume := Some run_id, cl_abandon_incomplete_run := False\<rparr>) net agent master n = Inr None"
proof -
  let ?fp = "execution_fingerprint D net plan None cli (Some mid)" and ?cli = "cli\<lparr>cl_resume := Some run_id, cl_abandon_incomplete_run := False\<rparr>"
  note v = validate_cli_Inr [OF cli(2)]
  have cs: "compute_sizing D req (cl_slices cli) n mid = Inr sg"
    using sizing(2) by (simp add: execution_sizing_def and_then_Inr)
  have sl: "0 < cl_slices cli" using v by simp
  note b = decimal_crate.compute_sizing_bounds [OF lib(1) cs exact(1-6) sl exact(7)]
  note i = decimal_crate.compute_sizing_Inr [OF lib(1) cs]
  have "on_grid M (sg_total_adjusted sg)" using b exact(4) by (auto intro: on_grid_mult_nat on_grid_mono)
  then have "representable (sg_total_adjusted sg)"
    using b exact(5,7) i sl by (intro representable_bounded_grid [of M _ req]) auto
  then have mul: "d_checked_mul D (sg_per_slice sg) (of_nat (cl_slices cli)) = Some (sg_total_adjusted sg)"
    using b dec_arith.d_checked_mul_representable [of D "sg_per_slice sg" "of_nat (cl_slices cli)"] lib(1)
    by (simp add: decimal_crate_def)
  have le: "sg_per_slice sg \<le> sg_total_adjusted sg"
    using b sl mult_left_mono [of 1 "of_nat (cl_slices cli)" "sg_per_slice sg"] by simp
  have size: "\<forall>x. cl_size cli = Some x \<longrightarrow> req = x" using sizing(1) by (auto simp: ordinary_quantity_def)
  have req: "0 < req" using i by simp
  have adj: "0 < sg_total_adjusted sg" using le b by linarith
  have valid: "validate_current_fingerprint D h ?fp = Inr ()"
    unfolding h using b i le size time mul
    by (intro ordinary_fingerprint_valid [OF lib(2) cli(2) cli(1) cli(4) cap _ _ _ _ _ _ _ plan refl]) simp_all
  have "d_parse D (fp_max_notional_usd ?fp) = Some cap"
    by (simp add: execution_fingerprint_def plan original_plan_def decimal_text.parse_canonical [OF lib(2)])
  then obtain rep where rep: "replay D ord [Header h] = Inr rep" "su_header (vr_summary rep) = Some h"
      "su_cloids (vr_summary rep) = []"
    using replay_own_header [of h ?fp D cap ord] valid v cap ord
    by (auto simp: h new_run_header_def execution_fingerprint_def)
  have ids: "validated_resume_replay D ord (Inr [Header h]) run_id net agent master sy (Some sd) = Inr rep"
    using rep by (simp add: validated_resume_replay_def map_err_def ok_or_def identity_mismatches_def no_mismatch_def
        check_def changed_def h new_run_header_def plan original_plan_def)
  have "frozen_by D ?cli net agent master n h None sg req (Some mid)"
    using v i b mul size adj cap cli(4) by (cases "cl_target_usd cli")
      (auto simp: req frozen_by_def position_frozen_def h new_run_header_def plan original_plan_def cap_of_def
        position_mode_requested_def fixed_deadline_def unwrap_or_def execution_fingerprint_def is_read_only_def
        requested_mode_and_value_def position_mode_of_def position_requested_value_of_def or_else_def
        split: option.splits)
  moreover have "clap_accepts ?cli" using cli(1) by (simp add: clap_accepts_def)
  ultimately show ?thesis using decimal_text.frozen_accepts [OF lib(2) _ _ rep(2)] ids by blast
qed

theorem new_run_is_resumable_witness:
  "\<exists>rep. validated_resume_replay exact_dec (\<lambda>xs. xs)
       (Inr [Header (new_run_header ''run-1'' Testnet demo_new_plan []
               (execution_fingerprint exact_dec Testnet demo_new_plan None demo_cli (Some 100)) 5
               (fixed_deadline demo_cli 5))])
       ''run-1'' Testnet None None ''BTC'' (Some Long) = Inr rep \<and>
     validate_resume_execution_fingerprint exact_dec rep
       (demo_cli\<lparr>cl_resume := Some ''run-1'', cl_abandon_incomplete_run := False\<rparr>) Testnet None None 2 = Inr None"
proof -
  have v: "validate_cli exact_dec demo_cli = Inr ()"
    by (simp add: validate_cli_def validate_mode_def validate_amounts_def validate_risk_def validate_trigger_def
        validate_expiry_def validate_follow_def check_def positive_opt_def validate_slippage_def map_err_def
        validate_max_notional_required_def is_live_def is_read_only_def position_mode_requested_def demo_cli_def
        SLIPPAGE_HARD_CAP_BPS_def SLIPPAGE_WARN_THRESHOLD_BPS_def secs_def)
  have s: "execution_sizing exact_dec 4 (cl_slices demo_cli) 2 100 False = Inr demo_sizing"
    by (simp add: execution_sizing_def compute_sizing_def demo_cli_def demo_sizing_def round_size_def round_rat_def
        trunc_rat_def MIN_NOTIONAL_USD_def Let_def)
  have g: "on_grid 2 4" by (rule on_gridI [of _ 400]) simp
  show ?thesis
    by (rule new_run_is_resumable [OF exact.decimal_crate_axioms exact_text.decimal_text_axioms demo_clap v _ _ _ _ s
          _ _ g, of 1000 1])
      (simp_all add: demo_cli_def is_live_def is_read_only_def position_mode_requested_def ordinary_quantity_def
        as_millis_def secs_def ns_per_ms_def demo_new_plan_def)
qed

section \<open>The header of a new position run with one phase\<close>

lemma replay_refused_header:
  assumes "rh_fingerprint h = Some fp" and "fp_version fp = FINGERPRINT_VERSION"
    and "d_parse D (fp_max_notional_usd fp) = Some cap" and "0 < cap"
    and "validate_current_fingerprint D h fp = Inl e"
  shows "replay D ord [Header h] = Inl e"
  using assms by (simp add: replay_def replay_loop_def replay_record_def replay_header_def replay_init_def)

text \<open>C31: a new position run with a single phase writes a header that its own replay accepts exactly when
  the text of the difference of the frozen endpoints, printed with the scale of the operands, happens to be
  the canonical text of the phase size that the fingerprint stores. In every other case the replay rejects
  the header, and with it the journal. The hypotheses are the pre-flight of such a run, with the size within
  the exactness bounds of the sizing.\<close>

theorem adjust_header_replays_exactly:
  assumes lib: "decimal_crate D" "decimal_text D"
    and cli: "clap_accepts cli" "validate_cli D cli = Inr ()" "position_mode_requested cli"
    and cap: "cl_max_notional_usd cli = Some cap"
    and position: "fresh_position_plan D cli pos sy mid n = Inr pp" "pp_phases pp = [ph]"
    and sizing: "execution_sizing D (ph_size ph) (cl_slices cli) n mid True = Inr sg"
    and exact: "ph_size ph / of_nat (cl_slices cli) \<le> 10 ^ k" "k \<le> 28" "on_grid M (ph_size ph)" "n \<le> M" "M \<le> 28"
      "of_nat (cl_slices cli) * 10 ^ M < (10::rat) ^ (28 - k)" "ph_size ph * 10 ^ M < 2 ^ 96"
    and time: "as_millis (cl_duration cli) \<noteq> 0" and ord: "ord [] = []"
    and plan: "plan = original_plan cli sy (ph_side ph) ai n sg (ph_size ph) (Some (fixed_deadline cli now)) cap
                 (Some pp) agent master"
    and h: "h = new_run_header run_id net plan plan_hash
              (execution_fingerprint D net plan (Some pp) cli (Some mid)) started (fixed_deadline cli now)"
  shows "if d_canonical D (ph_size ph) = d_diff_text D (pp_target_szi pp) (pp_current_szi pp)
    then \<exists>rep. replay D ord [Header h] = Inr rep \<and> su_header (vr_summary rep) = Some h
    else replay D ord [Header h] =
      Inl (InvalidFingerprint ''position_phases'' ''adjust phase is inconsistent with frozen endpoints'')"
proof -
  let ?fp = "execution_fingerprint D net plan (Some pp) cli (Some mid)"
  note v = validate_cli_Inr [OF cli(2)]
  obtain s where cs: "compute_sizing D (ph_size ph) (cl_slices cli) n mid = Inr s"
    and sg: "sg_per_slice sg = sg_per_slice s" "sg_total_adjusted sg = ph_size ph"
    using sizing by (auto simp: execution_sizing_def and_then_Inr)
  have sl: "0 < cl_slices cli" using v by simp
  note b = decimal_crate.compute_sizing_bounds [OF lib(1) cs exact(1-6) sl exact(7)]
  have "sg_per_slice s \<le> sg_total_adjusted s"
    using b sl mult_left_mono [of 1 "of_nat (cl_slices cli)" "sg_per_slice s"] by simp
  then have "sg_per_slice s \<le> ph_size ph" using b by linarith
  then have valid: "validate_current_fingerprint D h ?fp =
    (if d_canonical D (ph_size ph) = d_diff_text D (pp_target_szi pp) (pp_current_szi pp) then Inr ()
     else invalid ''position_phases'' ''adjust phase is inconsistent with frozen endpoints'')"
    unfolding h using b sg
    by (intro adjust_fingerprint_checked [OF lib cli(2,1,3) cap time position _ _ _ plan refl]) simp_all
  have fp: "rh_fingerprint h = Some ?fp" "fp_version ?fp = FINGERPRINT_VERSION"
      "d_parse D (fp_max_notional_usd ?fp) = Some cap"
    by (simp_all add: h new_run_header_def execution_fingerprint_def plan original_plan_def
        decimal_text.parse_canonical [OF lib(2)])
  have "0 < cap" using v cap by simp
  then show ?thesis
    using valid ord replay_own_header [OF fp, of ord] replay_refused_header [OF fp, of _ ord] by (auto simp: invalid_def)
qed

text \<open>From 0.5 to 2.5 the size is stored as \<open>2\<close>, but the replay compares it with \<open>2.0\<close>.\<close>

definition adjust_cli :: cli where
  "adjust_cli = demo_cli\<lparr>cl_side := None, cl_size := None, cl_target_sz := Some (5 / 2)\<rparr>"

definition adjust_phases :: position_plan where
  "adjust_phases =
     \<lparr>pp_symbol = ''BTC'', pp_current_szi = 1 / 2, pp_target_szi = 5 / 2,
      pp_phases = [\<lparr>ph_kind = Adjust, ph_side = Long, ph_size = 2, ph_reduce_only = False\<rparr>]\<rparr>"

definition adjust_plan :: twap_plan where
  "adjust_plan = original_plan adjust_cli ''BTC'' Long 0 1 \<lparr>sg_per_slice = 1, sg_total_adjusted = 2\<rparr> 2
     (Some (fixed_deadline adjust_cli 5)) 1000 (Some adjust_phases) None (Some ''0xm'')"

definition adjust_header :: run_header where
  "adjust_header = new_run_header ''run-1'' Testnet adjust_plan []
     (execution_fingerprint exact_dec Testnet adjust_plan (Some adjust_phases) adjust_cli (Some 100)) 5
     (fixed_deadline adjust_cli 5)"

lemma show_sizes: "show_rat 2 = ''2''" "show_diff (5 / 2) (1 / 2) = ''2.0''"
  by code_simp+

lemma read_sizes:
  "read_rat ''0.5'' = Some (1 / 2)" "read_rat ''2.5'' = Some (5 / 2)" "read_rat ''2'' = Some 2" "read_rat ''1'' = Some 1"
  "read_rat ''20'' = Some 20" "read_rat ''1000'' = Some 1000"
  by code_simp+

lemma adjust_plan_fresh:
  "fresh_position_plan exact_dec adjust_cli \<lparr>sp_symbol = ''BTC'', sp_szi = 1 / 2\<rparr> ''BTC'' 100 1 = Inr adjust_phases"
  by (simp add: fresh_position_plan_def adjust_cli_def demo_cli_def target_size_def quantize_toward_zero_def
      round_rat_def trunc_rat_def Let_def phases_for_def decimal_sign_def side_for_delta_def checked_def dec_max_val_def
      adjust_phases_def)

theorem adjust_header_replays_exactly_witness:
  "validate_cli exact_dec adjust_cli = Inr () \<and>
   fresh_position_plan exact_dec adjust_cli \<lparr>sp_symbol = ''BTC'', sp_szi = 1 / 2\<rparr> ''BTC'' 100 1 = Inr adjust_phases \<and>
   execution_sizing exact_dec 2 2 1 100 True = Inr \<lparr>sg_per_slice = 1, sg_total_adjusted = 2\<rparr> \<and>
   replay exact_dec (\<lambda>xs. xs) [Header adjust_header] =
     Inl (InvalidFingerprint ''position_phases'' ''adjust phase is inconsistent with frozen endpoints'')"
proof -
  have v: "validate_cli exact_dec adjust_cli = Inr ()"
    by (simp add: validate_cli_def validate_mode_def validate_amounts_def validate_risk_def validate_trigger_def
        validate_expiry_def validate_follow_def check_def positive_opt_def validate_slippage_def map_err_def
        validate_max_notional_required_def is_live_def is_read_only_def position_mode_requested_def adjust_cli_def
        demo_cli_def SLIPPAGE_HARD_CAP_BPS_def SLIPPAGE_WARN_THRESHOLD_BPS_def secs_def)
  have s: "execution_sizing exact_dec 2 2 1 100 True = Inr \<lparr>sg_per_slice = 1, sg_total_adjusted = 2\<rparr>"
    by (simp add: execution_sizing_def compute_sizing_def round_size_def round_rat_def trunc_rat_def
        MIN_NOTIONAL_USD_def Let_def)
  have c: "clap_accepts adjust_cli" "position_mode_requested adjust_cli" "cl_max_notional_usd adjust_cli = Some 1000"
      "cl_slices adjust_cli = 2" "as_millis (cl_duration adjust_cli) \<noteq> 0"
    by (simp_all add: adjust_cli_def demo_cli_def clap_accepts_def position_mode_requested_def as_millis_def secs_def
        ns_per_ms_def)
  let ?ph = "\<lparr>ph_kind = Adjust, ph_side = Long, ph_size = 2, ph_reduce_only = False\<rparr>"
  have p: "pp_phases adjust_phases = [?ph]" "pp_target_szi adjust_phases = 5 / 2" "pp_current_szi adjust_phases = 1 / 2"
    by (simp_all add: adjust_phases_def)
  have g: "on_grid 1 2" by (rule on_gridI [of _ 20]) simp
  have plan: "adjust_plan = original_plan adjust_cli ''BTC'' (ph_side ?ph) 0 1 \<lparr>sg_per_slice = 1, sg_total_adjusted = 2\<rparr>
      (ph_size ?ph) (Some (fixed_deadline adjust_cli 5)) 1000 (Some adjust_phases) None (Some ''0xm'')"
    by (simp add: adjust_plan_def)
  have "replay exact_dec (\<lambda>xs. xs) [Header adjust_header] =
     Inl (InvalidFingerprint ''position_phases'' ''adjust phase is inconsistent with frozen endpoints'')"
    using adjust_header_replays_exactly [OF exact.decimal_crate_axioms exact_text.decimal_text_axioms c(1) v c(2,3)
        adjust_plan_fresh p(1) _ _ _ _ _ _ _ _ c(5) _ plan adjust_header_def, of 1 1 "\<lambda>xs. xs"] s g
    by (simp add: c(4) p show_sizes)
  with v s adjust_plan_fresh show ?thesis by simp
qed

section \<open>The position that the durable fills imply\<close>

definition signed_fill :: "dec_lib \<Rightarrow> validated_replay \<Rightarrow> cloid \<times> cloid_state \<Rightarrow> decimal" where
  "signed_fill D rep cs =
     (case cs of
        (c, StTerminal f a) \<Rightarrow>
          (case (vr_prepared rep c, d_parse D f) of
             (Some i, Some x) \<Rightarrow> as_signed_unit (pi_side i) * x
           | _ \<Rightarrow> 0)
      | _ \<Rightarrow> 0)"

definition moves_to_target :: "validated_replay \<Rightarrow> position_plan \<Rightarrow> cloid \<times> cloid_state \<Rightarrow> bool" where
  "moves_to_target rep p cs =
     (case cs of
        (c, StTerminal f a) \<Rightarrow>
          (case (vr_prepared rep c, moving_side p) of
             (Some i, Some sd) \<Rightarrow> pi_side i = sd
           | (Some i, None) \<Rightarrow> True
           | _ \<Rightarrow> False)
      | _ \<Rightarrow> True)"

text \<open>A number small enough on the grid for one addition to be exact.\<close>

definition addable :: "nat \<Rightarrow> decimal \<Rightarrow> bool" where
  "addable n x \<longleftrightarrow> on_grid n x \<and> \<bar>x\<bar> * 10 ^ n < 2 ^ 95"

lemma scaled_less: "x \<le> y \<Longrightarrow> y * 10 ^ n < b \<Longrightarrow> x * 10 ^ n < (b::rat)"
  by (rule le_less_trans [OF mult_right_mono]) simp_all

lemma addable_sum: "addable n a \<Longrightarrow> addable n b \<Longrightarrow> n \<le> 28 \<Longrightarrow> representable (a + b) \<and> representable (a - b)"
proof -
  assume a: "addable n a" and b: "addable n b" and n: "n \<le> 28"
  have le: "\<bar>a + b\<bar> \<le> \<bar>a\<bar> + \<bar>b\<bar>" "\<bar>a - b\<bar> \<le> \<bar>a\<bar> + \<bar>b\<bar>" by linarith+
  have "(\<bar>a\<bar> + \<bar>b\<bar>) * 10 ^ n < 2 ^ 96" using a b by (simp add: addable_def distrib_right)
  then have "\<bar>a + b\<bar> * 10 ^ n < 2 ^ 96" "\<bar>a - b\<bar> * 10 ^ n < 2 ^ 96"
    using scaled_less [OF le(1)] scaled_less [OF le(2)] by blast+
  with a b n show ?thesis by (auto simp: addable_def intro!: representableI on_grid_add on_grid_diff)
qed

lemma addable_between:
  "is_between_frozen_endpoints x a b \<Longrightarrow> addable n a \<Longrightarrow> addable n b \<Longrightarrow> on_grid n x \<Longrightarrow> addable n x"
proof -
  assume x: "is_between_frozen_endpoints x a b" and a: "addable n a" and b: "addable n b" and g: "on_grid n x"
  have "\<bar>x\<bar> \<le> \<bar>a\<bar> \<or> \<bar>x\<bar> \<le> \<bar>b\<bar>" using x by (auto simp: is_between_frozen_endpoints_def)
  then have "\<bar>x\<bar> * 10 ^ n < 2 ^ 95" using a b unfolding addable_def by (blast intro: scaled_less)
  with g show ?thesis by (simp add: addable_def)
qed

lemma apply_signed_fill_exact:
  assumes "decimal_crate D" and "apply_signed_fill D cur sd x = Inr nxt" and "addable n cur" and "addable n x" and "n \<le> 28"
  shows "nxt = cur + as_signed_unit sd * x"
proof -
  note r = addable_sum [OF assms(3,4,5)]
  have ar: "dec_arith D" using assms(1) by (simp add: decimal_crate_def)
  show ?thesis
    using assms(2) r dec_arith.d_checked_add_representable [OF ar, of cur x]
      dec_arith.d_checked_sub_representable [OF ar, of cur x]
    by (cases sd) (auto simp: apply_signed_fill_def split: if_splits)
qed

definition fills_addable :: "dec_lib \<Rightarrow> nat \<Rightarrow> (cloid \<times> cloid_state) list \<Rightarrow> bool" where
  "fills_addable D n cs \<longleftrightarrow>
     list_all (\<lambda>(c, st). case st of
         StTerminal f a \<Rightarrow> (case d_parse D f of Some x \<Rightarrow> addable n x | None \<Rightarrow> True) | _ \<Rightarrow> True) cs"

lemma expected_step_exact:
  assumes "decimal_crate D" and "expected_step D rep p cur cs = Inr nxt" and "n \<le> 28" and "addable n cur"
    and "addable n (pp_current_szi p)" "addable n (pp_target_szi p)" and "fills_addable D n [cs]"
    and "is_between_frozen_endpoints cur (pp_current_szi p) (pp_target_szi p)"
  shows "nxt = cur + signed_fill D rep cs \<and> moves_to_target rep p cs \<and> addable n nxt \<and>
    is_between_frozen_endpoints nxt (pp_current_szi p) (pp_target_szi p)"
proof (cases "\<exists>c f a. cs = (c, StTerminal f a)")
  case False
  then have "nxt = cur \<and> signed_fill D rep cs = 0 \<and> moves_to_target rep p cs"
    using assms(2) by (auto simp: expected_step_def signed_fill_def moves_to_target_def split: prod.splits cloid_state.splits)
  with assms show ?thesis by simp
next
  case True
  then obtain c f a where cs: "cs = (c, StTerminal f a)" by blast
  with assms(2) obtain i x where e: "vr_prepared rep c = Some i" "d_parse D f = Some x"
      "case moving_side p of Some sd \<Rightarrow> pi_side i = sd | None \<Rightarrow> True"
      "apply_signed_fill D cur (pi_side i) x = Inr nxt"
      "is_between_frozen_endpoints nxt (pp_current_szi p) (pp_target_szi p)"
    by (auto simp: expected_step_def and_then_Inr)
  have ax: "addable n x" using assms(7) e(2) by (simp add: fills_addable_def cs)
  note nxt = apply_signed_fill_exact [OF assms(1) e(4) assms(4) ax assms(3)]
  have "on_grid n nxt" using nxt assms(4) ax
    by (cases "pi_side i") (auto simp: addable_def intro: on_grid_add on_grid_diff)
  with addable_between [OF e(5) assms(5,6)] nxt e show ?thesis
    by (auto simp: cs signed_fill_def moves_to_target_def split: option.splits)
qed

lemma expected_steps_exact:
  assumes "fold_ok (expected_step D rep p) cur cs = Inr res" and "decimal_crate D" and "n \<le> 28" and "addable n cur"
    and "addable n (pp_current_szi p)" "addable n (pp_target_szi p)" and "fills_addable D n cs"
    and "is_between_frozen_endpoints cur (pp_current_szi p) (pp_target_szi p)"
  shows "res = cur + sum_list (map (signed_fill D rep) cs) \<and> list_all (moves_to_target rep p) cs \<and>
    is_between_frozen_endpoints res (pp_current_szi p) (pp_target_szi p)"
  using assms
proof (induction cs arbitrary: cur)
  case (Cons c cs)
  from Cons.prems(1) obtain nxt where nxt: "expected_step D rep p cur c = Inr nxt"
    "fold_ok (expected_step D rep p) nxt cs = Inr res" by (auto simp: and_then_Inr)
  have fa: "fills_addable D n [c]" "fills_addable D n cs" using Cons.prems(7) by (simp_all add: fills_addable_def)
  note s = expected_step_exact [OF Cons.prems(2) nxt(1) Cons.prems(3,4,5,6) fa(1) Cons.prems(8)]
  with Cons.IH [OF nxt(2) Cons.prems(2,3) _ Cons.prems(5,6) fa(2)] show ?case by (auto simp: add.assoc)
qed simp

text \<open>C32: a resumed position run continues only from a position that the journal explains: the expected
  position is the frozen start plus the signed durable fills, every one of them on the side that moves
  towards the frozen target, and it lies between the frozen endpoints. The sizes are on the grid and
  within the exactness bound of an addition.\<close>

theorem expected_position_explained:
  assumes "decimal_crate D" and "expected_position_from_replay D rep p = Inr res" and "n \<le> 28"
    and "addable n (pp_current_szi p)" "addable n (pp_target_szi p)"
    and "fills_addable D n (su_cloids (vr_summary rep))"
  shows "res = pp_current_szi p + sum_list (map (signed_fill D rep) (su_cloids (vr_summary rep))) \<and>
    list_all (moves_to_target rep p) (su_cloids (vr_summary rep)) \<and>
    is_between_frozen_endpoints res (pp_current_szi p) (pp_target_szi p)"
  using assms(2) unfolding expected_position_from_replay_def
  by (rule expected_steps_exact [OF _ assms(1,3,4,4,5,6)]) (simp add: is_between_frozen_endpoints_def)

definition half_adjusted :: validated_replay where
  "half_adjusted =
     \<lparr>vr_summary = run_summary_default\<lparr>su_cloids := [(7, StTerminal ''1'' None), (8, StTerminal ''0.5'' None)]\<rparr>,
      vr_fill_totals = \<lparr>ft_filled_sz = 3 / 2, ft_notional = 0\<rparr>, vr_max_notional = None, vr_vwap = None,
      vr_prepared = (\<lambda>_. Some \<lparr>pi_slice_idx = 1, pi_symbol = ''BTC'', pi_side = Long, pi_tif = Some Ioc,
                                pi_px = ''100'', pi_sz = ''1''\<rparr>)\<rparr>"

lemma addable_half: "addable 1 (of_int k / 2)" if "\<bar>k\<bar> < 2 ^ 60"
proof -
  have "of_int k / 2 = (of_int (5 * k) :: rat) / 10 ^ 1" by simp
  then have g: "on_grid 1 (of_int k / 2)" by (rule on_gridI)
  have "\<bar>of_int k :: rat\<bar> < of_int (2 ^ 60)" using that by (simp only: of_int_abs [symmetric] of_int_less_iff)
  then have "\<bar>of_int k / 2\<bar> * 10 ^ 1 < (2::rat) ^ 95" by simp
  with g show ?thesis by (simp only: addable_def)
qed

theorem expected_position_explained_witness:
  "expected_position_from_replay exact_dec half_adjusted adjust_phases = Inr 2 \<and>
   list_all (moves_to_target half_adjusted adjust_phases) (su_cloids (vr_summary half_adjusted))"
proof -
  have e: "expected_position_from_replay exact_dec half_adjusted adjust_phases = Inr 2"
    by (simp add: expected_position_from_replay_def expected_step_def half_adjusted_def adjust_phases_def
        run_summary_default_def moving_side_def read_sizes ok_or_def check_def apply_signed_fill_def checked_def
        dec_max_val_def map_err_def is_between_frozen_endpoints_def)
  have f: "fills_addable exact_dec 1 (su_cloids (vr_summary half_adjusted))"
    using addable_half [of 2] addable_half [of 1]
    by (simp add: fills_addable_def half_adjusted_def run_summary_default_def read_sizes)
  have p: "addable 1 (pp_current_szi adjust_phases)" "addable 1 (pp_target_szi adjust_phases)"
    using addable_half [of 1] addable_half [of 5] by (simp_all add: adjust_phases_def)
  from expected_position_explained [OF exact.decimal_crate_axioms e _ p f] e show ?thesis by simp
qed

end
