(* ===== verification/Execute.thy ===== *)
theory Execute
  imports Resume_Check Run_Safety
begin

text \<open>
  The execution stage of \<open>run_with_cli\<close> (\<open>src/main.rs\<close>), from the first phase to the exit code: the
  first run, the fold-back of earlier fills, the two strictly ordered phases of a reversal, the durable
  report, the acceptance of an aborted run whose position is on target, and the final verification of
  the authoritative position. Also the plan that continues a resumed run. The record \<open>execution\<close> holds the
  values that the pre-flight has fixed; \<open>ex_emit\<close> stands for the write of \<open>--report-json\<close>, of which only
  success or failure matters. Printed lines, the signal task and the observers are left out, and so is the
  grace timer that drops the whole stage at an await point.
\<close>

record execution =
  ex_cli :: cli
  ex_symbol :: symbol
  ex_asset_index :: nat
  ex_sz_decimals :: nat
  ex_mid :: decimal
  ex_agent :: "address option"
  ex_master :: "address option"
  ex_max_notional :: decimal
  ex_deadline :: "u64 option"
  ex_already_filled :: "decimal option"
  ex_prior_notional :: decimal
  ex_original_adjusted :: decimal
  ex_original_requested :: decimal
  ex_position :: "position_plan option"
  ex_resumed :: "position_plan option"
  ex_plan :: twap_plan
  ex_emit :: "world \<Rightarrow> string + unit"

text \<open>A step that may not return, and the bind of a fallible step into it.\<close>

type_synonym 'a may_end = "((string + 'a) \<times> world) option"

definition try_o :: "(string + 'a) \<times> world \<Rightarrow> ('a \<Rightarrow> world \<Rightarrow> 'b may_end) \<Rightarrow> 'b may_end" where
  "try_o m f = (case m of (Inl e, w) \<Rightarrow> Some (Inl e, w) | (Inr a, w) \<Rightarrow> f a w)"

definition run_o :: "('r \<times> world) option \<Rightarrow> ('r \<Rightarrow> world \<Rightarrow> 'b may_end) \<Rightarrow> 'b may_end" where
  "run_o m f = (case m of None \<Rightarrow> None | Some (r, w) \<Rightarrow> f r w)"

definition bind_o :: "'a may_end \<Rightarrow> ('a \<Rightarrow> world \<Rightarrow> 'b may_end) \<Rightarrow> 'b may_end" where
  "bind_o m f = (case m of None \<Rightarrow> None | Some mm \<Rightarrow> try_o mm f)"

section \<open>Durable accounting\<close>

definition read_replay :: "dec_lib \<Rightarrow> env \<Rightarrow> world \<Rightarrow> string + validated_replay" where
  "read_replay D E w =
     and_then (e_read_journal E w) (\<lambda>records.
     map_err (\<lambda>_. ''cannot validate durable journal'') (replay D (e_order E) records))"

definition whole_run_from_replay :: "dec_lib \<Rightarrow> env \<Rightarrow> validated_replay \<Rightarrow> world \<Rightarrow> whole_run_summary" where
  "whole_run_from_replay D E rep w =
     (let now = wall_clock_now_ms E w;
          started = (case su_header (vr_summary rep) of Some h \<Rightarrow> rh_started_at_unix_ms h | None \<Rightarrow> now)
      in \<lparr>wr_requested_total = final_total D fp_total_requested rep,
          wr_adjusted_total = final_total D fp_total_adjusted rep,
          wr_accounted_notional = d_to_string D (ft_notional (vr_fill_totals rep)),
          wr_cap_remaining =
            map_option (\<lambda>cap. d_to_string D (max (d_sub D cap (ft_notional (vr_fill_totals rep))) 0))
              (vr_max_notional rep),
          wr_trusted_vwap = map_option (d_to_string D) (vr_vwap rep),
          wr_logical_elapsed_ms = sat_sub_u64 now started,
          wr_unresolved_cloids = length (unresolved_cloids (vr_summary rep))\<rparr>)"

definition replayed_report :: "dec_lib \<Rightarrow> env \<Rightarrow> bool \<Rightarrow> cloid list \<Rightarrow> string \<Rightarrow> validated_replay \<Rightarrow> world \<Rightarrow> journal_record" where
  "replayed_report D E completed unknown note rep w =
     FinalReport completed (d_to_string D (ft_filled_sz (vr_fill_totals rep))) unknown note
       (Some (whole_run_from_replay D E rep w))"

definition record_report :: "env \<Rightarrow> journal_record \<Rightarrow> world \<Rightarrow> (string + unit) \<times> world" where
  "record_report E r w =
     (case record_durable E r w of (ok, w1) \<Rightarrow> (check ok ''recording the report failed'', w1))"

definition record_position_incomplete :: "dec_lib \<Rightarrow> env \<Rightarrow> string \<Rightarrow> world \<Rightarrow> (string + unit) \<times> world" where
  "record_position_incomplete D E note w =
     try_w (read_replay D E w, w) (\<lambda>rep w1.
     record_report E (replayed_report D E False (unresolved_cloids (vr_summary rep)) note rep w1) w1)"

definition record_pair_barrier_abort :: "dec_lib \<Rightarrow> env \<Rightarrow> string \<Rightarrow> world \<Rightarrow> (string + unit) \<times> world" where
  "record_pair_barrier_abort D E error w =
     record_position_incomplete D E (''pair barrier aborted before any order: '' @ error) w"

definition emit_live_report_json :: "env \<Rightarrow> execution \<Rightarrow> world \<Rightarrow> (string + unit) \<times> world" where
  "emit_live_report_json E X w = (if e_has_journal E
      then (case cl_report_json (ex_cli X) of None \<Rightarrow> Inr () | Some destination \<Rightarrow> ex_emit X w)
      else Inr (), w)"

text \<open>The note of an incomplete position report: what was observed, and what was frozen.\<close>

definition incomplete_note :: "dec_lib \<Rightarrow> decimal \<Rightarrow> string + decimal \<Rightarrow> string \<Rightarrow> string" where
  "incomplete_note D target observation ctxt =
     ctxt @
     (case observation of
        Inr szi \<Rightarrow> '': authoritative signed position is '' @ d_to_string D szi
      | Inl e \<Rightarrow> '': authoritative position unavailable ('' @ e @ '')'') @
     ''; frozen target is '' @ d_to_string D target @ ''; automatic continuation stopped''"

definition frozen_target :: "execution \<Rightarrow> decimal" where
  "frozen_target X = (case ex_position X of Some p \<Rightarrow> pp_target_szi p | None \<Rightarrow> 0)"

text \<open>The common end of every failed position check: a durable incomplete report, the report file, an error.\<close>

definition stop_position :: "dec_lib \<Rightarrow> env \<Rightarrow> execution \<Rightarrow> string \<Rightarrow> string \<Rightarrow> world \<Rightarrow> (string + 'a) \<times> world" where
  "stop_position D E X note message w =
     try_w (if e_has_journal E then record_position_incomplete D E note w else (Inr (), w)) (\<lambda>_ w1.
     try_w (emit_live_report_json E X w1) (\<lambda>_ w2. (Inl message, w2)))"

text \<open>One read of the authoritative signed size.\<close>

definition observe_position :: "env \<Rightarrow> execution \<Rightarrow> world \<Rightarrow> (string + decimal) \<times> world" where
  "observe_position E X w =
     (case ex_master X of
        None \<Rightarrow> (Inl ''resolved master address is unavailable'', w)
      | Some m \<Rightarrow>
          (case fetch_perp_position E m (ex_symbol X) w of
             (Inl e, w1) \<Rightarrow> (Inl ''authoritative position unavailable'', w1)
           | (Inr pos, w1) \<Rightarrow> (Inr (sp_szi pos), w1)))"

definition durable_unresolved :: "dec_lib \<Rightarrow> env \<Rightarrow> world \<Rightarrow> string + cloid list" where
  "durable_unresolved D E w =
     (if e_has_journal E
      then and_then (read_replay D E w) (\<lambda>rep. Inr (unresolved_cloids (vr_summary rep)))
      else Inr [])"

section \<open>The first run\<close>

definition first_phase_guard :: "execution \<Rightarrow> string + position_guard option" where
  "first_phase_guard X =
     (case ex_position X of
        None \<Rightarrow> Inr None
      | Some p \<Rightarrow>
          and_then (ok_or ''position mode lost its resolved master address'' (ex_master X)) (\<lambda>m.
          Inr (Some \<lparr>pg_master = m,
                     pg_target_szi = (if crosses_zero p then 0 else pp_target_szi p),
                     pg_side = pl_side (ex_plan X)\<rparr>)))"

definition first_run ::
  "dec_lib \<Rightarrow> env \<Rightarrow> execution \<Rightarrow> position_guard option \<Rightarrow> world \<Rightarrow> (twap_report \<times> world) option" where
  "first_run D E X guard w =
     (case guard of
        Some g \<Rightarrow> run_twap_deferred_position_guard D E (ex_plan X) (ex_prior_notional X) g w
      | None \<Rightarrow> run_twap_journaled_with_prior_notional D E (ex_plan X) (ex_prior_notional X) w)"

definition fold_back :: "dec_lib \<Rightarrow> execution \<Rightarrow> twap_report \<Rightarrow> twap_report" where
  "fold_back D X r =
     (case ex_already_filled X of
        Some prior \<Rightarrow> r\<lparr>rp_total_adjusted := ex_original_adjusted X, rp_total_requested := ex_original_requested X,
                        rp_filled := d_add D prior (rp_filled r)\<rparr>
      | None \<Rightarrow> r)"

section \<open>The open phase of a reversal\<close>

definition open_plan_of :: "execution \<Rightarrow> address \<Rightarrow> position_phase \<Rightarrow> sizing \<Rightarrow> nanos \<Rightarrow> twap_plan" where
  "open_plan_of X m op sg remaining =
     \<lparr>pl_symbol = ex_symbol X, pl_side = ph_side op, pl_asset_index = ex_asset_index X,
      pl_sz_decimals = ex_sz_decimals X, pl_per_slice = sg_per_slice sg,
      pl_total_adjusted = sg_total_adjusted sg, pl_total_requested = ph_size op,
      pl_slices = cl_slices (ex_cli X), pl_duration = remaining,
      pl_absolute_deadline_unix_ms = ex_deadline X, pl_slippage_bps = cl_slippage_bps (ex_cli X),
      pl_max_book_age_ms = cl_max_book_age_ms (ex_cli X), pl_settle_retries = cl_settle_retries (ex_cli X),
      pl_read_only = is_read_only (ex_cli X), pl_reduce_only = False,
      pl_max_notional_usd = ex_max_notional X, pl_agent = ex_agent X, pl_master = Some m,
      pl_child_algo = cl_child_algo (ex_cli X),
      pl_follow_poll_secs = unat (cl_follow_poll_secs (ex_cli X)),
      pl_follow_repost_secs = unat (cl_follow_repost_secs (ex_cli X)),
      pl_follow_threshold_bps = cl_follow_threshold_bps (ex_cli X)\<rparr>"

definition remaining_window :: "env \<Rightarrow> execution \<Rightarrow> world \<Rightarrow> nanos" where
  "remaining_window E X w =
     (let now = wall_clock_now_ms E w;
          deadline = unwrap_or (ex_deadline X) (sat_add_u64 now (of_nat (as_millis (cl_duration (ex_cli X)))))
      in unwrap_or (remaining_execution_window deadline now) 0)"

definition durable_notional :: "dec_lib \<Rightarrow> env \<Rightarrow> world \<Rightarrow> string + decimal" where
  "durable_notional D E w =
     (if e_has_journal E
      then and_then (read_replay D E w) (\<lambda>rep. Inr (ft_notional (vr_fill_totals rep)))
      else Inr 0)"

definition combine_reports :: "dec_lib \<Rightarrow> twap_report \<Rightarrow> twap_report \<Rightarrow> twap_report" where
  "combine_reports D close_report open_report =
     open_report\<lparr>
       rp_filled := unwrap_or (d_checked_add D (rp_filled close_report) (rp_filled open_report)) (d_max D),
       rp_slices_executed := sat_add_u32 (rp_slices_executed close_report) (rp_slices_executed open_report),
       rp_slices_skipped := sat_add_u32 (rp_slices_skipped close_report) (rp_slices_skipped open_report),
       rp_elapsed := rp_elapsed close_report + rp_elapsed open_report\<rparr>"

text \<open>The flat size that \<open>verify_flat\<close> has read is the observation reported when the window is over.\<close>

definition run_open_phase ::
  "dec_lib \<Rightarrow> env \<Rightarrow> execution \<Rightarrow> position_plan \<Rightarrow> address \<Rightarrow> position_phase \<Rightarrow> twap_report \<Rightarrow> world \<Rightarrow> twap_report may_end" where
  "run_open_phase D E X p m op close_report w =
     try_o (map_err (\<lambda>_. ''zero-crossing: open phase sizing invalid'')
       (execution_sizing D (ph_size op) (cl_slices (ex_cli X)) (ex_sz_decimals X) (ex_mid X) True), w) (\<lambda>sg w1.
     let remaining = remaining_window E X w1 in
     if remaining = 0 then
       Some (stop_position D E X
         (incomplete_note D (pp_target_szi p) (Inr 0) ''zero-crossing deadline elapsed after close-to-flat'')
         ''zero-crossing: deadline elapsed after close phase; open phase was not started'' w1)
     else
       try_o (durable_notional D E w1, w1) (\<lambda>prior w2.
       run_o (run_twap_deferred_position_guard D E (open_plan_of X m op sg remaining) prior
                \<lparr>pg_master = m, pg_target_szi = pp_target_szi p, pg_side = ph_side op\<rparr> w2)
         (\<lambda>open_report w3. Some (Inr (combine_reports D close_report open_report), w3))))"

text \<open>Between the phases: nothing failed, nothing is unresolved, and the account is exactly flat.\<close>

definition verify_flat :: "dec_lib \<Rightarrow> env \<Rightarrow> execution \<Rightarrow> twap_report \<Rightarrow> world \<Rightarrow> (string + address) \<times> world" where
  "verify_flat D E X report w =
     (if exit_code report \<noteq> 0 then
        (case observe_position E X w of
           (obs, w1) \<Rightarrow>
             stop_position D E X (incomplete_note D (frozen_target X) obs ''zero-crossing close-to-flat phase failed'')
               ''close-to-flat phase did not complete; open phase was not started'' w1)
      else
        try_w (durable_unresolved D E w, w) (\<lambda>unresolved w1.
        if unresolved \<noteq> [] then
          (case observe_position E X w1 of
             (obs, w2) \<Rightarrow>
               stop_position D E X (incomplete_note D (frozen_target X) obs ''zero-crossing close phase left unresolved orders'')
                 ''zero-crossing: close phase has unresolved cloids; open phase was not started'' w2)
        else
          try_w (ok_or ''zero-crossing: missing master address'' (ex_master X), w1) (\<lambda>m w2.
          (case fetch_perp_position E m (ex_symbol X) w2 of
             (Inl e, w3) \<Rightarrow>
               stop_position D E X (incomplete_note D (frozen_target X) (Inl ''unavailable'')
                 ''zero-crossing close-to-flat verification unavailable'')
                 ''zero-crossing: cannot verify close-to-flat position; open phase was not started'' w3
           | (Inr latest, w3) \<Rightarrow>
               if sp_szi latest \<noteq> 0 then
                 stop_position D E X (incomplete_note D (frozen_target X) (Inr (sp_szi latest))
                   ''zero-crossing close-to-flat verification found residual position'')
                   ''zero-crossing: close phase expected exact zero; open phase was not started'' w3
               else (Inr m, w3)))))"

definition cross_zero ::
  "dec_lib \<Rightarrow> env \<Rightarrow> execution \<Rightarrow> twap_report \<Rightarrow> world \<Rightarrow> twap_report may_end" where
  "cross_zero D E X report w =
     (case ex_position X of
        None \<Rightarrow> Some (Inr report, w)
      | Some p \<Rightarrow>
          (case pp_phases p of
             [cl, op] \<Rightarrow>
               if crosses_zero p
               then try_o (verify_flat D E X report w) (\<lambda>m w1. run_open_phase D E X p m op report w1)
               else Some (Inr report, w)
           | _ \<Rightarrow> Some (Inr report, w)))"

section \<open>The durable report and the final verification\<close>

definition durable_report :: "dec_lib \<Rightarrow> env \<Rightarrow> twap_report \<Rightarrow> world \<Rightarrow> string + twap_report" where
  "durable_report D E report w =
     (if e_has_journal E
      then and_then (read_replay D E w) (\<lambda>rep.
             Inr (report\<lparr>rp_filled := ft_filled_sz (vr_fill_totals rep), rp_avg_px := vr_vwap rep\<rparr>))
      else Inr report)"

definition phase_total :: "dec_lib \<Rightarrow> position_plan \<Rightarrow> string + decimal" where
  "phase_total D p =
     fold_ok (\<lambda>acc ph. ok_or ''position phase total overflowed'' (d_checked_add D acc (ph_size ph))) 0 (pp_phases p)"

definition logical_report :: "dec_lib \<Rightarrow> execution \<Rightarrow> twap_report \<Rightarrow> string + twap_report" where
  "logical_report D X report =
     (case or_else (ex_resumed X) (ex_position X) of
        None \<Rightarrow> Inr report
      | Some p \<Rightarrow>
          and_then (phase_total D p) (\<lambda>t. Inr (report\<lparr>rp_total_requested := t, rp_total_adjusted := t\<rparr>)))"

text \<open>An aborted position run: accepted when the authoritative position is on target and no order is
  unresolved, otherwise durably incomplete. \<open>Inr None\<close> is the exit with failure.\<close>

definition judge_abort ::
  "dec_lib \<Rightarrow> env \<Rightarrow> execution \<Rightarrow> position_plan \<Rightarrow> twap_report \<Rightarrow> world \<Rightarrow> (string + twap_report option) \<times> world" where
  "judge_abort D E X p report w =
     (case observe_position E X w of
        (obs, w1) \<Rightarrow>
          if obs = Inr (pp_target_szi p) then
            try_w (durable_unresolved D E w1, w1) (\<lambda>unresolved w2.
            if unresolved = [] then (Inr (Some (report\<lparr>rp_abort_reason := None\<rparr>)), w2)
            else
              stop_position D E X (incomplete_note D (pp_target_szi p) obs
                ''position target matched after abort but journal has unresolved cloids'')
                ''position target matched after abort, but unresolved child orders prevent safe completion'' w2)
          else
            try_w (if e_has_journal E
                   then record_position_incomplete D E
                          (incomplete_note D (pp_target_szi p) obs ''position-aware execution aborted'') w1
                   else (Inr (), w1)) (\<lambda>_ w2.
            try_w (emit_live_report_json E X w2) (\<lambda>_ w3. (Inr None, w3))))"

definition verify_target :: "dec_lib \<Rightarrow> env \<Rightarrow> execution \<Rightarrow> position_plan \<Rightarrow> world \<Rightarrow> (string + unit) \<times> world" where
  "verify_target D E X p w =
     try_w (ok_or ''position mode lost its resolved master address'' (ex_master X), w) (\<lambda>m w1.
     (case fetch_perp_position E m (ex_symbol X) w1 of
        (Inl e, w2) \<Rightarrow>
          stop_position D E X
            (incomplete_note D (pp_target_szi p) (Inl ''unavailable'') ''position-aware terminal verification unavailable'')
            ''position-aware terminal verification failed closed; no further order was sent'' w2
      | (Inr pos, w2) \<Rightarrow>
          if sp_szi pos \<noteq> pp_target_szi p then
            stop_position D E X
              (incomplete_note D (pp_target_szi p) (Inr (sp_szi pos))
                ''position-aware terminal verification mismatched frozen target'')
              ''position-aware terminal verification failed; no further order was sent'' w2
          else if e_has_journal E then
            try_w (read_replay D E w2, w2) (\<lambda>rep w3.
            record_report E (replayed_report D E True [] ''position-aware terminal verification matched frozen target''
                               rep w3) w3)
          else (Inr (), w2)))"

definition conclude :: "env \<Rightarrow> execution \<Rightarrow> twap_report \<Rightarrow> world \<Rightarrow> (string + nat) \<times> world" where
  "conclude E X report w =
     try_w (emit_live_report_json E X w) (\<lambda>_ w1. (Inr (if exit_code report = 0 then 0 else 1), w1))"

definition judge_and_verify ::
  "dec_lib \<Rightarrow> env \<Rightarrow> execution \<Rightarrow> twap_report \<Rightarrow> world \<Rightarrow> (string + nat) \<times> world" where
  "judge_and_verify D E X report w =
     (case ex_position X of
        None \<Rightarrow> conclude E X report w
      | Some p \<Rightarrow>
          try_w (if exit_code report \<noteq> 0 then judge_abort D E X p report w else (Inr (Some report), w)) (\<lambda>judged w1.
          (case judged of
             None \<Rightarrow> (Inr 1, w1)
           | Some report1 \<Rightarrow>
               try_w (verify_target D E X p w1) (\<lambda>_ w2. conclude E X report1 w2))))"

definition execute :: "dec_lib \<Rightarrow> env \<Rightarrow> execution \<Rightarrow> world \<Rightarrow> nat may_end" where
  "execute D E X w =
     try_o (first_phase_guard X, w) (\<lambda>guard w1.
     run_o (first_run D E X guard w1) (\<lambda>report1 w2.
     bind_o (cross_zero D E X (fold_back D X report1) w2) (\<lambda>report2 w3.
     try_o (and_then (durable_report D E report2 w3) (logical_report D X), w3) (\<lambda>report3 w4.
     Some (judge_and_verify D E X report3 w4)))))"

section \<open>The plan that continues a resumed run\<close>

datatype continuation = Satisfied | BelowMinimum decimal | Continue twap_plan

text \<open>The number of slices: \<open>floor (remaining / per_slice)\<close>, read back from its text as a \<open>u32\<close>, and one
  more for a remainder; the sum of two \<open>u32\<close> wraps in a release build.\<close>

definition continuation_slices :: "dec_lib \<Rightarrow> decimal \<Rightarrow> decimal \<Rightarrow> nat" where
  "continuation_slices D remaining per_slice =
     (let whole = of_int \<lfloor>d_div D remaining per_slice\<rfloor>;
          parsed = (if 0 \<le> whole \<and> whole \<le> of_nat U32_MAX then nat \<lfloor>whole\<rfloor> else 0);
          n = (parsed + (if d_mul D whole per_slice < remaining then 1 else 0)) mod 2 ^ 32
      in max n 1)"

definition continuation_plan ::
  "dec_lib \<Rightarrow> twap_plan \<Rightarrow> decimal \<Rightarrow> decimal \<Rightarrow> u64 option \<Rightarrow> u64 \<Rightarrow> string + continuation" where
  "continuation_plan D plan already_filled mid deadline now =
     (let remaining = d_sub D (pl_total_adjusted plan) already_filled in
      if remaining \<le> 0 then Inr Satisfied
      else if d_mul D remaining mid < MIN_NOTIONAL_USD then Inr (BelowMinimum remaining)
      else
        and_then (ok_or ''live run has no execution deadline'' deadline) (\<lambda>dl.
        Inr (Continue (plan\<lparr>pl_total_adjusted := remaining,
               pl_slices := continuation_slices D remaining (pl_per_slice plan),
               pl_duration := unwrap_or (remaining_execution_window dl now) 0\<rparr>))))"

text \<open>A resumed run that sends nothing more ends in a durable report, complete or not.\<close>

definition finish_resumed :: "dec_lib \<Rightarrow> env \<Rightarrow> execution \<Rightarrow> bool \<Rightarrow> decimal \<Rightarrow> string \<Rightarrow> world \<Rightarrow> (string + unit) \<times> world" where
  "finish_resumed D E X completed filled note w =
     try_w (if e_has_journal E then
              try_w (read_replay D E w, w) (\<lambda>rep w1.
              record_report E (FinalReport completed (d_to_string D filled) [] note
                                 (Some (whole_run_from_replay D E rep w1))) w1)
            else (Inr (), w)) (\<lambda>_ w2.
     emit_live_report_json E X w2)"

text \<open>\<open>Inl code\<close> ends the process with that exit code, \<open>Inr plan\<close> goes on to the first phase.\<close>

definition continue_resumed ::
  "dec_lib \<Rightarrow> env \<Rightarrow> execution \<Rightarrow> twap_plan \<Rightarrow> world \<Rightarrow> (string + (nat + twap_plan)) \<times> world" where
  "continue_resumed D E X original w =
     (case ex_already_filled X of
        None \<Rightarrow> (Inr (Inr original), w)
      | Some filled \<Rightarrow>
          try_w (continuation_plan D original filled (ex_mid X) (ex_deadline X) (wall_clock_now_ms E w), w) (\<lambda>c w1.
          (case c of
             Satisfied \<Rightarrow>
               try_w (finish_resumed D E X True filled
                 ''resume: prior fills already satisfy the original plan; nothing further executed'' w1) (\<lambda>_ w2.
               (Inr (Inl 0), w2))
           | BelowMinimum remaining \<Rightarrow>
               try_w (finish_resumed D E X False filled
                 ''resume: positive remainder is below minimum notional; no order sent and original target not asserted complete''
                 w1) (\<lambda>_ w2.
               (Inr (Inl 1), w2))
           | Continue plan \<Rightarrow> (Inr (Inr plan), w1))))"

end
