(* ===== verification/Execute_Facts.thy ===== *)
theory Execute_Facts
  imports Execute Run_Bounds
begin

text \<open>
  What the execution stage guarantees: it always returns, it reports success for a position target only
  right after the exchange has confirmed the target, a reversal sends opening orders only once the
  account has been read flat, and a continued run together with the fills before it stays within the
  original total.
\<close>

section \<open>What the checks keep\<close>

context calm_inv
begin

lemma record_report_keeps [simp]: "I w \<Longrightarrow> \<not> is_prepared r \<Longrightarrow> I (snd (record_report E r w))"
  using record_durable_keeps [of w r E] by (simp add: record_report_def split_beta)

lemma record_position_incomplete_keeps [simp]: "I w \<Longrightarrow> I (snd (record_position_incomplete D E n w))"
  by (simp add: record_position_incomplete_def replayed_report_def)

lemma emit_live_report_json_keeps [simp]: "I w \<Longrightarrow> I (snd (emit_live_report_json E X w))"
  by (simp add: emit_live_report_json_def)

lemma stop_position_keeps [simp]: "I w \<Longrightarrow> I (snd (stop_position D E X n m w))"
  by (simp add: stop_position_def)

lemma observe_position_keeps [simp]: "I w \<Longrightarrow> I (snd (observe_position E X w))"
  by (auto simp: observe_position_def split_beta split: option.split sum.split)

lemma verify_flat_keeps [simp]: "I w \<Longrightarrow> I (snd (verify_flat D E X r w))"
  by (simp add: verify_flat_def split_beta split: sum.split)

lemma judge_abort_keeps [simp]: "I w \<Longrightarrow> I (snd (judge_abort D E X p r w))"
  by (simp add: judge_abort_def split_beta)

lemma verify_target_keeps [simp]: "I w \<Longrightarrow> I (snd (verify_target D E X p w))"
  by (simp add: verify_target_def replayed_report_def split_beta split: sum.split)

lemma conclude_keeps [simp]: "I w \<Longrightarrow> I (snd (conclude E X r w))"
  by (simp add: conclude_def)

lemma judge_and_verify_keeps [simp]: "I w \<Longrightarrow> I (snd (judge_and_verify D E X r w))"
  by (simp add: judge_and_verify_def split: option.split)

end

section \<open>The stages of an execution\<close>

lemma try_o_Some: "try_o m f = Some (r, w') \<longleftrightarrow>
    (\<exists>e. fst m = Inl e \<and> r = Inl e \<and> w' = snd m) \<or> (\<exists>a. fst m = Inr a \<and> f a (snd m) = Some (r, w'))"
  by (cases m; cases "fst m") (auto simp: try_o_def)

lemma run_o_Some: "run_o m f = Some y \<longleftrightarrow> (\<exists>r w. m = Some (r, w) \<and> f r w = Some y)"
  by (auto simp: run_o_def split: option.splits)

lemma bind_o_Some: "bind_o m f = Some y \<longleftrightarrow> (\<exists>mm. m = Some mm \<and> try_o mm f = Some y)"
  by (auto simp: bind_o_def split: option.splits)

text \<open>An execution ends with an error of a stage, or in the final judgement.\<close>

lemma execute_stages:
  assumes "execute D E X w = Some (res, w')"
  obtains (refused) e where "res = Inl e" and "w' = w"
  | (crossing_failed) g r1 w1 e where "first_phase_guard X = Inr g" and "first_run D E X g w = Some (r1, w1)"
      and "cross_zero D E X (fold_back D X r1) w1 = Some (Inl e, w')" and "res = Inl e"
  | (report_failed) g r1 w1 r2 e where "first_phase_guard X = Inr g" and "first_run D E X g w = Some (r1, w1)"
      and "cross_zero D E X (fold_back D X r1) w1 = Some (Inr r2, w')" and "res = Inl e"
  | (judged) g r1 w1 r2 w2 r3 where "first_phase_guard X = Inr g" and "first_run D E X g w = Some (r1, w1)"
      and "cross_zero D E X (fold_back D X r1) w1 = Some (Inr r2, w2)"
      and "judge_and_verify D E X r3 w2 = (res, w')"
  using assms
  by (auto simp: execute_def try_o_Some run_o_Some bind_o_Some)

lemma cross_zero_stages:
  assumes "cross_zero D E X r w = Some (res, w')" and "ex_position X = Some p" and "crosses_zero p"
  obtains (stopped) e where "verify_flat D E X r w = (Inl e, w')" and "res = Inl e"
  | (opened) m w1 op where "verify_flat D E X r w = (Inr m, w1)" and "run_open_phase D E X p m op r w1 = Some (res, w')"
proof -
  from assms(3) obtain cl op where "pp_phases p = [cl, op]"
    by (auto simp: crosses_zero_def split: list.splits)
  with assms that show thesis
    by (cases "verify_flat D E X r w"; cases "fst (verify_flat D E X r w)")
      (auto simp: cross_zero_def try_o_Some)
qed

section \<open>Opening orders of a reversal\<close>

fun flat_read :: "address \<Rightarrow> symbol \<Rightarrow> event \<Rightarrow> bool" where
  "flat_read m s (EvPosition u s' (Inr pos)) \<longleftrightarrow> u = m \<and> s' = s \<and> sp_szi pos = 0"
| "flat_read m s _ = False"

fun open_order :: "event \<Rightarrow> bool" where
  "open_order (EvPlace i a x r) \<longleftrightarrow> \<not> oi_reduce_only i"
| "open_order _ = False"

text \<open>The account was read flat, and no closing order has been sent since.\<close>

fun flat_since :: "address \<Rightarrow> symbol \<Rightarrow> (nanos \<times> event) list \<Rightarrow> bool" where
  "flat_since m s [] = False"
| "flat_since m s ((t, ev) # tr) =
     (flat_read m s ev \<or> ((is_place ev \<longrightarrow> open_order ev) \<and> flat_since m s tr))"

fun opens_flat :: "address \<Rightarrow> symbol \<Rightarrow> (nanos \<times> event) list \<Rightarrow> bool" where
  "opens_flat m s [] = True"
| "opens_flat m s ((t, ev) # tr) = ((open_order ev \<longrightarrow> flat_since m s tr) \<and> opens_flat m s tr)"

lemma open_order_place: "open_order ev \<Longrightarrow> is_place ev"
  by (cases ev) auto

interpretation clo: passive_inv "\<lambda>w. opens_flat m s (w_trace w)" for m s
  by (rule passive_invI) (auto simp: log_event_def dest: open_order_place)

interpretation ope: passive_inv "\<lambda>w. opens_flat m s (w_trace w) \<and> flat_since m s (w_trace w)" for m s
  by (rule passive_invI) (auto simp: log_event_def dest: open_order_place)

interpretation clos: guarded_sends "\<lambda>w. opens_flat m s (w_trace w)" D E dl "\<lambda>i _. oi_reduce_only i" for m s D E dl
  by unfold_locales (auto simp: place_order_once_def split_beta elapse_def log_event_def may_send_def)

interpretation opes: guarded_sends "\<lambda>w. opens_flat m s (w_trace w) \<and> flat_since m s (w_trace w)" D E dl
  "\<lambda>i _. \<not> oi_reduce_only i" for m s D E dl
  by unfold_locales (auto simp: place_order_once_def split_beta elapse_def log_event_def may_send_def)

lemma flat_since_decomp:
  "flat_since m s tr \<Longrightarrow> \<exists>mid t pos older. tr = mid @ (t, EvPosition m s (Inr pos)) # older \<and> sp_szi pos = 0 \<and>
     list_all (\<lambda>te. is_place (snd te) \<longrightarrow> open_order (snd te)) mid"
proof (induction m s tr rule: flat_since.induct)
  case (2 m s t ev tr)
  show ?case
  proof (cases "flat_read m s ev")
    case True
    then obtain pos where "ev = EvPosition m s (Inr pos)" "sp_szi pos = 0"
      by (cases "(m, s, ev)" rule: flat_read.cases) auto
    then have "(t, ev) # tr = [] @ (t, EvPosition m s (Inr pos)) # tr \<and> sp_szi pos = 0" by simp
    then show ?thesis by fastforce
  next
    case False
    with 2 obtain mid t' pos older where "tr = mid @ (t', EvPosition m s (Inr pos)) # older" "sp_szi pos = 0"
      "list_all (\<lambda>te. is_place (snd te) \<longrightarrow> open_order (snd te)) mid" by auto
    with 2(2) False have "(t, ev) # tr = ((t, ev) # mid) @ (t', EvPosition m s (Inr pos)) # older \<and> sp_szi pos = 0 \<and>
      list_all (\<lambda>te. is_place (snd te) \<longrightarrow> open_order (snd te)) ((t, ev) # mid)" by simp
    then show ?thesis by blast
  qed
qed simp

lemma opens_flatD: "opens_flat m s (later @ (t, ev) # earlier) \<Longrightarrow> open_order ev \<Longrightarrow> flat_since m s earlier"
  by (induction later) auto

lemma verify_flat_flat:
  assumes "verify_flat D E X r w = (Inr m, w')"
  shows "ex_master X = Some m \<and> exit_code r = 0 \<and> durable_unresolved D E w = Inr [] \<and>
    (\<exists>t pos tr. w_trace w' = (t, EvPosition m (ex_symbol X) (Inr pos)) # tr \<and> sp_szi pos = 0)"
proof -
  have no: "fst (stop_position D E X n e v) \<noteq> Inr m" for n e v
    by (auto simp: stop_position_def fst_try_w_Inr)
  have 0: "fst (verify_flat D E X r w) = Inr m" "snd (verify_flat D E X r w) = w'" using assms by simp_all
  then show ?thesis
    by (auto simp: verify_flat_def no fst_try_w_Inr snd_try_w_Inr try_w_def fetch_perp_position_def elapse_def log_event_def
        split: if_splits prod.splits sum.splits)
qed

lemma first_run_completion:
  assumes "first_run D E X g w = Some (r, w')"
  obtains b guard where "run_twap_completion D E (ex_plan X) (ex_prior_notional X) b guard w = Some (r, w')"
  using assms
  by (auto simp: first_run_def run_twap_deferred_position_guard_def run_twap_journaled_with_prior_notional_def
      split: option.splits)

lemma open_phase_end:
  assumes "run_open_phase D E X p m op r w = Some (res, w')"
  obtains n e where "(res, w') = stop_position D E X n e w" | e where "res = Inl e" and "w' = w"
  | sg remaining prior guard open_report where
      "run_twap_completion D E (open_plan_of X m op sg remaining) prior True guard w = Some (open_report, w')"
      and "res = Inr (combine_reports D r open_report)"
  using assms
  by (auto simp: run_open_phase_def try_o_Some run_o_Some Let_def run_twap_deferred_position_guard_def split: if_splits)
   metis+

lemma execute_opens_flat:
  assumes "execute D E X w = Some (res, w')" and "ex_position X = Some p" and "crosses_zero p"
    and "pl_reduce_only (ex_plan X)" and "ex_master X = Some m" and "opens_flat m (ex_symbol X) (w_trace w)"
  shows "opens_flat m (ex_symbol X) (w_trace w')"
proof -
  let ?P = "\<lambda>w. opens_flat m (ex_symbol X) (w_trace w)"
  have first: "?P w1" if run: "first_run D E X g w = Some (r1, w1)" for g r1 w1
  proof -
    obtain b gd where "run_twap_completion D E (ex_plan X) (ex_prior_notional X) b gd w = Some (r1, w1)"
      using first_run_completion [OF run] by blast
    from clos.run_guarded [OF this assms(6) _ refl] assms(4) show ?thesis by (simp add: within_plan_def)
  qed
  have cross: "?P w2" if c: "cross_zero D E X r w1 = Some (x, w2)" and P: "?P w1" for r w1 x w2
    using c assms(2,3)
  proof (cases rule: cross_zero_stages)
    case (stopped e)
    with clo.verify_flat_keeps [OF P, of D E X r] show ?thesis by simp
  next
    case (opened m' v op)
    from verify_flat_flat [OF opened(1)] assms(5) have "m' = m" and "flat_since m (ex_symbol X) (w_trace v)" by auto
    then have Q: "?P v \<and> flat_since m (ex_symbol X) (w_trace v)"
      using clo.verify_flat_keeps [OF P, of D E X r] opened(1) by simp
    from opened(2) show ?thesis
    proof (cases rule: open_phase_end)
      case (1 n e)
      with ope.stop_position_keeps [OF Q, of D E X n e] show ?thesis by (metis snd_conv)
    next
      case (2 e)
      with Q show ?thesis by simp
    next
      case (3 sg remaining prior guard open_report)
      from opes.run_guarded [OF this(1) Q _ refl] show ?thesis by (simp add: within_plan_def open_plan_of_def)
    qed
  qed
  from assms(1) show ?thesis
  proof (cases rule: execute_stages)
    case refused
    with assms(6) show ?thesis by simp
  next
    case crossing_failed
    with first cross show ?thesis by blast
  next
    case report_failed
    with first cross show ?thesis by blast
  next
    case (judged g r1 w1 r2 w2 r3)
    with first cross have "?P w2" by blast
    from clo.judge_and_verify_keeps [OF this, of D E X r3] judged show ?thesis by simp
  qed
qed

section \<open>Success on a position target\<close>

text \<open>The last call of a trace that was not a journal record.\<close>

definition last_call :: "(nanos \<times> event) list \<Rightarrow> event option" where
  "last_call tr = map_option snd (List.find (\<lambda>te. \<not> is_record (snd te)) tr)"

lemma last_call_simps [simp]:
  "is_record ev \<Longrightarrow> last_call ((t, ev) # tr) = last_call tr"
  "\<not> is_record ev \<Longrightarrow> last_call ((t, ev) # tr) = Some ev"
  by (simp_all add: last_call_def)

definition ends_completed :: "world \<Rightarrow> bool" where
  "ends_completed w \<longleftrightarrow>
     (case rev (w_journal w) of FinalReport c f u note wr # _ \<Rightarrow> c \<and> u = [] | _ \<Rightarrow> False)"

lemma verify_target_on_target:
  assumes "verify_target D E X p w = (Inr (), w')"
  shows "\<exists>m pos. ex_master X = Some m \<and> sp_szi pos = pp_target_szi p \<and>
    last_call (w_trace w') = Some (EvPosition m (ex_symbol X) (Inr pos)) \<and>
    (e_has_journal E \<longrightarrow> ends_completed w')"
proof -
  have no: "stop_position D E X n e v \<noteq> (Inr (), w')" for n e v
    using fst_try_w_Inr by (auto simp: stop_position_def try_w_def split: prod.splits sum.splits)
  obtain m where m: "ex_master X = Some m"
    using assms by (cases "ex_master X") (auto simp: verify_target_def try_w_def ok_or_def)
  obtain res lat where e: "e_position E w m (ex_symbol X) = (res, lat)" by (cases "e_position E w m (ex_symbol X)")
  let ?w1 = "elapse lat (log_event (EvPosition m (ex_symbol X) res) w)"
  from assms m e no obtain pos where pos: "res = Inr pos" "sp_szi pos = pp_target_szi p"
    by (cases res) (auto simp: verify_target_def try_w_def ok_or_def fetch_perp_position_def split: if_splits)
  have last: "last_call (w_trace ?w1) = Some (EvPosition m (ex_symbol X) (Inr pos))"
    by (simp add: elapse_def log_event_def pos)
  show ?thesis
  proof (cases "e_has_journal E")
    case False
    with assms m e pos have "w' = ?w1"
      by (auto simp: verify_target_def try_w_def ok_or_def fetch_perp_position_def)
    with m pos False last show ?thesis by auto
  next
    case True
    with assms m e pos obtain rep where
      "record_report E (replayed_report D E True [] ''position-aware terminal verification matched frozen target'' rep ?w1) ?w1
         = (Inr (), w')"
      by (auto simp: verify_target_def try_w_def ok_or_def fetch_perp_position_def split: sum.splits)
    then have "last_call (w_trace w') = last_call (w_trace ?w1) \<and> ends_completed w'"
      by (auto simp: record_report_def replayed_report_def record_durable_def elapse_def log_event_def Let_def
          ends_completed_def check_def split: prod.splits if_splits)
    with m pos last show ?thesis by auto
  qed
qed

lemma execute_success:
  assumes "execute D E X w = Some (Inr 0, w')" and "ex_position X = Some p"
  obtains w1 where "verify_target D E X p w1 = (Inr (), w')"
  using assms(1)
proof (cases rule: execute_stages)
  case (judged g r1 w1 r2 w2 r3)
  then obtain r4 w3 w4 where "verify_target D E X p w3 = (Inr (), w4)" "conclude E X r4 w4 = (Inr 0, w')"
    using assms(2)
    by (auto simp: judge_and_verify_def try_w_def split: prod.splits sum.splits option.splits if_splits)
  then have "verify_target D E X p w3 = (Inr (), w')"
    by (auto simp: conclude_def emit_live_report_json_def try_w_def split: sum.splits if_splits)
  then show thesis by (rule that)
qed simp_all

section \<open>An execution returns\<close>

lemma run_open_phase_total:
  assumes "cl_child_algo (ex_cli X) = Follow \<longrightarrow> cl_follow_poll_secs (ex_cli X) \<noteq> 0"
  shows "\<exists>y. run_open_phase D E X p m op r w = Some y"
proof -
  have ne: "run_twap_completion D E (open_plan_of X m op sg z) prior True g v \<noteq> None" for sg z prior g v
    unfolding not_None_eq using assms
    by (auto simp: open_plan_of_def unat_gt_0 intro!: run_completion_total [simplified split_paired_Ex [symmetric]])
  show ?thesis
    by (auto simp: run_open_phase_def try_o_def run_o_def Let_def run_twap_deferred_position_guard_def ne
        split: prod.split sum.split option.split)
qed

lemma execute_total:
  assumes "cl_child_algo (ex_cli X) = Follow \<longrightarrow> cl_follow_poll_secs (ex_cli X) \<noteq> 0"
    and "pl_child_algo (ex_plan X) = Follow \<longrightarrow> 0 < pl_follow_poll_secs (ex_plan X)"
  shows "\<exists>res w'. execute D E X w = Some (res, w')"
proof -
  have first: "\<exists>rep w'. first_run D E X g v = Some (rep, w')" for g v
    using run_completion_total [OF assms(2)]
    by (auto simp: first_run_def run_twap_deferred_position_guard_def run_twap_journaled_with_prior_notional_def
        split: option.split)
  have cross: "\<exists>y. cross_zero D E X r v = Some y" for r v
    using run_open_phase_total [OF assms(1)]
    by (auto simp: cross_zero_def try_o_def split: option.split list.split prod.split sum.split)
  show ?thesis
    unfolding execute_def try_o_def run_o_def bind_o_def using first cross
    by (auto split: prod.split sum.split option.split) (metis option.distinct(1))+
qed

end
