(* ===== verification/Execute_Props.thy ===== *)
theory Execute_Props
  imports Execute_Facts Resume_Props
begin

text \<open>
  The properties of the execution stage, and the concrete reversal on which they are applied: a short
  of one coin is closed, the account is read flat, and a long of one coin is opened.
\<close>

section \<open>A continued run stays within the original total\<close>

context decimal_crate
begin

text \<open>All full slices but the last fit into the remainder, although the quotient is rounded.\<close>

lemma continuation_slices_fit:
  assumes per: "on_grid n per" "0 < per" and rem: "on_grid n rem" "0 < rem"
    and n: "n \<le> 28" and small: "rem * 10 ^ n \<le> 10 ^ 28" "per * 10 ^ n \<le> 10 ^ 28"
  shows "per * of_nat (continuation_slices D rem per - 1) \<le> rem"
proof -
  let ?q = "d_div D rem per"
  let ?k = "if 0 \<le> (of_int \<lfloor>?q\<rfloor> :: rat) \<and> (of_int \<lfloor>?q\<rfloor> :: rat) \<le> of_nat U32_MAX then nat \<lfloor>?q\<rfloor> else 0"
  obtain m :: int where m: "per = of_int m / 10 ^ n" by (rule on_gridE [OF per(1)])
  with per(2) have "1 \<le> m" by (simp add: zero_less_divide_iff)
  then have unit: "1 \<le> per * 10 ^ n" by (simp add: m)
  have "rem * 1 \<le> rem * (per * 10 ^ n)" by (rule mult_left_mono [OF unit]) (use rem in simp)
  with per have "rem / per \<le> rem * 10 ^ n" by (simp add: field_simps)
  with rem per small have "\<bar>rem / per\<bar> \<le> 10 ^ 28" by simp
  from d_div_error [of per rem 28, OF _ this] per have q: "\<bar>?q - rem / per\<bar> \<le> 1" by simp
  then have "of_int \<lfloor>?q\<rfloor> \<le> rem / per + 1" by linarith
  then have over: "per * of_int \<lfloor>?q\<rfloor> \<le> rem + per" using per by (simp add: field_simps)
  have k: "per * of_nat ?k \<le> rem + per" "per * (of_nat ?k - 1) \<le> rem"
    using over per rem by (auto simp: algebra_simps)
  show ?thesis
  proof (cases "d_mul D (of_int \<lfloor>?q\<rfloor>) per < rem")
    case False
    then have "continuation_slices D rem per - 1 \<le> ?k - 1"
      by (auto simp: continuation_slices_def Let_def U32_MAX_def)
    then have "per * of_nat (continuation_slices D rem per - 1) \<le> per * of_nat (?k - 1)" using per by simp
    also have "\<dots> \<le> rem" using k rem by (cases "?k = 0") (auto simp: of_nat_diff)
    finally show ?thesis .
  next
    case True
    have "continuation_slices D rem per - 1 \<le> ?k"
      by (auto simp: continuation_slices_def Let_def U32_MAX_def)
    then have le: "per * of_nat (continuation_slices D rem per - 1) \<le> per * of_nat ?k" using per by simp
    show ?thesis
    proof (cases "?k = 0")
      case True
      with le rem show ?thesis by simp
    next
      case False
      then have kq: "(of_nat ?k :: rat) = of_int \<lfloor>?q\<rfloor>" by (auto split: if_splits)
      have g: "on_grid n (per * of_nat ?k)" by (rule on_grid_mult_nat [OF per(1)])
      have "(per * of_nat ?k) * 10 ^ n \<le> (rem + per) * 10 ^ n" by (rule mult_right_mono [OF k(1)]) simp
      also have "\<dots> < 2 ^ 96" using small by (simp add: distrib_right)
      finally have "representable (per * of_nat ?k)" using g n per by (intro representableI) simp_all
      then have "d_mul D (of_int \<lfloor>?q\<rfloor>) per = of_int \<lfloor>?q\<rfloor> * per"
        unfolding kq by (intro d_mul_exact) (simp add: mult.commute)
      with True kq have "per * of_nat ?k < rem" by (simp add: mult.commute)
      with le show ?thesis by simp
    qed
  qed
qed

lemma continued_plan_sized:
  assumes "sized_plan plan" and "0 < pl_per_slice plan" and "pl_per_slice plan \<le> pl_total_adjusted plan"
    and small: "pl_total_adjusted plan * 10 ^ pl_sz_decimals plan \<le> 10 ^ 28"
    and "on_grid (pl_sz_decimals plan) filled" and "0 \<le> filled" and "filled * 10 ^ pl_sz_decimals plan \<le> 10 ^ 28"
    and c: "continuation_plan D plan filled mid deadline now = Inr (Continue plan')"
  shows "sized_plan plan' \<and> pl_sz_decimals plan' = pl_sz_decimals plan \<and>
    pl_total_adjusted plan' = pl_total_adjusted plan - filled"
proof -
  let ?n = "pl_sz_decimals plan" and ?rem = "d_sub D (pl_total_adjusted plan) filled"
  from c obtain dl where plan': "plan' = plan\<lparr>pl_total_adjusted := ?rem,
      pl_slices := continuation_slices D ?rem (pl_per_slice plan),
      pl_duration := unwrap_or (remaining_execution_window dl now) 0\<rparr>"
    and pos: "0 < ?rem"
    by (auto simp: continuation_plan_def Let_def and_then_Inr split: if_splits)
  note sz = assms(1) [unfolded sized_plan_def]
  have g: "on_grid ?n (pl_total_adjusted plan - filled)" using sz assms(5) by (simp add: on_grid_diff)
  have "representable (pl_total_adjusted plan - filled)"
  proof (rule representableI [OF g])
    have "0 \<le> pl_total_adjusted plan * 10 ^ ?n" "0 \<le> filled * 10 ^ ?n" using sz assms(6) by simp_all
    with small assms(7) show "\<bar>pl_total_adjusted plan - filled\<bar> * 10 ^ ?n < 2 ^ 96"
      by (auto simp: left_diff_distrib abs_if)
  qed (use sz in simp)
  then have rem: "?rem = pl_total_adjusted plan - filled" by (simp add: d_sub_exact)
  have le: "x * 10 ^ ?n \<le> 10 ^ 28" if "x \<le> pl_total_adjusted plan" for x
    by (rule order_trans [OF mult_right_mono [OF that] small]) simp
  have "pl_per_slice plan * of_nat (continuation_slices D ?rem (pl_per_slice plan) - 1) \<le> ?rem"
    using sz assms(2,3,6) g pos rem by (intro continuation_slices_fit [of ?n] le) simp_all
  moreover have "?rem * 10 ^ ?n < 2 ^ 96" by (rule le_less_trans [OF le]) (simp_all add: rem assms(6))
  ultimately show ?thesis using sz g pos by (simp add: plan' rem sized_plan_def)
qed

end

text \<open>C30: a resumed run and the run it continues together never execute more than the original total: the
  fills that the journal already accounts for, plus whatever the continuation reports as filled, stay
  within the adjusted total of the original plan, on any exchange that reports sizes on the grid. The
  sizes are bounded so that the products the code forms are exact.\<close>

theorem continuation_never_overfills:
  assumes "decimal_crate D" and "grid_env (pl_sz_decimals plan) E" and "sized_plan plan"
    and "0 < pl_per_slice plan" and "pl_per_slice plan \<le> pl_total_adjusted plan"
    and "pl_total_adjusted plan * 10 ^ pl_sz_decimals plan \<le> 10 ^ 28"
    and "on_grid (pl_sz_decimals plan) filled" and "0 \<le> filled" and "filled * 10 ^ pl_sz_decimals plan \<le> 10 ^ 28"
    and "continuation_plan D plan filled mid deadline now = Inr (Continue plan')"
    and "run_twap_completion D E plan' prior defer guard w = Some (rep, w')"
  shows "filled + rp_filled rep \<le> pl_total_adjusted plan"
proof -
  have c: "sized_plan plan' \<and> pl_sz_decimals plan' = pl_sz_decimals plan \<and>
      pl_total_adjusted plan' = pl_total_adjusted plan - filled"
    by (rule decimal_crate.continued_plan_sized [OF assms(1,3-10)])
  with run_filled_bounds [OF assms(1) _ _ assms(11)] assms(2) show ?thesis by simp
qed

definition demo_rest :: twap_plan where
  "demo_rest = demo_plan\<lparr>pl_total_adjusted := 3 / 2, pl_slices := 2, pl_duration := 60000000000\<rparr>"

lemma demo_continuation_plan:
  "continuation_plan exact_dec demo_plan (1 / 2) 100 (Some 60000) 0 = Inr (Continue demo_rest)"
proof -
  have "d_sub exact_dec 2 (1 / 2) = 3 / 2" "d_mul exact_dec (3 / 2) 100 = 150"
    "d_div exact_dec (3 / 2) 1 = 3 / 2" "d_mul exact_dec 1 1 = 1" "\<lfloor>3 / 2 :: rat\<rfloor> = 1" by code_simp+
  moreover from this have "continuation_slices exact_dec (3 / 2) 1 = 2"
    by (simp add: continuation_slices_def U32_MAX_def Let_def)
  ultimately show ?thesis
    by (simp add: continuation_plan_def demo_plan_def demo_rest_def ok_or_def and_then_def MIN_NOTIONAL_USD_def
        remaining_execution_window_def checked_sub_u64_def duration_of_millis_def unwrap_or_def ns_per_ms_def)
qed

lemma demo_continuation_run:
  "\<exists>rep w'. run_twap_completion exact_dec (scripted_env two_fills True None) demo_rest 0 False None world_init
     = Some (rep, w') \<and> 0 < rp_filled rep"
proof -
  have "round_size exact_dec (1 / 2) 2 = 1 / 2" by code_simp
  then show ?thesis
    by (simp add: run_eval run_defs demo_rest_def demo_plan_def finalize_journal_def replay_def map_err_def upt_conv_Cons
        cong: try_w_cong_weak)
qed

theorem continuation_never_overfills_witness:
  "\<exists>rep w'. continuation_plan exact_dec demo_plan (1 / 2) 100 (Some 60000) 0 = Inr (Continue demo_rest) \<and>
     run_twap_completion exact_dec (scripted_env two_fills True None) demo_rest 0 False None world_init = Some (rep, w') \<and>
     0 < rp_filled rep \<and> 1 / 2 + rp_filled rep \<le> pl_total_adjusted demo_plan"
proof -
  have half: "on_grid 2 (1 / 2)" unfolding on_grid_def by (simp add: Ints_def)
  obtain rep w' where r: "run_twap_completion exact_dec (scripted_env two_fills True None) demo_rest 0 False None world_init
      = Some (rep, w')" "0 < rp_filled rep"
    using demo_continuation_run by blast
  have "1 / 2 + rp_filled rep \<le> pl_total_adjusted demo_plan"
    by (rule continuation_never_overfills [OF exact.decimal_crate_axioms _ _ _ _ _ _ _ _ demo_continuation_plan r(1)])
      (simp_all add: demo_plan_def two_fills_grid half sized_plan_def on_grid_def [of _ "1"] on_grid_def [of _ "2"])
  with r demo_continuation_plan show ?thesis by blast
qed

section \<open>A reversal\<close>

definition reversal :: position_plan where
  "reversal =
     \<lparr>pp_symbol = ''BTC'', pp_current_szi = - 1, pp_target_szi = 1,
      pp_phases = [\<lparr>ph_kind = CloseToFlat, ph_side = Long, ph_size = 1, ph_reduce_only = True\<rparr>,
                   \<lparr>ph_kind = OpenFromFlat, ph_side = Long, ph_size = 1, ph_reduce_only = False\<rparr>]\<rparr>"

definition reversal_cli :: cli where
  "reversal_cli = demo_cli\<lparr>cl_side := None, cl_size := None, cl_target_sz := Some 1, cl_slices := 1, cl_read_only := False,
     cl_slippage_bps := 50, cl_max_book_age_ms := 0\<rparr>"

definition reversal_execution :: execution where
  "reversal_execution =
     \<lparr>ex_cli = reversal_cli, ex_symbol = ''BTC'', ex_asset_index = 0, ex_sz_decimals = 2, ex_mid = 100,
      ex_agent = Some ''0xa'', ex_master = Some ''0xm'', ex_max_notional = 1000, ex_deadline = None,
      ex_already_filled = None, ex_prior_notional = 0, ex_original_adjusted = 1, ex_original_requested = 1,
      ex_position = Some reversal, ex_resumed = None,
      ex_plan = demo_plan\<lparr>pl_slices := 1, pl_total_adjusted := 1, pl_total_requested := 1, pl_reduce_only := True\<rparr>,
      ex_emit = (\<lambda>w. Inr ())\<rparr>"

text \<open>Every order fills, and the position follows the orders sent.\<close>

definition reversal_env :: "bool \<Rightarrow> env" where
  "reversal_env j =
     (scripted_env (two_fills\<lparr>sc_places := [Inr (Filled 41 1 100), Inr (Filled 42 1 100)]\<rparr>) j None)
       \<lparr>e_position := \<lambda>w u s. (Inr \<lparr>sp_symbol = s, sp_szi = of_nat (count_events is_place w) - 1\<rparr>, 1000000)\<rparr>"

lemmas execute_eval = execute_def try_o_def run_o_def bind_o_def first_phase_guard_def first_run_def fold_back_def
  run_twap_deferred_position_guard_def cross_zero_def crosses_zero_def verify_flat_def exit_code_def
  durable_unresolved_def run_open_phase_def execution_sizing_def compute_sizing_def remaining_window_def
  durable_notional_def open_plan_of_def combine_reports_def durable_report_def logical_report_def phase_total_def
  judge_and_verify_def verify_target_def conclude_def emit_live_report_json_def or_else_def

lemma checked_1_2: "checked 1 = Some 1" "checked 2 = Some 2"
  by code_simp+

lemma demo_reversal:
  "\<exists>w'. execute exact_dec (reversal_env False) reversal_execution world_init = Some (Inr 0, w') \<and>
     count_events is_place w' = 2 \<and> count_events open_order w' = 1"
  by (simp add: execute_eval reversal_execution_def reversal_def reversal_env_def reversal_cli_def demo_cli_def
      run_eval run_defs reached_or_crossed_def upt_conv_Cons map_err_def remaining_execution_window_def
      sat_add_u64_def checked_sub_u64_def duration_of_millis_def and_then_def checked_1_2 is_read_only_def u64_max_def cong: try_w_cong_weak)

text \<open>C28: a reversal opens the new position only from a flat account: before every order that may
  increase a position, the account was read with a signed size of exactly zero, and no closing order
  was sent after that read; whatever else the phases do, and wherever they stop.\<close>

theorem reversal_opens_only_when_flat:
  assumes "execute D E X w = Some (res, w')" and "ex_position X = Some p" and "crosses_zero p"
    and "pl_reduce_only (ex_plan X)" and "ex_master X = Some m" and "w_trace w = []"
    and "w_trace w' = later @ (t, EvPlace i a x r) # earlier" and "\<not> oi_reduce_only i"
  shows "\<exists>mid t' pos older. earlier = mid @ (t', EvPosition m (ex_symbol X) (Inr pos)) # older \<and> sp_szi pos = 0 \<and>
    list_all (\<lambda>te. is_place (snd te) \<longrightarrow> open_order (snd te)) mid"
proof -
  have "opens_flat m (ex_symbol X) (w_trace w')"
    by (rule execute_opens_flat [OF assms(1-5)]) (simp add: assms(6))
  with assms(7,8) have "flat_since m (ex_symbol X) earlier" by (auto dest: opens_flatD)
  then show ?thesis by (rule flat_since_decomp)
qed

theorem reversal_opens_only_when_flat_witness:
  "\<exists>w' later t i a x r earlier mid t' pos older.
     execute exact_dec (reversal_env False) reversal_execution world_init = Some (Inr 0, w') \<and>
     w_trace w' = later @ (t, EvPlace i a x r) # earlier \<and> \<not> oi_reduce_only i \<and>
     earlier = mid @ (t', EvPosition ''0xm'' ''BTC'' (Inr pos)) # older \<and> sp_szi pos = 0"
proof -
  obtain w' where e: "execute exact_dec (reversal_env False) reversal_execution world_init = Some (Inr 0, w')"
    and n: "count_events open_order w' = 1"
    using demo_reversal by blast
  from n have "filter (\<lambda>te. open_order (snd te)) (w_trace w') \<noteq> []" by (auto simp: count_events_def)
  then obtain t ev where ev: "(t, ev) \<in> set (w_trace w')" "open_order ev"
    by (metis (mono_tags) filter_False prod.collapse)
  then obtain t i a x r where "(t, EvPlace i a x r) \<in> set (w_trace w')" and i: "\<not> oi_reduce_only i"
    by (cases ev) auto
  then obtain later earlier where tr: "w_trace w' = later @ (t, EvPlace i a x r) # earlier" by (meson split_list)
  have "\<exists>mid t' pos older. earlier = mid @ (t', EvPosition ''0xm'' (ex_symbol reversal_execution) (Inr pos)) # older \<and>
      sp_szi pos = 0 \<and> list_all (\<lambda>te. is_place (snd te) \<longrightarrow> open_order (snd te)) mid"
    by (rule reversal_opens_only_when_flat [where X = reversal_execution and p = reversal, OF e _ _ _ _ _ tr i])
      (simp_all add: reversal_execution_def reversal_def crosses_zero_def world_init_def)
  with e tr i show ?thesis by (simp add: reversal_execution_def) blast
qed

section \<open>Success\<close>

text \<open>C29: exit code 0 on a position target is a statement about the exchange: the last call of the whole
  execution read the authoritative position and found exactly the frozen target, and, where there is a
  journal, its last record is a completed final report without unresolved orders.\<close>

theorem position_success_verified:
  assumes "execute D E X w = Some (Inr 0, w')" and "ex_position X = Some p"
  shows "\<exists>m pos. ex_master X = Some m \<and> sp_szi pos = pp_target_szi p \<and>
    last_call (w_trace w') = Some (EvPosition m (ex_symbol X) (Inr pos)) \<and> (e_has_journal E \<longrightarrow> ends_completed w')"
  using execute_success [OF assms] verify_target_on_target by metis

theorem position_success_verified_witness:
  "\<exists>w' pos. execute exact_dec (reversal_env False) reversal_execution world_init = Some (Inr 0, w') \<and>
     sp_szi pos = 1 \<and> last_call (w_trace w') = Some (EvPosition ''0xm'' ''BTC'' (Inr pos))"
proof -
  obtain w' where e: "execute exact_dec (reversal_env False) reversal_execution world_init = Some (Inr 0, w')"
    using demo_reversal by blast
  have "ex_position reversal_execution = Some reversal" by (simp add: reversal_execution_def)
  from position_success_verified [OF e this] obtain m pos where "ex_master reversal_execution = Some m"
    "sp_szi pos = pp_target_szi reversal" "last_call (w_trace w') = Some (EvPosition m (ex_symbol reversal_execution) (Inr pos))"
    by blast
  then have "sp_szi pos = 1 \<and> last_call (w_trace w') = Some (EvPosition ''0xm'' ''BTC'' (Inr pos))"
    by (simp add: reversal_execution_def reversal_def)
  with e show ?thesis by blast
qed

section \<open>Termination\<close>

text \<open>An execution always returns, with an exit code or an error: none of its loops (the slices, the
  re-quoting of resting children in both phases, the settlement polls) runs forever, provided the
  follow-mode poll interval is positive, which the validation of the command line ensures.\<close>

theorem execution_returns:
  assumes "cl_child_algo (ex_cli X) = Follow \<longrightarrow> cl_follow_poll_secs (ex_cli X) \<noteq> 0"
    and "pl_child_algo (ex_plan X) = Follow \<longrightarrow> 0 < pl_follow_poll_secs (ex_plan X)"
  shows "\<exists>res w'. execute D E X w = Some (res, w')"
  using assms by (rule execute_total)

definition follow_reversal :: execution where
  "follow_reversal = reversal_execution\<lparr>
     ex_cli := reversal_cli\<lparr>cl_child_algo := Follow\<rparr>,
     ex_plan := (ex_plan reversal_execution)\<lparr>pl_child_algo := Follow\<rparr>\<rparr>"

theorem execution_returns_witness:
  "\<exists>res w'. execute exact_dec (reversal_env True) follow_reversal world_init = Some (res, w')"
  by (rule execution_returns)
    (simp_all add: follow_reversal_def reversal_execution_def reversal_cli_def demo_cli_def demo_plan_def)

end
