(* ===== verification/Events.thy ===== *)
theory Events
  imports Replay
begin

text \<open>
  The execution events of \<open>src/observability.rs\<close>: the closed vocabulary, and
  \<open>JournalEventProjector::project\<close>, which turns each durable journal record into events. One definition
  per record kind, each returning its events and the next projector. \<open>U\<close> stands for
  \<open>Uuid::parse_str\<close>. The hash maps are only looked up and are maps; the set of completed slices is a
  set, of which only the size is read. The emission time of an event is left out.
\<close>

section \<open>The vocabulary\<close>

datatype execution_mode = ReadOnlyMode | LiveMode

datatype reconciliation_outcome = RecCompleted | RecUnresolved | RecFailed

datatype stop_reason =
  StopCompleted | StopCapReached | StopDeadline | StopInterrupted | StopAbort | StopReconciliationFailed

datatype pair_leg = LegOne | LegTwo

datatype slice_status = SliceFilled | SliceCancelled | SliceRejected | SliceUnknown

datatype run_outcome = RunCompleted | RunAborted | RunIncomplete

datatype execution_stage = StageTrigger | StagePreparation | StageSubmission | StageReconciliation | StageShutdown

datatype failure_reason =
  FailTimeout | FailTransport | FailExchangeRejected | FailInvalidResponse | FailRiskLimit | FailInterrupted

type_synonym uuid = string

datatype event_payload =
    RunStarted uuid symbol side nat execution_mode
  | PreflightCompleted execution_mode
  | RunResumed
  | SlicePrepared nat cloid
  | SliceSubmitted nat cloid
  | SliceAcknowledged nat cloid
  | SliceTerminal nat cloid slice_status
  | Fill nat decimal decimal
  | CapNear decimal
  | CapRemaining decimal
  | Reconciliation reconciliation_outcome nat
  | SliceCompleted nat slice_status decimal
  | ReportFinal run_outcome nat
  | RunStopped stop_reason
  | PairLegAbnormal pair_leg failure_reason
  | ExecutionFailed execution_stage failure_reason

section \<open>Classification of free text\<close>

definition journal_status :: "string \<Rightarrow> slice_status" where
  "journal_status status =
     (if status = ''filled'' then SliceFilled
      else if status = ''canceled'' \<or> status = ''cancelled'' then SliceCancelled
      else if status = ''rejected'' then SliceRejected
      else SliceUnknown)"

definition final_stop_reason :: "string \<Rightarrow> stop_reason" where
  "final_stop_reason note =
     (let lower = to_ascii_lowercase note in
      if contains lower ''notional cap'' \<or> contains lower ''cap reached'' then StopCapReached
      else if contains lower ''deadline'' \<or> contains lower ''duration elapsed'' then StopDeadline
      else if contains lower ''sigint'' \<or> contains lower ''sigterm'' \<or> contains lower ''interrupted'' \<or>
        contains lower ''shutdown requested'' then StopInterrupted
      else StopAbort)"

definition failure_stage :: "string \<Rightarrow> execution_stage" where
  "failure_stage note =
     (let lower = to_ascii_lowercase note in
      if contains lower ''reconcil'' then StageReconciliation
      else if contains lower ''trigger'' then StageTrigger
      else if contains lower ''preflight'' \<or> contains lower ''position'' \<or> contains lower ''book'' \<or>
        contains lower ''meta'' then StagePreparation
      else if contains lower ''order'' \<or> contains lower ''exchange'' \<or> contains lower ''cancel'' \<or>
        contains lower ''settle'' \<or> contains lower ''fill'' then StageSubmission
      else StageShutdown)"

definition failure_reason_of :: "string \<Rightarrow> failure_reason" where
  "failure_reason_of note =
     (let lower = to_ascii_lowercase note in
      if contains lower ''timeout'' \<or> contains lower ''timed out'' then FailTimeout
      else if contains lower ''transport'' \<or> contains lower ''network'' \<or> contains lower ''http'' \<or>
        contains lower ''request failed'' then FailTransport
      else if contains lower ''reject'' then FailExchangeRejected
      else if contains lower ''cap'' \<or> contains lower ''risk'' then FailRiskLimit
      else if contains lower ''interrupt'' \<or> contains lower ''signal'' \<or> contains lower ''shutdown requested''
        then FailInterrupted
      else FailInvalidResponse)"

section \<open>The projector\<close>

record projector =
  pj_mode :: execution_mode
  pj_prepared :: "cloid \<Rightarrow> (decimal \<times> side \<times> tif option) option"
  pj_terminal :: "cloid \<Rightarrow> (decimal \<times> decimal) option"
  pj_completed :: "nat set"
  pj_prior_completed :: nat
  pj_max_notional :: "decimal option"
  pj_accounted :: decimal
  pj_cap_near :: bool
  pj_reconciliation_seen :: bool

definition projector_new :: "execution_mode \<Rightarrow> projector" where
  "projector_new mode =
     \<lparr>pj_mode = mode, pj_prepared = (\<lambda>_. None), pj_terminal = (\<lambda>_. None), pj_completed = {},
      pj_prior_completed = 0, pj_max_notional = None, pj_accounted = 0, pj_cap_near = False,
      pj_reconciliation_seen = False\<rparr>"

definition completed_count :: "projector \<Rightarrow> nat" where
  "completed_count pj = sat_add_u32 (pj_prior_completed pj) (card (pj_completed pj) mod 2 ^ 32)"

definition header_cap :: "dec_lib \<Rightarrow> run_header \<Rightarrow> decimal option" where
  "header_cap D h =
     (case rh_fingerprint h of
        None \<Rightarrow> None
      | Some fp \<Rightarrow>
          (case d_parse D (fp_max_notional_usd fp) of
             Some cap \<Rightarrow> if 0 < cap \<and> cap \<noteq> d_max D then Some cap else None
           | None \<Rightarrow> None))"

definition project_header ::
  "dec_lib \<Rightarrow> (string \<Rightarrow> uuid option) \<Rightarrow> projector \<Rightarrow> run_header \<Rightarrow> event_payload list \<times> projector" where
  "project_header D U pj h =
     (case U (rh_run_id h) of
        None \<Rightarrow> ([], pj)
      | Some run_id \<Rightarrow>
          let cap = header_cap D h;
              phase_count = (case rh_fingerprint h of
                               Some fp \<Rightarrow> max (length (fp_position_phases fp)) 1 | None \<Rightarrow> 1);
              planned = sat_mul_u32 (rh_slices h) (min phase_count U32_MAX)
          in (RunStarted run_id (rh_symbol h) (rh_side h) planned (pj_mode pj) #
                (case cap of Some remaining \<Rightarrow> [CapRemaining remaining] | None \<Rightarrow> []),
              pj\<lparr>pj_max_notional := cap\<rparr>))"

definition project_prepared ::
  "dec_lib \<Rightarrow> projector \<Rightarrow> nat \<Rightarrow> cloid \<Rightarrow> side \<Rightarrow> tif option \<Rightarrow> string \<Rightarrow> event_payload list \<times> projector" where
  "project_prepared D pj i c sd tf px =
     ([SlicePrepared i c],
      (case d_parse D px of
         Some price \<Rightarrow> pj\<lparr>pj_prepared := (pj_prepared pj)(c \<mapsto> (price, sd, tf))\<rparr>
       | None \<Rightarrow> pj))"

text \<open>The price of a terminal fill: the exchange's, or the prepared limit where that is an upper bound.\<close>

definition projected_price :: "dec_lib \<Rightarrow> projector \<Rightarrow> cloid \<Rightarrow> string option \<Rightarrow> decimal option" where
  "projected_price D pj c avg_px =
     (case Option.bind avg_px (d_parse D) of
        Some px \<Rightarrow> Some px
      | None \<Rightarrow>
          (case pj_prepared pj c of
             Some (price, sd, tf) \<Rightarrow> if sd = Long \<or> tf = Some Alo then Some price else None
           | None \<Rightarrow> None))"

definition nonneg_diff :: "dec_lib \<Rightarrow> decimal \<Rightarrow> decimal \<Rightarrow> decimal" where
  "nonneg_diff D a b = max (case d_checked_sub D a b of Some x \<Rightarrow> x | None \<Rightarrow> 0) 0"

text \<open>The fill of a terminal record: only what exceeds the fill already projected for the order.\<close>

definition project_fill ::
  "dec_lib \<Rightarrow> projector \<Rightarrow> nat \<Rightarrow> cloid \<Rightarrow> string \<Rightarrow> string option \<Rightarrow> event_payload list \<times> projector" where
  "project_fill D pj i c filled_sz avg_px =
     (case d_parse D filled_sz of
        None \<Rightarrow> ([], pj)
      | Some filled \<Rightarrow>
          (case Option.bind (projected_price D pj c avg_px) (d_checked_mul D filled) of
             Some ntl \<Rightarrow>
               (case (case pj_terminal pj c of Some prev \<Rightarrow> prev | None \<Rightarrow> (0, 0)) of
                  (prev_sz, prev_ntl) \<Rightarrow>
                    let delta_sz = nonneg_diff D filled prev_sz;
                        delta_ntl = nonneg_diff D ntl prev_ntl
                    in (if 0 < delta_sz \<or> 0 < delta_ntl then [Fill i delta_sz delta_ntl] else [],
                        pj\<lparr>pj_terminal := (pj_terminal pj)(c \<mapsto> (filled, ntl)),
                           pj_accounted :=
                             (case d_checked_add D (pj_accounted pj) delta_ntl of Some a \<Rightarrow> a | None \<Rightarrow> d_max D)\<rparr>))
           | None \<Rightarrow> (if 0 < filled then [Fill i filled 0] else [], pj)))"

definition project_cap :: "dec_lib \<Rightarrow> projector \<Rightarrow> event_payload list \<times> projector" where
  "project_cap D pj =
     (case pj_max_notional pj of
        None \<Rightarrow> ([], pj)
      | Some cap \<Rightarrow>
          let remaining = nonneg_diff D cap (pj_accounted pj);
              threshold = (case d_checked_div D cap 10 of Some x \<Rightarrow> x | None \<Rightarrow> 0)
          in if \<not> pj_cap_near pj \<and> remaining \<le> threshold
             then ([CapRemaining remaining, CapNear remaining], pj\<lparr>pj_cap_near := True\<rparr>)
             else ([CapRemaining remaining], pj))"

definition project_terminal ::
  "dec_lib \<Rightarrow> projector \<Rightarrow> nat \<Rightarrow> cloid \<Rightarrow> string \<Rightarrow> string \<Rightarrow> string option \<Rightarrow> event_payload list \<times> projector" where
  "project_terminal D pj i c status filled_sz avg_px =
     (case project_fill D pj i c filled_sz avg_px of (fills, pj1) \<Rightarrow>
      case project_cap D (pj1\<lparr>pj_completed := insert i (pj_completed pj1)\<rparr>) of (caps, pj2) \<Rightarrow>
        (SliceTerminal i c (journal_status status) # fills @
           SliceCompleted i (journal_status status)
             (case d_parse D filled_sz of Some x \<Rightarrow> x | None \<Rightarrow> 0) # caps,
         pj2))"

definition PHASE_NOTE :: string where
  "PHASE_NOTE = ''phase completed; final position verification deferred''"

definition reported_cap :: "dec_lib \<Rightarrow> whole_run_summary option \<Rightarrow> decimal option" where
  "reported_cap D whole =
     (case whole of
        None \<Rightarrow> None
      | Some wr \<Rightarrow> Option.bind (wr_cap_remaining wr) (d_parse D))"

definition project_final ::
  "dec_lib \<Rightarrow> projector \<Rightarrow> bool \<Rightarrow> cloid list \<Rightarrow> string \<Rightarrow> whole_run_summary option \<Rightarrow>
     event_payload list \<times> projector" where
  "project_final D pj completed unknown note whole =
     (let unresolved = (case whole of Some wr \<Rightarrow> wr_unresolved_cloids wr | None \<Rightarrow> length unknown);
          caps = (case reported_cap D whole of Some remaining \<Rightarrow> [CapRemaining remaining] | None \<Rightarrow> [])
      in if \<not> completed \<and> unresolved = 0 \<and> note = PHASE_NOTE
         then (caps, pj\<lparr>pj_prior_completed := completed_count pj, pj_completed := {}\<rparr>)
         else
           let outcome = (if completed then RunCompleted else if 0 < unresolved then RunIncomplete else RunAborted);
               reason = (if 0 < unresolved then StopReconciliationFailed
                         else if completed then StopCompleted else final_stop_reason note);
               failed = contains (to_ascii_lowercase note) ''reconciliation failed''
           in ((if 0 < unresolved \<or> pj_reconciliation_seen pj \<or> failed
                then [Reconciliation (if failed then RecFailed else if unresolved = 0 then RecCompleted
                                      else RecUnresolved) unresolved]
                else []) @
               (if \<not> completed \<and> unresolved = 0 \<and> reason = StopAbort \<and> \<not> failed
                then [ExecutionFailed (failure_stage note) (failure_reason_of note)] else []) @
               caps @ [RunStopped reason, ReportFinal outcome (completed_count pj)], pj))"

definition project ::
  "dec_lib \<Rightarrow> (string \<Rightarrow> uuid option) \<Rightarrow> projector \<Rightarrow> journal_record \<Rightarrow> event_payload list \<times> projector" where
  "project D U pj r =
     (case r of
        Header h \<Rightarrow> project_header D U pj h
      | Prepared i c _ _ sd tf px _ \<Rightarrow> project_prepared D pj i c sd tf px
      | SubmittedUnknown i c \<Rightarrow> ([SliceSubmitted i c], pj\<lparr>pj_reconciliation_seen := True\<rparr>)
      | Acknowledged i c _ _ \<Rightarrow> ([SliceAcknowledged i c], pj)
      | Terminal i c status f a \<Rightarrow> project_terminal D pj i c status f a
      | FinalReport completed _ unknown note whole \<Rightarrow> project_final D pj completed unknown note whole
      | Abandoned _ \<Rightarrow> ([RunStopped StopAbort, ReportFinal RunAborted (completed_count pj)], pj))"

text \<open>A whole journal, record by record.\<close>

fun project_all ::
  "dec_lib \<Rightarrow> (string \<Rightarrow> uuid option) \<Rightarrow> projector \<Rightarrow> journal_record list \<Rightarrow> event_payload list \<times> projector" where
  "project_all D U pj [] = ([], pj)"
| "project_all D U pj (r # rs) =
     (case project D U pj r of (evs, pj1) \<Rightarrow>
      case project_all D U pj1 rs of (evs', pj2) \<Rightarrow> (evs @ evs', pj2))"

end
