(* ===== verification/Metrics.thy ===== *)
theory Metrics
  imports Events Journal_File
begin

text \<open>
  The consumers of execution events in \<open>src/observability.rs\<close>: the metrics registry, the sidecar event
  log, the alert queue, and \<open>JournalEventObserver\<close>, which feeds all three. Counters are 64-bit words.
  Whether a write of the event log succeeds is decided by \<open>io\<close>, a function of the number of attempts;
  \<open>serde_json\<close> for events is the parameter \<open>J\<close> that reads a line, and \<open>tokio::sync::mpsc\<close> the parameter
  \<open>CH\<close>, a channel whose state is of any type \<open>'q\<close>. The HTTP endpoint and the delivery of an alert are left
  out, apart from the status that a delivery returns.
\<close>

section \<open>The metrics registry\<close>

record gauges =
  g_state :: string
  g_filled_size :: decimal
  g_filled_notional :: decimal
  g_cap_remaining :: decimal
  g_unresolved :: nat
  g_api_errors :: u64
  g_reconciliation_errors :: u64
  g_exit_reason :: string

definition gauges_default :: gauges where
  "gauges_default =
     \<lparr>g_state = ''idle'', g_filled_size = 0, g_filled_notional = 0, g_cap_remaining = 0, g_unresolved = 0,
      g_api_errors = 0, g_reconciliation_errors = 0, g_exit_reason = ''none''\<rparr>"

datatype metric =
  ExecutionEvents | ExecutionFailures | EventWriteFailures | AlertsEnqueued | AlertsDropped | AlertDeliveryFailures

record registry =
  mr_execution_events :: u64
  mr_execution_failures :: u64
  mr_event_write_failures :: u64
  mr_alerts_enqueued :: u64
  mr_alerts_dropped :: u64
  mr_alert_delivery_failures :: u64
  mr_gauges :: gauges

definition registry_default :: registry where
  "registry_default =
     \<lparr>mr_execution_events = 0, mr_execution_failures = 0, mr_event_write_failures = 0, mr_alerts_enqueued = 0,
      mr_alerts_dropped = 0, mr_alert_delivery_failures = 0, mr_gauges = gauges_default\<rparr>"

text \<open>\<open>fetch_add\<close> wraps around.\<close>

fun increment :: "metric \<Rightarrow> registry \<Rightarrow> registry" where
  "increment ExecutionEvents m = m\<lparr>mr_execution_events := mr_execution_events m + 1\<rparr>"
| "increment ExecutionFailures m = m\<lparr>mr_execution_failures := mr_execution_failures m + 1\<rparr>"
| "increment EventWriteFailures m = m\<lparr>mr_event_write_failures := mr_event_write_failures m + 1\<rparr>"
| "increment AlertsEnqueued m = m\<lparr>mr_alerts_enqueued := mr_alerts_enqueued m + 1\<rparr>"
| "increment AlertsDropped m = m\<lparr>mr_alerts_dropped := mr_alerts_dropped m + 1\<rparr>"
| "increment AlertDeliveryFailures m = m\<lparr>mr_alert_delivery_failures := mr_alert_delivery_failures m + 1\<rparr>"

fun stop_reason_name :: "stop_reason \<Rightarrow> string" where
  "stop_reason_name StopCompleted = ''completed''"
| "stop_reason_name StopCapReached = ''cap_reached''"
| "stop_reason_name StopDeadline = ''deadline''"
| "stop_reason_name StopInterrupted = ''interrupted''"
| "stop_reason_name StopAbort = ''abort''"
| "stop_reason_name StopReconciliationFailed = ''reconciliation_failed''"

fun run_outcome_name :: "run_outcome \<Rightarrow> string" where
  "run_outcome_name RunCompleted = ''completed''"
| "run_outcome_name RunAborted = ''aborted''"
| "run_outcome_name RunIncomplete = ''incomplete''"

fun observe_gauges :: "dec_lib \<Rightarrow> event_payload \<Rightarrow> gauges \<Rightarrow> gauges" where
  "observe_gauges D (RunStarted run sy sd n mode) g = g\<lparr>g_state := ''running'', g_exit_reason := ''none''\<rparr>"
| "observe_gauges D RunResumed g = g\<lparr>g_state := ''running'', g_exit_reason := ''none''\<rparr>"
| "observe_gauges D (Fill i sz ntl) g =
     g\<lparr>g_filled_size := d_add D (g_filled_size g) sz, g_filled_notional := d_add D (g_filled_notional g) ntl\<rparr>"
| "observe_gauges D (SliceSubmitted i c) g = g\<lparr>g_api_errors := sat_add_u64 (g_api_errors g) 1\<rparr>"
| "observe_gauges D (CapNear r) g = g\<lparr>g_cap_remaining := r\<rparr>"
| "observe_gauges D (CapRemaining r) g = g\<lparr>g_cap_remaining := r\<rparr>"
| "observe_gauges D (Reconciliation outcome unresolved) g =
     (case outcome of
        RecCompleted \<Rightarrow> g\<lparr>g_unresolved := 0\<rparr>
      | _ \<Rightarrow> g\<lparr>g_unresolved := unresolved,
              g_reconciliation_errors := sat_add_u64 (g_reconciliation_errors g) 1\<rparr>)"
| "observe_gauges D (ExecutionFailed stage reason) g =
     (let g1 = (if stage = StageShutdown then g else g\<lparr>g_api_errors := sat_add_u64 (g_api_errors g) 1\<rparr>)
      in if stage = StageReconciliation
         then g1\<lparr>g_reconciliation_errors := sat_add_u64 (g_reconciliation_errors g1) 1\<rparr> else g1)"
| "observe_gauges D (RunStopped reason) g = g\<lparr>g_state := ''stopped'', g_exit_reason := stop_reason_name reason\<rparr>"
| "observe_gauges D (ReportFinal outcome n) g =
     g\<lparr>g_state := ''finished'',
       g_exit_reason := (if g_exit_reason g = ''none'' then run_outcome_name outcome else g_exit_reason g)\<rparr>"
| "observe_gauges D (PreflightCompleted mode) g = g"
| "observe_gauges D (SlicePrepared i c) g = g"
| "observe_gauges D (SliceAcknowledged i c) g = g"
| "observe_gauges D (SliceTerminal i c s) g = g"
| "observe_gauges D (SliceCompleted i s f) g = g"
| "observe_gauges D (PairLegAbnormal leg reason) g = g"

fun is_failed_event :: "event_payload \<Rightarrow> bool" where
  "is_failed_event (ExecutionFailed stage reason) = True"
| "is_failed_event _ = False"

definition observe_event :: "dec_lib \<Rightarrow> event_payload \<Rightarrow> registry \<Rightarrow> registry" where
  "observe_event D ev m =
     (let m1 = increment ExecutionEvents m;
          m2 = (if is_failed_event ev then increment ExecutionFailures m1 else m1)
      in m2\<lparr>mr_gauges := observe_gauges D ev (mr_gauges m2)\<rparr>)"

definition observe_events :: "dec_lib \<Rightarrow> event_payload list \<Rightarrow> registry \<Rightarrow> registry" where
  "observe_events D evs m = fold (observe_event D) evs m"

section \<open>The alert queue\<close>

record alert =
  al_stage :: execution_stage
  al_reason :: failure_reason

datatype enqueue_outcome = AlertDisabled | AlertEnqueued | AlertDropped

text \<open>The operations of the channel that are used: a refused send and an empty receive are \<open>None\<close>.\<close>

record 'q alert_channel =
  ch_open :: "nat \<Rightarrow> 'q"
  ch_try_send :: "alert \<Rightarrow> 'q \<Rightarrow> 'q option"
  ch_recv :: "'q \<Rightarrow> (alert \<times> 'q) option"
  ch_drop_receiver :: "'q \<Rightarrow> 'q"

text \<open>Whether the hook holds a sender, whether it holds the handle of its worker, and the channel between
  them, if one was opened.\<close>

record 'q alert_hook =
  ah_sender :: bool
  ah_worker :: bool
  ah_channel :: "'q option"

definition alert_hook_disabled :: "'q alert_hook" where
  "alert_hook_disabled = \<lparr>ah_sender = False, ah_worker = False, ah_channel = None\<rparr>"

definition alert_hook_enabled :: "'q alert_channel \<Rightarrow> nat \<Rightarrow> 'q alert_hook" where
  "alert_hook_enabled CH capacity =
     \<lparr>ah_sender = True, ah_worker = True, ah_channel = Some (ch_open CH (max capacity 1))\<rparr>"

definition try_send_alert ::
  "'q alert_channel \<Rightarrow> alert \<Rightarrow> 'q alert_hook \<times> registry \<Rightarrow> enqueue_outcome \<times> 'q alert_hook \<times> registry" where
  "try_send_alert CH a hm =
     (case hm of (h, m) \<Rightarrow>
        (case (ah_sender h, ah_channel h) of
           (True, Some q) \<Rightarrow>
             (case ch_try_send CH a q of
                Some q1 \<Rightarrow> (AlertEnqueued, h\<lparr>ah_channel := Some q1\<rparr>, increment AlertsEnqueued m)
              | None \<Rightarrow> (AlertDropped, h, increment AlertsDropped m))
         | _ \<Rightarrow> (AlertDisabled, h, m)))"

text \<open>One turn of the worker: it delivers the alert it receives, and counts every outcome but a 2xx status
  within the timeout. \<open>None\<close> is a timeout or a failed request.\<close>

definition worker_turn ::
  "'q alert_channel \<Rightarrow> nat option \<Rightarrow> 'q alert_hook \<times> registry \<Rightarrow> 'q alert_hook \<times> registry" where
  "worker_turn CH status hm =
     (case hm of (h, m) \<Rightarrow>
        (case Option.bind (ah_channel h) (ch_recv CH) of
           None \<Rightarrow> (h, m)
         | Some (a, q1) \<Rightarrow>
             (h\<lparr>ah_channel := Some q1\<rparr>,
              (case status of
                 Some s \<Rightarrow> if 200 \<le> s \<and> s < 300 then m else increment AlertDeliveryFailures m
               | None \<Rightarrow> increment AlertDeliveryFailures m))))"

text \<open>The worker ends in time when it has received every alert before the drain timeout; otherwise it is
  aborted, which is counted. Either way its receiver is gone.\<close>

definition close_and_drain ::
  "'q alert_channel \<Rightarrow> nat option list \<Rightarrow> bool \<Rightarrow> 'q alert_hook \<times> registry \<Rightarrow> 'q alert_hook \<times> registry" where
  "close_and_drain CH statuses in_time hm =
     (case hm of (h, m) \<Rightarrow>
        if \<not> ah_worker h then (h\<lparr>ah_sender := False\<rparr>, m)
        else
          (case fold (worker_turn CH) statuses (h\<lparr>ah_sender := False\<rparr>, m) of (h1, m1) \<Rightarrow>
             let h2 = h1\<lparr>ah_worker := False, ah_channel := map_option (ch_drop_receiver CH) (ah_channel h1)\<rparr>
             in if in_time \<and> Option.bind (ah_channel h1) (ch_recv CH) = None then (h2, m1)
                else (h2, increment AlertDeliveryFailures m1)))"

definition drain_timeout :: "nanos \<Rightarrow> nanos" where
  "drain_timeout delivery_timeout = min (max (delivery_timeout * 2) (10 * 1000000)) (5 * 1000000000)"

fun alert_for :: "event_payload \<Rightarrow> alert option" where
  "alert_for (Reconciliation RecFailed n) = Some \<lparr>al_stage = StageReconciliation, al_reason = FailInvalidResponse\<rparr>"
| "alert_for (Reconciliation RecUnresolved n) = Some \<lparr>al_stage = StageReconciliation, al_reason = FailTimeout\<rparr>"
| "alert_for (RunStopped StopCapReached) = Some \<lparr>al_stage = StageShutdown, al_reason = FailRiskLimit\<rparr>"
| "alert_for (RunStopped StopDeadline) = Some \<lparr>al_stage = StageShutdown, al_reason = FailTimeout\<rparr>"
| "alert_for (CapNear r) = Some \<lparr>al_stage = StageShutdown, al_reason = FailRiskLimit\<rparr>"
| "alert_for (ExecutionFailed stage reason) = Some \<lparr>al_stage = stage, al_reason = reason\<rparr>"
| "alert_for ev = None"

section \<open>The event log\<close>

record execution_event =
  ee_schema_version :: nat
  ee_sequence :: u64
  ee_payload :: event_payload

definition execution_event_new :: "u64 \<Rightarrow> event_payload \<Rightarrow> execution_event" where
  "execution_event_new n p = \<lparr>ee_schema_version = 1, ee_sequence = n, ee_payload = p\<rparr>"

text \<open>The writer: the events written so far, the next sequence number, and how often it has written.\<close>

record event_writer =
  ew_written :: "execution_event list"
  ew_next :: u64
  ew_attempts :: nat

definition with_next_sequence :: "u64 \<Rightarrow> event_writer" where
  "with_next_sequence n = \<lparr>ew_written = [], ew_next = max n 1, ew_attempts = 0\<rparr>"

definition emit_event :: "(nat \<Rightarrow> bool) \<Rightarrow> event_payload \<Rightarrow> event_writer \<Rightarrow> execution_event option \<times> event_writer" where
  "emit_event io p w =
     (let ev = execution_event_new (ew_next w) p;
          w1 = w\<lparr>ew_attempts := ew_attempts w + 1\<rparr>
      in if io (ew_attempts w)
         then (Some ev, w1\<lparr>ew_written := ew_written w @ [ev], ew_next := sat_add_u64 (ew_next w) 1\<rparr>)
         else (None, w1))"

definition try_emit ::
  "dec_lib \<Rightarrow> (nat \<Rightarrow> bool) \<Rightarrow> event_payload \<Rightarrow> event_writer \<times> registry \<Rightarrow>
     execution_event option \<times> event_writer \<times> registry" where
  "try_emit D io p wm =
     (case wm of (w, m) \<Rightarrow>
      case emit_event io p w of (res, w1) \<Rightarrow>
        (res, w1, if res = None then increment EventWriteFailures (observe_event D p m) else observe_event D p m))"

text \<open>Opening an existing log: the next number is above every readable one, and a torn last line is
  closed first. \<open>None\<close> is a log that does not exist.\<close>

definition resume_sequence :: "(string \<Rightarrow> execution_event option) \<Rightarrow> string \<Rightarrow> u64" where
  "resume_sequence J bytes =
     sat_add_u64 (fold max (map ee_sequence (List.map_filter J (split_lines bytes))) 0) 1"

definition open_event_log ::
  "(string \<Rightarrow> execution_event option) \<Rightarrow> string option \<Rightarrow> event_writer \<times> string" where
  "open_event_log J content =
     (case content of
        None \<Rightarrow> (with_next_sequence 1, [])
      | Some bytes \<Rightarrow>
          (with_next_sequence (resume_sequence J bytes),
           if bytes \<noteq> [] \<and> last bytes \<noteq> newline then bytes @ [newline] else bytes))"

section \<open>The journal observer\<close>

record 'q observer =
  ob_projector :: projector
  ob_writer :: "event_writer option"
  ob_metrics :: registry
  ob_alerts :: "'q alert_hook"

definition observer_open :: "execution_mode \<Rightarrow> event_writer option \<Rightarrow> registry \<Rightarrow> 'q alert_hook \<Rightarrow> 'q observer" where
  "observer_open mode w m h = \<lparr>ob_projector = projector_new mode, ob_writer = w, ob_metrics = m, ob_alerts = h\<rparr>"

definition emit_payload ::
  "'q alert_channel \<Rightarrow> dec_lib \<Rightarrow> (nat \<Rightarrow> bool) \<Rightarrow> event_payload \<Rightarrow> 'q observer \<Rightarrow> 'q observer" where
  "emit_payload CH D io ev ob =
     (let ob1 = (case ob_writer ob of
                   Some w \<Rightarrow>
                     (case try_emit D io ev (w, ob_metrics ob) of
                        (_, w1, m1) \<Rightarrow> ob\<lparr>ob_writer := Some w1, ob_metrics := m1\<rparr>)
                 | None \<Rightarrow> ob\<lparr>ob_metrics := observe_event D ev (ob_metrics ob)\<rparr>)
      in case alert_for ev of
           None \<Rightarrow> ob1
         | Some a \<Rightarrow>
             (case try_send_alert CH a (ob_alerts ob1, ob_metrics ob1) of
                (_, h, m) \<Rightarrow> ob1\<lparr>ob_alerts := h, ob_metrics := m\<rparr>))"

definition emit_all ::
  "'q alert_channel \<Rightarrow> dec_lib \<Rightarrow> (nat \<Rightarrow> bool) \<Rightarrow> event_payload list \<Rightarrow> 'q observer \<Rightarrow> 'q observer" where
  "emit_all CH D io evs ob = fold (emit_payload CH D io) evs ob"

definition observe_record ::
  "'q alert_channel \<Rightarrow> dec_lib \<Rightarrow> (string \<Rightarrow> uuid option) \<Rightarrow> (nat \<Rightarrow> bool) \<Rightarrow> journal_record \<Rightarrow>
     'q observer \<Rightarrow> 'q observer" where
  "observe_record CH D U io r ob =
     (case project D U (ob_projector ob) r of
        (evs, pj) \<Rightarrow> emit_all CH D io evs (ob\<lparr>ob_projector := pj\<rparr>))"

definition seed_from_records ::
  "dec_lib \<Rightarrow> (string \<Rightarrow> uuid option) \<Rightarrow> journal_record list \<Rightarrow> bool \<Rightarrow> 'q observer \<Rightarrow> 'q observer" where
  "seed_from_records D U rs restore ob =
     (case project_all D U (ob_projector ob) rs of
        (evs, pj) \<Rightarrow>
          ob\<lparr>ob_projector := pj,
             ob_metrics := (if restore then observe_events D evs (ob_metrics ob) else ob_metrics ob)\<rparr>)"

definition emit_resume :: "'q alert_channel \<Rightarrow> dec_lib \<Rightarrow> (nat \<Rightarrow> bool) \<Rightarrow> 'q observer \<Rightarrow> 'q observer" where
  "emit_resume CH D io ob = emit_payload CH D io RunResumed ob"

definition emit_preflight :: "'q alert_channel \<Rightarrow> dec_lib \<Rightarrow> (nat \<Rightarrow> bool) \<Rightarrow> 'q observer \<Rightarrow> 'q observer" where
  "emit_preflight CH D io ob = emit_payload CH D io (PreflightCompleted (pj_mode (ob_projector ob))) ob"

definition emit_simulation_started ::
  "'q alert_channel \<Rightarrow> dec_lib \<Rightarrow> (nat \<Rightarrow> bool) \<Rightarrow> uuid \<Rightarrow> symbol \<Rightarrow> side \<Rightarrow> nat \<Rightarrow> 'q observer \<Rightarrow> 'q observer" where
  "emit_simulation_started CH D io run sy sd planned ob =
     emit_preflight CH D io (emit_payload CH D io (RunStarted run sy sd planned ReadOnlyMode) ob)"

definition simulation_final :: "nat \<Rightarrow> bool \<Rightarrow> event_payload list" where
  "simulation_final completed_slices completed =
     (if completed then [] else [ExecutionFailed StageShutdown FailInvalidResponse]) @
     [RunStopped (if completed then StopCompleted else StopAbort),
      ReportFinal (if completed then RunCompleted else RunAborted) completed_slices]"

definition emit_simulation_final ::
  "'q alert_channel \<Rightarrow> dec_lib \<Rightarrow> (nat \<Rightarrow> bool) \<Rightarrow> nat \<Rightarrow> bool \<Rightarrow> 'q observer \<Rightarrow> 'q observer" where
  "emit_simulation_final CH D io completed_slices completed ob =
     emit_all CH D io (simulation_final completed_slices completed) ob"

text \<open>Attaching the observer: a new run projects its header, a resumed run is seeded from the journal.\<close>

definition attach_observer ::
  "'q alert_channel \<Rightarrow> dec_lib \<Rightarrow> (string \<Rightarrow> uuid option) \<Rightarrow> (nat \<Rightarrow> bool) \<Rightarrow> bool \<Rightarrow> bool \<Rightarrow>
     journal_record list \<Rightarrow> run_header \<Rightarrow> 'q observer \<Rightarrow> 'q observer" where
  "attach_observer CH D U io resumed started records h ob =
     emit_preflight CH D io
       (if resumed then
          (let ob1 = seed_from_records D U records (\<not> started) ob
           in if started then ob1 else emit_resume CH D io ob1)
        else observe_record CH D U io (Header h) ob)"

definition read_only_lifecycle ::
  "'q alert_channel \<Rightarrow> dec_lib \<Rightarrow> (nat \<Rightarrow> bool) \<Rightarrow> uuid \<Rightarrow> position_plan \<Rightarrow> nat \<Rightarrow> 'q observer \<Rightarrow> 'q observer" where
  "read_only_lifecycle CH D io run p planned ob =
     (let sd = (case pp_phases p of
                  ph # _ \<Rightarrow> ph_side ph
                | [] \<Rightarrow> if pp_target_szi p < 0 then Short else Long)
      in emit_simulation_final CH D io 0 True (emit_simulation_started CH D io run (pp_symbol p) sd planned ob))"

end
