(* ===== verification/Events_Facts.thy ===== *)
theory Events_Facts
  imports Events Replay_Facts
begin

text \<open>
  The event stream against the durable replay: on a valid journal the projector holds, for every order,
  the fill that the replay accounts, so the fills it emits add up to the durable total; and the near-cap
  warning is emitted at most once.
\<close>

section \<open>Fills of a stream\<close>

fun fill_size :: "event_payload \<Rightarrow> decimal" where
  "fill_size (Fill i sz ntl) = sz"
| "fill_size ev = 0"

definition filled_by :: "event_payload list \<Rightarrow> decimal" where
  "filled_by evs = (\<Sum>ev\<leftarrow>evs. fill_size ev)"

lemma filled_by_simps [simp]:
  "filled_by [] = 0" "filled_by (ev # evs) = fill_size ev + filled_by evs"
  "filled_by (evs @ evs') = filled_by evs + filled_by evs'"
  by (simp_all add: filled_by_def)

lemma caps_no_fill [simp]: "filled_by (fst (project_cap D pj)) = 0"
  by (simp add: project_cap_def Let_def split: option.split)

lemma project_cap_keeps [simp]:
  "pj_prepared (snd (project_cap D pj)) = pj_prepared pj"
  "pj_terminal (snd (project_cap D pj)) = pj_terminal pj"
  by (simp_all add: project_cap_def Let_def split: option.split)

lemma final_no_fill [simp]: "filled_by (fst (project_final D pj b u n w)) = 0"
  by (simp add: project_final_def Let_def split: option.split)

lemma project_final_keeps [simp]:
  "pj_prepared (snd (project_final D pj b u n w)) = pj_prepared pj"
  "pj_terminal (snd (project_final D pj b u n w)) = pj_terminal pj"
  by (simp_all add: project_final_def Let_def)

lemma header_no_fill [simp]: "filled_by (fst (project_header D U pj h)) = 0"
  by (simp add: project_header_def Let_def split: option.split)

lemma project_header_keeps [simp]:
  "pj_prepared (snd (project_header D U pj h)) = pj_prepared pj"
  "pj_terminal (snd (project_header D U pj h)) = pj_terminal pj"
  by (simp_all add: project_header_def Let_def split: option.split)

lemma project_terminal_fill:
  "filled_by (fst (project_terminal D pj i c s f a)) = filled_by (fst (project_fill D pj i c f a))"
  "pj_prepared (snd (project_terminal D pj i c s f a)) = pj_prepared (snd (project_fill D pj i c f a))"
  "pj_terminal (snd (project_terminal D pj i c s f a)) = pj_terminal (snd (project_fill D pj i c f a))"
  using caps_no_fill project_cap_keeps
  by (simp_all add: project_terminal_def split_beta)

section \<open>The durable side\<close>

definition fills_total :: "(cloid \<times> terminal_fill) list \<Rightarrow> decimal" where
  "fills_total fs = (\<Sum>x\<leftarrow>fs. tf_filled_sz (snd x))"

lemma fills_total_insert:
  "fills_total (insert_al c t fs) =
     fills_total fs + tf_filled_sz t - (case lookup_al fs c of Some p \<Rightarrow> tf_filled_sz p | None \<Rightarrow> 0)"
  by (induction c t fs rule: insert_al.induct) (simp_all add: fills_total_def)

text \<open>The projector against the replay state.\<close>

definition default_fill :: "(decimal \<times> decimal) option \<Rightarrow> decimal \<times> decimal" where
  "default_fill x = (case x of Some p \<Rightarrow> p | None \<Rightarrow> (0, 0))"

definition size_fits :: "nat \<Rightarrow> decimal \<Rightarrow> bool" where
  "size_fits n x \<longleftrightarrow> on_grid n x \<and> 0 \<le> x \<and> x * 10 ^ n < 2 ^ 96"

definition projects :: "nat \<Rightarrow> replay_state \<Rightarrow> projector \<Rightarrow> bool" where
  "projects n st pj \<longleftrightarrow>
     (\<forall>c. pj_prepared pj c = map_option (\<lambda>ap. (ap_px ap, ap_side ap, ap_tif ap)) (rs_accounting st c)) \<and>
     (\<forall>c. lookup_al (rs_fills st) c = None \<longrightarrow> pj_terminal pj c = None) \<and>
     (\<forall>c t. lookup_al (rs_fills st) c = Some t \<longrightarrow>
        default_fill (pj_terminal pj c) = (tf_filled_sz t, tf_notional t) \<and> size_fits n (tf_filled_sz t) \<and>
        (tf_filled_sz t = 0 \<longrightarrow> tf_notional t = 0))"

lemma projects_same:
  assumes "projects n st pj" and "rs_accounting st' = rs_accounting st" and "rs_fills st' = rs_fills st"
    and "pj_prepared pj' = pj_prepared pj" and "pj_terminal pj' = pj_terminal pj"
  shows "projects n st' pj'"
  using assms(1) unfolding projects_def assms(2-5) .

lemma projects_new: "projects n replay_init (projector_new mode)"
  by (simp add: projects_def replay_init_def projector_new_def)

text \<open>The terminal sizes of a journal.\<close>

fun sizes_fit :: "dec_lib \<Rightarrow> nat \<Rightarrow> journal_record \<Rightarrow> bool" where
  "sizes_fit D n (Terminal i c s f a) =
     (case d_parse D f of None \<Rightarrow> True | Some x \<Rightarrow> on_grid n x \<and> x * 10 ^ n < 2 ^ 96)"
| "sizes_fit D n r = True"

section \<open>One step\<close>

context decimal_crate
begin

lemma nonneg_diff_exact:
  assumes "n \<le> 28" and "size_fits n x" and "on_grid n y" and "0 \<le> y" and "y \<le> x"
  shows "nonneg_diff D x y = x - y"
proof -
  have "(x - y) * 10 ^ n \<le> x * 10 ^ n" using assms by (intro mult_right_mono) simp_all
  also have "\<dots> < 2 ^ 96" using assms(2) by (simp add: size_fits_def)
  finally have "representable (x - y)"
    using assms by (intro representableI [of n]) (simp_all add: size_fits_def on_grid_diff)
  with assms(5) show ?thesis by (simp add: nonneg_diff_def d_checked_sub_representable)
qed

lemma projected_price_durable:
  assumes "terminal_price D c ap a = Inr px"
    and "pj_prepared pj c = Some (ap_px ap, ap_side ap, ap_tif ap)"
  shows "projected_price D pj c a = Some px"
  using assms
  by (auto simp: terminal_price_def projected_price_def and_then_Inr guard_simps
      split: option.splits if_splits side.splits) (metis side.exhaust)

lemma terminal_step:
  assumes "replay_terminal D st i c s f a = Inr st'" and P: "projects n st pj" and "n \<le> 28"
    and "sizes_fit D n (Terminal i c s f a)"
  shows "projects n st' (snd (project_fill D pj i c f a)) \<and>
    filled_by (fst (project_fill D pj i c f a)) = fills_total (rs_fills st') - fills_total (rs_fills st)"
proof -
  from replay_terminal_Inr [OF assms(1)] obtain filled ap ntl trusted where
    p: "d_parse D f = Some filled" "0 \<le> filled"
    and ap: "rs_accounting st c = Some ap" and acc: "terminal_accounting D c ap filled a = Inr (ntl, trusted)"
    and mono: "case lookup_al (rs_fills st) c of None \<Rightarrow> True
      | Some prev \<Rightarrow> tf_filled_sz prev \<le> filled \<and> tf_notional prev \<le> ntl"
    and st': "st' = set_label (st\<lparr>rs_fills := insert_al c
             \<lparr>tf_filled_sz = filled, tf_notional = ntl, tf_avg_px = trusted\<rparr> (rs_fills st)\<rparr>)
             c LTerminal (StTerminal f a)" by blast
  have pr: "pj_prepared pj c = Some (ap_px ap, ap_side ap, ap_tif ap)"
    and old: "case lookup_al (rs_fills st) c of None \<Rightarrow> pj_terminal pj c = None
      | Some t \<Rightarrow> default_fill (pj_terminal pj c) = (tf_filled_sz t, tf_notional t) \<and> size_fits n (tf_filled_sz t) \<and>
          (tf_filled_sz t = 0 \<longrightarrow> tf_notional t = 0)"
    using P ap by (auto simp: projects_def split: option.split)
  have fits: "size_fits n filled" using assms(4) p by (simp add: size_fits_def)
  obtain psz pntl where prev: "default_fill (pj_terminal pj c) = (psz, pntl)"
    by (cases "default_fill (pj_terminal pj c)")
  from prev old mono p have pz: "0 \<le> psz" "on_grid n psz" "psz \<le> filled" "psz = 0 \<longrightarrow> pntl = 0"
    and prevsz: "(case lookup_al (rs_fills st) c of Some q \<Rightarrow> tf_filled_sz q | None \<Rightarrow> 0) = psz"
    by (auto simp: default_fill_def size_fits_def on_grid_def split: option.splits)
  have delta: "nonneg_diff D filled psz = filled - psz"
    by (rule nonneg_diff_exact [OF assms(3) fits pz(2,1,3)])
  have total: "fills_total (rs_fills st') - fills_total (rs_fills st) = filled - psz"
    by (simp add: st' fills_total_insert prevsz)
  have zero: "filled = 0 \<Longrightarrow> ntl = 0" using acc by (simp add: terminal_accounting_def)
  have rel: "projects n st' pj'"
    if "pj_prepared pj' = pj_prepared pj" and "default_fill (pj_terminal pj' c) = (filled, ntl)"
      and "\<And>c'. c' \<noteq> c \<Longrightarrow> pj_terminal pj' c' = pj_terminal pj c'" for pj'
    using that P fits zero by (auto simp: projects_def st')
  show ?thesis
  proof (cases "Option.bind (projected_price D pj c a) (d_checked_mul D filled)")
    case None
    have z: "filled = 0"
    proof (rule ccontr)
      assume "filled \<noteq> 0"
      with acc p obtain px where "terminal_price D c ap a = Inr px" "d_checked_mul D filled px = Some ntl"
        by (auto simp: terminal_accounting_def and_then_Inr split: if_splits)
      with projected_price_durable [OF _ pr] None show False by simp
    qed
    with pz zero prev None p total show ?thesis
      by (auto simp: project_fill_def intro: rel)
  next
    case (Some m)
    have m: "m = ntl"
    proof (cases "filled = 0")
      case True
      with Some zero show ?thesis
        using d_mul_exact [of 0] by (auto simp: bind_eq_Some_conv representableI [of 0] on_grid_def dest!: d_checked_mul_Some)
    next
      case False
      with acc p obtain px where "terminal_price D c ap a = Inr px" "d_checked_mul D filled px = Some ntl"
        by (auto simp: terminal_accounting_def and_then_Inr split: if_splits)
      with projected_price_durable [OF _ pr] Some show ?thesis by simp
    qed
    have "filled - psz = 0" if "\<not> 0 < filled - psz" using that pz by simp
    with Some m p prev total delta show ?thesis
      by (auto simp: project_fill_def Let_def default_fill_def [symmetric] split: prod.split
          intro!: rel) (auto simp: default_fill_def)
  qed
qed

lemma project_step:
  assumes "replay_record D ord st (k, r) = Inr st'" and P: "projects n st pj" and "n \<le> 28" and "sizes_fit D n r"
  shows "projects n st' (snd (project D U pj r)) \<and>
    filled_by (fst (project D U pj r)) = fills_total (rs_fills st') - fills_total (rs_fills st)"
proof (cases r)
  case (Terminal i c s f a)
  with assms(1) have "replay_terminal D st i c s f a = Inr st'" by (auto simp: replay_record_def split: if_splits)
  from terminal_step [OF this P assms(3)] assms(4) Terminal show ?thesis
    by (auto simp: project_def project_terminal_fill intro: projects_same [OF _ refl refl])
next
  case (Prepared i c t sy sd tf px sz)
  with assms(1) show ?thesis using P
    by (auto simp: replay_record_def replay_prepared_def project_def project_prepared_def Let_def and_then_Inr guard_simps
        projects_def split: option.splits if_splits)
next
  case (FinalReport b f u nt w)
  with assms(1) show ?thesis using P
    by (auto simp: replay_record_def project_def intro: projects_same split: if_splits dest!: replay_final_report_Inr)
next
  case (Header h)
  with assms(1) show ?thesis using P
    by (auto simp: replay_record_def project_def replay_header_def Let_def and_then_Inr
        intro: projects_same split: if_splits option.splits)
qed (use assms in \<open>auto simp: replay_record_def project_def replay_submitted_def replay_acknowledged_def
  replay_abandoned_def and_then_Inr intro: projects_same split: if_splits\<close>)

lemma project_all_step:
  assumes "fold_ok (replay_record D ord) st (enumerate k rs) = Inr st'" and "projects n st pj" and "n \<le> 28"
    and "list_all (sizes_fit D n) rs"
  shows "filled_by (fst (project_all D U pj rs)) = fills_total (rs_fills st') - fills_total (rs_fills st)"
  using assms
proof (induction rs arbitrary: st pj k)
  case (Cons r rs)
  from Cons.prems(1) obtain s1 where s1: "replay_record D ord st (k, r) = Inr s1"
    "fold_ok (replay_record D ord) s1 (enumerate (Suc k) rs) = Inr st'" by (auto simp: and_then_Inr)
  from Cons.prems(4) have g: "sizes_fit D n r" "list_all (sizes_fit D n) rs" by simp_all
  note a = project_step [OF s1(1) Cons.prems(2,3) g(1), of U]
  from Cons.IH [OF s1(2) conjunct1 [OF a] Cons.prems(3) g(2)] a show ?case
    by (simp add: split_beta)
qed simp

end

lemma projected_total:
  assumes "decimal_crate D" and "replay D ord rs = Inr v" and "n \<le> 28" and "list_all (sizes_fit D n) rs"
  shows "filled_by (fst (project_all D U (projector_new mode) rs)) = credited D (vr_summary v)"
proof -
  from replay_Inr [OF assms(2)] obtain st where st: "replay_loop D ord rs = Inr st" "replay_inv D st"
    and v: "su_cloids (vr_summary v) = final_cloids st" by auto
  have "filled_by (fst (project_all D U (projector_new mode) rs)) = fills_total (rs_fills st) - fills_total (rs_fills replay_init)"
    by (rule decimal_crate.project_all_step [OF assms(1) st(1) [unfolded replay_loop_def] projects_new assms(3,4)])
  also have "\<dots> = credited D (vr_summary v)"
    using decimal_crate.credited_fills [OF assms(1) st(2)]
    by (simp add: credited_def v fills_total_def replay_init_def)
  finally show ?thesis .
qed

section \<open>The near-cap warning\<close>

fun near_cap :: "event_payload \<Rightarrow> bool" where
  "near_cap (CapNear r) = True"
| "near_cap ev = False"

lemma project_fill_keeps [simp]:
  "pj_cap_near (snd (project_fill D pj i c f a)) = pj_cap_near pj"
  "filter near_cap (fst (project_fill D pj i c f a)) = []"
  by (auto simp: project_fill_def Let_def split: option.split prod.split)

text \<open>A warning sets the flag, and the flag suppresses every later one.\<close>

lemma project_near_cap:
  "length (filter near_cap (fst (project D U pj r))) + (if pj_cap_near pj then 1 else 0) =
     (if pj_cap_near (snd (project D U pj r)) then 1 else (0 :: nat))"
proof (cases r)
  case (Terminal i c s f a)
  obtain fills pj1 where f: "project_fill D pj i c f a = (fills, pj1)" by (cases "project_fill D pj i c f a")
  have "pj_cap_near pj1 = pj_cap_near pj" "filter near_cap fills = []"
    using project_fill_keeps [of D pj i c f a] f by simp_all
  then show ?thesis
    by (auto simp: Terminal project_def project_terminal_def f project_cap_def Let_def split: option.split)
qed (auto simp: project_def project_header_def project_prepared_def project_final_def Let_def split: option.split)

lemma project_all_near_cap:
  "length (filter near_cap (fst (project_all D U pj rs))) + (if pj_cap_near pj then 1 else 0) =
     (if pj_cap_near (snd (project_all D U pj rs)) then 1 else (0 :: nat))"
proof (induction rs arbitrary: pj)
  case (Cons r rs)
  show ?case using project_near_cap [of D U pj r] Cons.IH [of "snd (project D U pj r)"]
    by (simp add: split_beta)
qed simp

section \<open>Properties\<close>

text \<open>C35: the event stream never over- or under-reports: projected over a valid journal, the sizes of all
  fill events add up to the durable accounting of the run (every order's terminal fill, once), although
  the projector works record by record on its own state, sees repeated terminal records of one order,
  and falls back to the prepared limit where the exchange reports no price.\<close>

theorem projected_fills_durable:
  assumes "decimal_crate D" and "replay D ord rs = Inr v" and "n \<le> 28" and "list_all (sizes_fit D n) rs"
  shows "filled_by (fst (project_all D U (projector_new mode) rs)) = credited D (vr_summary v)"
  using assms by (rule projected_total)

definition repeated_journal :: "journal_record list" where
  "repeated_journal =
     [Header demo_header,
      Prepared 1 7 None ''HYPE'' Long (Some Ioc) ''62'' ''5'',
      Terminal 1 7 ''filled'' ''3'' (Some ''61''),
      Terminal 1 7 ''filled'' ''5'' None]"

lemma repeated_replay: "\<exists>v. replay exact_dec id repeated_journal = Inr v \<and> credited exact_dec (vr_summary v) = 5"
  by (simp add: replay_eval ok_or_def repeated_journal_def credited_def terminal_size_def)

theorem projected_fills_durable_witness:
  "filled_by (fst (project_all exact_dec Some (projector_new LiveMode) repeated_journal)) = 5"
proof -
  obtain v where v: "replay exact_dec id repeated_journal = Inr v" "credited exact_dec (vr_summary v) = 5"
    using repeated_replay by blast
  have "list_all (sizes_fit exact_dec 0) repeated_journal"
    by (simp add: repeated_journal_def on_grid_def)
  from projected_fills_durable [OF exact.decimal_crate_axioms v(1) _ this] v(2) show ?thesis by simp
qed

text \<open>The warning that the notional cap is nearly used up is emitted at most once in the life of a
  projector, whatever records it sees.\<close>

theorem near_cap_once: "length (filter near_cap (fst (project_all D U (projector_new mode) rs))) \<le> 1"
  using project_all_near_cap [of D U "projector_new mode" rs] by (simp add: projector_new_def split: if_splits)

end
