(* ===== verification/Metrics_Facts.thy ===== *)
theory Metrics_Facts
  imports Metrics Events_Facts
begin

text \<open>
  What the consumers of the event stream guarantee: they are independent of the event log, the log is
  numbered without gaps across restarts, every alert is counted once, as sent or as dropped, and a
  completed journal leaves the exit gauges at \<open>completed\<close>. One gauge can go stale, which is shown too.
\<close>

section \<open>The event log cannot influence the rest\<close>

text \<open>Everything an observer holds except its log and the count of failed writes.\<close>

definition core_metrics :: "registry \<Rightarrow> registry" where
  "core_metrics m = m\<lparr>mr_event_write_failures := 0\<rparr>"

definition observer_core :: "'q observer \<Rightarrow> projector \<times> registry \<times> 'q alert_hook" where
  "observer_core ob = (ob_projector ob, core_metrics (ob_metrics ob), ob_alerts ob)"

definition emit_core ::
  "'q alert_channel \<Rightarrow> dec_lib \<Rightarrow> event_payload \<Rightarrow> projector \<times> registry \<times> 'q alert_hook \<Rightarrow>
     projector \<times> registry \<times> 'q alert_hook" where
  "emit_core CH D ev c =
     (case c of (pj, m, h) \<Rightarrow>
        let m1 = observe_event D ev m in
        case alert_for ev of
          None \<Rightarrow> (pj, m1, h)
        | Some a \<Rightarrow> (case try_send_alert CH a (h, m1) of (_, h1, m2) \<Rightarrow> (pj, m2, h1)))"

lemma core_write_failure [simp]: "core_metrics (m\<lparr>mr_event_write_failures := n\<rparr>) = core_metrics m"
  by (simp add: core_metrics_def)

lemma core_increment: "k \<noteq> EventWriteFailures \<Longrightarrow> core_metrics (increment k m) = increment k (core_metrics m)"
  by (cases k) (simp_all add: core_metrics_def)

lemma core_observe [simp]: "core_metrics (observe_event D ev m) = observe_event D ev (core_metrics m)"
  by (simp add: core_metrics_def observe_event_def Let_def)

lemma core_send:
  "try_send_alert CH a (h, core_metrics m) =
     (case try_send_alert CH a (h, m) of (out, h1, m1) \<Rightarrow> (out, h1, core_metrics m1))"
  by (simp add: try_send_alert_def core_metrics_def split: bool.split option.split)

lemma core_try_emit: "core_metrics (snd (snd (try_emit D io ev (w, m)))) = observe_event D ev (core_metrics m)"
  by (simp add: try_emit_def split_beta)

lemma emit_payload_core: "observer_core (emit_payload CH D io ev ob) = emit_core CH D ev (observer_core ob)"
proof -
  define ob1 where "ob1 = (case ob_writer ob of
      Some w \<Rightarrow> (case try_emit D io ev (w, ob_metrics ob) of (_, w1, m1) \<Rightarrow> ob\<lparr>ob_writer := Some w1, ob_metrics := m1\<rparr>)
    | None \<Rightarrow> ob\<lparr>ob_metrics := observe_event D ev (ob_metrics ob)\<rparr>)"
  have one: "ob_projector ob1 = ob_projector ob" "ob_alerts ob1 = ob_alerts ob"
    "core_metrics (ob_metrics ob1) = observe_event D ev (core_metrics (ob_metrics ob))"
    using core_try_emit [of D io ev _ "ob_metrics ob"]
    by (simp_all add: ob1_def split_beta split: option.split)
  show ?thesis
  proof (cases "alert_for ev")
    case None
    with one show ?thesis by (simp add: emit_payload_def ob1_def [symmetric] Let_def observer_core_def emit_core_def)
  next
    case (Some a)
    obtain out h m where send: "try_send_alert CH a (ob_alerts ob1, ob_metrics ob1) = (out, h, m)"
      by (cases "try_send_alert CH a (ob_alerts ob1, ob_metrics ob1)")
    then have "try_send_alert CH a (ob_alerts ob, observe_event D ev (core_metrics (ob_metrics ob))) = (out, h, core_metrics m)"
      by (simp add: one [symmetric] core_send)
    with Some send one show ?thesis
      by (simp add: emit_payload_def ob1_def [symmetric] Let_def observer_core_def emit_core_def)
  qed
qed

lemma emit_all_core: "observer_core (emit_all CH D io evs ob) = fold (emit_core CH D) evs (observer_core ob)"
  by (induction evs arbitrary: ob) (simp_all add: emit_all_def emit_payload_core)

lemma observe_record_core:
  "observer_core ob = observer_core ob' \<Longrightarrow>
   observer_core (observe_record CH D U io r ob) = observer_core (observe_record CH D U io' r ob')"
  by (simp add: observe_record_def emit_all_core split_beta) (simp add: observer_core_def)

lemma observe_records_core:
  "observer_core ob = observer_core ob' \<Longrightarrow>
   observer_core (fold (observe_record CH D U io) rs ob) = observer_core (fold (observe_record CH D U io') rs ob')"
proof (induction rs arbitrary: ob ob')
  case (Cons r rs)
  from Cons.IH [OF observe_record_core [OF Cons.prems]] show ?case by simp
qed simp

section \<open>Numbering of the event log\<close>

definition emit_many :: "(nat \<Rightarrow> bool) \<Rightarrow> event_payload list \<Rightarrow> event_writer \<Rightarrow> event_writer" where
  "emit_many io ps w = fold (\<lambda>p w. snd (emit_event io p w)) ps w"

definition numbered :: "nat \<Rightarrow> event_writer \<Rightarrow> bool" where
  "numbered n w \<longleftrightarrow>
     map (\<lambda>e. unat (ee_sequence e)) (ew_written w) = [n..<n + length (ew_written w)] \<and>
     unat (ew_next w) = n + length (ew_written w)"

lemma emit_numbered:
  assumes "numbered n w" and "unat (ew_next w) < u64_max"
  shows "numbered n (snd (emit_event io p w)) \<and> unat (ew_next (snd (emit_event io p w))) \<le> unat (ew_next w) + 1"
proof (cases "io (ew_attempts w)")
  case True
  from assms(2) have "unat (sat_add_u64 (ew_next w) 1) = unat (ew_next w) + 1" by (simp add: unat_sat_add_u64)
  with True assms(1) show ?thesis
    by (simp add: numbered_def emit_event_def execution_event_new_def Let_def)
next
  case False
  with assms(1) show ?thesis by (simp add: numbered_def emit_event_def Let_def)
qed

lemma emit_many_numbered:
  "numbered n w \<Longrightarrow> unat (ew_next w) + length ps \<le> u64_max \<Longrightarrow> numbered n (emit_many io ps w)"
proof (induction ps arbitrary: w)
  case (Cons p ps)
  from emit_numbered [OF Cons.prems(1), of io p] Cons.prems(2)
  show ?case by (simp add: emit_many_def) (rule Cons.IH [unfolded emit_many_def]; simp)
qed (simp add: emit_many_def)

lemma fold_max_ge: "x \<in> set xs \<or> x \<le> (m :: u64) \<Longrightarrow> x \<le> fold max xs m"
proof (induction xs arbitrary: m)
  case (Cons y ys)
  from Cons.prems have "x \<in> set ys \<or> x \<le> max y m" by (auto simp: le_max_iff_disj)
  from Cons.IH [OF this] show ?case by simp
qed simp

lemma resume_above:
  assumes "J l = Some e" and "l \<in> set (split_lines bytes)" and "unat (resume_sequence J bytes) < u64_max"
  shows "unat (ee_sequence e) < unat (resume_sequence J bytes)"
proof -
  have "e \<in> set (List.map_filter J (split_lines bytes))"
    using assms(1,2) by (force simp: List.map_filter_def)
  then have "ee_sequence e \<in> set (map ee_sequence (List.map_filter J (split_lines bytes)))" by simp
  from fold_max_ge [OF disjI1, OF this]
  have "unat (ee_sequence e) \<le> unat (fold max (map ee_sequence (List.map_filter J (split_lines bytes))) 0)"
    by (simp only: word_le_nat_alt)
  then show ?thesis
    using assms(3) unfolding resume_sequence_def unat_sat_add_u64 by (simp add: min_def split: if_splits)
qed

section \<open>Every alert is counted once\<close>

lemma observe_alert_counters [simp]:
  "mr_alerts_enqueued (observe_event D ev m) = mr_alerts_enqueued m"
  "mr_alerts_dropped (observe_event D ev m) = mr_alerts_dropped m"
  by (simp_all add: observe_event_def Let_def)

lemma core_alert_counters [simp]:
  "mr_alerts_enqueued (core_metrics m) = mr_alerts_enqueued m"
  "mr_alerts_dropped (core_metrics m) = mr_alerts_dropped m"
  by (simp_all add: core_metrics_def)

definition alert_count :: "projector \<times> registry \<times> 'q alert_hook \<Rightarrow> u64" where
  "alert_count c = (case c of (pj, m, h) \<Rightarrow> mr_alerts_enqueued m + mr_alerts_dropped m)"

definition hook_open :: "projector \<times> registry \<times> 'q alert_hook \<Rightarrow> bool" where
  "hook_open c \<longleftrightarrow> (case c of (pj, m, h) \<Rightarrow> ah_sender h \<and> ah_channel h \<noteq> None)"

lemma emit_core_counted:
  "hook_open c \<Longrightarrow> hook_open (emit_core CH D ev c) \<and>
     alert_count (emit_core CH D ev c) = alert_count c + (if alert_for ev = None then 0 else 1)"
  by (auto simp: hook_open_def alert_count_def emit_core_def try_send_alert_def Let_def split: option.splits prod.splits)

text \<open>Whatever the channel accepts and whatever the log does, the two counters grow together by the number
  of alerts that the events raise.\<close>

lemma alerts_counted_once:
  assumes "ah_sender (ob_alerts ob)" and "ah_channel (ob_alerts ob) \<noteq> None"
  shows "mr_alerts_enqueued (ob_metrics (emit_all CH D io evs ob)) + mr_alerts_dropped (ob_metrics (emit_all CH D io evs ob)) =
    mr_alerts_enqueued (ob_metrics ob) + mr_alerts_dropped (ob_metrics ob) +
      of_nat (length (filter (\<lambda>ev. alert_for ev \<noteq> None) evs))"
proof -
  have "hook_open c \<Longrightarrow> alert_count (fold (emit_core CH D) evs c) =
      alert_count c + of_nat (length (filter (\<lambda>ev. alert_for ev \<noteq> None) evs))" for c
    by (induction evs arbitrary: c) (simp_all add: emit_core_counted)
  moreover have "hook_open (observer_core ob)" using assms by (simp add: hook_open_def observer_core_def)
  ultimately have "alert_count (observer_core (emit_all CH D io evs ob)) =
      alert_count (observer_core ob) + of_nat (length (filter (\<lambda>ev. alert_for ev \<noteq> None) evs))"
    by (simp only: emit_all_core)
  then show ?thesis by (simp add: alert_count_def observer_core_def)
qed

section \<open>A channel for the examples\<close>

text \<open>A bounded first-in first-out queue, as \<open>mpsc\<close> documents it: the capacity, the queued alerts, and whether
  the receiver lives.\<close>

definition bounded_channel :: "(nat \<times> alert list \<times> bool) alert_channel" where
  "bounded_channel =
     \<lparr>ch_open = (\<lambda>n. (n, [], True)),
      ch_try_send = (\<lambda>a (n, q, live). if live \<and> length q < n then Some (n, q @ [a], live) else None),
      ch_recv = (\<lambda>(n, q, live). case q of [] \<Rightarrow> None | a # rest \<Rightarrow> Some (a, n, rest, live)),
      ch_drop_receiver = (\<lambda>(n, q, live). (n, [], False))\<rparr>"

section \<open>The last record of a completed journal\<close>

lemma observe_events_append: "observe_events D (evs @ evs') m = observe_events D evs' (observe_events D evs m)"
  by (simp add: observe_events_def)

lemma project_all_append:
  "project_all D U pj (rs @ rs') =
     (fst (project_all D U pj rs) @ fst (project_all D U (snd (project_all D U pj rs)) rs'),
      snd (project_all D U (snd (project_all D U pj rs)) rs'))"
  by (induction rs arbitrary: pj) (simp_all add: split_beta)

lemma replay_completed_report:
  assumes "replay D ord (rs @ [FinalReport True f u note w]) = Inr v"
  shows "u = [] \<and> (case w of None \<Rightarrow> True | Some wr \<Rightarrow> wr_unresolved_cloids wr = 0)"
proof -
  from replay_Inr [OF assms] obtain st where "replay_loop D ord (rs @ [FinalReport True f u note w]) = Inr st" by blast
  then obtain s1 where "replay_record D ord s1 (length rs, FinalReport True f u note w) = Inr st"
    by (auto simp: replay_loop_append and_then_Inr)
  then have "replay_final_report D ord s1 True f u w = Inr st" by (auto simp: replay_record_def split: if_splits)
  then show ?thesis
    by (auto simp: replay_final_report_def validate_whole_run_def Let_def and_then_Inr wr_invalid_def
        split: option.splits if_splits prod.splits)
qed

lemma project_completed_report:
  assumes "u = [] \<and> (case w of None \<Rightarrow> True | Some wr \<Rightarrow> wr_unresolved_cloids wr = 0)"
  obtains evs where "fst (project D U pj (FinalReport True f u note w)) =
    evs @ [RunStopped StopCompleted, ReportFinal RunCompleted (completed_count pj)]"
  using assms by (auto simp: project_def project_final_def Let_def split: option.splits)

section \<open>Properties\<close>

text \<open>C36: observability is a pure consumer: whatever the event log does (absent, failing at any write, or
  healthy) and whatever channel carries the alerts, the projector, the alert queue and all metrics except the count of failed writes end up the
  same after the same records. No failure of the log can suppress an alert or distort a gauge.\<close>

theorem event_log_irrelevant:
  assumes "observer_core ob = observer_core ob'"
  shows "observer_core (fold (observe_record CH D U io) rs ob) = observer_core (fold (observe_record CH D U io') rs ob')"
  using assms by (rule observe_records_core)

theorem event_log_irrelevant_witness:
  "observer_core (fold (observe_record bounded_channel exact_dec Some (\<lambda>_. False)) repeated_journal
       (observer_open LiveMode (Some (with_next_sequence 1)) registry_default (alert_hook_enabled bounded_channel 4))) =
   observer_core (fold (observe_record bounded_channel exact_dec Some (\<lambda>_. True)) repeated_journal
       (observer_open LiveMode None registry_default (alert_hook_enabled bounded_channel 4)))"
  by (rule event_log_irrelevant) (simp add: observer_core_def observer_open_def)

text \<open>The event log numbers its events consecutively across restarts: reopened on any bytes, torn tail
  or not, the events that are written from then on carry consecutive numbers, all above the number of
  every event readable before, and a failed write uses up no number (up to the end of the 64-bit range).\<close>

theorem event_numbers_consecutive:
  assumes "open_event_log J (Some bytes) = (w, bytes')" and "unat (ew_next w) + length ps \<le> u64_max" and "ps \<noteq> []"
  shows "map (\<lambda>e. unat (ee_sequence e)) (ew_written (emit_many io ps w)) =
           [unat (ew_next w)..<unat (ew_next w) + length (ew_written (emit_many io ps w))] \<and>
         (\<forall>l e. l \<in> set (split_lines bytes) \<and> J l = Some e \<longrightarrow> unat (ee_sequence e) < unat (ew_next w))"
proof -
  from assms(1) have w: "w = with_next_sequence (resume_sequence J bytes)" by (simp add: open_event_log_def)
  have n: "numbered (unat (ew_next w)) w" by (simp add: numbered_def w with_next_sequence_def)
  have "length ps \<noteq> 0" using assms(3) by simp
  then have lt: "unat (ew_next w) < u64_max" using assms(2) by linarith
  moreover have ge: "unat (resume_sequence J bytes) \<le> unat (ew_next w)"
    by (simp add: w with_next_sequence_def word_le_nat_alt [symmetric])
  ultimately have "unat (resume_sequence J bytes) < u64_max" by simp
  with resume_above [of J _ _ bytes] ge
  have "unat (ee_sequence e) < unat (ew_next w)" if "l \<in> set (split_lines bytes)" "J l = Some e" for l e
    using that by (meson less_le_trans)
  with emit_many_numbered [OF n assms(2), of io] show ?thesis by (auto simp: numbered_def)
qed

definition demo_event_line :: "string \<Rightarrow> execution_event option" where
  "demo_event_line l = (if l = ''e'' then Some (execution_event_new 41 RunResumed) else None)"

theorem event_numbers_consecutive_witness:
  "map (\<lambda>e. unat (ee_sequence e))
     (ew_written (emit_many (\<lambda>k. k \<noteq> 1) [RunResumed, PreflightCompleted LiveMode, RunStopped StopAbort]
       (fst (open_event_log demo_event_line (Some ''e'')))))
   = [42, 43]"
proof -
  define io :: "nat \<Rightarrow> bool" where "io = (\<lambda>k. k \<noteq> 1)"
  define ps where "ps = [RunResumed, PreflightCompleted LiveMode, RunStopped StopAbort]"
  define w where "w = fst (open_event_log demo_event_line (Some ''e''))"
  have n: "ew_next w = 42"
    by (simp add: w_def open_event_log_def with_next_sequence_def resume_sequence_def newline_def demo_event_line_def
        execution_event_new_def List.map_filter_def sat_add_u64_def u64_max_def)
  have len: "length (ew_written (emit_many io ps w)) = 2"
    by (simp add: emit_many_def ps_def io_def emit_event_def Let_def w_def open_event_log_def with_next_sequence_def)
  have "open_event_log demo_event_line (Some ''e'') = (w, snd (open_event_log demo_event_line (Some ''e'')))"
    by (simp add: w_def)
  from event_numbers_consecutive [OF this, of ps io] n len
  have "map (\<lambda>e. unat (ee_sequence e)) (ew_written (emit_many io ps w)) = [42, 43]"
    by (simp add: ps_def u64_max_def upt_conv_Cons)
  then show ?thesis by (simp only: io_def ps_def w_def)
qed

text \<open>A run that completed is shown as completed: whatever the projector and the registry held before,
  a valid journal that ends in a completed final report leaves the state gauge at \<open>finished\<close> and the
  exit reason at \<open>completed\<close>.\<close>

theorem completed_run_metrics:
  assumes "replay D ord (rs @ [FinalReport True f u note w]) = Inr v"
    and "evs = fst (project_all D U pj (rs @ [FinalReport True f u note w]))"
  shows "g_state (mr_gauges (observe_events D evs m)) = ''finished'' \<and>
         g_exit_reason (mr_gauges (observe_events D evs m)) = ''completed''"
proof -
  obtain pre where "fst (project D U (snd (project_all D U pj rs)) (FinalReport True f u note w)) =
      pre @ [RunStopped StopCompleted, ReportFinal RunCompleted (completed_count (snd (project_all D U pj rs)))]"
    by (rule project_completed_report [OF replay_completed_report [OF assms(1)]])
  then show ?thesis
    by (simp add: assms(2) project_all_append split_beta observe_events_append) (simp add: observe_events_def observe_event_def Let_def)
qed

theorem completed_run_metrics_witness:
  "\<exists>v. replay exact_dec id demo_journal = Inr v \<and>
     g_exit_reason (mr_gauges (observe_events exact_dec
       (fst (project_all exact_dec Some (projector_new LiveMode) demo_journal)) registry_default)) = ''completed''"
proof -
  from demo_replay obtain v where v: "replay exact_dec id demo_journal = Inr v" by blast
  have j: "demo_journal = take 3 demo_journal @ [FinalReport True ''3'' [] [] None]" by (simp add: demo_journal_def)
  from v have v': "replay exact_dec id (take 3 demo_journal @ [FinalReport True ''3'' [] [] None]) = Inr v"
    by (subst (asm) j)
  from completed_run_metrics [OF v' refl, of Some "projector_new LiveMode" registry_default]
  have "g_exit_reason (mr_gauges (observe_events exact_dec
       (fst (project_all exact_dec Some (projector_new LiveMode) demo_journal)) registry_default)) = ''completed''"
    by (subst j) simp
  with v show ?thesis by blast
qed

section \<open>A gauge that goes stale\<close>

text \<open>An incomplete report counts one unresolved order; the resumed run settles it and completes. No
  reconciliation event follows, because no submission was ambiguous, so the gauge keeps its old value.\<close>

definition resumed_journal :: "journal_record list" where
  "resumed_journal =
     [Header demo_header,
      Prepared 1 7 None ''HYPE'' Long (Some Ioc) ''62'' ''5'',
      Acknowledged 1 7 (Some 41) ''open'',
      FinalReport False ''0'' [7] ''shutdown requested'' None,
      Terminal 1 7 ''filled'' ''3'' (Some ''61''),
      FinalReport True ''3'' [] [] None]"

lemma unresolved_gauge_stale:
  "(\<exists>v. replay exact_dec id resumed_journal = Inr v \<and> \<not> is_incomplete (vr_summary v)) \<and>
   g_unresolved (mr_gauges (observe_events exact_dec
     (fst (project_all exact_dec Some (projector_new LiveMode) resumed_journal)) registry_default)) = 1"
proof
  have z: "read_rat ''0'' = Some 0" by code_simp
  show "\<exists>v. replay exact_dec id resumed_journal = Inr v \<and> \<not> is_incomplete (vr_summary v)"
    by (simp add: resumed_journal_def replay_eval ok_or_def replay_acknowledged_def replay_final_report_def
        validate_whole_run_def rs_unresolved_def is_unresolved_def is_incomplete_def z)
  have "final_stop_reason ''shutdown requested'' = StopInterrupted"
    "contains (to_ascii_lowercase ''shutdown requested'') ''reconciliation failed'' = False"
    "contains (to_ascii_lowercase []) ''reconciliation failed'' = False"
    by code_simp+
  then show "g_unresolved (mr_gauges (observe_events exact_dec
     (fst (project_all exact_dec Some (projector_new LiveMode) resumed_journal)) registry_default)) = 1"
    by (simp add: resumed_journal_def projector_new_def project_def project_header_def project_prepared_def
        project_terminal_def project_fill_def project_cap_def project_final_def header_cap_def demo_header_def
        legacy_header_def projected_price_def nonneg_diff_def PHASE_NOTE_def reported_cap_def Let_def observe_events_def
        observe_event_def registry_default_def gauges_default_def z checked_def dec_max_val_def)
qed

end
