(* ===== verification/Wire.thy ===== *)
theory Wire
  imports Market Decimal_Text
begin

text \<open>
  The parsing half of \<open>src/client.rs\<close>: from the text of an exchange response to the domain values that
  \<open>Market\<close> validates, and the text form of a \<open>Cloid\<close> (\<open>src/types.rs\<close>). \<open>serde_json\<close> is the parameter
  \<open>J\<close>: \<open>js_parse\<close> reads a text into a value and \<open>js_show\<close> prints one; the \<open>uuid\<close> crate is \<open>Q\<close>. A JSON
  number is a \<open>u64\<close>, an \<open>i64\<close>, or the text of a float. The derived \<open>Deserialize\<close> instances follow serde's
  documented representation of the struct attributes.
\<close>

section \<open>JSON values\<close>

datatype json_number = PosInt u64 | NegInt i64 | FloatText string

datatype json =
    JNull
  | JBool bool
  | JNumber json_number
  | JString string
  | JArray "json list"
  | JObject "(string \<times> json) list"

record json_lib =
  js_parse :: "string \<Rightarrow> json option"
  js_show :: "json \<Rightarrow> string"

fun json_get :: "json \<Rightarrow> string \<Rightarrow> json option" where
  "json_get (JObject kvs) key = lookup_al kvs key"
| "json_get v key = None"

fun json_str :: "json \<Rightarrow> string option" where
  "json_str (JString s) = Some s"
| "json_str v = None"

fun json_u64 :: "json \<Rightarrow> u64 option" where
  "json_u64 (JNumber (PosInt n)) = Some n"
| "json_u64 v = None"

fun json_array :: "json \<Rightarrow> json list option" where
  "json_array (JArray xs) = Some xs"
| "json_array v = None"

text \<open>\<open>Value::pointer\<close> for a path of object keys.\<close>

fun json_pointer :: "json \<Rightarrow> string list \<Rightarrow> json option" where
  "json_pointer v [] = Some v"
| "json_pointer v (key # path) =
     (case json_get v key of None \<Rightarrow> None | Some v1 \<Rightarrow> json_pointer v1 path)"

definition get_str :: "json \<Rightarrow> string \<Rightarrow> string option" where
  "get_str v key = Option.bind (json_get v key) json_str"

definition get_u64 :: "json \<Rightarrow> string \<Rightarrow> u64 option" where
  "get_u64 v key = Option.bind (json_get v key) json_u64"

definition malformed :: "string \<Rightarrow> hl_error + 'a" where
  "malformed reason = Inl (InvalidResponse reason)"

definition need :: "string \<Rightarrow> 'a option \<Rightarrow> hl_error + 'a" where
  "need reason x = ok_or (InvalidResponse reason) x"

section \<open>Client order ids\<close>

record uuid_lib =
  uu_simple :: "cloid \<Rightarrow> string"
  uu_parse :: "string \<Rightarrow> cloid option"

definition to_hex_string :: "uuid_lib \<Rightarrow> cloid \<Rightarrow> string" where
  "to_hex_string Q c = ''0x'' @ uu_simple Q c"

text \<open>\<open>trim_start_matches\<close> removes the prefix as often as it occurs.\<close>

fun trim_start_0x :: "string \<Rightarrow> string" where
  "trim_start_0x (a # b # s) = (if a = CHR ''0'' \<and> b = CHR ''x'' then trim_start_0x s else a # b # s)"
| "trim_start_0x s = s"

definition cloid_try_from :: "uuid_lib \<Rightarrow> string \<Rightarrow> cloid option" where
  "cloid_try_from Q v = uu_parse Q (trim_start_0x v)"

section \<open>The \<open>/exchange\<close> envelope\<close>

definition json_to_err_string :: "json_lib \<Rightarrow> json \<Rightarrow> string" where
  "json_to_err_string J v = (case json_str v of Some s \<Rightarrow> s | None \<Rightarrow> js_show J v)"

definition check_top_level_err :: "json_lib \<Rightarrow> json \<Rightarrow> hl_error + unit" where
  "check_top_level_err J v =
     (if get_str v ''status'' = Some ''err'' then
        Inl (Exchange (Some ''top_level_err'')
          (case json_get v ''response'' of Some r \<Rightarrow> json_to_err_string J r | None \<Rightarrow> ''(no msg)''))
      else Inr ())"

definition single_status :: "json \<Rightarrow> hl_error + json" where
  "single_status v =
     and_then (need ''statuses missing''
                (Option.bind (json_pointer v [''response'', ''data'', ''statuses'']) json_array)) (\<lambda>statuses.
     case statuses of [s] \<Rightarrow> Inr s | _ \<Rightarrow> malformed ''expected exactly 1 status'')"

definition decimal_field :: "dec_lib \<Rightarrow> json_lib \<Rightarrow> json \<Rightarrow> string \<Rightarrow> hl_error + decimal" where
  "decimal_field D J v key =
     and_then (need (key @ '' missing'') (json_get v key)) (\<lambda>raw.
     need (key @ '' not a decimal'')
       (d_parse D (case json_str raw of Some s \<Rightarrow> s | None \<Rightarrow> js_show J raw)))"

definition parse_place_status :: "dec_lib \<Rightarrow> json_lib \<Rightarrow> json \<Rightarrow> hl_error + place_outcome" where
  "parse_place_status D J status =
     (case json_get status ''filled'' of
        Some filled \<Rightarrow>
          and_then (need ''filled.oid missing'' (get_u64 filled ''oid'')) (\<lambda>oid.
          and_then (decimal_field D J filled ''totalSz'') (\<lambda>sz.
          and_then (decimal_field D J filled ''avgPx'') (\<lambda>px.
          Inr (Filled oid sz px))))
      | None \<Rightarrow>
          (case json_get status ''resting'' of
             Some resting \<Rightarrow>
               and_then (need ''resting.oid missing'' (get_u64 resting ''oid'')) (\<lambda>oid. Inr (Resting oid))
           | None \<Rightarrow>
               (case json_get status ''error'' of
                  Some err \<Rightarrow> Inl (Exchange (Some ''order_error'') (json_to_err_string J err))
                | None \<Rightarrow> malformed ''unknown place status shape'')))"

definition parse_place_response :: "dec_lib \<Rightarrow> json_lib \<Rightarrow> string \<Rightarrow> hl_error + place_outcome" where
  "parse_place_response D J body =
     and_then (need ''parse exchange json'' (js_parse J body)) (\<lambda>v.
     and_then (check_top_level_err J v) (\<lambda>_.
     and_then (single_status v) (parse_place_status D J)))"

definition parse_cancel_response :: "json_lib \<Rightarrow> string \<Rightarrow> hl_error + unit" where
  "parse_cancel_response J body =
     and_then (need ''parse cancel json'' (js_parse J body)) (\<lambda>v.
     and_then (check_top_level_err J v) (\<lambda>_.
     and_then (single_status v) (\<lambda>status.
     if json_str status = Some ''success'' then Inr ()
     else
       (case json_get status ''error'' of
          Some err \<Rightarrow> Inl (Exchange (Some ''cancel_error'') (json_to_err_string J err))
        | None \<Rightarrow> malformed ''unknown cancel status shape''))))"

section \<open>The order status\<close>

definition parse_status_sizes :: "dec_lib \<Rightarrow> json_lib \<Rightarrow> json \<Rightarrow> hl_error + decimal" where
  "parse_status_sizes D J inner =
     and_then (decimal_field D J inner ''origSz'') (\<lambda>orig_sz.
     and_then (decimal_field D J inner ''sz'') (\<lambda>remaining.
     if orig_sz < remaining then malformed ''orderStatus: remaining exceeds origSz''
     else if remaining < 0 then malformed ''orderStatus: remaining is negative''
     else Inr (d_sub D orig_sz remaining)))"

definition parse_status_order ::
  "dec_lib \<Rightarrow> json_lib \<Rightarrow> uuid_lib \<Rightarrow> json \<Rightarrow> hl_error + order_status_fill" where
  "parse_status_order D J Q wrapper =
     and_then (need ''orderStatus: order.order missing'' (json_get wrapper ''order'')) (\<lambda>inner.
     and_then (parse_status_sizes D J inner) (\<lambda>filled_sz.
     and_then (need ''orderStatus: order.order.oid missing'' (get_u64 inner ''oid'')) (\<lambda>oid.
     and_then (need ''orderStatus: order.order.coin missing'' (get_str inner ''coin'')) (\<lambda>coin.
     and_then (need ''orderStatus: order.order.side missing'' (get_str inner ''side'')) (\<lambda>sd.
     Inr \<lparr>os_filled_sz = filled_sz,
          os_avg_px = Option.bind (get_str inner ''avgPx'') (d_parse D),
          os_status = (case get_str wrapper ''status'' of Some s \<Rightarrow> s | None \<Rightarrow> ''unknown''),
          os_oid = oid,
          os_cloid = Option.bind (get_str inner ''cloid'') (cloid_try_from Q),
          os_coin = coin,
          os_side = sd\<rparr>)))))"

definition parse_order_status ::
  "dec_lib \<Rightarrow> json_lib \<Rightarrow> uuid_lib \<Rightarrow> string \<Rightarrow> hl_error + order_status_fill option" where
  "parse_order_status D J Q body =
     and_then (need ''parse orderStatus json'' (js_parse J body)) (\<lambda>v.
     case get_str v ''status'' of
       None \<Rightarrow> malformed ''orderStatus: status missing''
     | Some s \<Rightarrow>
         if s = ''unknownOid'' then Inr None
         else if s = ''order'' then
           and_then (need ''orderStatus: order missing'' (json_get v ''order'')) (\<lambda>wrapper.
           and_then (parse_status_order D J Q wrapper) (\<lambda>st. Inr (Some st)))
         else malformed ''orderStatus: unexpected status'')"

section \<open>The fill ledger\<close>

definition row_str :: "json \<Rightarrow> string \<Rightarrow> hl_error + string" where
  "row_str row key = need (''userFillsByTime: missing or not a string: '' @ key) (get_str row key)"

definition row_u64 :: "json \<Rightarrow> string \<Rightarrow> hl_error + u64" where
  "row_u64 row key = need (''userFillsByTime: missing or not u64: '' @ key) (get_u64 row key)"

definition row_cloid :: "uuid_lib \<Rightarrow> json \<Rightarrow> hl_error + cloid option" where
  "row_cloid Q row =
     (case json_get row ''cloid'' of
        None \<Rightarrow> Inr None
      | Some v \<Rightarrow>
          if v = JNull then Inr None
          else and_then (need ''userFillsByTime: cloid invalid'' (Option.bind (json_str v) (cloid_try_from Q)))
                 (\<lambda>c. Inr (Some c)))"

definition parse_fill_row :: "dec_lib \<Rightarrow> uuid_lib \<Rightarrow> json \<Rightarrow> hl_error + user_fill" where
  "parse_fill_row D Q row =
     and_then (row_cloid Q row) (\<lambda>c.
     and_then (row_str row ''coin'') (\<lambda>coin.
     and_then (row_str row ''px'') (\<lambda>px_text.
     and_then (need ''userFillsByTime: px invalid'' (d_parse D px_text)) (\<lambda>px.
     and_then (row_str row ''sz'') (\<lambda>sz_text.
     and_then (need ''userFillsByTime: sz invalid'' (d_parse D sz_text)) (\<lambda>sz.
     and_then (row_str row ''side'') (\<lambda>sd.
     and_then (row_u64 row ''time'') (\<lambda>time.
     and_then (row_u64 row ''oid'') (\<lambda>oid.
     and_then (row_u64 row ''tid'') (\<lambda>tid.
     Inr \<lparr>uf_coin = coin, uf_px = px, uf_sz = sz, uf_side = sd, uf_time_ms = time, uf_oid = oid,
          uf_tid = tid, uf_cloid = c\<rparr>))))))))))"

fun collect_ok :: "('a \<Rightarrow> 'e + 'b) \<Rightarrow> 'a list \<Rightarrow> 'e + 'b list" where
  "collect_ok f [] = Inr []"
| "collect_ok f (x # xs) = and_then (f x) (\<lambda>y. and_then (collect_ok f xs) (\<lambda>ys. Inr (y # ys)))"

definition parse_user_fills_by_time ::
  "dec_lib \<Rightarrow> json_lib \<Rightarrow> uuid_lib \<Rightarrow> string \<Rightarrow> hl_error + user_fill list" where
  "parse_user_fills_by_time D J Q body =
     and_then (need ''parse userFillsByTime json'' (Option.bind (js_parse J body) json_array))
       (collect_ok (parse_fill_row D Q))"

section \<open>Roles, positions, books and metadata\<close>

text \<open>An untagged enum: the tagged form where it fits, and the raw value otherwise.\<close>

definition wire_role :: "json_lib \<Rightarrow> json \<Rightarrow> wire_user_role" where
  "wire_role J v =
     (case get_str v ''role'' of
        Some r \<Rightarrow>
          if r = ''user'' then WUser
          else if r = ''vault'' then WVault
          else if r = ''subAccount'' then WSubAccount
          else if r = ''missing'' then WMissing
          else if r = ''agent'' then
            (case Option.bind (json_get v ''data'') (\<lambda>d. get_str d ''user'') of
               Some u \<Rightarrow> WAgent u | None \<Rightarrow> WUnknown (js_show J v))
          else WUnknown (js_show J v)
      | None \<Rightarrow> WUnknown (js_show J v))"

definition parse_user_role :: "json_lib \<Rightarrow> string \<Rightarrow> hl_error + role" where
  "parse_user_role J body =
     and_then (need ''userRole'' (js_parse J body)) (\<lambda>v. Inr (role_of_wire (wire_role J v)))"

definition wire_position :: "dec_lib \<Rightarrow> json \<Rightarrow> hl_error + perp_position" where
  "wire_position D v =
     and_then (need ''clearinghouseState: position'' (json_get v ''position'')) (\<lambda>p.
     and_then (need ''clearinghouseState: coin'' (get_str p ''coin'')) (\<lambda>coin.
     and_then (need ''clearinghouseState: szi'' (Option.bind (get_str p ''szi'') (d_parse D))) (\<lambda>szi.
     Inr \<lparr>wp_coin = coin, wp_szi = szi\<rparr>)))"

definition wire_clearinghouse_state :: "dec_lib \<Rightarrow> json \<Rightarrow> hl_error + clearinghouse_state" where
  "wire_clearinghouse_state D v =
     and_then (need ''clearinghouseState: assetPositions'' (Option.bind (json_get v ''assetPositions'') json_array))
       (collect_ok (wire_position D))"

definition parse_clearinghouse_position ::
  "dec_lib \<Rightarrow> json_lib \<Rightarrow> string \<Rightarrow> symbol \<Rightarrow> hl_error + signed_position" where
  "parse_clearinghouse_position D J body s =
     and_then (need ''clearinghouseState'' (js_parse J body)) (\<lambda>v.
     and_then (wire_clearinghouse_state D v) (\<lambda>st. position_for st s))"

fun json_i64 :: "json \<Rightarrow> i64 option" where
  "json_i64 (JNumber (PosInt n)) = (if unat n < 2 ^ 63 then Some n else None)"
| "json_i64 (JNumber (NegInt n)) = Some n"
| "json_i64 v = None"

definition get_u32 :: "json \<Rightarrow> string \<Rightarrow> nat option" where
  "get_u32 v key = Option.bind (get_u64 v key) (\<lambda>n. if unat n \<le> U32_MAX then Some (unat n) else None)"

definition wire_level :: "dec_lib \<Rightarrow> json \<Rightarrow> hl_error + book_level" where
  "wire_level D v =
     and_then (need ''l2Book: px'' (Option.bind (get_str v ''px'') (d_parse D))) (\<lambda>px.
     and_then (need ''l2Book: sz'' (Option.bind (get_str v ''sz'') (d_parse D))) (\<lambda>sz.
     and_then (need ''l2Book: n'' (get_u32 v ''n'')) (\<lambda>n.
     Inr \<lparr>bl_px = px, bl_sz = sz, bl_n = n\<rparr>)))"

definition wire_levels :: "dec_lib \<Rightarrow> json \<Rightarrow> hl_error + book_level list" where
  "wire_levels D v = and_then (need ''l2Book: levels'' (json_array v)) (collect_ok (wire_level D))"

definition parse_l2_book :: "dec_lib \<Rightarrow> json_lib \<Rightarrow> string \<Rightarrow> hl_error + order_book" where
  "parse_l2_book D J body =
     and_then (need ''l2Book'' (js_parse J body)) (\<lambda>v.
     and_then (need ''l2Book: coin'' (get_str v ''coin'')) (\<lambda>coin.
     and_then (need ''l2Book: time'' (Option.bind (json_get v ''time'') json_i64)) (\<lambda>time.
     and_then (need ''l2Book: levels'' (Option.bind (json_get v ''levels'') json_array)) (\<lambda>sides.
     and_then (collect_ok (wire_levels D) sides) (\<lambda>levels.
     Inr (to_orderbook \<lparr>wb_coin = coin, wb_time = time, wb_levels = levels\<rparr>))))))"

definition wire_universe_entry :: "json \<Rightarrow> hl_error + universe_entry" where
  "wire_universe_entry v =
     and_then (need ''meta: name'' (get_str v ''name'')) (\<lambda>name.
     and_then (need ''meta: szDecimals'' (get_u32 v ''szDecimals'')) (\<lambda>n.
     if json_get v ''maxLeverage'' \<noteq> None \<and> get_u32 v ''maxLeverage'' = None
     then malformed ''meta: maxLeverage''
     else if json_get v ''onlyIsolated'' \<notin> {None, Some (JBool True), Some (JBool False)}
     then malformed ''meta: onlyIsolated''
     else Inr \<lparr>ue_name = name, ue_sz_decimals = n\<rparr>))"

definition parse_meta :: "json_lib \<Rightarrow> string \<Rightarrow> hl_error + universe_entry list" where
  "parse_meta J body =
     and_then (need ''meta'' (js_parse J body)) (\<lambda>v.
     and_then (need ''meta: universe'' (Option.bind (json_get v ''universe'') json_array))
       (collect_ok wire_universe_entry))"

end
