(* ===== verification/Signing.thy ===== *)
theory Signing
  imports Wire
begin

text \<open>
  The actions of \<open>src/eip712.rs\<close>, their JSON form, the decoding of that form in \<open>src/signer.rs\<close>, and the
  bytes that are hashed for the signature. The msgpack encoder is the parameter \<open>P\<close>, keccak and the
  secp256k1 signature are \<open>H\<close> and \<open>S\<close>. A byte is an 8-bit word, and a parsed vault address its 20 bytes.
\<close>

section \<open>Actions\<close>

record order_wire =
  ow_a :: nat
  ow_b :: bool
  ow_p :: string
  ow_s :: string
  ow_r :: bool
  ow_tif :: string
  ow_c :: "string option"

record cancel_wire =
  cw_asset :: nat
  cw_cloid :: string

datatype hl_action =
    DummyAction i64
  | OrderAction "order_wire list" string
  | ScheduleCancelAction "u64 option"
  | CancelByCloidAction "cancel_wire list"

definition decimal_to_hl_wire :: "dec_lib \<Rightarrow> decimal \<Rightarrow> string" where
  "decimal_to_hl_wire D d = d_canonical D d"

fun tif_name :: "tif \<Rightarrow> string" where
  "tif_name Alo = ''Alo''"
| "tif_name Ioc = ''Ioc''"
| "tif_name Gtc = ''Gtc''"

definition order_intent_to_wire :: "dec_lib \<Rightarrow> uuid_lib \<Rightarrow> order_intent \<Rightarrow> nat \<Rightarrow> order_wire" where
  "order_intent_to_wire D Q i asset =
     \<lparr>ow_a = asset, ow_b = (oi_side i = Long), ow_p = decimal_to_hl_wire D (oi_px i),
      ow_s = decimal_to_hl_wire D (oi_sz i), ow_r = oi_reduce_only i, ow_tif = tif_name (oi_tif i),
      ow_c = Some (to_hex_string Q (oi_cloid i))\<rparr>"

definition cancel_intent_to_wire :: "uuid_lib \<Rightarrow> cancel_intent \<Rightarrow> nat \<Rightarrow> cancel_wire" where
  "cancel_intent_to_wire Q c asset = \<lparr>cw_asset = asset, cw_cloid = to_hex_string Q (ci_cloid c)\<rparr>"

section \<open>The JSON form\<close>

definition json_nat :: "nat \<Rightarrow> json" where
  "json_nat n = JNumber (PosInt (of_nat n))"

definition order_wire_json :: "order_wire \<Rightarrow> json" where
  "order_wire_json w =
     JObject ([(''a'', json_nat (ow_a w)), (''b'', JBool (ow_b w)), (''p'', JString (ow_p w)),
               (''s'', JString (ow_s w)), (''r'', JBool (ow_r w)),
               (''t'', JObject [(''limit'', JObject [(''tif'', JString (ow_tif w))])])] @
              (case ow_c w of None \<Rightarrow> [] | Some c \<Rightarrow> [(''c'', JString c)]))"

definition cancel_wire_json :: "cancel_wire \<Rightarrow> json" where
  "cancel_wire_json w = JObject [(''asset'', json_nat (cw_asset w)), (''cloid'', JString (cw_cloid w))]"

fun action_json :: "hl_action \<Rightarrow> json" where
  "action_json (DummyAction n) =
     JObject [(''type'', JString ''dummy''),
              (''num'', JNumber (if sint n < 0 then NegInt n else PosInt n))]"
| "action_json (OrderAction orders grouping) =
     JObject [(''type'', JString ''order''), (''orders'', JArray (map order_wire_json orders)),
              (''grouping'', JString grouping)]"
| "action_json (ScheduleCancelAction time) =
     JObject ((''type'', JString ''scheduleCancel'') #
              (case time of None \<Rightarrow> [] | Some t \<Rightarrow> [(''time'', JNumber (PosInt t))]))"
| "action_json (CancelByCloidAction cancels) =
     JObject [(''type'', JString ''cancelByCloid''), (''cancels'', JArray (map cancel_wire_json cancels))]"

section \<open>Decoding for the signature\<close>

definition bad_action :: "string \<Rightarrow> 'a option \<Rightarrow> hl_error + 'a" where
  "bad_action reason x = ok_or (ActionFormat reason) x"

fun json_bool :: "json \<Rightarrow> bool option" where
  "json_bool (JBool b) = Some b"
| "json_bool v = None"

definition get_bool :: "json \<Rightarrow> string \<Rightarrow> bool option" where
  "get_bool v key = Option.bind (json_get v key) json_bool"

text \<open>An \<open>Option\<close> field: absent or null is \<open>None\<close>, anything else must decode.\<close>

definition get_optional :: "(json \<Rightarrow> 'a option) \<Rightarrow> json \<Rightarrow> string \<Rightarrow> 'a option option" where
  "get_optional f v key =
     (case json_get v key of
        None \<Rightarrow> Some None
      | Some x \<Rightarrow> if x = JNull then Some None else map_option Some (f x))"

definition order_wire_of_json :: "json \<Rightarrow> hl_error + order_wire" where
  "order_wire_of_json v =
     and_then (bad_action ''order decode'' (get_u32 v ''a'')) (\<lambda>a.
     and_then (bad_action ''order decode'' (get_bool v ''b'')) (\<lambda>b.
     and_then (bad_action ''order decode'' (get_str v ''p'')) (\<lambda>p.
     and_then (bad_action ''order decode'' (get_str v ''s'')) (\<lambda>s.
     and_then (bad_action ''order decode'' (get_bool v ''r'')) (\<lambda>r.
     and_then (bad_action ''order decode''
                (Option.bind (json_pointer v [''t'', ''limit'', ''tif'']) json_str)) (\<lambda>tif.
     and_then (bad_action ''order decode'' (get_optional json_str v ''c'')) (\<lambda>c.
     Inr \<lparr>ow_a = a, ow_b = b, ow_p = p, ow_s = s, ow_r = r, ow_tif = tif, ow_c = c\<rparr>)))))))"

definition cancel_wire_of_json :: "json \<Rightarrow> hl_error + cancel_wire" where
  "cancel_wire_of_json v =
     and_then (bad_action ''cancelByCloid decode'' (get_u32 v ''asset'')) (\<lambda>a.
     and_then (bad_action ''cancelByCloid decode'' (get_str v ''cloid'')) (\<lambda>c.
     Inr \<lparr>cw_asset = a, cw_cloid = c\<rparr>))"

definition dispatch_action :: "json \<Rightarrow> hl_error + hl_action" where
  "dispatch_action v =
     and_then (bad_action ''action.type missing or not string'' (get_str v ''type'')) (\<lambda>kind.
     if kind = ''dummy'' then
       and_then (bad_action ''dummy decode'' (Option.bind (json_get v ''num'') json_i64)) (\<lambda>n. Inr (DummyAction n))
     else if kind = ''order'' then
       and_then (bad_action ''order decode'' (Option.bind (json_get v ''orders'') json_array)) (\<lambda>xs.
       and_then (collect_ok order_wire_of_json xs) (\<lambda>orders.
       and_then (bad_action ''order decode'' (get_str v ''grouping'')) (\<lambda>g. Inr (OrderAction orders g))))
     else if kind = ''scheduleCancel'' then
       and_then (bad_action ''scheduleCancel decode'' (get_optional json_u64 v ''time'')) (\<lambda>t.
       Inr (ScheduleCancelAction t))
     else if kind = ''cancelByCloid'' then
       and_then (bad_action ''cancelByCloid decode'' (Option.bind (json_get v ''cancels'') json_array)) (\<lambda>xs.
       and_then (collect_ok cancel_wire_of_json xs) (\<lambda>cs. Inr (CancelByCloidAction cs)))
     else Inl (ActionFormat ''unsupported action type for Eip712AgentSigner''))"

section \<open>The signed bytes\<close>

type_synonym byte = "8 word"

fun be_bytes :: "nat \<Rightarrow> u64 \<Rightarrow> byte list" where
  "be_bytes 0 w = []"
| "be_bytes (Suc k) w = be_bytes k (drop_bit 8 w) @ [ucast w]"

definition to_be_bytes :: "u64 \<Rightarrow> byte list" where
  "to_be_bytes w = be_bytes 8 w"

definition action_preimage ::
  "(hl_action \<Rightarrow> byte list) \<Rightarrow> hl_action \<Rightarrow> u64 \<Rightarrow> byte list option \<Rightarrow> u64 option \<Rightarrow> byte list" where
  "action_preimage P action nonce vault expires_after =
     P action @ to_be_bytes nonce @
     (case vault of None \<Rightarrow> [0] | Some addr \<Rightarrow> 1 # addr) @
     (case expires_after of None \<Rightarrow> [] | Some ea \<Rightarrow> 0 # to_be_bytes ea)"

definition action_hash ::
  "(hl_action \<Rightarrow> byte list) \<Rightarrow> (byte list \<Rightarrow> 'h) \<Rightarrow> hl_action \<Rightarrow> u64 \<Rightarrow> byte list option \<Rightarrow> u64 option \<Rightarrow> 'h" where
  "action_hash P H action nonce vault expires_after = H (action_preimage P action nonce vault expires_after)"

record 'h agent_message =
  am_source :: string
  am_connection_id :: 'h

definition build_agent :: "'h \<Rightarrow> bool \<Rightarrow> 'h agent_message" where
  "build_agent h is_mainnet = \<lparr>am_source = (if is_mainnet then ''a'' else ''b''), am_connection_id = h\<rparr>"

record signature =
  sg_r :: string
  sg_s :: string
  sg_v :: nat

text \<open>\<open>S\<close> signs the EIP-712 hash of an agent message: the two scalars in hexadecimal, and the parity.\<close>

definition sign_l1 ::
  "(hl_action \<Rightarrow> byte list) \<Rightarrow> (byte list \<Rightarrow> 'h) \<Rightarrow> ('h agent_message \<Rightarrow> (string \<times> string \<times> bool) option) \<Rightarrow> bool \<Rightarrow>
     (string \<Rightarrow> byte list option) \<Rightarrow> json \<Rightarrow> u64 \<Rightarrow> address option \<Rightarrow> u64 option \<Rightarrow> hl_error + signature" where
  "sign_l1 P H S is_mainnet V action nonce vault expires_after =
     and_then (case vault of
                 None \<Rightarrow> Inr None
               | Some a \<Rightarrow> and_then (bad_action ''vault address parse'' (V a)) (\<lambda>b. Inr (Some b))) (\<lambda>vault_bytes.
     and_then (dispatch_action action) (\<lambda>typed.
     case S (build_agent (action_hash P H typed nonce vault_bytes expires_after) is_mainnet) of
       None \<Rightarrow> Inl (SignatureErr ''sign_hash'')
     | Some (r, s, parity) \<Rightarrow>
         Inr \<lparr>sg_r = ''0x'' @ r, sg_s = ''0x'' @ s, sg_v = (if parity then 28 else 27)\<rparr>))"

definition signature_json :: "signature \<Rightarrow> json" where
  "signature_json sg = JObject [(''r'', JString (sg_r sg)), (''s'', JString (sg_s sg)), (''v'', json_nat (sg_v sg))]"

end
