(* ===== verification/Client.thy ===== *)
theory Client
  imports Signing Nonce World
begin

text \<open>
  \<open>HlClient\<close> of \<open>src/client.rs\<close>: one HTTP POST, the retry policy of the \<open>/info\<close> calls, the
  request bodies, and the \<open>/exchange\<close> calls that mint a nonce, sign and send exactly once. The network is
  the parameter \<open>we_net\<close>: it answers a POST as a function of everything sent before, with a
  latency, and a reply is a transport error or a status and a body. \<open>client_env\<close> puts this client behind the
  interface of \<open>World\<close>.
\<close>

section \<open>The network and the client\<close>

text \<open>What the process has sent, newest first, with the instant of each POST, and the state of its
  nonce counter.\<close>

record wire_world =
  ww_now :: nanos
  ww_posts :: "(nanos \<times> string \<times> json) list"
  ww_nonce :: nonce_state

record wire_env =
  we_net :: "wire_world \<Rightarrow> string \<Rightarrow> json \<Rightarrow> (string + nat \<times> string) \<times> nanos"
  we_clock :: "wire_world \<Rightarrow> u64 option"
  we_fault :: "wire_world \<Rightarrow> nat option"

text \<open>\<open>dyn Signer\<close> is its \<open>sign_l1\<close> method: action, nonce, vault, expiry.\<close>

type_synonym signer = "json \<Rightarrow> u64 \<Rightarrow> address option \<Rightarrow> u64 option \<Rightarrow> hl_error + signature"

record hl_client =
  cl_config :: hl_config
  cl_signer :: "signer option"

record libs =
  lb_dec :: dec_lib
  lb_json :: json_lib
  lb_uuid :: uuid_lib

section \<open>One POST, and the retry policy\<close>

definition RETRY_BACKOFF :: "nanos list" where
  "RETRY_BACKOFF = [1000000000, 2000000000, 4000000000]"

definition post_once :: "wire_env \<Rightarrow> string \<Rightarrow> json \<Rightarrow> wire_world \<Rightarrow> (hl_error + string) \<times> wire_world" where
  "post_once W url body w =
     (case we_net W w url body of (reply, lat) \<Rightarrow>
       (case reply of
          Inl e \<Rightarrow> Inl (Network e)
        | Inr (status, txt) \<Rightarrow>
            if 200 \<le> status \<and> status < 300 then Inr txt
            else if (500 \<le> status \<and> status < 600) \<or> status = 429 then Inl (Network ''HTTP error'')
            else Inl (Exchange (Some (''http_'' @ nat_digits status)) txt),
        w\<lparr>ww_posts := (ww_now w, url, body) # ww_posts w, ww_now := ww_now w + lat\<rparr>))"

fun is_network :: "hl_error + 'a \<Rightarrow> bool" where
  "is_network (Inl (Network m)) = True"
| "is_network _ = False"

definition pause :: "nanos \<Rightarrow> wire_world \<Rightarrow> wire_world" where
  "pause d w = w\<lparr>ww_now := ww_now w + d\<rparr>"

text \<open>\<open>attempt\<close> indexes the backoffs, so the loop runs over the list of those not used yet.\<close>

fun post_attempts ::
  "wire_env \<Rightarrow> string \<Rightarrow> json \<Rightarrow> nanos list \<Rightarrow> wire_world \<Rightarrow> (hl_error + string) \<times> wire_world" where
  "post_attempts W url body [] w = post_once W url body w"
| "post_attempts W url body (wait # waits) w =
     (case post_once W url body w of (r, w1) \<Rightarrow>
       if is_network r then post_attempts W url body waits (pause wait w1) else (r, w1))"

definition post_with_retry ::
  "wire_env \<Rightarrow> string \<Rightarrow> json \<Rightarrow> wire_world \<Rightarrow> (hl_error + string) \<times> wire_world" where
  "post_with_retry W url body w = post_attempts W url body RETRY_BACKOFF w"

definition parsed :: "(hl_error + 'a) \<times> 'w \<Rightarrow> ('a \<Rightarrow> hl_error + 'b) \<Rightarrow> (hl_error + 'b) \<times> 'w" where
  "parsed rw f = (case rw of (r, w) \<Rightarrow> (and_then r f, w))"

section \<open>The \<open>/info\<close> calls\<close>

definition meta_body :: json where
  "meta_body = JObject [(''type'', JString ''meta'')]"

definition l2_book_body :: "symbol \<Rightarrow> json" where
  "l2_book_body s = JObject [(''type'', JString ''l2Book''), (''coin'', JString s)]"

definition clearinghouse_body :: "address \<Rightarrow> json" where
  "clearinghouse_body u = JObject [(''type'', JString ''clearinghouseState''), (''user'', JString u)]"

definition user_role_body :: "address \<Rightarrow> json" where
  "user_role_body u = JObject [(''type'', JString ''userRole''), (''user'', JString u)]"

definition order_status_json :: "address \<Rightarrow> json \<Rightarrow> json" where
  "order_status_json u oid =
     JObject [(''type'', JString ''orderStatus''), (''user'', JString u), (''oid'', oid)]"

text \<open>An open interval omits \<open>endTime\<close>.\<close>

definition user_fills_body :: "address \<Rightarrow> u64 \<Rightarrow> u64 option \<Rightarrow> json" where
  "user_fills_body u start_ms end_ms =
     JObject ([(''type'', JString ''userFillsByTime''), (''user'', JString u),
               (''startTime'', JNumber (PosInt start_ms)), (''aggregateByTime'', JBool False)] @
              (case end_ms of Some e \<Rightarrow> [(''endTime'', JNumber (PosInt e))] | None \<Rightarrow> []))"

definition info :: "hl_client \<Rightarrow> wire_env \<Rightarrow> json \<Rightarrow> wire_world \<Rightarrow> (hl_error + string) \<times> wire_world" where
  "info C W body w = post_with_retry W (cf_info_url (cl_config C)) body w"

definition client_meta ::
  "libs \<Rightarrow> hl_client \<Rightarrow> wire_env \<Rightarrow> wire_world \<Rightarrow> (hl_error + universe_entry list) \<times> wire_world" where
  "client_meta L C W w = parsed (info C W meta_body w) (parse_meta (lb_json L))"

definition client_l2_book ::
  "libs \<Rightarrow> hl_client \<Rightarrow> wire_env \<Rightarrow> symbol \<Rightarrow> wire_world \<Rightarrow> (hl_error + order_book) \<times> wire_world" where
  "client_l2_book L C W s w = parsed (info C W (l2_book_body s) w) (parse_l2_book (lb_dec L) (lb_json L))"

definition client_perp_position ::
  "libs \<Rightarrow> hl_client \<Rightarrow> wire_env \<Rightarrow> address \<Rightarrow> symbol \<Rightarrow> wire_world \<Rightarrow>
     (hl_error + signed_position) \<times> wire_world" where
  "client_perp_position L C W u s w =
     parsed (info C W (clearinghouse_body u) w)
       (\<lambda>txt. parse_clearinghouse_position (lb_dec L) (lb_json L) txt s)"

definition client_user_role ::
  "libs \<Rightarrow> hl_client \<Rightarrow> wire_env \<Rightarrow> address \<Rightarrow> wire_world \<Rightarrow> (hl_error + role) \<times> wire_world" where
  "client_user_role L C W u w = parsed (info C W (user_role_body u) w) (parse_user_role (lb_json L))"

definition order_status_body ::
  "libs \<Rightarrow> hl_client \<Rightarrow> wire_env \<Rightarrow> address \<Rightarrow> json \<Rightarrow> wire_world \<Rightarrow>
     (hl_error + order_status_fill option) \<times> wire_world" where
  "order_status_body L C W u oid w =
     parsed (info C W (order_status_json u oid) w)
       (parse_order_status (lb_dec L) (lb_json L) (lb_uuid L))"

definition client_order_status ::
  "libs \<Rightarrow> hl_client \<Rightarrow> wire_env \<Rightarrow> address \<Rightarrow> order_id \<Rightarrow> wire_world \<Rightarrow>
     (hl_error + order_status_fill option) \<times> wire_world" where
  "client_order_status L C W u oid w = order_status_body L C W u (JNumber (PosInt oid)) w"

definition client_order_status_by_cloid ::
  "libs \<Rightarrow> hl_client \<Rightarrow> wire_env \<Rightarrow> address \<Rightarrow> cloid \<Rightarrow> wire_world \<Rightarrow>
     (hl_error + order_status_fill option) \<times> wire_world" where
  "client_order_status_by_cloid L C W u c w =
     order_status_body L C W u (JString (to_hex_string (lb_uuid L) c)) w"

definition client_user_fills ::
  "libs \<Rightarrow> hl_client \<Rightarrow> wire_env \<Rightarrow> address \<Rightarrow> u64 \<Rightarrow> u64 option \<Rightarrow> wire_world \<Rightarrow>
     (hl_error + user_fill list) \<times> wire_world" where
  "client_user_fills L C W u start_ms end_ms w =
     parsed (info C W (user_fills_body u start_ms end_ms) w)
       (parse_user_fills_by_time (lb_dec L) (lb_json L) (lb_uuid L))"

section \<open>The \<open>/exchange\<close> calls\<close>

definition mint_nonce :: "wire_env \<Rightarrow> wire_world \<Rightarrow> u64 \<times> wire_world" where
  "mint_nonce W w =
     (case next_nonce (ww_nonce w) (case we_clock W w of Some ms \<Rightarrow> ms | None \<Rightarrow> 0) (we_fault W w) of
        (st, nonce) \<Rightarrow> (nonce, w\<lparr>ww_nonce := st\<rparr>))"

definition exchange_body :: "json \<Rightarrow> u64 \<Rightarrow> signature \<Rightarrow> u64 option \<Rightarrow> json" where
  "exchange_body action nonce sg expires =
     JObject [(''action'', action), (''nonce'', JNumber (PosInt nonce)), (''signature'', signature_json sg),
              (''vaultAddress'', JNull),
              (''expiresAfter'', case expires of Some ms \<Rightarrow> JNumber (PosInt ms) | None \<Rightarrow> JNull)]"

definition post_exchange_once ::
  "hl_client \<Rightarrow> wire_env \<Rightarrow> json \<Rightarrow> u64 option \<Rightarrow> wire_world \<Rightarrow> (hl_error + u64 \<times> string) \<times> wire_world" where
  "post_exchange_once C W action expires w =
     (case mint_nonce W w of (nonce, w1) \<Rightarrow>
       (case cl_signer C of
          None \<Rightarrow> (Inl (InvalidConfig ''no signer configured (read-only mode)''), w1)
        | Some sign \<Rightarrow>
            (case sign action nonce None expires of
               Inl e \<Rightarrow> (Inl e, w1)
             | Inr sg \<Rightarrow>
                 parsed (post_once W (cf_exchange_url (cl_config C)) (exchange_body action nonce sg expires) w1)
                   (\<lambda>txt. Inr (nonce, txt)))))"

definition order_action :: "libs \<Rightarrow> order_intent \<Rightarrow> nat \<Rightarrow> json" where
  "order_action L i asset =
     action_json (OrderAction [order_intent_to_wire (lb_dec L) (lb_uuid L) i asset] ''na'')"

definition cancel_action :: "libs \<Rightarrow> cancel_intent \<Rightarrow> nat \<Rightarrow> json" where
  "cancel_action L c asset = action_json (CancelByCloidAction [cancel_intent_to_wire (lb_uuid L) c asset])"

definition client_place_order_once ::
  "libs \<Rightarrow> hl_client \<Rightarrow> wire_env \<Rightarrow> order_intent \<Rightarrow> nat \<Rightarrow> u64 \<Rightarrow> wire_world \<Rightarrow>
     (hl_error + u64 \<times> place_outcome) \<times> wire_world" where
  "client_place_order_once L C W i asset expires w =
     parsed (post_exchange_once C W (order_action L i asset) (Some expires) w)
       (\<lambda>(nonce, txt). and_then (parse_place_response (lb_dec L) (lb_json L) txt) (\<lambda>out. Inr (nonce, out)))"

definition client_place_order ::
  "libs \<Rightarrow> hl_client \<Rightarrow> wire_env \<Rightarrow> order_intent \<Rightarrow> nat \<Rightarrow> u64 \<Rightarrow> wire_world \<Rightarrow>
     (hl_error + place_outcome) \<times> wire_world" where
  "client_place_order L C W i asset expires w =
     parsed (client_place_order_once L C W i asset expires w) (\<lambda>(_, out). Inr out)"

definition client_cancel_by_cloid ::
  "libs \<Rightarrow> hl_client \<Rightarrow> wire_env \<Rightarrow> cancel_intent \<Rightarrow> nat \<Rightarrow> wire_world \<Rightarrow> (hl_error + unit) \<times> wire_world" where
  "client_cancel_by_cloid L C W c asset w =
     parsed (post_exchange_once C W (cancel_action L c asset) None w)
       (\<lambda>(_, txt). parse_cancel_response (lb_json L) txt)"

section \<open>The client behind the interface\<close>

text \<open>The client's own state is a function of the calls made so far, so the environment recovers it from
  the trace: every call of the trace is performed again, at its instant, against the same network.\<close>

fun wire_call :: "libs \<Rightarrow> hl_client \<Rightarrow> wire_env \<Rightarrow> event \<Rightarrow> wire_world \<Rightarrow> wire_world" where
  "wire_call L C W (EvBook s r) w = snd (client_l2_book L C W s w)"
| "wire_call L C W (EvPosition u s r) w = snd (client_perp_position L C W u s w)"
| "wire_call L C W (EvPlace i a x r) w = snd (client_place_order_once L C W i a x w)"
| "wire_call L C W (EvCancel c a r) w = snd (client_cancel_by_cloid L C W c a w)"
| "wire_call L C W (EvStatus u oid r) w = snd (client_order_status L C W u oid w)"
| "wire_call L C W (EvStatusCloid u c r) w = snd (client_order_status_by_cloid L C W u c w)"
| "wire_call L C W (EvFills u s e r) w = snd (client_user_fills L C W u s e w)"
| "wire_call L C W (EvRecord r ok) w = w"

fun wire_after :: "libs \<Rightarrow> hl_client \<Rightarrow> wire_env \<Rightarrow> wire_world \<Rightarrow> (nanos \<times> event) list \<Rightarrow> wire_world" where
  "wire_after L C W w0 [] = w0"
| "wire_after L C W w0 ((t, ev) # older) =
     wire_call L C W ev ((wire_after L C W w0 older)\<lparr>ww_now := t\<rparr>)"

definition wire_now :: "libs \<Rightarrow> hl_client \<Rightarrow> wire_env \<Rightarrow> wire_world \<Rightarrow> world \<Rightarrow> wire_world" where
  "wire_now L C W w0 w = (wire_after L C W w0 (w_trace w))\<lparr>ww_now := w_now w\<rparr>"

definition answered :: "'r \<times> wire_world \<Rightarrow> world \<Rightarrow> 'r \<times> nanos" where
  "answered rw w = (case rw of (r, ww) \<Rightarrow> (r, ww_now ww - w_now w))"

definition client_env :: "libs \<Rightarrow> hl_client \<Rightarrow> wire_env \<Rightarrow> wire_world \<Rightarrow> env \<Rightarrow> env" where
  "client_env L C W w0 E =
     E\<lparr>e_book := (\<lambda>w s. answered (client_l2_book L C W s (wire_now L C W w0 w)) w),
       e_position := (\<lambda>w u s. answered (client_perp_position L C W u s (wire_now L C W w0 w)) w),
       e_place := (\<lambda>w i a x. answered (client_place_order_once L C W i a x (wire_now L C W w0 w)) w),
       e_cancel := (\<lambda>w c a. answered (client_cancel_by_cloid L C W c a (wire_now L C W w0 w)) w),
       e_status := (\<lambda>w u oid. answered (client_order_status L C W u oid (wire_now L C W w0 w)) w),
       e_status_cloid := (\<lambda>w u c. answered (client_order_status_by_cloid L C W u c (wire_now L C W w0 w)) w),
       e_fills := (\<lambda>w u s e. answered (client_user_fills L C W u s e (wire_now L C W w0 w)) w)\<rparr>"

end
