(* ===== verification/Signing_Facts.thy ===== *)
theory Signing_Facts
  imports Signing
begin

text \<open>
  What the signature of an action covers. The JSON of an action decodes to the action, so what is hashed
  is what is sent; the preimage determines the action, the nonce, the vault and the expiry; and an order
  on the wire carries the intent. \<open>uuid_text\<close> is the law of the \<open>uuid\<close> crate that a client order id relies on.
\<close>

section \<open>Client order ids\<close>

text \<open>\<open>simple\<close> prints 32 hexadecimal digits, never the letter \<open>x\<close>, and \<open>parse_str\<close> reads them back.\<close>

locale uuid_text =
  fixes Q :: uuid_lib
  assumes parse_simple [simp]: "uu_parse Q (uu_simple Q c) = Some c"
    and no_x: "CHR ''x'' \<notin> set (uu_simple Q c)"
begin

lemma trim_simple [simp]: "trim_start_0x (uu_simple Q c) = uu_simple Q c"
  using no_x [of c] by (cases "uu_simple Q c" rule: trim_start_0x.cases) auto

lemma cloid_text [simp]: "cloid_try_from Q (to_hex_string Q c) = Some c"
  by (simp add: cloid_try_from_def to_hex_string_def)

end

text \<open>An executable instance: the digits of the identifier in base sixteen.\<close>

definition hex_char :: "nat \<Rightarrow> char" where
  "hex_char d = char_of (if d < 10 then 48 + d else 87 + d)"

definition hex_val :: "char \<Rightarrow> nat" where
  "hex_val c = (let n = of_char c in if n < 58 then n - 48 else n - 87)"

fun hex_digits :: "nat \<Rightarrow> nat \<Rightarrow> string" where
  "hex_digits 0 n = []"
| "hex_digits (Suc k) n = hex_digits k (n div 16) @ [hex_char (n mod 16)]"

definition hex_nat :: "string \<Rightarrow> nat" where
  "hex_nat s = foldl (\<lambda>n c. 16 * n + hex_val c) 0 s"

definition hex_uuid :: uuid_lib where
  "hex_uuid = \<lparr>uu_simple = (\<lambda>c. hex_digits 32 (unat c)),
               uu_parse = (\<lambda>s. if length s = 32 then Some (of_nat (hex_nat s)) else None)\<rparr>"

lemma hex_val_char: "d < 16 \<Longrightarrow> hex_val (hex_char d) = d"
  by (simp add: hex_val_def hex_char_def Let_def)

lemma hex_char_not_x: "d < 16 \<Longrightarrow> hex_char d \<noteq> CHR ''x''"
proof
  assume "d < 16" and "hex_char d = CHR ''x''"
  then have "of_char (hex_char d) = (120 :: nat)" by simp
  with \<open>d < 16\<close> show False by (simp add: hex_char_def split: if_splits)
qed

lemma hex_nat_digits: "n < 16 ^ k \<Longrightarrow> hex_nat (hex_digits k n) = n"
proof (induction k arbitrary: n)
  case (Suc k)
  then have "n div 16 < 16 ^ k" by (simp add: less_mult_imp_div_less)
  with Suc.IH [of "n div 16"] show ?case by (simp add: hex_nat_def hex_val_char)
qed (simp add: hex_nat_def)

lemma length_hex_digits [simp]: "length (hex_digits k n) = k"
  by (induction k arbitrary: n) simp_all

lemma hex_digits_not_x: "CHR ''x'' \<notin> set (hex_digits k n)"
  by (induction k arbitrary: n) (simp_all add: hex_char_not_x [symmetric])

interpretation hu: uuid_text hex_uuid
proof
  fix c :: cloid
  have "unat c < 2 ^ LENGTH(128)" by (rule unsigned_less)
  then have "unat c < 16 ^ 32" by simp
  then show "uu_parse hex_uuid (uu_simple hex_uuid c) = Some c"
    by (simp add: hex_uuid_def hex_nat_digits)
  show "CHR ''x'' \<notin> set (uu_simple hex_uuid c)" by (simp add: hex_uuid_def hex_digits_not_x)
qed

section \<open>The JSON form of an action\<close>

definition u32 :: "nat \<Rightarrow> bool" where
  "u32 n \<longleftrightarrow> n \<le> U32_MAX"

fun action_wf :: "hl_action \<Rightarrow> bool" where
  "action_wf (OrderAction orders g) \<longleftrightarrow> list_all (\<lambda>w. u32 (ow_a w)) orders"
| "action_wf (CancelByCloidAction cs) \<longleftrightarrow> list_all (\<lambda>w. u32 (cw_asset w)) cs"
| "action_wf _ \<longleftrightarrow> True"

lemma json_get_Cons [simp]:
  "json_get (JObject ((k, v) # kvs)) key = (if k = key then Some v else json_get (JObject kvs) key)"
  by simp

lemma u32_unat: "u32 n \<Longrightarrow> unat (of_nat n :: u64) = n"
  by (simp add: u32_def U32_MAX_def unat_of_nat)

lemma get_u32_json: "json_get v key = Some (json_nat n) \<Longrightarrow> u32 n \<Longrightarrow> get_u32 v key = Some n"
  by (simp add: get_u32_def get_u64_def json_nat_def u32_unat) (simp add: u32_def)

lemma get_u32_bound: "get_u32 v key = Some n \<Longrightarrow> u32 n"
  by (auto simp: get_u32_def u32_def bind_eq_Some_conv split: if_splits)

lemma bad_action_Inr [simp]: "bad_action r x = Inr a \<longleftrightarrow> x = Some a"
  by (simp add: bad_action_def)

lemma bad_action_Some [simp]: "bad_action r (Some a) = Inr a"
  by (simp add: bad_action_def ok_or_def)

lemma order_wire_roundtrip: "u32 (ow_a w) \<Longrightarrow> order_wire_of_json (order_wire_json w) = Inr w"
  by (cases "ow_c w") (simp_all add: order_wire_of_json_def order_wire_json_def get_u32_json get_bool_def get_str_def
      get_optional_def)

lemma cancel_wire_roundtrip: "u32 (cw_asset w) \<Longrightarrow> cancel_wire_of_json (cancel_wire_json w) = Inr w"
  by (simp add: cancel_wire_of_json_def cancel_wire_json_def get_u32_json get_str_def)

lemma order_wire_decoded: "order_wire_of_json v = Inr w \<Longrightarrow> u32 (ow_a w)"
  by (auto simp: order_wire_of_json_def and_then_Inr dest: get_u32_bound)

lemma cancel_wire_decoded: "cancel_wire_of_json v = Inr w \<Longrightarrow> u32 (cw_asset w)"
  by (auto simp: cancel_wire_of_json_def and_then_Inr dest: get_u32_bound)

lemma collect_ok_map: "list_all (\<lambda>x. f (g x) = Inr x) xs \<Longrightarrow> collect_ok f (map g xs) = Inr xs"
  by (induction xs) simp_all

lemma collect_ok_all: "collect_ok f xs = Inr ys \<Longrightarrow> (\<And>x y. f x = Inr y \<Longrightarrow> P y) \<Longrightarrow> list_all P ys"
  by (induction xs arbitrary: ys) (auto simp: and_then_Inr)

lemma json_i64_signed: "json_i64 (JNumber (if sint n < 0 then NegInt n else PosInt n)) = Some n"
proof (cases "sint n < 0")
  case False
  have "sint n < 2 ^ 63" using sint_lt [of n] by simp
  with False have "take_bit LENGTH(64) (sint n) = sint n" by (intro take_bit_int_eq_self) simp_all
  with uint_sint [of n] have "uint n = sint n" by (rule trans)
  with \<open>sint n < 2 ^ 63\<close> have "uint n < 2 ^ 63" by simp
  then have "int (unat n) < int (2 ^ 63)" by simp
  then have "unat n < 2 ^ 63" by (rule of_nat_less_imp_less)
  with False show ?thesis by simp
qed simp

lemma action_json_roundtrip:
  assumes "action_wf a"
  shows "dispatch_action (action_json a) = Inr a"
proof (cases a)
  case (DummyAction n)
  with json_i64_signed [of n] show ?thesis by (simp add: dispatch_action_def get_str_def)
next
  case (OrderAction orders g)
  with assms have "list_all (\<lambda>w. order_wire_of_json (order_wire_json w) = Inr w) orders"
    by (auto simp: list_all_iff order_wire_roundtrip)
  with OrderAction show ?thesis by (simp add: dispatch_action_def get_str_def collect_ok_map)
next
  case (ScheduleCancelAction t)
  then show ?thesis by (cases t) (simp_all add: dispatch_action_def get_str_def get_optional_def)
next
  case (CancelByCloidAction cs)
  with assms have "list_all (\<lambda>w. cancel_wire_of_json (cancel_wire_json w) = Inr w) cs"
    by (auto simp: list_all_iff cancel_wire_roundtrip)
  with CancelByCloidAction show ?thesis by (simp add: dispatch_action_def get_str_def collect_ok_map)
qed

lemmas decoded_orders = collect_ok_all [of order_wire_of_json _ _ "\<lambda>w. u32 (ow_a w)", OF _ order_wire_decoded]
lemmas decoded_cancels = collect_ok_all [of cancel_wire_of_json _ _ "\<lambda>w. u32 (cw_asset w)", OF _ cancel_wire_decoded]

lemma dispatch_wf: "dispatch_action v = Inr a \<Longrightarrow> action_wf a"
  by (auto simp: dispatch_action_def and_then_Inr split: if_splits intro: decoded_orders decoded_cancels)

section \<open>The signed bytes\<close>

lemma length_be_bytes [simp]: "length (be_bytes k w) = k"
  by (induction k arbitrary: w) simp_all

lemma be_bytes_bits: "be_bytes k w = be_bytes k v \<Longrightarrow> n < 8 * k \<Longrightarrow> bit w n = bit v n"
proof (induction k arbitrary: w v n)
  case (Suc k)
  then have low: "(ucast w :: byte) = ucast v" and high: "be_bytes k (drop_bit 8 w) = be_bytes k (drop_bit 8 v)"
    by simp_all
  show ?case
  proof (cases "n < 8")
    case True
    with low have "bit (ucast w :: byte) n = bit (ucast v :: byte) n" by simp
    with True show ?thesis by (simp add: bit_ucast_iff)
  next
    case False
    with Suc.prems(2) have "n - 8 < 8 * k" by simp
    from Suc.IH [OF high this] False show ?thesis by (simp add: bit_drop_bit_eq)
  qed
qed simp

lemma to_be_bytes_inject: "to_be_bytes w = to_be_bytes v \<Longrightarrow> w = v"
  unfolding to_be_bytes_def by (rule bit_word_eqI) (rule be_bytes_bits [of 8], simp_all)

lemma length_to_be_bytes [simp]: "length (to_be_bytes w) = 8"
  by (simp add: to_be_bytes_def)

text \<open>MessagePack is self-delimiting: where an encoded value ends is determined by its own bytes.\<close>

definition self_delimiting :: "('a \<Rightarrow> 'b list) \<Rightarrow> bool" where
  "self_delimiting f \<longleftrightarrow> (\<forall>a b x y. f a @ x = f b @ y \<longrightarrow> a = b \<and> x = y)"

lemma self_delimitingD: "self_delimiting f \<Longrightarrow> f a @ x = f b @ y \<Longrightarrow> a = b \<and> x = y"
  by (simp add: self_delimiting_def)

lemma be_bytes_delimiting: "to_be_bytes n @ x = to_be_bytes m @ y \<Longrightarrow> n = m \<and> x = y"
  using to_be_bytes_inject by auto

definition vault_ok :: "byte list option \<Rightarrow> bool" where
  "vault_ok v \<longleftrightarrow> (case v of Some addr \<Rightarrow> length addr = 20 | None \<Rightarrow> True)"

lemma expiry_inject:
  "(case e of None \<Rightarrow> [] | Some ea \<Rightarrow> 0 # to_be_bytes ea) = (case e' of None \<Rightarrow> [] | Some ea \<Rightarrow> 0 # to_be_bytes ea) \<Longrightarrow>
     e = e'"
  by (cases e; cases e') (auto dest: to_be_bytes_inject)

lemma vault_inject:
  assumes "vault_ok v" and "vault_ok v'"
    and "(case v of None \<Rightarrow> [0] | Some addr \<Rightarrow> 1 # addr) @ x = (case v' of None \<Rightarrow> [0] | Some addr \<Rightarrow> 1 # addr) @ y"
  shows "v = v' \<and> x = y"
  using assms by (cases v; cases v') (auto simp: vault_ok_def)

section \<open>A self-delimiting encoding\<close>

text \<open>The instance on which the hypothesis on the encoder is met: numbers in unary, lists by length.\<close>

definition enc_nat :: "nat \<Rightarrow> byte list" where
  "enc_nat n = replicate n 1 @ [0]"

definition enc_list :: "('a \<Rightarrow> byte list) \<Rightarrow> 'a list \<Rightarrow> byte list" where
  "enc_list f xs = enc_nat (length xs) @ concat (map f xs)"

lemma unary_delimiting: "replicate n (1 :: byte) @ 0 # x = replicate m 1 @ 0 # y \<Longrightarrow> n = m \<and> x = y"
proof (induction n arbitrary: m)
  case 0
  then show ?case by (cases m) simp_all
next
  case (Suc n)
  then show ?case by (cases m) simp_all
qed

lemma enc_nat_delimiting: "self_delimiting enc_nat"
  unfolding self_delimiting_def enc_nat_def append_assoc append_Cons append_Nil by (blast dest: unary_delimiting)

lemma concat_delimiting:
  assumes "self_delimiting f" and "length xs = length ys" and "concat (map f xs) @ u = concat (map f ys) @ v"
  shows "xs = ys \<and> u = v"
  using assms(2,3)
proof (induction xs ys rule: list_induct2)
  case (Cons x xs y ys)
  then have "f x @ (concat (map f xs) @ u) = f y @ (concat (map f ys) @ v)" by simp
  from self_delimitingD [OF assms(1) this] Cons.IH show ?case by blast
qed simp

lemma enc_list_delimiting: "self_delimiting f \<Longrightarrow> self_delimiting (enc_list f)"
proof -
  assume f: "self_delimiting f"
  have "xs = ys \<and> u = v" if "enc_list f xs @ u = enc_list f ys @ v" for xs ys u v
  proof -
    from that have "enc_nat (length xs) @ (concat (map f xs) @ u) = enc_nat (length ys) @ (concat (map f ys) @ v)"
      by (simp add: enc_list_def)
    from self_delimitingD [OF enc_nat_delimiting this] show ?thesis by (intro concat_delimiting [OF f]) simp_all
  qed
  then show ?thesis by (auto simp: self_delimiting_def)
qed

lemma map_delimiting: "self_delimiting f \<Longrightarrow> inj s \<Longrightarrow> self_delimiting (\<lambda>a. f (s a))"
  unfolding self_delimiting_def by (blast dest: injD)

definition enc_text :: "string \<Rightarrow> byte list" where
  "enc_text = enc_list (\<lambda>c. enc_nat (of_char c))"

definition flag :: "bool \<Rightarrow> string" where
  "flag b = (if b then ''1'' else ''0'')"

definition unary :: "nat \<Rightarrow> string" where
  "unary n = replicate n CHR ''1''"

definition opt_list :: "'a option \<Rightarrow> 'a list" where
  "opt_list x = (case x of Some a \<Rightarrow> [a] | None \<Rightarrow> [])"

fun action_texts :: "hl_action \<Rightarrow> string list list" where
  "action_texts (DummyAction n) = [[''dummy'', unary (unat n)]]"
| "action_texts (OrderAction orders g) =
     [''order'', g] #
       map (\<lambda>w. [unary (ow_a w), flag (ow_b w), ow_p w, ow_s w, flag (ow_r w), ow_tif w] @ opt_list (ow_c w)) orders"
| "action_texts (ScheduleCancelAction t) = [''scheduleCancel'' # map (\<lambda>n. unary (unat n)) (opt_list t)]"
| "action_texts (CancelByCloidAction cs) =
     [''cancelByCloid''] # map (\<lambda>w. [unary (cw_asset w), cw_cloid w]) cs"

definition simple_pack :: "hl_action \<Rightarrow> byte list" where
  "simple_pack a = enc_list (enc_list enc_text) (action_texts a)"

lemma text_inject [simp]:
  "unary n = unary m \<longleftrightarrow> n = m" "flag a = flag b \<longleftrightarrow> a = b" "opt_list x = opt_list y \<longleftrightarrow> x = y"
  by (auto simp: unary_def flag_def opt_list_def split: option.splits dest: arg_cong [of _ _ length])

lemma action_texts_inject: "inj action_texts"
proof (rule injI)
  fix a b
  assume eq: "action_texts a = action_texts b"
  have "inj (\<lambda>w :: order_wire. [unary (ow_a w), flag (ow_b w), ow_p w, ow_s w, flag (ow_r w), ow_tif w] @ opt_list (ow_c w))"
    by (rule injI) (rule order_wire.equality; simp)
  moreover have "inj (\<lambda>w :: cancel_wire. [unary (cw_asset w), cw_cloid w])" by (rule injI) (rule cancel_wire.equality; simp)
  moreover have "inj (\<lambda>n :: u64. unary (unat n))" by (rule injI) (simp add: word_unat_eq_iff)
  ultimately show "a = b" using eq
    by (cases a; cases b) (simp_all add: inj_map_eq_map word_unat_eq_iff)
qed

lemma simple_pack_delimiting: "self_delimiting simple_pack"
proof -
  have "self_delimiting (\<lambda>c :: char. enc_nat (of_char c))"
    by (rule map_delimiting [OF enc_nat_delimiting]) (simp add: inj_def)
  then have "self_delimiting enc_text" unfolding enc_text_def by (rule enc_list_delimiting)
  then have "self_delimiting (enc_list (enc_list enc_text))" by (intro enc_list_delimiting)
  from map_delimiting [OF this action_texts_inject] show ?thesis by (simp add: simple_pack_def [abs_def])
qed

section \<open>Properties\<close>

text \<open>C10: what a signature covers: with an encoder whose values are self-delimiting, as MessagePack's are, equal
  bytes under the hash mean the same action, the same nonce, the same vault and the same expiry, the
  absent ones included. So a signed order cannot be replayed as a different request.\<close>

theorem preimage_determines_request:
  assumes "self_delimiting P" and "vault_ok v" and "vault_ok v'"
    and "action_preimage P a n v e = action_preimage P a' n' v' e'"
  shows "a = a' \<and> n = n' \<and> v = v' \<and> e = e'"
proof -
  from assms(4) [unfolded action_preimage_def] self_delimitingD [OF assms(1)] have a: "a = a'"
    and n: "to_be_bytes n @ ((case v of None \<Rightarrow> [0] | Some addr \<Rightarrow> 1 # addr) @
        (case e of None \<Rightarrow> [] | Some ea \<Rightarrow> 0 # to_be_bytes ea)) =
      to_be_bytes n' @ ((case v' of None \<Rightarrow> [0] | Some addr \<Rightarrow> 1 # addr) @
        (case e' of None \<Rightarrow> [] | Some ea \<Rightarrow> 0 # to_be_bytes ea))"
    by (auto simp only: append_assoc)
  from be_bytes_delimiting [OF n] vault_inject [OF assms(2,3)] have "n = n'" "v = v'"
    "(case e of None \<Rightarrow> [] | Some ea \<Rightarrow> 0 # to_be_bytes ea) = (case e' of None \<Rightarrow> [] | Some ea \<Rightarrow> 0 # to_be_bytes ea)"
    by auto
  with a expiry_inject show ?thesis by blast
qed

theorem preimage_determines_request_witness:
  "action_preimage simple_pack (DummyAction 1) 7 None (Some 60000) \<noteq>
     action_preimage simple_pack (DummyAction 1) 8 None (Some 60000) \<and>
   action_preimage simple_pack (DummyAction 1) 7 None (Some 60000) \<noteq>
     action_preimage simple_pack (DummyAction 1) 7 None None \<and>
   action_preimage simple_pack (ScheduleCancelAction None) 7 None None \<noteq>
     action_preimage simple_pack (ScheduleCancelAction (Some 5)) 7 None None"
  using preimage_determines_request [OF simple_pack_delimiting, of None None "DummyAction 1" 7 "Some 60000" "DummyAction 1" 8 "Some 60000"]
    preimage_determines_request [OF simple_pack_delimiting, of None None "DummyAction 1" 7 "Some 60000" "DummyAction 1" 7 None]
    preimage_determines_request [OF simple_pack_delimiting, of None None "ScheduleCancelAction None" 7 None
      "ScheduleCancelAction (Some 5)" 7 None]
  by (auto simp: vault_ok_def)

text \<open>C12: an action that is decoded for signing is well typed, every asset index a 32-bit number, and its JSON
  form decodes to the same action again: what is signed is what the exchange decodes.\<close>

theorem signed_action_typed:
  assumes "dispatch_action v = Inr a"
  shows "action_wf a \<and> dispatch_action (action_json a) = Inr a"
  using dispatch_wf [OF assms] action_json_roundtrip by blast

definition demo_wire :: order_wire where
  "demo_wire = \<lparr>ow_a = 3, ow_b = True, ow_p = ''101.5'', ow_s = ''0.2'', ow_r = False, ow_tif = ''Ioc'',
                ow_c = Some ''0xab''\<rparr>"

theorem signed_action_typed_witness:
  "dispatch_action (JObject [(''grouping'', JString ''na''), (''orders'', JArray [order_wire_json demo_wire]),
       (''type'', JString ''order'')]) = Inr (OrderAction [demo_wire] ''na'') \<and>
   action_wf (OrderAction [demo_wire] ''na'') \<and>
   dispatch_action (action_json (OrderAction [demo_wire] ''na'')) = Inr (OrderAction [demo_wire] ''na'')"
proof -
  have "u32 (ow_a demo_wire)" by (simp add: u32_def U32_MAX_def demo_wire_def)
  then have d: "dispatch_action (JObject [(''grouping'', JString ''na''), (''orders'', JArray [order_wire_json demo_wire]),
       (''type'', JString ''order'')]) = Inr (OrderAction [demo_wire] ''na'')"
    by (simp add: dispatch_action_def get_str_def order_wire_roundtrip)
  with signed_action_typed [OF d] show ?thesis by blast
qed

end
