(* ===== verification/Client_Facts.thy ===== *)
theory Client_Facts
  imports Client Signing_Facts Run_Safety
begin

text \<open>
  What reaches the network. The \<open>/info\<close> calls are retried within bounds and never touch the exchange
  endpoint; an exchange call makes at most one POST, signed with the nonce it carries. Over a whole
  history every exchange POST belongs to one call, and for a run over this client that puts the guards of
  the run on the POSTs themselves.
\<close>

section \<open>The effect of one call\<close>

lemma snd_parsed [simp]: "snd (parsed rw f) = snd rw"
  by (simp add: parsed_def split_beta)

lemma fst_parsed: "fst (parsed rw f) = and_then (fst rw) f"
  by (simp add: parsed_def split_beta)

lemma pause_simps [simp]:
  "ww_posts (pause d w) = ww_posts w" "ww_nonce (pause d w) = ww_nonce w"
  by (simp_all add: pause_def)

lemma post_once_effect [simp]:
  "ww_posts (snd (post_once W url body w)) = (ww_now w, url, body) # ww_posts w"
  "ww_nonce (snd (post_once W url body w)) = ww_nonce w"
  by (simp_all add: post_once_def split_beta)

text \<open>A retried call: between one and four POSTs of the same body, the last one decisive.\<close>

lemma post_attempts_effect:
  "\<exists>ps. ww_posts (snd (post_attempts W url body waits w)) = ps @ ww_posts w \<and>
     ps \<noteq> [] \<and> length ps \<le> Suc (length waits) \<and> (\<forall>p\<in>set ps. snd p = (url, body)) \<and>
     ww_nonce (snd (post_attempts W url body waits w)) = ww_nonce w \<and>
     (is_network (fst (post_attempts W url body waits w)) \<longrightarrow> length ps = Suc (length waits))"
proof (induction waits arbitrary: w)
  case (Cons wait waits)
  obtain r w1 where p: "post_once W url body w = (r, w1)" by (cases "post_once W url body w")
  with post_once_effect [of W url body w]
  have w1: "ww_posts w1 = (ww_now w, url, body) # ww_posts w" "ww_nonce w1 = ww_nonce w" by simp_all
  show ?case
  proof (cases "is_network r")
    case True
    from Cons.IH [of "pause wait w1"] obtain ps where
      "ww_posts (snd (post_attempts W url body waits (pause wait w1))) = ps @ (ww_now w, url, body) # ww_posts w"
      "length ps \<le> Suc (length waits)" "\<forall>p\<in>set ps. snd p = (url, body)"
      "ww_nonce (snd (post_attempts W url body waits (pause wait w1))) = ww_nonce w"
      "is_network (fst (post_attempts W url body waits (pause wait w1))) \<longrightarrow> length ps = Suc (length waits)"
      by (auto simp: w1)
    with True p show ?thesis by (intro exI [of _ "ps @ [(ww_now w, url, body)]"]) simp
  next
    case False
    with p w1 show ?thesis by (intro exI [of _ "[(ww_now w, url, body)]"]) simp
  qed
qed (rule exI [of _ "[(ww_now w, url, body)]" for w], simp)

definition exch_posts :: "hl_client \<Rightarrow> wire_world \<Rightarrow> (nanos \<times> string \<times> json) list" where
  "exch_posts C w = filter (\<lambda>p. fst (snd p) = cf_exchange_url (cl_config C)) (ww_posts w)"

definition separate_endpoints :: "hl_client \<Rightarrow> bool" where
  "separate_endpoints C \<longleftrightarrow> cf_info_url (cl_config C) \<noteq> cf_exchange_url (cl_config C)"

lemma exch_posts_now [simp]: "exch_posts C (w\<lparr>ww_now := t\<rparr>) = exch_posts C w"
  by (simp add: exch_posts_def)

lemma info_effect:
  assumes "separate_endpoints C"
  shows "exch_posts C (snd (info C W body w)) = exch_posts C w" "ww_nonce (snd (info C W body w)) = ww_nonce w"
proof -
  obtain ps where ps: "ww_posts (snd (info C W body w)) = ps @ ww_posts w"
      "\<forall>p\<in>set ps. snd p = (cf_info_url (cl_config C), body)"
    and n: "ww_nonce (snd (info C W body w)) = ww_nonce w"
    using post_attempts_effect [of W "cf_info_url (cl_config C)" body RETRY_BACKOFF w]
    by (auto simp: info_def post_with_retry_def)
  from ps(2) assms have "filter (\<lambda>p. fst (snd p) = cf_exchange_url (cl_config C)) ps = []"
    by (auto simp: separate_endpoints_def filter_empty_conv)
  with ps(1) show "exch_posts C (snd (info C W body w)) = exch_posts C w" by (simp add: exch_posts_def)
  show "ww_nonce (snd (info C W body w)) = ww_nonce w" by (rule n)
qed

text \<open>The POST that an exchange call makes, if it signs.\<close>

definition exchange_post ::
  "hl_client \<Rightarrow> wire_env \<Rightarrow> json \<Rightarrow> u64 option \<Rightarrow> wire_world \<Rightarrow> (nanos \<times> string \<times> json) list" where
  "exchange_post C W action expires w =
     (let nonce = fst (mint_nonce W w) in
      case cl_signer C of
        None \<Rightarrow> []
      | Some sign \<Rightarrow>
          (case sign action nonce None expires of
             Inl e \<Rightarrow> []
           | Inr sg \<Rightarrow> [(ww_now w, cf_exchange_url (cl_config C), exchange_body action nonce sg expires)]))"

lemma mint_nonce_posts [simp]:
  "ww_posts (snd (mint_nonce W w)) = ww_posts w" "ww_now (snd (mint_nonce W w)) = ww_now w"
  by (simp_all add: mint_nonce_def split_beta)

lemma post_exchange_effect:
  "ww_posts (snd (post_exchange_once C W action expires w)) = exchange_post C W action expires w @ ww_posts w"
  "ww_nonce (snd (post_exchange_once C W action expires w)) = ww_nonce (snd (mint_nonce W w))"
  by (simp_all add: post_exchange_once_def exchange_post_def split_beta Let_def split: option.split sum.split)

lemma exch_posts_exchange:
  "exch_posts C (snd (post_exchange_once C W action expires w)) = exchange_post C W action expires w @ exch_posts C w"
  by (simp add: exch_posts_def post_exchange_effect)
    (simp add: exchange_post_def Let_def split: option.split sum.split)

lemma post_exchange_Inr:
  assumes "fst (post_exchange_once C W action expires w) = Inr (nonce, reply)"
  obtains sign sg where "cl_signer C = Some sign" and "sign action nonce None expires = Inr sg"
    and "exchange_post C W action expires w =
           [(ww_now w, cf_exchange_url (cl_config C), exchange_body action nonce sg expires)]"
  using assms that
  by (auto simp: post_exchange_once_def exchange_post_def split_beta Let_def fst_parsed and_then_Inr
      split: option.splits sum.splits)

section \<open>The calls of a history\<close>

fun exchange_event :: "libs \<Rightarrow> event \<Rightarrow> (json \<times> u64 option) option" where
  "exchange_event L (EvPlace i a x r) = Some (order_action L i a, Some x)"
| "exchange_event L (EvCancel c a r) = Some (cancel_action L c a, None)"
| "exchange_event L ev = None"

definition event_posts ::
  "libs \<Rightarrow> hl_client \<Rightarrow> wire_env \<Rightarrow> event \<Rightarrow> wire_world \<Rightarrow> (nanos \<times> string \<times> json) list" where
  "event_posts L C W ev w =
     (case exchange_event L ev of None \<Rightarrow> [] | Some (action, expires) \<Rightarrow> exchange_post C W action expires w)"

lemmas client_reads = client_l2_book_def client_perp_position_def client_order_status_def
  client_order_status_by_cloid_def order_status_body_def client_user_fills_def

lemmas client_sends = client_place_order_once_def client_cancel_by_cloid_def

lemma wire_call_posts:
  "separate_endpoints C \<Longrightarrow> exch_posts C (wire_call L C W ev w) = event_posts L C W ev w @ exch_posts C w"
  by (cases ev) (simp_all add: event_posts_def client_reads client_sends info_effect exch_posts_exchange)

lemma wire_call_nonce:
  "separate_endpoints C \<Longrightarrow> ww_nonce (wire_call L C W ev w) =
     (if exchange_event L ev = None then ww_nonce w else ww_nonce (snd (mint_nonce W w)))"
  by (cases ev) (simp_all add: client_reads client_sends info_effect post_exchange_effect)

lemma exchange_post_mem:
  assumes "p \<in> set (exchange_post C W action expires w)"
  shows "\<exists>sign nonce sg. cl_signer C = Some sign \<and> sign action nonce None expires = Inr sg \<and>
    p = (ww_now w, cf_exchange_url (cl_config C), exchange_body action nonce sg expires)"
proof (cases "cl_signer C")
  case (Some sign)
  with assms show ?thesis
    by (cases "sign action (fst (mint_nonce W w)) None expires") (auto simp: exchange_post_def Let_def)
qed (use assms in \<open>simp add: exchange_post_def Let_def\<close>)

lemma event_posts_mem:
  assumes "p \<in> set (event_posts L C W ev w)"
  shows "\<exists>action expires sign nonce sg. exchange_event L ev = Some (action, expires) \<and>
    cl_signer C = Some sign \<and> sign action nonce None expires = Inr sg \<and>
    p = (ww_now w, cf_exchange_url (cl_config C), exchange_body action nonce sg expires)"
proof (cases "exchange_event L ev")
  case (Some q)
  obtain action expires where q: "q = (action, expires)" by (cases q)
  with Some assms have "p \<in> set (exchange_post C W action expires w)" by (simp add: event_posts_def)
  from exchange_post_mem [OF this] Some q show ?thesis by blast
qed (use assms in \<open>simp add: event_posts_def\<close>)

text \<open>Every exchange POST of a history is the POST of one call, made at the instant of that call; its
  signature is the signer's over the action, the nonce and the expiry of its body.\<close>

lemma wire_after_post:
  assumes "separate_endpoints C" and "exch_posts C w0 = []" and "p \<in> set (exch_posts C (wire_after L C W w0 tr))"
  shows "\<exists>later t ev earlier action expires sign nonce sg. tr = later @ (t, ev) # earlier \<and>
           exchange_event L ev = Some (action, expires) \<and>
           cl_signer C = Some sign \<and> sign action nonce None expires = Inr sg \<and>
           p = (t, cf_exchange_url (cl_config C), exchange_body action nonce sg expires)"
  using assms(3)
proof (induction tr)
  case (Cons te tr)
  obtain t ev where te: "te = (t, ev)" by (cases te)
  let ?w = "(wire_after L C W w0 tr)\<lparr>ww_now := t\<rparr>"
  from Cons.prems have "p \<in> set (event_posts L C W ev ?w) \<or> p \<in> set (exch_posts C (wire_after L C W w0 tr))"
    by (simp add: te wire_call_posts [OF assms(1)])
  then show ?case
  proof
    assume "p \<in> set (exch_posts C (wire_after L C W w0 tr))"
    from Cons.IH [OF this] show ?thesis by (metis append_Cons)
  next
    assume "p \<in> set (event_posts L C W ev ?w)"
    from event_posts_mem [OF this] te show ?thesis by (fastforce intro: exI [of _ "[]"])
  qed
qed (simp add: assms(2))

section \<open>Nonces\<close>

definition post_nonce :: "nanos \<times> string \<times> json \<Rightarrow> u64 option" where
  "post_nonce p = get_u64 (snd (snd p)) ''nonce''"

lemma post_nonce_body [simp]: "post_nonce (t, url, exchange_body action nonce sg expires) = Some nonce"
  by (simp add: post_nonce_def get_u64_def exchange_body_def)

text \<open>The nonces of a list of POSTs, newest first, fall strictly; all are above \<open>lst\<close> and at most \<open>hi\<close>.\<close>

definition nonces_fall :: "u64 \<Rightarrow> u64 \<Rightarrow> (nanos \<times> string \<times> json) list \<Rightarrow> bool" where
  "nonces_fall lst hi ps \<longleftrightarrow> lst \<le> hi \<and>
     (\<exists>ns. map post_nonce ps = map Some ns \<and> sorted_wrt (>) ns \<and> (\<forall>n\<in>set ns. lst < n \<and> n \<le> hi))"

lemma nonces_fall_mono: "nonces_fall lst hi ps \<Longrightarrow> hi \<le> hi' \<Longrightarrow> nonces_fall lst hi' ps"
  unfolding nonces_fall_def by (meson order_trans)

lemma nonces_fall_Cons:
  "nonces_fall lst hi ps \<Longrightarrow> hi < n \<Longrightarrow> post_nonce p = Some n \<Longrightarrow> nonces_fall lst n (p # ps)"
  unfolding nonces_fall_def by (elim conjE exE, intro conjI, simp, rule_tac x = "n # ns" in exI) auto

definition sane_clock :: "wire_env \<Rightarrow> bool" where
  "sane_clock W \<longleftrightarrow>
     (\<forall>w. we_fault W w = None \<and> (case we_clock W w of Some ms \<Rightarrow> unat ms < 2 ^ 63 | None \<Rightarrow> True))"

lemma mint_nonce_inv:
  assumes "sane_clock W" and "nonce_inv b hi (ww_nonce w)" and "2 ^ 63 \<le> b" and "b < u64_max"
  shows "hi < fst (mint_nonce W w) \<and>
         nonce_inv (b + 1) (fst (mint_nonce W w)) (ww_nonce (snd (mint_nonce W w)))"
proof -
  define now where "now = (case we_clock W w of Some ms \<Rightarrow> ms | None \<Rightarrow> 0)"
  have f: "we_fault W w = None" and now: "unat now < 2 ^ 63"
    using assms(1) by (auto simp: sane_clock_def now_def split: option.split option.splits)
  obtain st n where "next_nonce (ww_nonce w) now None = (st, n)" by (cases "next_nonce (ww_nonce w) now None")
  with mint_inv [OF assms(2) now assms(3,4) this] show ?thesis
    by (simp add: mint_nonce_def now_def [symmetric] f)
qed

lemma nonce_inv_mono: "nonce_inv b hi st \<Longrightarrow> b \<le> b' \<Longrightarrow> nonce_inv b' hi st"
  by (auto simp: nonce_inv_def)

lemma wire_after_nonces:
  assumes "separate_endpoints C" and "sane_clock W" and "exch_posts C w0 = []"
    and "nonce_inv b lst (ww_nonce w0)" and "2 ^ 63 \<le> b" and "b + length tr < u64_max"
  shows "\<exists>hi. nonce_inv (b + length tr) hi (ww_nonce (wire_after L C W w0 tr)) \<and>
              nonces_fall lst hi (exch_posts C (wire_after L C W w0 tr))"
  using assms(6)
proof (induction tr)
  case Nil
  with assms(3,4) show ?case by (intro exI [of _ lst]) (simp add: nonces_fall_def)
next
  case (Cons te tr)
  obtain t ev where te: "te = (t, ev)" by (cases te)
  define w where "w = (wire_after L C W w0 tr)\<lparr>ww_now := t\<rparr>"
  from Cons obtain hi where hi: "nonce_inv (b + length tr) hi (ww_nonce w)" "nonces_fall lst hi (exch_posts C w)"
    by (auto simp: w_def)
  have posts: "exch_posts C (wire_after L C W w0 (te # tr)) = event_posts L C W ev w @ exch_posts C w"
    by (simp add: te w_def wire_call_posts [OF assms(1)])
  have nonce: "ww_nonce (wire_after L C W w0 (te # tr)) =
      (if exchange_event L ev = None then ww_nonce w else ww_nonce (snd (mint_nonce W w)))"
    by (simp add: te w_def wire_call_nonce [OF assms(1)])
  show ?case
  proof (cases "exchange_event L ev")
    case None
    moreover from nonce_inv_mono [OF hi(1)] have "nonce_inv (b + length (te # tr)) hi (ww_nonce w)" by simp
    ultimately show ?thesis using hi(2) unfolding posts nonce by (auto simp: event_posts_def)
  next
    case (Some q)
    obtain action expires where q: "q = (action, expires)" by (cases q)
    let ?n = "fst (mint_nonce W w)"
    have n: "hi < ?n" "nonce_inv (b + length (te # tr)) ?n (ww_nonce (snd (mint_nonce W w)))"
      using mint_nonce_inv [OF assms(2) hi(1)] Cons.prems assms(5) by auto
    have "nonces_fall lst ?n (exchange_post C W action expires w @ exch_posts C w)"
      using nonces_fall_Cons [OF hi(2) n(1)] nonces_fall_mono [OF hi(2), of ?n] n(1)
      by (simp add: exchange_post_def Let_def split: option.split sum.split)
    with n(2) Some q show ?thesis unfolding posts nonce by (auto simp: event_posts_def)
  qed
qed

section \<open>A network for the examples\<close>

definition demo_json :: json_lib where
  "demo_json =
     \<lparr>js_parse = (\<lambda>s.
        if s = ''book'' then
          Some (JObject [(''coin'', JString ''BTC''), (''time'', JNumber (PosInt 0)),
            (''levels'', JArray [JArray [JObject [(''px'', JString ''99''), (''sz'', JString ''5''), (''n'', JNumber (PosInt 1))]],
                                 JArray [JObject [(''px'', JString ''100''), (''sz'', JString ''5''), (''n'', JNumber (PosInt 1))]]])])
        else if s = ''fill'' then
          Some (JObject [(''status'', JString ''ok''), (''response'', JObject [(''data'', JObject [(''statuses'',
            JArray [JObject [(''filled'', JObject [(''oid'', JNumber (PosInt 41)), (''totalSz'', JString ''1''),
                                                  (''avgPx'', JString ''100'')])]])])])])
        else None),
      js_show = (\<lambda>_. ''?'')\<rparr>"

definition demo_libs :: libs where
  "demo_libs = \<lparr>lb_dec = exact_dec, lb_json = demo_json, lb_uuid = hex_uuid\<rparr>"

definition demo_client :: hl_client where
  "demo_client =
     \<lparr>cl_config = hl_config_new Testnet,
      cl_signer = Some (sign_l1 simple_pack (\<lambda>bs. bs) (\<lambda>_. Some (''1'', ''2'', False)) False (\<lambda>_. None))\<rparr>"

text \<open>Every info request returns the book, every exchange request a fill.\<close>

definition demo_net :: wire_env where
  "demo_net =
     \<lparr>we_net = (\<lambda>w url body.
        (Inr (200, if url = cf_info_url (hl_config_new Testnet) then ''book'' else ''fill''), 1000000)),
      we_clock = (\<lambda>w. Some 5000), we_fault = (\<lambda>w. None)\<rparr>"

definition demo_wire_world :: wire_world where
  "demo_wire_world =
     \<lparr>ww_now = 0, ww_posts = [],
      ww_nonce = seed_nonce \<lparr>ns_last = 0, ns_hwm = None,
                   ns_disk = \<lparr>hd_live = Some (Whole 1000), hd_tmp = None\<rparr>\<rparr> \<lparr>hw_current = 1000\<rparr> 5000\<rparr>"

lemma demo_separate: "separate_endpoints demo_client"
  by (simp add: separate_endpoints_def demo_client_def hl_config_new_def)

lemma demo_sane: "sane_clock demo_net"
  by (simp add: sane_clock_def demo_net_def)

lemma demo_parse_fill: "parse_place_response exact_dec demo_json ''fill'' = Inr (Filled 41 1 100)"
  by code_simp

lemma demo_parse_book: "parse_l2_book exact_dec demo_json ''book'' = Inr demo_book"
proof -
  have "d_parse exact_dec ''99'' = Some 99" "d_parse exact_dec ''100'' = Some 100" "d_parse exact_dec ''5'' = Some 5"
    by code_simp+
  then show ?thesis
    by (simp add: parse_l2_book_def demo_json_def get_str_def wire_levels_def wire_level_def get_u32_def get_u64_def
        U32_MAX_def need_def ok_or_def to_orderbook_def nth_opt_def first_opt_def demo_book_def)
qed

section \<open>A run over the network of the example\<close>

text \<open>The demo client behind the interface, with the clocks, journal and cloids of the scripted environment.\<close>

definition wired_env :: env where
  "wired_env = client_env demo_libs demo_client demo_net demo_wire_world (scripted_env demo_script True None)"

lemma demo_sign:
  assumes "dispatch_action action = Inr a"
  shows "\<exists>sg. the (cl_signer demo_client) action n None e = Inr sg"
  using assms by (simp add: demo_client_def sign_l1_def)

lemma demo_book_answer:
  "ww_now w = t \<Longrightarrow> answered (client_l2_book demo_libs demo_client demo_net s w) v = (Inr demo_book, t + 1000000 - w_now v)"
  by (simp add: answered_def client_l2_book_def info_def post_with_retry_def RETRY_BACKOFF_def post_once_def demo_net_def
      demo_client_def hl_config_new_def parsed_def demo_libs_def demo_parse_book split_beta)

lemma demo_place_answer:
  assumes "ww_now w = t" and "u32 a"
  shows "answered (client_place_order_once demo_libs demo_client demo_net i a x w) v =
           (Inr (fst (mint_nonce demo_net w), Filled 41 1 100), t + 1000000 - w_now v)"
proof -
  have "dispatch_action (order_action demo_libs i a) =
      Inr (OrderAction [order_intent_to_wire (lb_dec demo_libs) (lb_uuid demo_libs) i a] ''na'')"
    unfolding order_action_def using assms(2)
    by (intro action_json_roundtrip) (simp add: order_intent_to_wire_def)
  from demo_sign [OF this] obtain sg where "the (cl_signer demo_client) (order_action demo_libs i a)
      (fst (mint_nonce demo_net w)) None (Some x) = Inr sg" by blast
  with assms(1) show ?thesis
    by (simp add: answered_def client_place_order_once_def post_exchange_once_def parsed_def split_beta demo_client_def
        post_once_def demo_net_def hl_config_new_def demo_libs_def demo_parse_fill)
qed

lemma wired_env_simps:
  "e_book wired_env w s = (Inr demo_book, 1000000)"
  "e_place wired_env w i 0 x =
     (Inr (fst (mint_nonce demo_net (wire_now demo_libs demo_client demo_net demo_wire_world w)), Filled 41 1 100), 1000000)"
  "e_record wired_env w r = (True, 0)"
  "e_has_journal wired_env = True"
  "e_read_journal wired_env w = Inr (w_journal w)"
  "e_order wired_env xs = xs"
  "e_cloid wired_env w = of_nat (length (w_trace w))"
  "e_wall wired_env w = Some (of_nat (as_millis (w_now w)))"
  "e_chrono wired_env w = of_nat (as_millis (w_now w))"
  "e_shutdown wired_env = None"
  "e_race wired_env w = True"
  by (simp_all add: wired_env_def client_env_def scripted_env_simps wire_now_def demo_book_answer demo_place_answer
      u32_def)

lemma wired_run:
  "\<exists>rep w'. run_twap_completion exact_dec wired_env demo_plan 0 False None world_init = Some (rep, w') \<and>
     rp_filled rep = 2 \<and> count_events is_place w' = 2"
  by (simp add: run_eval run_defs wired_env_simps finalize_journal_def replay_def map_err_def upt_conv_Cons
      cong: try_w_cong_weak)

section \<open>Properties\<close>

text \<open>C4: the guards of a run hold for what reaches the network: for a run over the real client, every POST to the
  exchange endpoint carries the signature that the client's signer makes over exactly its action, nonce and
  expiry, and is a cancel without an expiry, or an order of the plan, sent before the deadline with the run's
  expiry, before the shutdown, and after its intent was durably recorded.\<close>

theorem order_posts_guarded:
  fixes L :: libs and C :: hl_client and W :: wire_env and w0 :: wire_world and E0 :: env
  defines "E \<equiv> client_env L C W w0 E0"
  assumes "separate_endpoints C" and "exch_posts C w0 = []" and "w_trace w = []"
    and "run_twap_completion D E plan prior defer guard w = Some (rep, w')"
    and "p \<in> set (exch_posts C (wire_after L C W w0 (w_trace w')))"
  shows "\<exists>t action sign nonce sg expires.
    p = (t, cf_exchange_url (cl_config C), exchange_body action nonce sg expires) \<and>
    cl_signer C = Some sign \<and> sign action nonce None expires = Inr sg \<and>
    ((\<exists>c a. action = cancel_action L c a \<and> expires = None) \<or>
     (\<exists>i later r earlier.
        w_trace w' = later @ (t, EvPlace i (pl_asset_index plan) (the expires) r) # earlier \<and>
        action = order_action L i (pl_asset_index plan) \<and> expires = Some (dl_expires_after_ms (run_deadline E plan w)) \<and>
        t < dl_monotonic (run_deadline E plan w) \<and> (case e_shutdown E0 of Some s \<Rightarrow> t < s | None \<Rightarrow> True) \<and>
        (e_has_journal E0 \<longrightarrow> list_ex (\<lambda>te. is_prepared_event D i (snd te)) earlier) \<and>
        within_plan D plan i (pl_asset_index plan)))"
proof -
  from wire_after_post [OF assms(2,3,6)] obtain later t ev earlier action expires sign nonce sg where
    tr: "w_trace w' = later @ (t, ev) # earlier" and ev: "exchange_event L ev = Some (action, expires)"
    and sg: "cl_signer C = Some sign" "sign action nonce None expires = Inr sg"
    and p: "p = (t, cf_exchange_url (cl_config C), exchange_body action nonce sg expires)" by blast
  have E0: "e_shutdown E = e_shutdown E0" "e_has_journal E = e_has_journal E0" by (simp_all add: E_def client_env_def)
  have "(\<exists>c a. action = cancel_action L c a \<and> expires = None) \<or>
     (\<exists>i later r earlier.
        w_trace w' = later @ (t, EvPlace i (pl_asset_index plan) (the expires) r) # earlier \<and>
        action = order_action L i (pl_asset_index plan) \<and> expires = Some (dl_expires_after_ms (run_deadline E plan w)) \<and>
        t < dl_monotonic (run_deadline E plan w) \<and> (case e_shutdown E0 of Some s \<Rightarrow> t < s | None \<Rightarrow> True) \<and>
        (e_has_journal E0 \<longrightarrow> list_ex (\<lambda>te. is_prepared_event D i (snd te)) earlier) \<and>
        within_plan D plan i (pl_asset_index plan))" (is ?guard)
  proof (cases ev)
    case (EvPlace i a x r)
    with ev have q: "action = order_action L i a" "expires = Some x" by simp_all
    from run_send_guarded [OF assms(5,4)] tr EvPlace
    have g: "guarded_send D E (run_deadline E plan w) (within_plan D plan) t i a x earlier" by blast
    then have "a = pl_asset_index plan" by (simp add: guarded_send_def within_plan_def)
    with g q tr EvPlace E0 show ?thesis unfolding guarded_send_def by fastforce
  qed (use ev in auto)
  then show ?thesis
    by (intro exI [of _ t] exI [of _ action] exI [of _ sign] exI [of _ nonce] exI [of _ sg] exI [of _ expires] conjI p sg)
qed

lemma demo_order_post:
  assumes "te \<in> set tr" and "is_place (snd te)"
    and "\<forall>te\<in>set tr. \<forall>i a x r. snd te = EvPlace i a x r \<longrightarrow> u32 a"
  shows "exch_posts demo_client (wire_after demo_libs demo_client demo_net w0 tr) \<noteq> []"
  using assms
proof (induction tr)
  case (Cons te' tr)
  obtain t ev where te: "te' = (t, ev)" by (cases te')
  show ?case
  proof (cases "is_place ev")
    case True
    then obtain i a x r where ev: "ev = EvPlace i a x r" by (cases ev) auto
    with Cons.prems(3) te have "u32 a" by force
    then have "dispatch_action (order_action demo_libs i a) =
        Inr (OrderAction [order_intent_to_wire (lb_dec demo_libs) (lb_uuid demo_libs) i a] ''na'')"
      unfolding order_action_def by (intro action_json_roundtrip) (simp add: order_intent_to_wire_def)
    from demo_sign [OF this] have "\<exists>sg. the (cl_signer demo_client) (order_action demo_libs i a)
        (fst (mint_nonce demo_net v)) None (Some x) = Inr sg" for v .
    then have "event_posts demo_libs demo_client demo_net ev v \<noteq> []" for v
      by (cases "the (cl_signer demo_client) (order_action demo_libs i a) (fst (mint_nonce demo_net v)) None (Some x)")
        (auto simp: event_posts_def ev exchange_post_def Let_def demo_client_def dest: meta_spec [of _ v])
    then show ?thesis by (simp add: te wire_call_posts [OF demo_separate])
  next
    case False
    with Cons te show ?thesis by (auto simp: wire_call_posts [OF demo_separate])
  qed
qed simp

theorem order_posts_guarded_witness:
  "\<exists>rep w' t action nonce sg expires.
     run_twap_completion exact_dec wired_env demo_plan 0 False None world_init = Some (rep, w') \<and> rp_filled rep = 2 \<and>
     the (cl_signer demo_client) action nonce None expires = Inr sg \<and>
     (t, cf_exchange_url (cl_config demo_client), exchange_body action nonce sg expires)
       \<in> set (exch_posts demo_client (wire_after demo_libs demo_client demo_net demo_wire_world (w_trace w'))) \<and>
     ((\<exists>c a. action = cancel_action demo_libs c a \<and> expires = None) \<or>
      (\<exists>i. action = order_action demo_libs i 0 \<and> expires = Some 60000 \<and> t < secs 60 \<and>
        within_plan exact_dec demo_plan i 0))"
proof -
  let ?posts = "\<lambda>w'. exch_posts demo_client (wire_after demo_libs demo_client demo_net demo_wire_world (w_trace w'))"
  obtain rep w' where run: "run_twap_completion exact_dec wired_env demo_plan 0 False None world_init = Some (rep, w')"
    and filled: "rp_filled rep = 2" and n: "count_events is_place w' = 2" using wired_run by blast
  have empty: "w_trace world_init = []" by (simp add: world_init_def)
  from n have "filter (\<lambda>te. is_place (snd te)) (w_trace w') \<noteq> []" by (auto simp: count_events_def)
  then obtain te where te: "te \<in> set (w_trace w')" "is_place (snd te)" by (auto simp: filter_empty_conv)
  have "u32 a" if "te \<in> set (w_trace w')" "snd te = EvPlace i a x r" for te i a x r
  proof -
    from that obtain t later earlier where "w_trace w' = later @ (t, EvPlace i a x r) # earlier"
      by (metis in_set_conv_decomp prod.collapse)
    from run_send_guarded [OF run empty this] show ?thesis
      by (simp add: guarded_send_def within_plan_def demo_plan_def u32_def)
  qed
  with demo_order_post [OF te] have "?posts w' \<noteq> []" by blast
  then obtain p where p: "p \<in> set (?posts w')" using list.set_sel(1) by blast
  have none: "exch_posts demo_client demo_wire_world = []" by (simp add: exch_posts_def demo_wire_world_def)
  have dl: "run_deadline wired_env demo_plan world_init = \<lparr>dl_monotonic = secs 60, dl_expires_after_ms = 60000\<rparr>"
    by (simp add: run_deadline_def demo_plan_def deadline_new_def wall_clock_now_ms_def wired_env_simps
        as_millis_def world_init_def secs_def ns_per_ms_def sat_add_u64_def u64_max_def)
  have "pl_asset_index demo_plan = 0" by (simp add: demo_plan_def)
  from order_posts_guarded [OF demo_separate none empty run [unfolded wired_env_def] p, folded wired_env_def]
  obtain t action sign nonce sg expires where
    q: "p = (t, cf_exchange_url (cl_config demo_client), exchange_body action nonce sg expires)"
    and sg: "cl_signer demo_client = Some sign" "sign action nonce None expires = Inr sg"
    and g: "(\<exists>c a. action = cancel_action demo_libs c a \<and> expires = None) \<or>
      (\<exists>i later r earlier. w_trace w' = later @ (t, EvPlace i (pl_asset_index demo_plan) (the expires) r) # earlier \<and>
        action = order_action demo_libs i (pl_asset_index demo_plan) \<and>
        expires = Some (dl_expires_after_ms (run_deadline wired_env demo_plan world_init)) \<and>
        t < dl_monotonic (run_deadline wired_env demo_plan world_init) \<and>
        within_plan exact_dec demo_plan i (pl_asset_index demo_plan))"
    by blast
  from sg have "the (cl_signer demo_client) action nonce None expires = Inr sg" by simp
  moreover from g have "(\<exists>c a. action = cancel_action demo_libs c a \<and> expires = None) \<or>
      (\<exists>i. action = order_action demo_libs i 0 \<and> expires = Some 60000 \<and> t < secs 60 \<and>
        within_plan exact_dec demo_plan i 0)"
    using dl \<open>pl_asset_index demo_plan = 0\<close> by auto
  ultimately show ?thesis using p [unfolded q] run filled by blast
qed

text \<open>C11: the nonces in the bodies of the exchange POSTs of a process rise strictly, and all lie above the mark
  that an earlier process left, whatever is sent and answered, while persisting the mark succeeds and the
  clock is before the year 292 million.\<close>

theorem exchange_nonces_increase:
  assumes "separate_endpoints C" and "sane_clock W" and "exch_posts C w0 = []" and "length tr < 2 ^ 62"
    and "hd_live disk = Some (Whole lst)" and "unat lst < 2 ^ 63" and "unat now < 2 ^ 63"
    and "ww_nonce w0 = seed_nonce \<lparr>ns_last = 0, ns_hwm = None, ns_disk = disk\<rparr> \<lparr>hw_current = lst\<rparr> now"
  shows "\<exists>ns. map post_nonce (exch_posts C (wire_after L C W w0 tr)) = map Some ns \<and> sorted_wrt (>) (ns @ [lst])"
proof -
  let ?st = "\<lparr>ns_last = lst, ns_hwm = Some \<lparr>hw_current = lst\<rparr>, ns_disk = disk\<rparr>"
  have "nonce_inv (2 ^ 63) lst ?st" using assms(5,6) by (simp add: nonce_inv_def)
  from start_inv [OF this assms(7)] assms(5,8) have "nonce_inv (2 ^ 63) lst (ww_nonce w0)"
    by (simp add: u64_max_def hwm_load_def)
  moreover have "2 ^ 63 + length tr < u64_max" using assms(4) by (simp add: u64_max_def)
  ultimately obtain hi where "nonces_fall lst hi (exch_posts C (wire_after L C W w0 tr))"
    using wire_after_nonces [OF assms(1-3), of "2 ^ 63" lst tr L] by auto
  then show ?thesis by (auto simp: nonces_fall_def sorted_wrt_append)
qed

theorem exchange_nonces_increase_witness:
  "\<exists>ns. map post_nonce (exch_posts demo_client (wire_after demo_libs demo_client demo_net demo_wire_world
       [(9, EvCancel \<lparr>ci_symbol = ''BTC'', ci_cloid = 7\<rparr> 0 (Inr ())),
        (5, EvPlace demo_intent 0 60000 (Inr (5000, Filled 41 1 100)))])) = map Some ns \<and>
     sorted_wrt (>) (ns @ [1000])"
  by (rule exchange_nonces_increase [OF demo_separate demo_sane, of demo_wire_world _ "\<lparr>hd_live = Some (Whole 1000), hd_tmp = None\<rparr>" 1000 5000])
    (simp_all add: exch_posts_def demo_wire_world_def)

text \<open>An info request makes between one and four POSTs, all with the same body and to the info endpoint, and
  never mints a nonce; it reports a transport error only when all four failed.\<close>

theorem info_retries_bounded:
  assumes "info C W body w = (r, w')"
  shows "\<exists>ps. ww_posts w' = ps @ ww_posts w \<and> 1 \<le> length ps \<and> length ps \<le> 4 \<and>
    (\<forall>p\<in>set ps. snd p = (cf_info_url (cl_config C), body)) \<and> ww_nonce w' = ww_nonce w \<and>
    (is_network r \<longrightarrow> length ps = 4)"
proof -
  from assms have "post_attempts W (cf_info_url (cl_config C)) body RETRY_BACKOFF w = (r, w')"
    by (simp add: info_def post_with_retry_def)
  with post_attempts_effect [of W "cf_info_url (cl_config C)" body RETRY_BACKOFF w] show ?thesis
    by (auto simp: RETRY_BACKOFF_def Suc_le_eq)
qed

theorem info_retries_bounded_witness:
  "\<exists>r w' ps. info demo_client (demo_net\<lparr>we_net := (\<lambda>w url b. (Inl ''reset'', 1))\<rparr>) meta_body demo_wire_world = (r, w') \<and>
     is_network r \<and> ww_posts w' = ps @ ww_posts demo_wire_world \<and> length ps = 4"
proof -
  let ?W = "demo_net\<lparr>we_net := (\<lambda>w url b. (Inl ''reset'', 1))\<rparr>"
  obtain r w' where i: "info demo_client ?W meta_body demo_wire_world = (r, w')"
    by (cases "info demo_client ?W meta_body demo_wire_world")
  then have "is_network r"
    by (auto simp: info_def post_with_retry_def RETRY_BACKOFF_def post_once_def pause_def)
  with info_retries_bounded [OF i] i show ?thesis by blast
qed

text \<open>C9: when a place call succeeds, exactly one POST was made; it carries the nonce and the expiry that were
  signed, and the action that was signed decodes to one order with the intent's asset, side, price, size,
  time in force, reduce-only flag and client id.\<close>

theorem placed_order_is_the_intent:
  assumes "decimal_text (lb_dec L)" and "uuid_text (lb_uuid L)" and "u32 a"
    and "client_place_order_once L C W i a x w = (Inr (nonce, out), w')"
  shows "\<exists>sign sg action od. cl_signer C = Some sign \<and> sign action nonce None (Some x) = Inr sg \<and>
    ww_posts w' = (ww_now w, cf_exchange_url (cl_config C), exchange_body action nonce sg (Some x)) # ww_posts w \<and>
    dispatch_action action = Inr (OrderAction [od] ''na'') \<and>
    ow_a od = a \<and> ow_b od = (oi_side i = Long) \<and> d_parse (lb_dec L) (ow_p od) = Some (oi_px i) \<and>
    d_parse (lb_dec L) (ow_s od) = Some (oi_sz i) \<and> ow_r od = oi_reduce_only i \<and> ow_tif od = tif_name (oi_tif i) \<and>
    Option.bind (ow_c od) (cloid_try_from (lb_uuid L)) = Some (oi_cloid i)"
proof -
  let ?o = "order_intent_to_wire (lb_dec L) (lb_uuid L) i a"
  have posts: "ww_posts w' = exchange_post C W (order_action L i a) (Some x) w @ ww_posts w"
    using assms(4) post_exchange_effect(1) [of C W "order_action L i a" "Some x" w]
    by (auto simp: client_place_order_once_def parsed_def split: prod.splits)
  from assms(4) obtain reply where "fst (post_exchange_once C W (order_action L i a) (Some x) w) = Inr (nonce, reply)"
    by (auto simp: client_place_order_once_def parsed_def and_then_Inr split: prod.splits)
  then obtain sign sg where s: "cl_signer C = Some sign" "sign (order_action L i a) nonce None (Some x) = Inr sg"
    and p: "exchange_post C W (order_action L i a) (Some x) w =
      [(ww_now w, cf_exchange_url (cl_config C), exchange_body (order_action L i a) nonce sg (Some x))]"
    by (rule post_exchange_Inr)
  have d: "dispatch_action (order_action L i a) = Inr (OrderAction [?o] ''na'')"
    unfolding order_action_def using assms(3) by (intro action_json_roundtrip) (simp add: order_intent_to_wire_def)
  have od: "ow_a ?o = a \<and> ow_b ?o = (oi_side i = Long) \<and> d_parse (lb_dec L) (ow_p ?o) = Some (oi_px i) \<and>
    d_parse (lb_dec L) (ow_s ?o) = Some (oi_sz i) \<and> ow_r ?o = oi_reduce_only i \<and> ow_tif ?o = tif_name (oi_tif i) \<and>
    Option.bind (ow_c ?o) (cloid_try_from (lb_uuid L)) = Some (oi_cloid i)"
    by (simp add: order_intent_to_wire_def decimal_to_hl_wire_def decimal_text.parse_canonical [OF assms(1)]
        uuid_text.cloid_text [OF assms(2)])
  show ?thesis
    by (intro exI [of _ sign] exI [of _ sg] exI [of _ "order_action L i a"] exI [of _ ?o] conjI s d od)
      (simp_all add: posts p od)
qed

theorem placed_order_is_the_intent_witness:
  "\<exists>nonce w' action sg od. client_place_order_once demo_libs demo_client demo_net demo_intent 3 60000 demo_wire_world =
       (Inr (nonce, Filled 41 1 100), w') \<and>
     ww_posts w' = [(0, cf_exchange_url (cl_config demo_client), exchange_body action nonce sg (Some 60000))] \<and>
     dispatch_action action = Inr (OrderAction [od] ''na'') \<and> ow_a od = 3 \<and> d_parse exact_dec (ow_p od) = Some 101 \<and>
     Option.bind (ow_c od) (cloid_try_from hex_uuid) = Some 7"
proof -
  have a: "u32 3" by (simp add: u32_def U32_MAX_def)
  obtain r w' where call: "client_place_order_once demo_libs demo_client demo_net demo_intent 3 60000 demo_wire_world = (r, w')"
    by (cases "client_place_order_once demo_libs demo_client demo_net demo_intent 3 60000 demo_wire_world")
  moreover have "ww_now demo_wire_world = 0" by (simp add: demo_wire_world_def)
  from demo_place_answer [OF this a, of demo_intent 60000 world_init] call
  obtain nonce where r: "r = Inr (nonce, Filled 41 1 100)" by (auto simp: answered_def)
  have laws: "decimal_text (lb_dec demo_libs)" "uuid_text (lb_uuid demo_libs)"
    by (simp_all add: demo_libs_def exact_text.decimal_text_axioms hu.uuid_text_axioms)
  from placed_order_is_the_intent [OF laws a call [unfolded r]] call r show ?thesis
    by (auto simp: demo_wire_world_def demo_libs_def demo_intent_def)
qed

end
