(* ===== verification/Run_Reports.thy ===== *)
theory Run_Reports
  imports Journal_File Replay_Facts Resume_Check
begin

text \<open>
  \<open>src/run_reports.rs\<close> and the commands of \<open>hype-twap-runs\<close>: the read-only report over a durable journal.
  Every field is taken from the validated replay. The sizes, notionals and prices that the report prints
  from the replay's own totals are kept as the numbers they denote; texts taken from the journal are
  texts. \<open>J\<close> reads a journal line, and a directory is its list of entries.
\<close>

section \<open>The report\<close>

record run_identity =
  id_network :: string
  id_agent :: "string option"
  id_master :: "string option"
  id_symbol :: string
  id_side :: side
  id_slices :: nat
  id_plan_hash :: string

datatype run_status = RunSuccess | RunIsIncomplete | RunAbandoned | RunCorrupt

record run_accounting =
  ra_requested_total :: "string option"
  ra_adjusted_total :: "string option"
  ra_filled_size :: decimal
  ra_accounted_notional :: decimal
  ra_trusted_vwap :: "decimal option"

record run_cap =
  rc_maximum_notional :: "decimal option"
  rc_remaining_notional :: "decimal option"

datatype unresolved_reason = NotTerminal | FinalReportOutcomeUnknown

datatype validation_class =
    ClsValid | ClsJournalReadError | ClsJournalParseError | ClsInvalidRunId | ClsMissingHeader | ClsHeaderNotFirst
  | ClsDuplicateHeader | ClsMissingPrepared | ClsConflictingPrepared | ClsSliceIndexChanged | ClsInvalidTransition
  | ClsInvalidTerminalStatus | ClsAbandonedWithUnresolved | ClsRecordAfterAbandoned | ClsInvalidFingerprint
  | ClsAccountingError

record run_report =
  rr_run_id :: string
  rr_identity :: "run_identity option"
  rr_status :: run_status
  rr_started_at :: "u64 option"
  rr_ended_at :: "u64 option"
  rr_deadline :: "u64 option"
  rr_accounting :: "run_accounting option"
  rr_cap :: run_cap
  rr_unresolved :: "(cloid \<times> unresolved_reason) list"
  rr_resume_eligible :: bool
  rr_path :: string
  rr_class :: validation_class

text \<open>\<open>validation.valid\<close> is set exactly with the classification \<open>Valid\<close>.\<close>

definition rr_valid :: "run_report \<Rightarrow> bool" where
  "rr_valid r \<longleftrightarrow> rr_class r = ClsValid"

section \<open>Classification of errors\<close>

fun class_of_read_error :: "journal_error \<Rightarrow> validation_class" where
  "class_of_read_error (Parse n) = ClsJournalParseError"
| "class_of_read_error (InvalidRunId s) = ClsInvalidRunId"
| "class_of_read_error (Io s) = ClsJournalReadError"
| "class_of_read_error (UnsafePath s) = ClsJournalReadError"

fun class_of_replay_error :: "replay_error \<Rightarrow> validation_class" where
  "class_of_replay_error MissingHeader = ClsMissingHeader"
| "class_of_replay_error HeaderNotFirst = ClsHeaderNotFirst"
| "class_of_replay_error DuplicateHeader = ClsDuplicateHeader"
| "class_of_replay_error (MissingPrepared c) = ClsMissingPrepared"
| "class_of_replay_error (ConflictingPrepared c) = ClsConflictingPrepared"
| "class_of_replay_error (SliceIndexChanged c i j) = ClsSliceIndexChanged"
| "class_of_replay_error (InvalidTransition c a b) = ClsInvalidTransition"
| "class_of_replay_error (InvalidTerminalStatus c s) = ClsInvalidTerminalStatus"
| "class_of_replay_error (AbandonedWithUnresolved n) = ClsAbandonedWithUnresolved"
| "class_of_replay_error RecordAfterAbandoned = ClsRecordAfterAbandoned"
| "class_of_replay_error CompletedFinalReportNotComplete = ClsInvalidTransition"
| "class_of_replay_error (FinalReportUnknownCloidsMismatch a b) = ClsInvalidTransition"
| "class_of_replay_error RecordAfterCompletedFinalReport = ClsInvalidTransition"
| "class_of_replay_error (InvalidFinalReportFilledTotal s) = ClsAccountingError"
| "class_of_replay_error (FinalReportFilledTotalMismatch a b) = ClsAccountingError"
| "class_of_replay_error (InvalidFingerprintMaxNotional s) = ClsAccountingError"
| "class_of_replay_error (InvalidWholeRunSummary s) = ClsAccountingError"
| "class_of_replay_error (InvalidFingerprint f r) = ClsInvalidFingerprint"
| "class_of_replay_error (Accounting e) = ClsAccountingError"

definition corrupt_report :: "string \<Rightarrow> string \<Rightarrow> validation_class \<Rightarrow> run_report" where
  "corrupt_report run_id path cls =
     \<lparr>rr_run_id = run_id, rr_identity = None, rr_status = RunCorrupt, rr_started_at = None, rr_ended_at = None,
      rr_deadline = None, rr_accounting = None,
      rr_cap = \<lparr>rc_maximum_notional = None, rc_remaining_notional = None\<rparr>,
      rr_unresolved = [], rr_resume_eligible = False, rr_path = path, rr_class = cls\<rparr>"

section \<open>The report of a valid journal\<close>

definition position_fields_consistent :: "fingerprint \<Rightarrow> bool" where
  "position_fields_consistent fp =
     (case fp_position_mode fp of
        None \<Rightarrow>
          fp_initial_position_szi fp = None \<and> fp_target_position_szi fp = None \<and>
          fp_position_requested_value fp = None \<and> fp_position_reference_price fp = None \<and>
          fp_position_phases fp = []
      | Some mode \<Rightarrow>
          fp_initial_position_szi fp \<noteq> None \<and> fp_target_position_szi fp \<noteq> None \<and> fp_position_phases fp \<noteq> [] \<and>
          (if mode = ''flatten'' then
             fp_position_requested_value fp = None \<and> fp_position_reference_price fp = None
           else if mode = ''target_sz'' then
             fp_position_requested_value fp \<noteq> None \<and> fp_position_reference_price fp = None
           else if mode = ''target_usd'' then
             fp_position_requested_value fp \<noteq> None \<and> fp_position_reference_price fp \<noteq> None
           else False))"

definition resume_eligible :: "run_status \<Rightarrow> run_header \<Rightarrow> bool" where
  "resume_eligible status h =
     (status = RunIsIncomplete \<and>
      (case rh_fingerprint h of
         None \<Rightarrow> False
       | Some fp \<Rightarrow>
           fp_version fp = FINGERPRINT_VERSION \<and> rh_deadline_unix_ms h \<noteq> None \<and>
           fp_absolute_deadline_unix_ms fp = rh_deadline_unix_ms h \<and> position_fields_consistent fp))"

text \<open>The pending orders, then those the last report left unknown and that are not listed yet.\<close>

definition report_unresolved :: "run_summary \<Rightarrow> (cloid \<times> unresolved_reason) list" where
  "report_unresolved s =
     fold (\<lambda>c out. if c \<in> set (map fst out) then out else out @ [(c, FinalReportOutcomeUnknown)])
       (case su_last_unknown_cloids s of Some unknown \<Rightarrow> unknown | None \<Rightarrow> [])
       (map (\<lambda>c. (c, NotTerminal)) (unresolved_cloids s))"

definition run_status_of :: "run_summary \<Rightarrow> run_status" where
  "run_status_of s =
     (if su_abandoned s then RunAbandoned else if is_incomplete s then RunIsIncomplete else RunSuccess)"

definition fingerprint_total :: "dec_lib \<Rightarrow> (fingerprint \<Rightarrow> string) \<Rightarrow> run_header \<Rightarrow> string option" where
  "fingerprint_total D f h =
     map_option (\<lambda>fp. case logical_position_total D fp of Some t \<Rightarrow> t | None \<Rightarrow> f fp) (rh_fingerprint h)"

definition remaining_cap :: "dec_lib \<Rightarrow> validated_replay \<Rightarrow> decimal option" where
  "remaining_cap D v =
     Option.bind (vr_max_notional v) (\<lambda>cap.
       map_option (\<lambda>n. max n 0) (d_checked_sub D cap (ft_notional (vr_fill_totals v))))"

definition report_identity :: "run_header \<Rightarrow> run_identity" where
  "report_identity h =
     \<lparr>id_network = rh_network h, id_agent = rh_agent h, id_master = rh_master h, id_symbol = rh_symbol h,
      id_side = rh_side h, id_slices = rh_slices h, id_plan_hash = rh_plan_hash h\<rparr>"

definition report_accounting :: "dec_lib \<Rightarrow> run_header \<Rightarrow> validated_replay \<Rightarrow> run_accounting" where
  "report_accounting D h v =
     (let whole = su_last_whole_run (vr_summary v) in
      \<lparr>ra_requested_total = or_else (Option.bind whole wr_requested_total) (fingerprint_total D fp_total_requested h),
       ra_adjusted_total = or_else (Option.bind whole wr_adjusted_total) (fingerprint_total D fp_total_adjusted h),
       ra_filled_size = ft_filled_sz (vr_fill_totals v),
       ra_accounted_notional = ft_notional (vr_fill_totals v),
       ra_trusted_vwap = vr_vwap v\<rparr>)"

definition valid_report :: "dec_lib \<Rightarrow> string \<Rightarrow> string \<Rightarrow> validated_replay \<Rightarrow> run_report" where
  "valid_report D run_id path v =
     (case su_header (vr_summary v) of
        None \<Rightarrow> corrupt_report run_id path ClsMissingHeader
      | Some h \<Rightarrow>
          let s = vr_summary v; status = run_status_of s in
          \<lparr>rr_run_id = run_id, rr_identity = Some (report_identity h), rr_status = status,
           rr_started_at = Some (rh_started_at_unix_ms h),
           rr_ended_at = map_option (\<lambda>wr. sat_add_u64 (rh_started_at_unix_ms h) (wr_logical_elapsed_ms wr))
                           (su_last_whole_run s),
           rr_deadline = rh_deadline_unix_ms h, rr_accounting = Some (report_accounting D h v),
           rr_cap = \<lparr>rc_maximum_notional = vr_max_notional v, rc_remaining_notional = remaining_cap D v\<rparr>,
           rr_unresolved = report_unresolved s, rr_resume_eligible = resume_eligible status h,
           rr_path = path, rr_class = ClsValid\<rparr>)"

definition report_from_records ::
  "dec_lib \<Rightarrow> ((cloid \<times> terminal_fill) list \<Rightarrow> (cloid \<times> terminal_fill) list) \<Rightarrow> string \<Rightarrow> string \<Rightarrow>
     journal_record list \<Rightarrow> run_report" where
  "report_from_records D ord run_id path records =
     (case replay D ord records of
        Inl e \<Rightarrow> corrupt_report run_id path (class_of_replay_error e)
      | Inr v \<Rightarrow> valid_report D run_id path v)"

section \<open>The commands\<close>

definition runs_path :: "string \<Rightarrow> string \<Rightarrow> string" where
  "runs_path state_root run_id = state_root @ ''/runs/'' @ run_id @ ''/journal.jsonl''"

definition inspect ::
  "dec_lib \<Rightarrow> ((cloid \<times> terminal_fill) list \<Rightarrow> (cloid \<times> terminal_fill) list) \<Rightarrow>
     (string \<Rightarrow> journal_record option) \<Rightarrow> journal_fs \<Rightarrow> string \<Rightarrow> string \<Rightarrow> run_report" where
  "inspect D ord J fs state_root run_id =
     (if \<not> is_ok (validate_run_id run_id)
      then corrupt_report run_id (runs_path state_root ''<invalid-run-id>'') ClsInvalidRunId
      else
        (case read_all J fs run_id of
           Inr records \<Rightarrow> report_from_records D ord run_id (runs_path state_root run_id) records
         | Inl e \<Rightarrow> corrupt_report run_id (runs_path state_root run_id) (class_of_read_error e)))"

record report_error =
  re_run_id :: string
  re_class :: validation_class

definition verify ::
  "dec_lib \<Rightarrow> ((cloid \<times> terminal_fill) list \<Rightarrow> (cloid \<times> terminal_fill) list) \<Rightarrow>
     (string \<Rightarrow> journal_record option) \<Rightarrow> journal_fs \<Rightarrow> string \<Rightarrow> string \<Rightarrow> report_error + run_report" where
  "verify D ord J fs state_root run_id =
     (let r = inspect D ord J fs state_root run_id in
      if rr_valid r then Inr r else Inl \<lparr>re_run_id = run_id, re_class = rr_class r\<rparr>)"

text \<open>An entry of the runs directory: its name, if it is UTF-8, and whether it is a directory and no symbolic
  link. The entries come sorted by name; \<open>None\<close> is a directory that cannot be read.\<close>

record dir_entry =
  de_name :: "string option"
  de_plain_dir :: bool

definition list_runs ::
  "dec_lib \<Rightarrow> ((cloid \<times> terminal_fill) list \<Rightarrow> (cloid \<times> terminal_fill) list) \<Rightarrow>
     (string \<Rightarrow> journal_record option) \<Rightarrow> journal_fs \<Rightarrow> string \<Rightarrow> bool \<Rightarrow> dir_entry list option \<Rightarrow>
     run_report list option" where
  "list_runs D ord J fs state_root runs_dir_exists entries =
     (if \<not> runs_dir_exists then Some []
      else
        map_option (\<lambda>es. map (inspect D ord J fs state_root)
          (filter (\<lambda>run_id. is_ok (validate_run_id run_id)) (List.map_filter de_name (filter de_plain_dir es)))) entries)"

datatype runs_command = CmdList | CmdInspect string | CmdVerify string

datatype runs_output = OutList "run_report list" | OutReport run_report | OutError report_error

text \<open>What the binary prints and its exit code; printing a report as JSON does not fail.\<close>

definition runs_main ::
  "dec_lib \<Rightarrow> ((cloid \<times> terminal_fill) list \<Rightarrow> (cloid \<times> terminal_fill) list) \<Rightarrow>
     (string \<Rightarrow> journal_record option) \<Rightarrow> journal_fs \<Rightarrow> string \<Rightarrow> bool \<Rightarrow> dir_entry list option \<Rightarrow> runs_command \<Rightarrow>
     runs_output \<times> nat" where
  "runs_main D ord J fs state_root runs_dir_exists entries cmd =
     (case cmd of
        CmdList \<Rightarrow>
          (case list_runs D ord J fs state_root runs_dir_exists entries of
             Some rs \<Rightarrow> (OutList rs, 0)
           | None \<Rightarrow> (OutError \<lparr>re_run_id = [], re_class = ClsJournalReadError\<rparr>, 1))
      | CmdInspect run_id \<Rightarrow> (OutReport (inspect D ord J fs state_root run_id), 0)
      | CmdVerify run_id \<Rightarrow>
          (case verify D ord J fs state_root run_id of
             Inr r \<Rightarrow> (OutReport r, 0)
           | Inl e \<Rightarrow> (OutError e, 1)))"

end
