(* ===== verification/Reports_Facts.thy ===== *)
theory Reports_Facts
  imports Run_Reports Resume_Props
begin

text \<open>
  What an operator may conclude from a run report. A report is valid exactly when the journal replays; a run
  that it calls a success has nothing left unresolved; the gate of a live start stops exactly at the first run
  the reports call incomplete for its network and agent; and a run is advertised as resumable exactly when
  it is incomplete and carries a current fingerprint with a first phase.
\<close>

section \<open>The report follows the replay\<close>

lemma corrupt_report_simps [simp]:
  "rr_status (corrupt_report i p c) = RunCorrupt" "rr_class (corrupt_report i p c) = c"
  "rr_resume_eligible (corrupt_report i p c) = False" "rr_unresolved (corrupt_report i p c) = []"
  by (simp_all add: corrupt_report_def)

lemma class_errors [simp]: "class_of_read_error e \<noteq> ClsValid" "class_of_replay_error e' \<noteq> ClsValid"
  by (cases e; simp) (cases e'; simp)

lemma report_of_replay:
  assumes "replay D ord rs = Inr v"
  shows "\<exists>h. su_header (vr_summary v) = Some h \<and>
     rr_status (report_from_records D ord i p rs) = run_status_of (vr_summary v) \<and>
     rr_unresolved (report_from_records D ord i p rs) = report_unresolved (vr_summary v) \<and>
     rr_resume_eligible (report_from_records D ord i p rs) = resume_eligible (run_status_of (vr_summary v)) h \<and>
     rr_class (report_from_records D ord i p rs) = ClsValid"
proof -
  from replay_Inr [OF assms] obtain h where "su_header (vr_summary v) = Some h" by auto
  with assms show ?thesis by (simp add: report_from_records_def valid_report_def Let_def)
qed

lemma report_of_failure:
  "replay D ord rs = Inl e \<Longrightarrow> rr_status (report_from_records D ord i p rs) = RunCorrupt \<and>
     rr_class (report_from_records D ord i p rs) \<noteq> ClsValid \<and> \<not> rr_resume_eligible (report_from_records D ord i p rs)"
  by (simp add: report_from_records_def)

lemma read_all_id: "read_all J fs i = Inr rs \<Longrightarrow> is_ok (validate_run_id i)"
  by (auto simp: read_all_def and_then_Inr)

text \<open>The four ways a report comes about, as one case rule.\<close>

lemma inspect_cases:
  obtains (Read) rs v where "read_all J fs i = Inr rs" and "replay D ord rs = Inr v"
      and "inspect D ord J fs dir i = report_from_records D ord i (runs_path dir i) rs"
  | (Corrupt) "rr_status (inspect D ord J fs dir i) = RunCorrupt" and "\<not> rr_valid (inspect D ord J fs dir i)"
      and "\<not> rr_resume_eligible (inspect D ord J fs dir i)"
      and "\<And>rs v. read_all J fs i = Inr rs \<Longrightarrow> replay D ord rs = Inr v \<Longrightarrow> False"
proof (cases "read_all J fs i")
  case (Inl e)
  then show ?thesis by (intro Corrupt) (simp_all add: inspect_def rr_valid_def)
next
  case (Inr rs)
  note ok = read_all_id [OF Inr]
  show ?thesis
  proof (cases "replay D ord rs")
    case (Inl e)
    with Inr ok report_of_failure [OF Inl] show ?thesis
      by (intro Corrupt) (simp_all add: inspect_def rr_valid_def)
  next
    case r: (Inr v)
    with Inr ok show ?thesis by (intro Read) (simp_all add: inspect_def)
  qed
qed

lemma inspect_read:
  assumes "read_all J fs i = Inr rs" and "replay D ord rs = Inr v"
  shows "inspect D ord J fs dir i = report_from_records D ord i (runs_path dir i) rs"
  using assms read_all_id [OF assms(1)] by (simp add: inspect_def)

section \<open>Completed runs\<close>

lemma not_incomplete_unknown:
  "su_header s \<noteq> None \<Longrightarrow> \<not> su_abandoned s \<Longrightarrow> \<not> is_incomplete s \<Longrightarrow>
     su_last_unknown_cloids s = None \<or> su_last_unknown_cloids s = Some []"
  by (auto simp: is_incomplete_def split: if_splits option.splits)

lemma run_status_of_simps:
  "run_status_of s = RunSuccess \<longleftrightarrow> \<not> su_abandoned s \<and> \<not> is_incomplete s"
  "run_status_of s = RunIsIncomplete \<longleftrightarrow> is_incomplete s"
  "run_status_of s = RunAbandoned \<longleftrightarrow> su_abandoned s"
  "run_status_of s \<noteq> RunCorrupt"
  by (auto simp: run_status_of_def is_incomplete_def)

lemma success_unresolved:
  assumes "replay D ord rs = Inr v" and "run_status_of (vr_summary v) = RunSuccess"
  shows "report_unresolved (vr_summary v) = []"
proof -
  from assms(2) have s: "\<not> su_abandoned (vr_summary v)" "\<not> is_incomplete (vr_summary v)"
    by (simp_all add: run_status_of_simps)
  from replay_Inr [OF assms(1)] have "su_header (vr_summary v) \<noteq> None" by auto
  from not_incomplete_unknown [OF this s] replay_complete_resolved [OF assms(1) s(2)] show ?thesis
    by (auto simp: report_unresolved_def)
qed

section \<open>Resumable runs\<close>

text \<open>A header with a current fingerprint was validated when it was replayed, and no later record replaces it.\<close>

definition header_valid :: "dec_lib \<Rightarrow> replay_state \<Rightarrow> bool" where
  "header_valid D st \<longleftrightarrow>
     (\<forall>h fp. su_header (rs_summary st) = Some h \<longrightarrow> rh_fingerprint h = Some fp \<longrightarrow>
        fp_version fp = FINGERPRINT_VERSION \<longrightarrow> validate_current_fingerprint D h fp = Inr ())"

lemma replay_header_valid: "replay_header D b st h = Inr st' \<Longrightarrow> header_valid D st'"
  by (auto simp: replay_header_def header_valid_def Let_def and_then_Inr split: if_splits option.splits)

lemma header_valid_cong: "su_header (rs_summary st') = su_header (rs_summary st) \<Longrightarrow> header_valid D st \<Longrightarrow> header_valid D st'"
  by (simp add: header_valid_def)

lemma replay_record_header_valid:
  assumes "replay_record D ord st ir = Inr st'" and "header_valid D st"
  shows "header_valid D st'"
proof (cases "snd ir")
  case (Header h)
  with assms(1) show ?thesis by (auto simp: replay_record_def split: if_splits intro: replay_header_valid)
next
  case (FinalReport b f u n w)
  with assms show ?thesis
    by (auto simp: replay_record_def split: if_splits dest!: replay_final_report_Inr intro: header_valid_cong)
qed (use assms in \<open>auto simp: replay_record_def replay_prepared_def replay_submitted_def replay_acknowledged_def
    replay_abandoned_def and_then_Inr Let_def set_label_def split: if_splits option.splits
    dest!: replay_terminal_Inr intro!: header_valid_cong [OF _ assms(2)]\<close>)

lemma replay_current_valid:
  assumes "replay D ord rs = Inr v" and "su_header (vr_summary v) = Some h" and "rh_fingerprint h = Some fp"
    and "fp_version fp = FINGERPRINT_VERSION"
  shows "validate_current_fingerprint D h fp = Inr ()"
proof -
  from replay_Inr [OF assms(1)] obtain st where l: "replay_loop D ord rs = Inr st"
    and v: "su_header (vr_summary v) = su_header (rs_summary st)" by auto
  have init: "header_valid D replay_init" by (simp add: header_valid_def replay_init_def run_summary_default_def)
  have "header_valid D st"
    by (rule fold_ok_invariant [OF l [unfolded replay_loop_def], of "header_valid D"])
      (rule init, erule (1) replay_record_header_valid [rotated])
  with assms v show ?thesis by (simp add: header_valid_def)
qed

lemma current_fingerprint_fields:
  assumes "validate_current_fingerprint D h fp = Inr ()"
  shows "fp_absolute_deadline_unix_ms fp = rh_deadline_unix_ms h" "rh_deadline_unix_ms h \<noteq> None"
    and "position_fields_consistent fp \<longleftrightarrow> (fp_position_mode fp \<noteq> None \<longrightarrow> fp_position_phases fp \<noteq> [])"
proof -
  from assms have h: "fp_header_checks h fp = Inr ()"
    by (auto simp: validate_current_fingerprint_def and_then_Inr)
  then show "fp_absolute_deadline_unix_ms fp = rh_deadline_unix_ms h" "rh_deadline_unix_ms h \<noteq> None"
    by (auto simp: fp_header_checks_def invalid_def split: if_splits)
  from assms obtain a b c where b: "case fp_position_mode fp of None \<Rightarrow> fp_ordinary_checks D fp a b c = Inr ()
      | Some mode \<Rightarrow> fp_position_checks D fp mode = Inr ()"
    by (cases "fp_position_mode fp") (auto simp: validate_current_fingerprint_def and_then_Inr)
  show "position_fields_consistent fp \<longleftrightarrow> (fp_position_mode fp \<noteq> None \<longrightarrow> fp_position_phases fp \<noteq> [])"
  proof (cases "fp_position_mode fp")
    case None
    with b show ?thesis
      by (auto simp: position_fields_consistent_def fp_ordinary_checks_def invalid_def and_then_Inr
          split: if_splits option.splits)
  next
    case (Some mode)
    with b have p: "fp_position_checks D fp mode = Inr ()" by simp
    then obtain i t where it: "fp_initial_position_szi fp = Some i" "fp_target_position_szi fp = Some t"
      and m: "mode \<in> {''flatten'', ''target_sz'', ''target_usd''}"
      and r: "\<exists>target. fp_request_checks D fp mode target = Inr ()"
      by (auto simp: fp_position_checks_def invalid_def and_then_Inr split: if_splits option.splits)
    from m r have "(if mode = ''flatten'' then
             fp_position_requested_value fp = None \<and> fp_position_reference_price fp = None
           else if mode = ''target_sz'' then
             fp_position_requested_value fp \<noteq> None \<and> fp_position_reference_price fp = None
           else if mode = ''target_usd'' then
             fp_position_requested_value fp \<noteq> None \<and> fp_position_reference_price fp \<noteq> None
           else False)"
      by (auto simp: fp_request_checks_def invalid_def and_then_Inr split: if_splits option.splits)
    with Some it m show ?thesis by (auto simp: position_fields_consistent_def)
  qed
qed

section \<open>The gate of a live start\<close>

definition report_key :: "run_report \<Rightarrow> string option" where
  "report_key r =
     map_option (\<lambda>i. id_network i @ '':'' @ (case id_agent i of Some a \<Rightarrow> a | None \<Rightarrow> ''none'')) (rr_identity r)"

lemma report_key_of_replay:
  "replay D ord rs = Inr v \<Longrightarrow> su_header (vr_summary v) = Some h \<Longrightarrow>
     report_key (report_from_records D ord i p rs) = Some (run_key h)"
  by (simp add: report_key_def report_from_records_def valid_report_def Let_def report_identity_def run_key_def)

definition run_entries ::
  "(string \<Rightarrow> journal_record option) \<Rightarrow> journal_fs \<Rightarrow> string list \<Rightarrow>
     (string option \<times> (journal_error + journal_record list)) list" where
  "run_entries J fs ids = map (\<lambda>i. (Some i, read_all J fs i)) ids"

lemma gate_follows_reports:
  "case find_incomplete_run D ord key (run_entries J fs ids) of
     Inl e \<Rightarrow> (\<exists>i\<in>set ids. \<not> rr_valid (inspect D ord J fs dir i))
   | Inr (Some i) \<Rightarrow> i \<in> set ids \<and> rr_status (inspect D ord J fs dir i) = RunIsIncomplete \<and>
       report_key (inspect D ord J fs dir i) = Some key
   | Inr None \<Rightarrow> (\<forall>i\<in>set ids. rr_valid (inspect D ord J fs dir i) \<and>
       (rr_status (inspect D ord J fs dir i) = RunIsIncomplete \<longrightarrow> report_key (inspect D ord J fs dir i) \<noteq> Some key))"
proof (induction ids)
  case (Cons i ids)
  show ?case
  proof (cases rule: inspect_cases [of J fs i D ord dir])
    case (Read rs v)
    from report_of_replay [OF Read(2)] Read(3) obtain h where h: "su_header (vr_summary v) = Some h"
      and st: "rr_status (inspect D ord J fs dir i) = run_status_of (vr_summary v)" "rr_valid (inspect D ord J fs dir i)"
      unfolding rr_valid_def by (metis (no_types))
    from report_key_of_replay [OF Read(2) h] Read(3) have key: "report_key (inspect D ord J fs dir i) = Some (run_key h)"
      by simp
    have inc: "run_status_of (vr_summary v) = RunIsIncomplete \<longleftrightarrow> is_incomplete (vr_summary v)"
      by (simp add: run_status_of_simps)
    show ?thesis using Cons.IH Read(1,2) h st key inc
      by (auto simp: run_entries_def split: sum.splits option.splits)
  next
    case Corrupt
    then have "(case read_all J fs i of Inl e \<Rightarrow> True | Inr rs \<Rightarrow> \<exists>e. replay D ord rs = Inl e)"
      by (auto split: sum.split) (metis old.sum.exhaust)
    with Corrupt(2) show ?thesis by (auto simp: run_entries_def split: sum.splits)
  qed
qed (simp add: run_entries_def)

section \<open>Orders listed after they are settled\<close>

definition settled_journal :: "journal_record list" where
  "settled_journal = take 2 demo_journal @
     [FinalReport False ''0'' [7] ''stopped'' None, Terminal 1 7 ''filled'' ''3'' (Some ''61''), Abandoned ''operator'']"

lemma read_zero: "read_rat ''0'' = Some 0"
  by code_simp

text \<open>The final report left order 7 unknown; the reconciliation before the run was abandoned found it filled. The
  report lists it as unresolved all the same, because it reads the list of the last final report.\<close>

lemma settled_order_listed:
  "\<exists>v. replay exact_dec id settled_journal = Inr v \<and> unresolved_cloids (vr_summary v) = [] \<and>
     rr_status (report_from_records exact_dec id ''r'' [] settled_journal) = RunAbandoned \<and>
     rr_unresolved (report_from_records exact_dec id ''r'' [] settled_journal) = [(7, FinalReportOutcomeUnknown)]"
  by (simp add: settled_journal_def demo_journal_def replay_eval replay_final_report_def replay_abandoned_def ok_or_def
      validate_whole_run_def rs_unresolved_def is_unresolved_def read_zero report_from_records_def valid_report_def Let_def
      run_status_of_def report_unresolved_def unresolved_cloids_def)

section \<open>Files for the examples\<close>

text \<open>Three runs: one that completed, one whose journal ends after its first order, and one that ends after its
  header.\<close>

definition demo_line :: "string \<Rightarrow> journal_record option" where
  "demo_line s =
     (if s = ''h'' then Some (Header demo_header)
      else if s = ''p'' then Some (Prepared 1 7 None ''HYPE'' Long (Some Ioc) ''62'' ''5'')
      else if s = ''t'' then Some (Terminal 1 7 ''filled'' ''3'' (Some ''61''))
      else if s = ''n'' then Some (Header demo_new_header)
      else if s = ''f'' then Some (FinalReport True ''3'' [] [] None)
      else None)"

definition demo_files :: journal_fs where
  "demo_files =
     \<lparr>fs_dir_symlink = (\<lambda>_. False), fs_file_symlink = (\<lambda>_. False),
      fs_content = (\<lambda>i. if i = ''a'' then Some (''h'' @ newline # ''p'' @ newline # ''t'' @ newline # ''f'' @ [newline])
                        else if i = ''b'' then Some (''h'' @ newline # ''p'' @ [newline])
                        else if i = ''c'' then Some (''n'' @ [newline]) else None)\<rparr>"

lemma demo_read_all:
  "read_all demo_line demo_files ''a'' = Inr demo_journal"
  "read_all demo_line demo_files ''b'' = Inr (take 2 demo_journal)"
  "read_all demo_line demo_files ''c'' = Inr [Header demo_new_header]"
  by (simp_all add: read_all_def demo_files_def demo_line_def validate_run_id_def run_id_char_def parse_records_def
      newline_def blank_def is_ascii_whitespace_def demo_journal_def)

lemma demo_new_replay:
  "\<exists>v fp. replay exact_dec id [Header demo_new_header] = Inr v \<and> is_incomplete (vr_summary v) \<and>
     su_header (vr_summary v) = Some demo_new_header \<and> rh_fingerprint demo_new_header = Some fp \<and>
     fp_version fp = FINGERPRINT_VERSION \<and> fp_position_mode fp = None"
proof -
  have t: "show_rat 2 = ''2''" "show_rat 4 = ''4''" "show_rat 1000 = ''1000''" "show_rat 20 = ''20''" "show_rat 1 = ''1''"
    "read_rat ''2'' = Some 2" "read_rat ''4'' = Some 4" "read_rat ''1000'' = Some 1000" "read_rat ''20'' = Some 20"
    "read_rat ''1'' = Some 1" by code_simp+
  show ?thesis
    by (simp add: replay_eval demo_new_header_def t is_incomplete_def
        new_run_header_def demo_new_plan_def original_plan_def execution_fingerprint_def validate_current_fingerprint_def
        fp_header_checks_def fp_value_checks_def fp_ordinary_checks_def demo_sizing_def
        positive_decimal_def nonnegative_decimal_def fp_decimal_def invalid_def demo_cli_def
        requested_mode_and_value_def position_mode_of_def position_requested_value_of_def or_else_def
        millis_u64_def as_millis_def secs_def ns_per_ms_def u64_max_def Let_def fixed_deadline_def)
qed

lemma demo_incomplete:
  "\<exists>v. replay exact_dec id (take 2 demo_journal) = Inr v \<and> is_incomplete (vr_summary v) \<and> \<not> su_abandoned (vr_summary v) \<and>
     su_header (vr_summary v) = Some demo_header"
  by (simp add: demo_journal_def replay_eval ok_or_def is_incomplete_def)

section \<open>Properties\<close>

text \<open>C26: a run that the report calls a success is settled: its journal is readable and replays, the last report
  says completed, every order it prepared is terminal, and the report lists nothing as unresolved.\<close>

theorem reported_success_settled:
  assumes "rr_status (inspect D ord J fs dir i) = RunSuccess"
  shows "rr_valid (inspect D ord J fs dir i) \<and> rr_unresolved (inspect D ord J fs dir i) = [] \<and>
    (\<exists>rs v. read_all J fs i = Inr rs \<and> replay D ord rs = Inr v \<and> su_last_completed (vr_summary v) = Some True \<and>
      unresolved_cloids (vr_summary v) = [])"
proof (cases rule: inspect_cases [of J fs i D ord dir])
  case (Read rs v)
  with assms report_of_replay [OF Read(2), of i "runs_path dir i"] have s: "run_status_of (vr_summary v) = RunSuccess" by auto
  then have n: "\<not> is_incomplete (vr_summary v)" "\<not> su_abandoned (vr_summary v)" by (simp_all add: run_status_of_simps)
  from report_of_replay [OF Read(2)] obtain h where "su_header (vr_summary v) = Some h" by blast
  with n have "su_last_completed (vr_summary v) = Some True" by (auto simp: is_incomplete_def split: if_splits)
  with Read report_of_replay [OF Read(2)] success_unresolved [OF Read(2) s] replay_complete_resolved [OF Read(2) n(1)]
  show ?thesis by (auto simp: rr_valid_def)
next
  case Corrupt
  with assms show ?thesis by simp
qed

theorem reported_success_settled_witness:
  "rr_status (inspect exact_dec id demo_line demo_files ''d'' ''a'') = RunSuccess \<and>
   rr_unresolved (inspect exact_dec id demo_line demo_files ''d'' ''a'') = []"
proof -
  from demo_replay obtain v where v: "replay exact_dec id demo_journal = Inr v" "\<not> is_incomplete (vr_summary v)" by blast
  have "\<not> su_abandoned (vr_summary v)"
    using v(1) by (auto simp: demo_journal_def replay_eval replay_final_report_def ok_or_def validate_whole_run_def
        rs_unresolved_def is_unresolved_def)
  with v(2) have "run_status_of (vr_summary v) = RunSuccess" by (simp add: run_status_of_simps)
  with report_of_replay [OF v(1)] inspect_read [OF demo_read_all(1) v(1)]
  have "rr_status (inspect exact_dec id demo_line demo_files ''d'' ''a'') = RunSuccess" by auto
  with reported_success_settled [OF this] show ?thesis by simp
qed

text \<open>C25: the gate of a live start and the reports agree: it names a run exactly when that run's report says
  incomplete for the same network and agent; it lets a start through only when every report is valid and no
  such run is incomplete; and it fails only on a run whose report is corrupt.\<close>

theorem start_gate_agrees_with_reports:
  "case find_incomplete_run D ord key (run_entries J fs ids) of
     Inl e \<Rightarrow> (\<exists>i\<in>set ids. \<not> rr_valid (inspect D ord J fs dir i))
   | Inr (Some i) \<Rightarrow> i \<in> set ids \<and> rr_status (inspect D ord J fs dir i) = RunIsIncomplete \<and>
       report_key (inspect D ord J fs dir i) = Some key
   | Inr None \<Rightarrow> (\<forall>i\<in>set ids. rr_valid (inspect D ord J fs dir i) \<and>
       (rr_status (inspect D ord J fs dir i) = RunIsIncomplete \<longrightarrow> report_key (inspect D ord J fs dir i) \<noteq> Some key))"
  by (rule gate_follows_reports)

theorem start_gate_agrees_with_reports_witness:
  "find_incomplete_run exact_dec id (run_key demo_header) (run_entries demo_line demo_files [''a'', ''b'']) = Inr (Some ''b'') \<and>
   rr_status (inspect exact_dec id demo_line demo_files ''d'' ''b'') = RunIsIncomplete"
proof -
  from demo_replay obtain v where v: "replay exact_dec id demo_journal = Inr v" "\<not> is_incomplete (vr_summary v)" by blast
  from demo_incomplete obtain u where u: "replay exact_dec id (take 2 demo_journal) = Inr u" "is_incomplete (vr_summary u)"
    "su_header (vr_summary u) = Some demo_header" by blast
  from report_of_replay [OF v(1)] obtain h where "su_header (vr_summary v) = Some h" by blast
  with v u have "find_incomplete_run exact_dec id (run_key demo_header) (run_entries demo_line demo_files [''a'', ''b'']) = Inr (Some ''b'')"
    by (simp add: run_entries_def demo_read_all)
  with start_gate_agrees_with_reports [where D = exact_dec and ord = id and key = "run_key demo_header" and J = demo_line
      and fs = demo_files and ids = "[''a'', ''b'']" and dir = "''d''"]
  show ?thesis by simp
qed

text \<open>C27: a run is advertised as resumable exactly when it is incomplete, its fingerprint has the current version
  and, in position mode, at least one phase: every other condition the report tests is already guaranteed by
  the replay.\<close>

theorem resume_advertised_exactly:
  assumes "read_all J fs i = Inr rs" and "replay D ord rs = Inr v" and "su_header (vr_summary v) = Some h"
  shows "rr_resume_eligible (inspect D ord J fs dir i) \<longleftrightarrow>
    is_incomplete (vr_summary v) \<and>
    (\<exists>fp. rh_fingerprint h = Some fp \<and> fp_version fp = FINGERPRINT_VERSION \<and>
      (fp_position_mode fp \<noteq> None \<longrightarrow> fp_position_phases fp \<noteq> []))"
proof -
  from report_of_replay [OF assms(2)] inspect_read [OF assms(1,2)] assms(3)
  have "rr_resume_eligible (inspect D ord J fs dir i) = resume_eligible (run_status_of (vr_summary v)) h" by auto
  moreover have "resume_eligible (run_status_of (vr_summary v)) h \<longleftrightarrow> is_incomplete (vr_summary v) \<and>
    (\<exists>fp. rh_fingerprint h = Some fp \<and> fp_version fp = FINGERPRINT_VERSION \<and>
      (fp_position_mode fp \<noteq> None \<longrightarrow> fp_position_phases fp \<noteq> []))"
    using replay_current_valid [OF assms(2,3)] current_fingerprint_fields
    by (auto simp: resume_eligible_def run_status_of_simps split: option.splits)
  ultimately show ?thesis by simp
qed

theorem resume_advertised_exactly_witness:
  "rr_resume_eligible (inspect exact_dec id demo_line demo_files ''d'' ''c'') \<and>
   \<not> rr_resume_eligible (inspect exact_dec id demo_line demo_files ''d'' ''b'')"
proof -
  from demo_new_replay obtain v fp where v: "replay exact_dec id [Header demo_new_header] = Inr v"
    "su_header (vr_summary v) = Some demo_new_header" and fp: "is_incomplete (vr_summary v)"
    "rh_fingerprint demo_new_header = Some fp" "fp_version fp = FINGERPRINT_VERSION" "fp_position_mode fp = None" by blast
  from demo_incomplete obtain u where u: "replay exact_dec id (take 2 demo_journal) = Inr u"
    "su_header (vr_summary u) = Some demo_header" by blast
  from resume_advertised_exactly [OF demo_read_all(3) v] resume_advertised_exactly [OF demo_read_all(2) u] fp show ?thesis
    by (simp add: demo_header_def legacy_header_def)
qed

end
