(* ===== verification/Startup.thy ===== *)
theory Startup
  imports Client Resume_Check
begin

text \<open>
  The start of \<open>run_with_cli\<close> (\<open>src/main.rs\<close>), up to the resolved asset and the registered master: the
  options, the pair barrier, the declared master, the endpoint policy, the agent key, the writer lock, the
  gate against an incomplete run, the nonce mark, and the first two requests. \<open>host\<close> is what the process
  reads from its surroundings: environment variables, file metadata, the run directory as it reads at an
  instant, the files locked by others, and the parser of a private key. Banners and log lines are left out.
\<close>

section \<open>Paths\<close>

text \<open>A Unix path is its text; \<open>Path\<close> compares and splits its components, where a repeated separator and a
  \<open>.\<close> do not count.\<close>

fun split_slash :: "string \<Rightarrow> string list" where
  "split_slash [] = [[]]"
| "split_slash (c # s) =
     (if c = CHR ''/'' then [] # split_slash s
      else (case split_slash s of w # ws \<Rightarrow> (c # w) # ws | [] \<Rightarrow> [[c]]))"

definition components :: "string \<Rightarrow> string list" where
  "components p = filter (\<lambda>c. c \<noteq> [] \<and> c \<noteq> ''.'') (split_slash p)"

definition is_absolute :: "string \<Rightarrow> bool" where
  "is_absolute p \<longleftrightarrow> prefix ''/'' p"

definition absolute_path :: "string list \<Rightarrow> string" where
  "absolute_path cs = (if cs = [] then ''/'' else concat (map (\<lambda>c. CHR ''/'' # c) cs))"

text \<open>\<open>Path::parent\<close> of an absolute path.\<close>

definition parent_dir :: "string \<Rightarrow> string option" where
  "parent_dir p =
     (let cs = components p in if cs = [] then None else Some (absolute_path (butlast cs)))"

definition path_join :: "string \<Rightarrow> string \<Rightarrow> string" where
  "path_join a b =
     (if is_absolute b then b else if a = [] \<or> suffix ''/'' a then a @ b else a @ ''/'' @ b)"

section \<open>The surroundings of the process\<close>

datatype file_kind = RegularFile | Directory | Symlink | OtherFile

record host =
  sy_var :: "string \<Rightarrow> string option"
  sy_stat :: "string \<Rightarrow> file_kind option"
  sy_key :: "string \<Rightarrow> (address \<times> (bool \<Rightarrow> signer)) option"
  sy_url_host :: "string \<Rightarrow> string option"
  sy_held :: "string set"
  sy_runs :: "string \<Rightarrow> nanos \<Rightarrow> journal_error + (string option \<times> (journal_error + journal_record list)) list"
  sy_read :: "string \<Rightarrow> nanos \<Rightarrow> string \<Rightarrow> journal_error + journal_record list"
  sy_order :: "(cloid \<times> terminal_fill) list \<Rightarrow> (cloid \<times> terminal_fill) list"
  sy_http :: "hl_error + unit"

definition state_dir :: "host \<Rightarrow> string option \<Rightarrow> string" where
  "state_dir S override =
     (let home = path_join (unwrap_or (sy_var S ''HOME'') ''.'') ''.local/state/hype-twap'' in
      case override of
        Some p \<Rightarrow> p
      | None \<Rightarrow>
          (case sy_var S ''XDG_STATE_HOME'' of
             Some xdg \<Rightarrow> if Cli.trim xdg \<noteq> [] then path_join xdg ''hype-twap'' else home
           | None \<Rightarrow> home))"

section \<open>The options of the pair barrier\<close>

record pair_barrier =
  pb_ready_file :: string
  pb_start_file :: string
  pb_run_id :: string
  pb_timeout :: nanos

definition is_run_id_char :: "char \<Rightarrow> bool" where
  "is_run_id_char c =
     (let n = (of_char c :: nat)
      in (48 \<le> n \<and> n \<le> 57) \<or> (65 \<le> n \<and> n \<le> 90) \<or> (97 \<le> n \<and> n \<le> 122) \<or> n = 46 \<or> n = 95 \<or> n = 45)"

definition valid_pair_run_id :: "string \<Rightarrow> bool" where
  "valid_pair_run_id run_id \<longleftrightarrow> run_id \<noteq> [] \<and> length run_id \<le> 128 \<and> list_all is_run_id_char run_id"

definition validate_barrier_path :: "host \<Rightarrow> string \<Rightarrow> string \<Rightarrow> string + unit" where
  "validate_barrier_path S path flag =
     and_then (check (is_absolute path) (flag @ '' must be an absolute path'')) (\<lambda>_.
     and_then (ok_or (flag @ '' must have a parent directory'') (parent_dir path)) (\<lambda>parent.
     and_then (ok_or (flag @ '' parent is unavailable'') (sy_stat S parent)) (\<lambda>kind.
     check (kind = Directory) (flag @ '' parent must be a real directory (not a symlink)''))))"

definition pair_barrier_of :: "host \<Rightarrow> cli \<Rightarrow> string + pair_barrier option" where
  "pair_barrier_of S cli =
     (case (cl_pair_ready_file cli, cl_pair_start_file cli, cl_pair_run_id cli, cl_pair_barrier_timeout cli) of
        (None, None, None, None) \<Rightarrow> Inr None
      | (Some ready, Some start, Some run_id, Some timeout) \<Rightarrow>
          and_then (check (timeout \<noteq> 0) ''--pair-barrier-timeout must be > 0'') (\<lambda>_.
          and_then (check (valid_pair_run_id run_id)
            ''--pair-run-id must contain only ASCII letters, digits, '.', '_' or '-' (1..128 bytes)'') (\<lambda>_.
          and_then (validate_barrier_path S ready ''--pair-ready-file'') (\<lambda>_.
          and_then (validate_barrier_path S start ''--pair-start-file'') (\<lambda>_.
          and_then (check (components ready \<noteq> components start)
            ''--pair-ready-file and --pair-start-file must differ'') (\<lambda>_.
          and_then (check (sy_stat S ready = None)
            ''--pair-ready-file already exists (refusing stale/reused barrier)'') (\<lambda>_.
          Inr (Some \<lparr>pb_ready_file = ready, pb_start_file = start, pb_run_id = run_id, pb_timeout = timeout\<rparr>)))))))
      | _ \<Rightarrow> Inl ''--pair-ready-file, --pair-start-file, --pair-run-id, and --pair-barrier-timeout must be supplied together'')"

section \<open>Accounts, endpoints and the key\<close>

definition nonblank :: "string option \<Rightarrow> string option" where
  "nonblank v =
     (case v of
        None \<Rightarrow> None
      | Some s \<Rightarrow> (let t = Cli.trim s in if t = [] then None else Some t))"

definition configured_master :: "host \<Rightarrow> cli \<Rightarrow> string + address option" where
  "configured_master S cli =
     (case or_else (nonblank (cl_master_address cli)) (nonblank (sy_var S ''HL_MASTER_ADDRESS'')) of
        None \<Rightarrow> Inr None
      | Some v \<Rightarrow> and_then (parse_public_address v) (\<lambda>a. Inr (Some a)))"

definition check_endpoint :: "host \<Rightarrow> cli \<Rightarrow> string option \<Rightarrow> string + unit" where
  "check_endpoint S cli url =
     (case url of
        None \<Rightarrow> Inr ()
      | Some u \<Rightarrow>
          and_then (map_err (\<lambda>_. ''endpoint override rejected'')
            (validate_endpoint_override u (cl_allow_custom_endpoints cli))) (\<lambda>_.
          map_err (\<lambda>_. ''official endpoint of the other network'')
            (validate_official_endpoint_network (sy_url_host S) u (cl_network cli))))"

text \<open>\<open>Eip712AgentSigner::from_secret\<close>, with the parser of \<open>alloy\<close> as \<open>sy_key\<close>.\<close>

definition from_secret :: "host \<Rightarrow> string \<Rightarrow> bool \<Rightarrow> hl_error + (address \<times> signer)" where
  "from_secret S pk mainnet =
     (case sy_key S (Cli.trim pk) of
        None \<Rightarrow> Inl (InvalidConfig ''agent PK parse failed: expected 0x-prefixed 64-hex secp256k1 key (value redacted)'')
      | Some (a, sign) \<Rightarrow> Inr (a, sign mainnet))"

definition load_signer :: "host \<Rightarrow> network \<Rightarrow> string + (address \<times> signer)" where
  "load_signer S net =
     and_then (ok_or ''HL_AGENT_PK is required in live mode (0x + 64 hex, env var only)''
                 (sy_var S ''HL_AGENT_PK'')) (\<lambda>pk.
     and_then (map_err (\<lambda>_. ''agent PK parse failed'') (from_secret S pk (net = Mainnet))) (\<lambda>key.
     (case sy_var S ''HL_AGENT_ADDRESS'' of
        None \<Rightarrow> Inr key
      | Some raw \<Rightarrow>
          and_then (parse_public_address raw) (\<lambda>expected.
          and_then (check (expected = fst key) ''HL_AGENT_ADDRESS mismatch'') (\<lambda>_. Inr key)))))"

section \<open>Journals of earlier runs\<close>

fun resume_message :: "resume_error \<Rightarrow> string" where
  "resume_message (Refused m) = m"
| "resume_message (FieldMismatch names) = ''journal does not match this command line''"

text \<open>The side of a position run is derived later and is not compared.\<close>

definition cli_side :: "cli \<Rightarrow> side" where
  "cli_side cli = unwrap_or (cl_side cli) Long"

definition ordinary_side :: "cli \<Rightarrow> side option" where
  "ordinary_side cli = (if position_mode_requested cli then None else Some (cli_side cli))"

definition check_journal ::
  "dec_lib \<Rightarrow> host \<Rightarrow> cli \<Rightarrow> string \<Rightarrow> nanos \<Rightarrow> address option \<Rightarrow> address option \<Rightarrow> string \<Rightarrow> string + validated_replay" where
  "check_journal D S cli dir now agent master run_id =
     map_err resume_message
       (validated_resume_replay D (sy_order S)
          (map_err (\<lambda>_. ''cannot read journal'') (sy_read S dir now run_id))
          run_id (cl_network cli) agent master (cl_symbol cli) (ordinary_side cli))"

definition run_key_of :: "network \<Rightarrow> address option \<Rightarrow> string" where
  "run_key_of net agent = network_name net @ '':'' @ unwrap_or agent ''none''"

definition find_run ::
  "dec_lib \<Rightarrow> host \<Rightarrow> cli \<Rightarrow> string \<Rightarrow> nanos \<Rightarrow> address option \<Rightarrow> journal_error + string option" where
  "find_run D S cli dir now agent =
     and_then (sy_runs S dir now) (find_incomplete_run D (sy_order S) (run_key_of (cl_network cli) agent))"

definition resume_gate ::
  "dec_lib \<Rightarrow> host \<Rightarrow> cli \<Rightarrow> string \<Rightarrow> nanos \<Rightarrow> address \<Rightarrow> address option \<Rightarrow> string + unit" where
  "resume_gate D S cli dir now agent master =
     (case cl_resume cli of
        None \<Rightarrow> Inr ()
      | Some run_id \<Rightarrow> and_then (check_journal D S cli dir now (Some agent) master run_id) (\<lambda>_. Inr ()))"

definition incomplete_gate ::
  "dec_lib \<Rightarrow> host \<Rightarrow> cli \<Rightarrow> string \<Rightarrow> nanos \<Rightarrow> address \<Rightarrow> address option \<Rightarrow> string + unit" where
  "incomplete_gate D S cli dir now agent master =
     and_then (map_err (\<lambda>_. ''checking for an incomplete prior run failed'') (find_run D S cli dir now (Some agent))) (\<lambda>found.
     (case found of
        None \<Rightarrow> check (cl_resume cli = None) ''--resume was given but no incomplete run exists for this network+agent''
      | Some run_id \<Rightarrow>
          and_then (check (cl_resume cli = Some run_id \<or> cl_abandon_incomplete_run cli)
            ''an incomplete run exists for this network+agent; refusing to start a new overlapping live run'') (\<lambda>_.
          and_then (check (case cl_resume cli of Some requested \<Rightarrow> requested = run_id | None \<Rightarrow> True)
            ''--resume does not match the incomplete run on disk'') (\<lambda>_.
          if cl_abandon_incomplete_run cli \<and> cl_resume cli = None
          then and_then (check_journal D S cli dir now (Some agent) master run_id) (\<lambda>_. Inr ())
          else Inr ()))))"

section \<open>Everything before the first request\<close>

record ready =
  ry_barrier :: "pair_barrier option"
  ry_configured :: "address option"
  ry_agent :: "address option"
  ry_client :: hl_client
  ry_state_dir :: string
  ry_held :: "string set"

definition client_of :: "host \<Rightarrow> cli \<Rightarrow> signer option \<Rightarrow> hl_client" where
  "client_of S cli sg =
     \<lparr>cl_config = with_overrides (hl_config_new (cl_network cli)) (sy_var S ''HL_INFO_URL'') (sy_var S ''HL_EXCHANGE_URL''),
      cl_signer = sg\<rparr>"

text \<open>What only a live start does: endpoints, key, lock, journals.\<close>

definition live_gates ::
  "dec_lib \<Rightarrow> host \<Rightarrow> cli \<Rightarrow> nanos \<Rightarrow> address option \<Rightarrow> string + (address \<times> signer \<times> string set)" where
  "live_gates D S cli now configured =
     (let dir = state_dir S (cl_state_dir cli) in
     and_then (check_endpoint S cli (sy_var S ''HL_INFO_URL'')) (\<lambda>_.
     and_then (check_endpoint S cli (sy_var S ''HL_EXCHANGE_URL'')) (\<lambda>_.
     and_then (load_signer S (cl_network cli)) (\<lambda>(agent, sign).
     and_then (map_err (\<lambda>_. ''another live process holds the lock for this network and agent'')
       (acquire (sy_held S) dir (lock_key (network_name (cl_network cli)) agent))) (\<lambda>held.
     and_then (resume_gate D S cli dir now agent configured) (\<lambda>_.
     and_then (incomplete_gate D S cli dir now agent configured) (\<lambda>_.
     Inr (agent, sign, held))))))))"

definition gates :: "dec_lib \<Rightarrow> host \<Rightarrow> cli \<Rightarrow> nanos \<Rightarrow> string + ready" where
  "gates D S cli now =
     and_then (validate_cli D cli) (\<lambda>_.
     and_then (check (\<not> (is_read_only cli \<and> cl_report_json cli \<noteq> None))
       ''--report-json is available only in live mode (--live)'') (\<lambda>_.
     and_then (pair_barrier_of S cli) (\<lambda>barrier.
     and_then (configured_master S cli) (\<lambda>configured.
     and_then (check (is_read_only cli \<or> configured \<noteq> None \<or> (cl_resume cli = None \<and> \<not> cl_abandon_incomplete_run cli))
       ''--resume and --abandon-incomplete-run require --master-address or HL_MASTER_ADDRESS'') (\<lambda>_.
     and_then (if is_read_only cli then Inr None
               else and_then (live_gates D S cli now configured) (\<lambda>live. Inr (Some live))) (\<lambda>live.
     and_then (map_err (\<lambda>_. ''build http client'') (sy_http S)) (\<lambda>_.
     Inr \<lparr>ry_barrier = barrier, ry_configured = configured, ry_agent = map_option fst live,
          ry_client = client_of S cli (map_option (fst \<circ> snd) live),
          ry_state_dir = state_dir S (cl_state_dir cli),
          ry_held = (case live of Some (_, _, held) \<Rightarrow> held | None \<Rightarrow> sy_held S)\<rparr>)))))))"

section \<open>The nonce mark and the first requests\<close>

definition try_wire :: "('e + 'a) \<times> wire_world \<Rightarrow> ('a \<Rightarrow> wire_world \<Rightarrow> ('e + 'b) \<times> wire_world) \<Rightarrow> ('e + 'b) \<times> wire_world" where
  "try_wire m f = (case m of (Inl e, w) \<Rightarrow> (Inl e, w) | (Inr a, w) \<Rightarrow> f a w)"

definition err_wire :: "string \<Rightarrow> (hl_error + 'a) \<times> wire_world \<Rightarrow> (string + 'a) \<times> wire_world" where
  "err_wire what m = (map_err (\<lambda>_. what) (fst m), snd m)"

definition seed_client :: "wire_env \<Rightarrow> address option \<Rightarrow> wire_world \<Rightarrow> (string + unit) \<times> wire_world" where
  "seed_client W agent w =
     (case agent of
        None \<Rightarrow> (Inr (), w)
      | Some _ \<Rightarrow>
          (case hwm_load (ns_disk (ww_nonce w)) of
             Inl e \<Rightarrow> (Inl ''failed to load nonce high-water mark'', w)
           | Inr h \<Rightarrow>
               (Inr (), w\<lparr>ww_nonce := seed_nonce (ww_nonce w) h (case we_clock W w of Some ms \<Rightarrow> ms | None \<Rightarrow> 0)\<rparr>)))"

definition resolve_master ::
  "libs \<Rightarrow> wire_env \<Rightarrow> ready \<Rightarrow> wire_world \<Rightarrow> (string + address option) \<times> wire_world" where
  "resolve_master L W g w =
     (case ry_agent g of
        None \<Rightarrow> (Inr (ry_configured g), w)
      | Some agent \<Rightarrow>
          try_wire (err_wire ''userRole probe failed'' (client_user_role L (ry_client g) W agent w)) (\<lambda>role w1.
          (case role of
             RAgent m \<Rightarrow>
               (case ry_configured g of
                  Some declared \<Rightarrow>
                    if declared \<noteq> to_ascii_lowercase m then (Inl ''master address mismatch. Nothing was sent.'', w1)
                    else (Inr (Some m), w1)
                | None \<Rightarrow> (Inr (Some m), w1))
           | _ \<Rightarrow> (Inl ''agent is not registered with Hyperliquid as an Agent. Nothing was sent.'', w1))))"

record session =
  ss_ready :: ready
  ss_asset :: asset_meta
  ss_master :: "address option"

definition connect :: "libs \<Rightarrow> wire_env \<Rightarrow> cli \<Rightarrow> ready \<Rightarrow> wire_world \<Rightarrow> (string + session) \<times> wire_world" where
  "connect L W cli g w =
     try_wire (seed_client W (ry_agent g) w) (\<lambda>_ w1.
     try_wire (err_wire ''meta'' (client_meta L (ry_client g) W w1)) (\<lambda>universe w2.
     try_wire (map_err (\<lambda>_. ''unknown symbol; nothing was sent'') (resolve universe (cl_symbol cli)), w2) (\<lambda>asset w3.
     try_wire (resolve_master L W g w3) (\<lambda>master w4.
     (Inr \<lparr>ss_ready = g, ss_asset = asset, ss_master = master\<rparr>, w4)))))"

definition startup :: "libs \<Rightarrow> host \<Rightarrow> wire_env \<Rightarrow> cli \<Rightarrow> wire_world \<Rightarrow> (string + session) \<times> wire_world" where
  "startup L S W cli w =
     (case gates (lb_dec L) S cli (ww_now w) of
        Inl e \<Rightarrow> (Inl e, w)
      | Inr g \<Rightarrow> connect L W cli g w)"

end
