(* ===== verification/Preflight.thy ===== *)
theory Preflight
  imports Startup Execute Signing_Facts
begin

text \<open>
  The middle of \<open>run_with_cli\<close> (\<open>src/main.rs\<close>), from the registered master to the values that the execution
  is started with: the reconciliation of an earlier run, a resume after its deadline, the trigger and the
  market snapshot, the position plan with the confirmation of a flatten (\<open>src/position.rs\<close>), sizing and
  the notional cap, the deadline, and the journal. A step ends the process with an error or with an exit
  code, or goes on. The journal of the world is that of the run at hand. \<open>desk\<close> is what else the stage asks
  for: opening and creating a journal file, writing the report file, a run id, and two hash functions.
  Printed previews, the pre-send summary and the observers are left out.
\<close>

type_synonym 'a stage = "(string + (nat + 'a)) \<times> world"

definition goes_on :: "'a stage \<Rightarrow> ('a \<Rightarrow> world \<Rightarrow> 'b stage) \<Rightarrow> 'b stage" where
  "goes_on m f = try_w m (\<lambda>r w. case r of Inl code \<Rightarrow> (Inr (Inl code), w) | Inr a \<Rightarrow> f a w)"

record desk =
  se_open :: "world \<Rightarrow> string + unit"
  se_start :: "world \<Rightarrow> string + unit"
  se_emit :: "world \<Rightarrow> string + unit"
  se_run_id :: "world \<Rightarrow> string"
  se_hash :: "string list \<Rightarrow> string"
  se_keccak :: "byte list \<Rightarrow> byte list"

definition emit_report :: "desk \<Rightarrow> cli \<Rightarrow> world \<Rightarrow> (string + unit) \<times> world" where
  "emit_report K cli w = (case cl_report_json cli of None \<Rightarrow> Inr () | Some destination \<Rightarrow> se_emit K w, w)"

section \<open>Reconciling an earlier run\<close>

definition reconcile_plan :: "dec_lib \<Rightarrow> cli \<Rightarrow> session \<Rightarrow> twap_plan" where
  "reconcile_plan D cli ss =
     \<lparr>pl_symbol = cl_symbol cli, pl_side = cli_side cli, pl_asset_index = am_asset_index (ss_asset ss),
      pl_sz_decimals = am_sz_decimals (ss_asset ss), pl_per_slice = 0, pl_total_adjusted = 0,
      pl_total_requested = 0, pl_slices = 1, pl_duration = 0, pl_absolute_deadline_unix_ms = None,
      pl_slippage_bps = cl_slippage_bps cli, pl_max_book_age_ms = cl_max_book_age_ms cli,
      pl_settle_retries = cl_settle_retries cli, pl_read_only = False, pl_reduce_only = False,
      pl_max_notional_usd = d_max D, pl_agent = ry_agent (ss_ready ss), pl_master = ss_master ss,
      pl_child_algo = cl_child_algo cli, pl_follow_poll_secs = unat (cl_follow_poll_secs cli),
      pl_follow_repost_secs = unat (cl_follow_repost_secs cli),
      pl_follow_threshold_bps = cl_follow_threshold_bps cli\<rparr>"

definition resume_replay ::
  "dec_lib \<Rightarrow> env \<Rightarrow> cli \<Rightarrow> session \<Rightarrow> string \<Rightarrow> world \<Rightarrow> string + validated_replay" where
  "resume_replay D E cli ss run_id w =
     map_err resume_message
       (validated_resume_replay D (e_order E) (e_read_journal E w) run_id (cl_network cli)
          (ry_agent (ss_ready ss)) (ss_master ss) (cl_symbol cli) (ordinary_side cli))"

text \<open>A refusal that is made durable: an incomplete report from the replay in hand, and the report file.\<close>

definition durable_refusal ::
  "dec_lib \<Rightarrow> env \<Rightarrow> desk \<Rightarrow> cli \<Rightarrow> string \<Rightarrow> string \<Rightarrow> validated_replay \<Rightarrow> world \<Rightarrow> (string + 'a) \<times> world" where
  "durable_refusal D E K cli note message rep w =
     try_w (record_report E (replayed_report D E False (unresolved_cloids (vr_summary rep)) note rep w) w) (\<lambda>_ w1.
     try_w (emit_report K cli w1) (\<lambda>_ w2. (Inl message, w2)))"

definition reconcile_or_refuse ::
  "dec_lib \<Rightarrow> env \<Rightarrow> desk \<Rightarrow> cli \<Rightarrow> session \<Rightarrow> string \<Rightarrow> string \<Rightarrow> world \<Rightarrow> (string + unit) \<times> world" where
  "reconcile_or_refuse D E K cli ss run_id note w =
     try_w (resume_replay D E cli ss run_id w, w) (\<lambda>_ w1.
     try_w (se_open K w1, w1) (\<lambda>_ w2.
     try_w (e_read_journal E w2, w2) (\<lambda>_ w3.
     (case reconcile_incomplete_run D E (reconcile_plan D cli ss) w3 of
        (Inr _, w4) \<Rightarrow> (Inr (), w4)
      | (Inl error, w4) \<Rightarrow>
          try_w (read_replay D E w4, w4) (\<lambda>rep w5.
          durable_refusal D E K cli (note @ error) ''reconciliation failed'' rep w5)))))"

definition abandon_note :: "string \<Rightarrow> string" where
  "abandon_note run_id =
     ''operator passed --abandon-incomplete-run; run '' @ run_id @
     '' force-reconciled and closed without continuing''"

definition abandon_run ::
  "dec_lib \<Rightarrow> env \<Rightarrow> host \<Rightarrow> desk \<Rightarrow> cli \<Rightarrow> session \<Rightarrow> world \<Rightarrow> (string + nat) \<times> world" where
  "abandon_run D E S K cli ss w =
     try_w (map_err (\<lambda>_. ''cannot scan for the incomplete run'')
       (find_run D S cli (ry_state_dir (ss_ready ss)) (w_now w) (ry_agent (ss_ready ss))), w) (\<lambda>found w1.
     try_w (ok_or ''--abandon-incomplete-run given but no incomplete run was found'' found, w1) (\<lambda>run_id w2.
     try_w (reconcile_or_refuse D E K cli ss run_id ''abandon reconciliation failed: '' w2) (\<lambda>_ w3.
     try_w (record_report E (Abandoned (abandon_note run_id)) w3) (\<lambda>_ w4.
     try_w (emit_report K cli w4) (\<lambda>_ w5. (Inr 0, w5))))))"

section \<open>The frozen plan of a resumed run\<close>

record resumed =
  rs_run_id :: string
  rs_replay :: validated_replay
  rs_frozen :: "position_plan option"

definition frozen_position ::
  "dec_lib \<Rightarrow> env \<Rightarrow> desk \<Rightarrow> cli \<Rightarrow> session \<Rightarrow> validated_replay \<Rightarrow> world \<Rightarrow> (string + position_plan option) \<times> world" where
  "frozen_position D E K cli ss rep w =
     (case validate_resume_execution_fingerprint D rep cli (cl_network cli) (ry_agent (ss_ready ss)) (ss_master ss)
             (am_sz_decimals (ss_asset ss)) of
        Inr p \<Rightarrow> (Inr p, w)
      | Inl error \<Rightarrow>
          try_w (se_open K w, w) (\<lambda>_ w1.
          try_w (e_read_journal E w1, w1) (\<lambda>_ w2.
          durable_refusal D E K cli (''resume execution-plan validation failed: '' @ resume_message error)
            (resume_message error) rep w2)))"

text \<open>After the deadline only reading is allowed; the verdict is what the journal and the account say.\<close>

definition expired_position ::
  "dec_lib \<Rightarrow> env \<Rightarrow> desk \<Rightarrow> cli \<Rightarrow> session \<Rightarrow> validated_replay \<Rightarrow> position_plan \<Rightarrow> world \<Rightarrow>
     (string + bool \<times> string) \<times> world" where
  "expired_position D E K cli ss rep frozen w =
     try_w (map_err resume_message (expected_position_from_replay D rep frozen), w) (\<lambda>expected w1.
     try_w (ok_or ''position resume lost resolved master address'' (ss_master ss), w1) (\<lambda>m w2.
     (case fetch_perp_position E m (cl_symbol cli) w2 of
        (Inl e, w3) \<Rightarrow>
          try_w (se_open K w3, w3) (\<lambda>_ w4.
          try_w (record_position_incomplete D E
                   (incomplete_note D (pp_target_szi frozen) (Inl ''unavailable'')
                      ''resume deadline elapsed; final position verification failed'') w4) (\<lambda>_ w5.
          try_w (emit_report K cli w5) (\<lambda>_ w6.
          (Inl ''deadline elapsed and final position could not be verified'', w6))))
      | (Inr actual, w3) \<Rightarrow>
          let completed = (unresolved_cloids (vr_summary rep) = [] \<and> expected = pp_target_szi frozen \<and>
                           sp_szi actual = pp_target_szi frozen)
          in (Inr (completed,
                if completed
                then ''resume: deadline elapsed, reconciliation complete, and authoritative position matches frozen target''
                else ''resume: deadline elapsed; no new order allowed''), w3))))"

definition expired_ordinary :: "dec_lib \<Rightarrow> validated_replay \<Rightarrow> run_header \<Rightarrow> string + bool \<times> string" where
  "expired_ordinary D rep h =
     and_then (ok_or ''expired journal lacks fingerprint'' (rh_fingerprint h)) (\<lambda>fp.
     and_then (ok_or ''expired journal has invalid total_adjusted'' (d_parse D (fp_total_adjusted fp))) (\<lambda>target.
     let completed = (unresolved_cloids (vr_summary rep) = [] \<and> target \<le> ft_filled_sz (vr_fill_totals rep))
     in Inr (completed,
          if completed
          then ''resume: deadline elapsed after durable fills already satisfied the original adjusted target''
          else ''resume: original deadline elapsed; no new order or book fetch allowed'')))"

definition expired_resume ::
  "dec_lib \<Rightarrow> env \<Rightarrow> desk \<Rightarrow> cli \<Rightarrow> session \<Rightarrow> resumed \<Rightarrow> run_header \<Rightarrow> world \<Rightarrow> (string + nat) \<times> world" where
  "expired_resume D E K cli ss r h w =
     try_w (case rs_frozen r of
              Some frozen \<Rightarrow> expired_position D E K cli ss (rs_replay r) frozen w
            | None \<Rightarrow> (expired_ordinary D (rs_replay r) h, w)) (\<lambda>verdict w1.
     try_w (se_open K w1, w1) (\<lambda>_ w2.
     try_w (record_report E
              (replayed_report D E (fst verdict) (unresolved_cloids (vr_summary (rs_replay r))) (snd verdict)
                 (rs_replay r) w2) w2) (\<lambda>_ w3.
     try_w (emit_report K cli w3) (\<lambda>_ w4. (Inr (if fst verdict then 0 else 1), w4)))))"

definition resume_run ::
  "dec_lib \<Rightarrow> env \<Rightarrow> desk \<Rightarrow> cli \<Rightarrow> session \<Rightarrow> string \<Rightarrow> world \<Rightarrow> resumed stage" where
  "resume_run D E K cli ss run_id w =
     try_w (reconcile_or_refuse D E K cli ss run_id ''resume reconciliation failed: '' w) (\<lambda>_ w1.
     try_w (resume_replay D E cli ss run_id w1, w1) (\<lambda>rep w2.
     try_w (frozen_position D E K cli ss rep w2) (\<lambda>frozen w3.
     try_w (ok_or ''journal has no Header'' (su_header (vr_summary rep)), w3) (\<lambda>h w4.
     try_w (ok_or ''typed journal lacks absolute deadline'' (rh_deadline_unix_ms h), w4) (\<lambda>deadline w5.
     let r = \<lparr>rs_run_id = run_id, rs_replay = rep, rs_frozen = frozen\<rparr> in
     if remaining_execution_window deadline (wall_clock_now_ms E w5) = None
     then try_w (expired_resume D E K cli ss r h w5) (\<lambda>code w6. (Inr (Inl code), w6))
     else (Inr (Inr r), w5))))))"

definition earlier_run ::
  "dec_lib \<Rightarrow> env \<Rightarrow> host \<Rightarrow> desk \<Rightarrow> cli \<Rightarrow> session \<Rightarrow> world \<Rightarrow> resumed option stage" where
  "earlier_run D E S K cli ss w =
     (if is_read_only cli then (Inr (Inr None), w)
      else
        (case cl_resume cli of
           Some run_id \<Rightarrow> goes_on (resume_run D E K cli ss run_id w) (\<lambda>r w1. (Inr (Inr (Some r)), w1))
         | None \<Rightarrow>
             if cl_abandon_incomplete_run cli
             then try_w (abandon_run D E S K cli ss w) (\<lambda>code w1. (Inr (Inl code), w1))
             else (Inr (Inr None), w)))"

section \<open>The trigger and the snapshot that sizes the run\<close>

text \<open>A trigger on time alone must not read the book before its delay is over.\<close>

definition initial_book :: "dec_lib \<Rightarrow> env \<Rightarrow> cli \<Rightarrow> world \<Rightarrow> (string + unit) \<times> world" where
  "initial_book D E cli w =
     (if is_time_only (trigger_config_of cli) then (Inr (), w)
      else
        try_w (err_w (\<lambda>_. ''initial l2Book'') (fetch_l2_book E (cl_symbol cli) w)) (\<lambda>book w1.
        (and_then (map_err (\<lambda>_. ''initial l2Book'') (validate_snapshot D (e_chrono E w1) book (cl_symbol cli) 0))
           (\<lambda>_. Inr ()), w1)))"

definition sizing_snapshot ::
  "dec_lib \<Rightarrow> env \<Rightarrow> cli \<Rightarrow> trigger_reason \<Rightarrow> world \<Rightarrow> (string + snapshot) \<times> world" where
  "sizing_snapshot D E cli reason w =
     (case reason of
        PriceMet wh threshold mid snap \<Rightarrow> (Inr snap, w)
      | _ \<Rightarrow> err_w (\<lambda>_. ''pre-flight l2Book'')
               (fetch_fresh_book D E (cl_symbol cli) (cl_max_book_age_ms cli) None w))"

definition skew_gate :: "env \<Rightarrow> cli \<Rightarrow> snapshot \<Rightarrow> world \<Rightarrow> string + unit" where
  "skew_gate E cli snap w =
     (if is_read_only cli then Inr ()
      else map_err (\<lambda>_. ''local clock is skewed from the Hyperliquid server clock'')
             (check_clock_skew (wall_clock_now_ms E w) (sn_server_ts_ms snap)))"

definition market_stage :: "dec_lib \<Rightarrow> env \<Rightarrow> cli \<Rightarrow> world \<Rightarrow> (nat + snapshot) may_end" where
  "market_stage D E cli w =
     try_o (initial_book D E cli w) (\<lambda>_ w1.
     run_o (wait_for_trigger D E (cl_symbol cli) (trigger_config_of cli) w1) (\<lambda>outcome w2.
     try_o (map_err (\<lambda>_. ''trigger wait'') outcome, w2) (\<lambda>out w3.
     (case out of
        Expired d \<Rightarrow> Some (Inr (Inl 3), w3)
      | Fired reason \<Rightarrow>
          Some (try_w (sizing_snapshot D E cli reason w3) (\<lambda>snap w4.
                try_w (skew_gate E cli snap w4, w4) (\<lambda>_ w5. (Inr (Inr snap), w5))))))))"

end
