(* ===== verification/Prepare.thy ===== *)
theory Prepare
  imports Preflight
begin

text \<open>
  The pre-flight of \<open>run_with_cli\<close> (\<open>src/main.rs\<close>) after the snapshot: the position plan and the
  confirmation of a flatten, sizing and the notional cap, the plan with its deadline and fingerprint, and the
  journal. \<open>prepare\<close> joins the steps; its result is the record that the execution stage starts from. The text
  of a number is taken to be a function of its value.
\<close>

section \<open>The confirmation of a flatten\<close>

record flatten_confirmation =
  fc_schema_version :: nat
  fc_network :: string
  fc_master :: address
  fc_symbol :: symbol
  fc_initial_szi :: decimal
  fc_close_side :: side
  fc_max_close_size :: decimal
  fc_max_notional_usd :: decimal
  fc_child_algo :: string
  fc_deadline_unix_ms :: u64

definition FLATTEN_SCHEMA_VERSION :: nat where
  "FLATTEN_SCHEMA_VERSION = 1"

definition confirmation_json :: "dec_lib \<Rightarrow> flatten_confirmation \<Rightarrow> json" where
  "confirmation_json D c =
     JObject [(''schema_version'', json_nat (fc_schema_version c)),
              (''network'', JString (fc_network c)),
              (''master'', JString (fc_master c)),
              (''symbol'', JString (fc_symbol c)),
              (''initial_szi'', JString (d_to_string D (fc_initial_szi c))),
              (''close_side'', JString (side_name (fc_close_side c))),
              (''max_close_size'', JString (d_to_string D (fc_max_close_size c))),
              (''max_notional_usd'', JString (d_to_string D (fc_max_notional_usd c))),
              (''child_algo'', JString (fc_child_algo c)),
              (''execution_deadline_unix_ms'', JNumber (PosInt (fc_deadline_unix_ms c)))]"

definition string_bytes :: "string \<Rightarrow> byte list" where
  "string_bytes s = map (\<lambda>c. of_nat (of_char c)) s"

definition hex_encode :: "byte list \<Rightarrow> string" where
  "hex_encode bs = concat (map (\<lambda>b. hex_digits 2 (unat b)) bs)"

definition confirmation_token :: "libs \<Rightarrow> (byte list \<Rightarrow> byte list) \<Rightarrow> flatten_confirmation \<Rightarrow> string" where
  "confirmation_token L H c =
     ''flatten-v1-'' @ hex_encode (H (string_bytes (js_show (lb_json L) (confirmation_json (lb_dec L) c))))"

text \<open>A resumed flatten keeps the exposure, size and deadline that were frozen at its start.\<close>

definition resumed_frozen :: "resumed option \<Rightarrow> position_plan option" where
  "resumed_frozen r = Option.bind r rs_frozen"

definition resumed_deadline :: "resumed \<Rightarrow> u64 option" where
  "resumed_deadline r = Option.bind (su_header (vr_summary (rs_replay r))) rh_deadline_unix_ms"

definition confirmation_deadline :: "cli \<Rightarrow> resumed option \<Rightarrow> string + u64 option" where
  "confirmation_deadline cli r =
     (case r of
        None \<Rightarrow> Inr (cl_flatten_deadline_unix_ms cli)
      | Some rr \<Rightarrow>
          and_then (ok_or ''flatten journal lacks its original execution deadline'' (resumed_deadline rr))
            (\<lambda>dl. Inr (Some dl)))"

definition confirmation_of :: "cli \<Rightarrow> address \<Rightarrow> position_plan \<Rightarrow> position_phase \<Rightarrow> u64 \<Rightarrow> flatten_confirmation" where
  "confirmation_of cli m p ph deadline =
     \<lparr>fc_schema_version = FLATTEN_SCHEMA_VERSION, fc_network = network_name (cl_network cli), fc_master = m,
      fc_symbol = cl_symbol cli, fc_initial_szi = pp_current_szi p, fc_close_side = ph_side ph,
      fc_max_close_size = ph_size ph, fc_max_notional_usd = unwrap_or (cl_max_notional_usd cli) 0,
      fc_child_algo = child_algo_name (cl_child_algo cli), fc_deadline_unix_ms = deadline\<rparr>"

definition confirm_flatten ::
  "libs \<Rightarrow> env \<Rightarrow> desk \<Rightarrow> cli \<Rightarrow> resumed option \<Rightarrow> address \<Rightarrow> position_plan \<Rightarrow> world \<Rightarrow> unit stage" where
  "confirm_flatten L E K cli r m plan w =
     (if \<not> cl_flatten cli then (Inr (Inr ()), w)
      else
        let bound = unwrap_or (resumed_frozen r) plan in
        try_w (ok_or ''flatten confirmation cannot be constructed without an executable close phase''
                 (first_phase bound), w) (\<lambda>ph w1.
        try_w (confirmation_deadline cli r, w1) (\<lambda>deadline w2.
        (case deadline of
           None \<Rightarrow>
             if is_live cli
             then (Inl ''live --flatten requires --flatten-deadline-unix-ms'', w2)
             else (Inr (Inl 0), w2)
         | Some dl \<Rightarrow>
             if dl \<le> wall_clock_now_ms E w2
             then (Inl ''--flatten-deadline-unix-ms must be in the future; no order was sent'', w2)
             else if is_live cli \<and>
                     cl_confirm_flatten cli \<noteq> Some (confirmation_token L (se_keccak K) (confirmation_of cli m bound ph dl))
             then (Inl ''live --flatten requires the exact --confirm-flatten token; no order was sent'', w2)
             else (Inr (Inr ()), w2)))))"

section \<open>The position plan\<close>

text \<open>A resumed position run stops durably on anything its journal does not explain.\<close>

definition stop_resumed ::
  "dec_lib \<Rightarrow> env \<Rightarrow> desk \<Rightarrow> cli \<Rightarrow> string \<Rightarrow> string \<Rightarrow> world \<Rightarrow> (string + 'a) \<times> world" where
  "stop_resumed D E K cli note message w =
     try_w (se_open K w, w) (\<lambda>_ w1.
     try_w (e_read_journal E w1, w1) (\<lambda>_ w2.
     try_w (record_position_incomplete D E note w2) (\<lambda>_ w3.
     try_w (emit_report K cli w3) (\<lambda>_ w4. (Inl message, w4)))))"

definition continue_frozen ::
  "dec_lib \<Rightarrow> env \<Rightarrow> desk \<Rightarrow> cli \<Rightarrow> session \<Rightarrow> validated_replay \<Rightarrow> position_plan \<Rightarrow> signed_position \<Rightarrow> world \<Rightarrow>
     (string + position_plan) \<times> world" where
  "continue_frozen D E K cli ss rep frozen pos w =
     (if unresolved_cloids (vr_summary rep) \<noteq> [] then
        stop_resumed D E K cli
          (incomplete_note D (pp_target_szi frozen) (Inr (sp_szi pos))
             ''position resume reconciliation left unresolved orders'')
          ''reconciliation left unresolved cloids; no new order was sent'' w
      else
        try_w (map_err resume_message (expected_position_from_replay D rep frozen), w) (\<lambda>expected w1.
        if sp_szi pos \<noteq> expected then
          stop_resumed D E K cli
            (incomplete_note D (pp_target_szi frozen) (Inr (sp_szi pos))
               ''position resume authoritative state mismatches durable fills'')
            ''current position does not match durable expected position, so no new order was sent'' w1
        else
          (map_err (\<lambda>_. ''invalid position preflight; no order was sent'')
             (target_size D pos (cl_symbol cli) (pp_target_szi frozen) (am_sz_decimals (ss_asset ss))), w1)))"

definition plan_position ::
  "dec_lib \<Rightarrow> env \<Rightarrow> desk \<Rightarrow> cli \<Rightarrow> session \<Rightarrow> resumed option \<Rightarrow> decimal \<Rightarrow> signed_position \<Rightarrow> world \<Rightarrow>
     (string + position_plan) \<times> world" where
  "plan_position D E K cli ss r mid pos w =
     (case (r, resumed_frozen r) of
        (Some rr, Some frozen) \<Rightarrow> continue_frozen D E K cli ss (rs_replay rr) frozen pos w
      | _ \<Rightarrow>
          (map_err (\<lambda>_. ''invalid position preflight; no order was sent'')
             (fresh_position_plan D cli pos (cl_symbol cli) mid (am_sz_decimals (ss_asset ss))), w))"

text \<open>The durable report of a resumed run that has nothing to send.\<close>

definition report_resumed ::
  "dec_lib \<Rightarrow> env \<Rightarrow> desk \<Rightarrow> cli \<Rightarrow> resumed option \<Rightarrow> bool \<Rightarrow> string \<Rightarrow> world \<Rightarrow> (string + unit) \<times> world" where
  "report_resumed D E K cli r completed note w =
     (case r of
        None \<Rightarrow> (Inr (), w)
      | Some rr \<Rightarrow>
          try_w (se_open K w, w) (\<lambda>_ w1.
          try_w (record_report E (replayed_report D E completed [] note (rs_replay rr) w1) w1) (\<lambda>_ w2.
          emit_report K cli w2)))"

definition noop_position :: "dec_lib \<Rightarrow> env \<Rightarrow> desk \<Rightarrow> cli \<Rightarrow> resumed option \<Rightarrow> world \<Rightarrow> 'a stage" where
  "noop_position D E K cli r w =
     try_w (report_resumed D E K cli r True
              ''resume: authoritative position already equals frozen target; no new order sent'' w) (\<lambda>_ w1.
     (Inr (Inl 0), w1))"

definition small_position ::
  "dec_lib \<Rightarrow> env \<Rightarrow> desk \<Rightarrow> cli \<Rightarrow> resumed option \<Rightarrow> position_plan \<Rightarrow> world \<Rightarrow> 'a stage" where
  "small_position D E K cli r p w =
     (if crosses_zero p
      then (Inl ''position reversal cannot safely reach flat first; no order was sent'', w)
      else if pp_target_szi p = 0 \<and> cl_resume cli = None
      then (Inl ''cannot reach flat: the residual position is below the minimum order value; no order was sent'', w)
      else
        try_w (report_resumed D E K cli r False
                 ''resume: remaining position delta is below minimum notional; no order sent and frozen target not asserted complete'' w)
          (\<lambda>_ w1. (Inr (Inl (if cl_resume cli \<noteq> None then 1 else 0)), w1)))"

text \<open>Every phase is sized before the first is sent.\<close>

definition size_phases :: "dec_lib \<Rightarrow> cli \<Rightarrow> session \<Rightarrow> decimal \<Rightarrow> position_plan \<Rightarrow> string + unit" where
  "size_phases D cli ss mid p =
     fold_ok (\<lambda>_ ph. and_then (map_err (\<lambda>_. ''position phase cannot be executed; no order was sent'')
                       (execution_sizing D (ph_size ph) (cl_slices cli) (am_sz_decimals (ss_asset ss)) mid True))
                     (\<lambda>_. Inr ())) () (pp_phases p)"

definition is_hip3 :: "symbol \<Rightarrow> bool" where
  "is_hip3 s \<longleftrightarrow> CHR '':'' \<in> set s"

definition screen_position ::
  "libs \<Rightarrow> env \<Rightarrow> desk \<Rightarrow> cli \<Rightarrow> session \<Rightarrow> resumed option \<Rightarrow> decimal \<Rightarrow> address \<Rightarrow> position_plan \<Rightarrow> world \<Rightarrow>
     position_plan stage" where
  "screen_position L E K cli ss r mid m p w =
     (case pp_phases p of
        [] \<Rightarrow> noop_position (lb_dec L) E K cli r w
      | ph # _ \<Rightarrow>
          try_w (ok_or ''position delta notional overflow; no order was sent''
                   (d_checked_mul (lb_dec L) (ph_size ph) mid), w) (\<lambda>first_notional w1.
          if first_notional < MIN_NOTIONAL_USD then small_position (lb_dec L) E K cli r p w1
          else
            try_w (size_phases (lb_dec L) cli ss mid p, w1) (\<lambda>_ w2.
            goes_on (confirm_flatten L E K cli r m p w2) (\<lambda>_ w3.
            (Inr (if is_read_only cli then Inl 0 else Inr p), w3)))))"

definition position_stage ::
  "libs \<Rightarrow> env \<Rightarrow> desk \<Rightarrow> cli \<Rightarrow> session \<Rightarrow> resumed option \<Rightarrow> decimal \<Rightarrow> world \<Rightarrow> position_plan option stage" where
  "position_stage L E K cli ss r mid w =
     (if \<not> position_mode_requested cli then (Inr (Inr None), w)
      else if is_hip3 (cl_symbol cli)
      then (Inl ''position modes are limited to standard Hyperliquid perpetual markets'', w)
      else
        try_w (ok_or ''position modes require --master-address or HL_MASTER_ADDRESS'' (ss_master ss), w) (\<lambda>m w1.
        try_w (err_w (\<lambda>_. ''clearinghouseState position preflight failed; no order was sent'')
                 (fetch_perp_position E m (cl_symbol cli) w1)) (\<lambda>pos w2.
        try_w (plan_position (lb_dec L) E K cli ss r mid pos w2) (\<lambda>p w3.
        goes_on (screen_position L E K cli ss r mid m p w3) (\<lambda>p w4. (Inr (Inr (Some p)), w4))))))"

section \<open>Sizing and the notional cap\<close>

definition trade_side :: "cli \<Rightarrow> position_plan option \<Rightarrow> side" where
  "trade_side cli position =
     (case Option.bind position first_phase of Some ph \<Rightarrow> ph_side ph | None \<Rightarrow> cli_side cli)"

definition trade_quantity :: "dec_lib \<Rightarrow> cli \<Rightarrow> position_plan option \<Rightarrow> decimal \<Rightarrow> string + decimal" where
  "trade_quantity D cli position mid =
     (case Option.bind position first_phase of
        Some ph \<Rightarrow> Inr (ph_size ph)
      | None \<Rightarrow> ordinary_quantity D cli mid)"

definition conservative_price :: "dec_lib \<Rightarrow> cli \<Rightarrow> side \<Rightarrow> snapshot \<Rightarrow> nat \<Rightarrow> string + decimal" where
  "conservative_price D cli sd snap sz_decimals =
     (let px = taker_limit_price D (sn_best_bid snap) (sn_best_ask snap) sd (cl_slippage_bps cli) sz_decimals in
      and_then (map_err (\<lambda>_. ''limit price rejected'')
        (validate_limit_price px sd (cl_slippage_bps cli) (sn_best_bid snap) (sn_best_ask snap))) (\<lambda>_.
      Inr (preflight_cap_price D (cl_child_algo cli) sd px (sn_best_bid snap) (sn_best_ask snap) sz_decimals)))"

text \<open>A reversal spends the cap on both of its phases.\<close>

definition preflight_notional ::
  "dec_lib \<Rightarrow> cli \<Rightarrow> position_plan option \<Rightarrow> decimal \<Rightarrow> side \<Rightarrow> snapshot \<Rightarrow> nat \<Rightarrow> string + decimal" where
  "preflight_notional D cli position total_coin sd snap sz_decimals =
     (case (cl_size cli, cl_usd cli, position) of
        (Some _, _, _) \<Rightarrow>
          and_then (conservative_price D cli sd snap sz_decimals) (\<lambda>px.
          ok_or ''requested notional overflow; no order was sent'' (d_checked_mul D total_coin px))
      | (None, Some usd, _) \<Rightarrow> Inr usd
      | (None, None, Some p) \<Rightarrow>
          and_then (fold_ok (\<lambda>acc ph. ok_or ''position plan size overflow; no order was sent''
                                         (d_checked_add D acc (ph_size ph))) 0 (pp_phases p)) (\<lambda>plan_coin.
          and_then (conservative_price D cli sd snap sz_decimals) (\<lambda>px.
          ok_or ''position plan notional overflow; no order was sent'' (d_checked_mul D plan_coin px)))
      | (None, None, None) \<Rightarrow> Inl ''no size specified'')"

record sized =
  sd_side :: side
  sd_total_coin :: decimal
  sd_sizing :: sizing
  sd_cap :: decimal

definition size_run ::
  "dec_lib \<Rightarrow> cli \<Rightarrow> session \<Rightarrow> position_plan option \<Rightarrow> snapshot \<Rightarrow> string + sized" where
  "size_run D cli ss position snap =
     (let sd = trade_side cli position; sz_decimals = am_sz_decimals (ss_asset ss) in
      and_then (trade_quantity D cli position (sn_mid snap)) (\<lambda>total_coin.
      and_then (map_err (\<lambda>_. ''sizing rejected'')
        (execution_sizing D total_coin (cl_slices cli) sz_decimals (sn_mid snap) (position \<noteq> None))) (\<lambda>sg.
      and_then (map_err (\<lambda>_. ''max notional rejected'')
        (validate_max_notional_required D (is_read_only cli) (cl_max_notional_usd cli))) (\<lambda>cap.
      and_then (preflight_notional D cli position total_coin sd snap sz_decimals) (\<lambda>requested.
      and_then (map_err (\<lambda>_. ''notional cap exceeded'') (check_notional_cap requested cap)) (\<lambda>_.
      Inr \<lparr>sd_side = sd, sd_total_coin = total_coin, sd_sizing = sg, sd_cap = cap\<rparr>))))))"

section \<open>The plan of the run\<close>

definition deadline_of_run :: "cli \<Rightarrow> resumed option \<Rightarrow> u64 \<Rightarrow> string + u64 option" where
  "deadline_of_run cli r now =
     (if is_read_only cli then Inr (cl_flatten_deadline_unix_ms cli)
      else
        (case r of
           Some rr \<Rightarrow>
             and_then (ok_or ''resume journal has no absolute execution deadline'' (resumed_deadline rr)) (\<lambda>dl. Inr (Some dl))
         | None \<Rightarrow> Inr (Some (fixed_deadline cli now))))"

text \<open>A resumed ordinary run keeps the durable sizing of its start.\<close>

definition durable_sizing :: "dec_lib \<Rightarrow> fingerprint \<Rightarrow> twap_plan \<Rightarrow> string + twap_plan" where
  "durable_sizing D fp plan =
     and_then (check (fp_version fp = FINGERPRINT_VERSION)
       ''unsupported execution fingerprint version; refusing new orders'') (\<lambda>_.
     and_then (ok_or ''invalid stored fingerprint per_slice'' (d_parse D (fp_per_slice fp))) (\<lambda>per_slice.
     and_then (ok_or ''invalid stored fingerprint total_adjusted'' (d_parse D (fp_total_adjusted fp))) (\<lambda>adjusted.
     and_then (ok_or ''invalid stored fingerprint total_requested'' (d_parse D (fp_total_requested fp))) (\<lambda>requested.
     Inr (plan\<lparr>pl_per_slice := per_slice, pl_total_adjusted := adjusted, pl_total_requested := requested,
               pl_duration := duration_of_millis (fp_duration_ms fp)\<rparr>)))))"

definition plan_of_run ::
  "dec_lib \<Rightarrow> env \<Rightarrow> cli \<Rightarrow> session \<Rightarrow> resumed option \<Rightarrow> position_plan option \<Rightarrow> sized \<Rightarrow> world \<Rightarrow>
     string + twap_plan" where
  "plan_of_run D E cli ss r position z w =
     and_then (deadline_of_run cli r (wall_clock_now_ms E w)) (\<lambda>deadline.
     let plan = original_plan cli (cl_symbol cli) (sd_side z) (am_asset_index (ss_asset ss))
                  (am_sz_decimals (ss_asset ss)) (sd_sizing z) (sd_total_coin z) deadline (sd_cap z) position
                  (ry_agent (ss_ready ss)) (ss_master ss) in
     (case (resumed_frozen r, r) of
        (None, Some rr) \<Rightarrow>
          and_then (resume_replay D E cli ss (rs_run_id rr) w) (\<lambda>rep.
          (case Option.bind (su_header (vr_summary rep)) rh_fingerprint of
             Some fp \<Rightarrow> durable_sizing D fp plan
           | None \<Rightarrow> Inr plan))
      | _ \<Rightarrow> Inr plan))"

definition plan_hash :: "dec_lib \<Rightarrow> desk \<Rightarrow> twap_plan \<Rightarrow> string" where
  "plan_hash D K plan =
     se_hash K [pl_symbol plan, side_name (pl_side plan), d_to_string D (pl_per_slice plan),
                d_to_string D (pl_total_adjusted plan), nat_digits (pl_slices plan),
                nat_digits (pl_duration plan div secs 1), d_to_string D (pl_slippage_bps plan),
                d_to_string D (pl_max_notional_usd plan)]"

definition fingerprint_of_run ::
  "dec_lib \<Rightarrow> cli \<Rightarrow> resumed option \<Rightarrow> position_plan option \<Rightarrow> decimal \<Rightarrow> twap_plan \<Rightarrow> string + fingerprint" where
  "fingerprint_of_run D cli r position mid plan =
     (case r of
        Some rr \<Rightarrow>
          ok_or ''resume journal lost its validated typed fingerprint''
            (Option.bind (su_header (vr_summary (rs_replay rr))) rh_fingerprint)
      | None \<Rightarrow> Inr (execution_fingerprint D (cl_network cli) plan position cli (Some mid)))"

section \<open>Opening the journal\<close>

record opened =
  op_already_filled :: "decimal option"
  op_prior_notional :: decimal

definition reopen_journal ::
  "dec_lib \<Rightarrow> env \<Rightarrow> desk \<Rightarrow> cli \<Rightarrow> session \<Rightarrow> resumed \<Rightarrow> world \<Rightarrow> (string + opened) \<times> world" where
  "reopen_journal D E K cli ss r w =
     try_w (resume_replay D E cli ss (rs_run_id r) w, w) (\<lambda>rep w1.
     try_w (ok_or ''journal has no Header'' (su_header (vr_summary rep)), w1) (\<lambda>h w2.
     try_w (check (rh_fingerprint h \<noteq> None)
              ''legacy journal cannot safely reconstruct all execution fields; new orders are refused'', w2) (\<lambda>_ w3.
     try_w (read_replay D E w3, w3) (\<lambda>restored w4.
     try_w (se_open K w4, w4) (\<lambda>_ w5.
     (Inr \<lparr>op_already_filled =
             (if rs_frozen r = None then Some (ft_filled_sz (vr_fill_totals restored)) else None),
           op_prior_notional = ft_notional (vr_fill_totals restored)\<rparr>, w5))))))"

text \<open>\<open>ExecutionJournal::start\<close> creates the directory and the file, and writes the header as the first record.\<close>

definition start_journal ::
  "dec_lib \<Rightarrow> env \<Rightarrow> desk \<Rightarrow> cli \<Rightarrow> twap_plan \<Rightarrow> fingerprint \<Rightarrow> world \<Rightarrow> (string + opened) \<times> world" where
  "start_journal D E K cli plan fp w =
     (let started = wall_clock_now_ms E w;
          deadline = unwrap_or (pl_absolute_deadline_unix_ms plan)
                       (sat_add_u64 started (of_nat (as_millis (pl_duration plan)))) in
      if deadline \<le> started
      then (Inl ''execution deadline already elapsed before journal start; no order was sent'', w)
      else
        try_w (se_start K w, w) (\<lambda>_ w1.
        (case record_durable E
                (Header (new_run_header (se_run_id K w) (cl_network cli) plan (plan_hash D K plan) fp started deadline)) w1 of
           (ok, w2) \<Rightarrow>
             (if ok then Inr \<lparr>op_already_filled = None, op_prior_notional = 0\<rparr>
              else Inl ''failed to start execution journal'', w2))))"

definition open_journal ::
  "dec_lib \<Rightarrow> env \<Rightarrow> desk \<Rightarrow> cli \<Rightarrow> session \<Rightarrow> resumed option \<Rightarrow> twap_plan \<Rightarrow> fingerprint \<Rightarrow> world \<Rightarrow>
     (string + opened) \<times> world" where
  "open_journal D E K cli ss r plan fp w =
     (if is_read_only cli then (Inr \<lparr>op_already_filled = None, op_prior_notional = 0\<rparr>, w)
      else
        (case r of
           Some rr \<Rightarrow>
             try_w (reopen_journal D E K cli ss rr w) (\<lambda>op w1.
             try_w (e_read_journal E w1, w1) (\<lambda>_ w2. (Inr op, w2)))
         | None \<Rightarrow> start_journal D E K cli plan fp w))"

section \<open>The whole pre-flight\<close>

definition execution_of ::
  "desk \<Rightarrow> cli \<Rightarrow> session \<Rightarrow> resumed option \<Rightarrow> position_plan option \<Rightarrow> decimal \<Rightarrow> sized \<Rightarrow> twap_plan \<Rightarrow> opened \<Rightarrow>
     execution" where
  "execution_of K cli ss r position mid z plan op =
     \<lparr>ex_cli = cli, ex_symbol = cl_symbol cli, ex_asset_index = am_asset_index (ss_asset ss),
      ex_sz_decimals = am_sz_decimals (ss_asset ss), ex_mid = mid, ex_agent = ry_agent (ss_ready ss),
      ex_master = ss_master ss, ex_max_notional = sd_cap z, ex_deadline = pl_absolute_deadline_unix_ms plan,
      ex_already_filled = op_already_filled op, ex_prior_notional = op_prior_notional op,
      ex_original_adjusted = pl_total_adjusted plan, ex_original_requested = pl_total_requested plan,
      ex_position = position, ex_resumed = resumed_frozen r, ex_plan = plan, ex_emit = se_emit K\<rparr>"

definition plan_stage ::
  "libs \<Rightarrow> env \<Rightarrow> desk \<Rightarrow> cli \<Rightarrow> session \<Rightarrow> resumed option \<Rightarrow> snapshot \<Rightarrow> world \<Rightarrow> execution stage" where
  "plan_stage L E K cli ss r snap w =
     (let D = lb_dec L; mid = sn_mid snap in
      goes_on (position_stage L E K cli ss r mid w) (\<lambda>position w1.
      try_w (size_run D cli ss position snap, w1) (\<lambda>z w2.
      try_w (plan_of_run D E cli ss r position z w2, w2) (\<lambda>plan w3.
      try_w (fingerprint_of_run D cli r position mid plan, w3) (\<lambda>fp w4.
      try_w (open_journal D E K cli ss r plan fp w4) (\<lambda>op w5.
      let X = execution_of K cli ss r position mid z plan op in
      goes_on (continue_resumed D E X plan w5) (\<lambda>plan1 w6.
      (Inr (Inr (X\<lparr>ex_plan := plan1\<rparr>)), w6))))))))"

definition prepare ::
  "libs \<Rightarrow> env \<Rightarrow> host \<Rightarrow> desk \<Rightarrow> cli \<Rightarrow> session \<Rightarrow> world \<Rightarrow> (nat + execution) may_end" where
  "prepare L E S K cli ss w =
     try_o (earlier_run (lb_dec L) E S K cli ss w) (\<lambda>earlier w1.
     (case earlier of
        Inl code \<Rightarrow> Some (Inr (Inl code), w1)
      | Inr r \<Rightarrow>
          bind_o (market_stage (lb_dec L) E cli w1) (\<lambda>market w2.
          (case market of
             Inl code \<Rightarrow> Some (Inr (Inl code), w2)
           | Inr snap \<Rightarrow> Some (plan_stage L E K cli ss r snap w2)))))"

end
