(* ===== verification/Barrier.thy ===== *)
theory Barrier
  imports Prepare
begin

text \<open>
  The pair barrier of \<open>src/main.rs\<close>: the ready file, published whole by a create-only link, and the wait for
  the start file of the launcher; then the session of one process, from its registered master to its exit
  code. A file of the barrier directory is whole or partly written. What the start file is at an instant is a
  function of the world. The grace timer after a shutdown is not modelled.
\<close>

section \<open>The ready file\<close>

record ready_content =
  rf_run_id :: string
  rf_ready_at_unix_ms :: u64
  rf_pid :: nat
  rf_journal_run_id :: "string option"

datatype ready_file = WholeReady ready_content | PartReady

record ready_disk =
  rd_tmp :: "ready_file option"
  rd_ready :: "ready_file option"

text \<open>Each step fails by itself, or because the name it would create exists.\<close>

definition create_tmp :: "ready_disk \<Rightarrow> (string + unit) \<times> ready_disk" where
  "create_tmp d =
     (if rd_tmp d = None then (Inr (), d\<lparr>rd_tmp := Some PartReady\<rparr>)
      else (Inl ''creating pair ready file failed'', d))"

definition link_ready :: "ready_disk \<Rightarrow> (string + unit) \<times> ready_disk" where
  "link_ready d =
     (if rd_ready d = None then (Inr (), d\<lparr>rd_ready := rd_tmp d\<rparr>)
      else (Inl ''publishing pair ready file failed (it may already exist)'', d))"

text \<open>The object and the newline are two writes; the file is whole with the second.\<close>

definition ready_steps :: "ready_content \<Rightarrow> (ready_disk \<Rightarrow> (string + unit) \<times> ready_disk) list" where
  "ready_steps c =
     [create_tmp,
      \<lambda>d. (Inr (), d\<lparr>rd_tmp := Some PartReady\<rparr>),
      \<lambda>d. (Inr (), d\<lparr>rd_tmp := Some (WholeReady c)\<rparr>),
      \<lambda>d. (Inr (), d),
      link_ready,
      \<lambda>d. (Inr (), d)]"

text \<open>\<open>fault\<close> is the number of steps that may succeed before the next one fails.\<close>

fun ready_run ::
  "nat option \<Rightarrow> (ready_disk \<Rightarrow> (string + unit) \<times> ready_disk) list \<Rightarrow> ready_disk \<Rightarrow> (string + unit) \<times> ready_disk" where
  "ready_run fault [] d = (Inr (), d)"
| "ready_run fault (f # fs) d =
     (case fault of
        Some 0 \<Rightarrow> (Inl ''pair ready file: I/O error'', d)
      | _ \<Rightarrow>
          (case f d of
             (Inl e, d1) \<Rightarrow> (Inl e, d1)
           | (Inr _, d1) \<Rightarrow> ready_run (map_option (\<lambda>n. n - 1) fault) fs d1))"

text \<open>The removal of the temporary file is tried in any case, and its failure ignored.\<close>

definition write_pair_ready_file ::
  "nat option \<Rightarrow> bool \<Rightarrow> ready_content \<Rightarrow> ready_disk \<Rightarrow> (string + unit) \<times> ready_disk" where
  "write_pair_ready_file fault removed c d =
     (case ready_run fault (ready_steps c) d of
        (r, d1) \<Rightarrow> (r, if removed then d1\<lparr>rd_tmp := None\<rparr> else d1))"

section \<open>The start file\<close>

datatype start_file = StartMissing | StartUnavailable | StartIrregular | StartUnreadable | StartText string

record pair_host =
  bh_disk :: "world \<Rightarrow> ready_disk"
  bh_fault :: "world \<Rightarrow> nat option"
  bh_removed :: "world \<Rightarrow> bool"
  bh_pid :: nat
  bh_start :: "world \<Rightarrow> start_file"

text \<open>The derived \<open>Deserialize\<close> of \<open>PairStartFile\<close>: an object without unknown or repeated fields, or the
  sequence of its fields.\<close>

definition parse_pair_start :: "json_lib \<Rightarrow> string \<Rightarrow> (string \<times> u64) option" where
  "parse_pair_start J txt =
     (case js_parse J txt of
        Some (JObject kvs) \<Rightarrow>
          if set (map fst kvs) \<subseteq> {''run_id'', ''start_at_unix_ms''} \<and> distinct (map fst kvs)
          then (case (get_str (JObject kvs) ''run_id'', get_u64 (JObject kvs) ''start_at_unix_ms'') of
                  (Some run_id, Some start) \<Rightarrow> Some (run_id, start)
                | _ \<Rightarrow> None)
          else None
      | Some (JArray [JString run_id, JNumber (PosInt start)]) \<Rightarrow> Some (run_id, start)
      | _ \<Rightarrow> None)"

definition PAIR_POLL :: nanos where
  "PAIR_POLL = 20 * ns_per_ms"

definition start_released ::
  "json_lib \<Rightarrow> env \<Rightarrow> pair_barrier \<Rightarrow> nanos \<Rightarrow> string \<Rightarrow> world \<Rightarrow> (string + unit) \<times> world" where
  "start_released J E pb deadline txt w =
     (case parse_pair_start J txt of
        None \<Rightarrow> (Inl ''invalid pair start file; no order was placed'', w)
      | Some (run_id, start) \<Rightarrow>
          if run_id \<noteq> pb_run_id pb then (Inl ''pair start file run_id mismatch; no order was placed'', w)
          else
            let now = wall_clock_now_ms E w; wait = duration_of_millis (sat_sub_u64 start now) in
            if start \<le> now then (Inl ''pair start time is not in the future; no order was placed'', w)
            else if deadline < w_now w + wait
            then (Inl ''pair start time exceeds barrier timeout; no order was placed'', w)
            else (Inr (), elapse wait w))"

function pair_start_loop ::
  "json_lib \<Rightarrow> pair_host \<Rightarrow> env \<Rightarrow> pair_barrier \<Rightarrow> nanos \<Rightarrow> world \<Rightarrow> (string + unit) \<times> world" where
  "pair_start_loop J B E pb deadline w =
     (if deadline \<le> w_now w then (Inl ''pair barrier timed out; no order was placed'', w)
      else
        (case bh_start B w of
           StartMissing \<Rightarrow> pair_start_loop J B E pb deadline (elapse PAIR_POLL w)
         | StartUnavailable \<Rightarrow> (Inl ''checking pair start file failed; no order was placed'', w)
         | StartIrregular \<Rightarrow> (Inl ''pair start file must be a regular non-symlink file; no order was placed'', w)
         | StartUnreadable \<Rightarrow> (Inl ''reading pair start file failed; no order was placed'', w)
         | StartText txt \<Rightarrow> start_released J E pb deadline txt w))"
  by pat_completeness auto

termination
  by (relation "measure (\<lambda>(J, B, E, pb, deadline, w). deadline - w_now w)")
    (auto simp: elapse_def PAIR_POLL_def ns_per_ms_def)

declare pair_start_loop.simps [simp del]

definition wait_for_pair_start ::
  "json_lib \<Rightarrow> pair_host \<Rightarrow> env \<Rightarrow> pair_barrier \<Rightarrow> string option \<Rightarrow> world \<Rightarrow> (string + unit) \<times> world" where
  "wait_for_pair_start J B E pb journal_run_id w =
     try_w (fst (write_pair_ready_file (bh_fault B w) (bh_removed B w)
              \<lparr>rf_run_id = pb_run_id pb, rf_ready_at_unix_ms = wall_clock_now_ms E w, rf_pid = bh_pid B,
               rf_journal_run_id = journal_run_id\<rparr> (bh_disk B w)), w) (\<lambda>_ w1.
     pair_start_loop J B E pb (w_now w1 + pb_timeout pb) w1)"

text \<open>The journal's run id is that of its header.\<close>

definition journal_run_id :: "env \<Rightarrow> world \<Rightarrow> string option" where
  "journal_run_id E w =
     (if e_has_journal E
      then (case w_journal w of Header h # _ \<Rightarrow> Some (rh_run_id h) | _ \<Rightarrow> None)
      else None)"

definition barrier_stage ::
  "libs \<Rightarrow> pair_host \<Rightarrow> env \<Rightarrow> desk \<Rightarrow> cli \<Rightarrow> pair_barrier option \<Rightarrow> world \<Rightarrow> (string + unit) \<times> world" where
  "barrier_stage L B E K cli barrier w =
     (case barrier of
        None \<Rightarrow> (Inr (), w)
      | Some pb \<Rightarrow>
          (case wait_for_pair_start (lb_json L) B E pb (journal_run_id E w) w of
             (Inr _, w1) \<Rightarrow> (Inr (), w1)
           | (Inl error, w1) \<Rightarrow>
               if e_has_journal E then
                 try_w (record_pair_barrier_abort (lb_dec L) E error w1) (\<lambda>_ w2.
                 try_w (emit_report K cli w2) (\<lambda>_ w3. (Inl error, w3)))
               else (Inl error, w1)))"

section \<open>One process\<close>

definition run_session ::
  "libs \<Rightarrow> pair_host \<Rightarrow> env \<Rightarrow> host \<Rightarrow> desk \<Rightarrow> cli \<Rightarrow> session \<Rightarrow> world \<Rightarrow> nat may_end" where
  "run_session L B E S K cli ss w =
     bind_o (prepare L E S K cli ss w) (\<lambda>prepared w1.
     (case prepared of
        Inl code \<Rightarrow> Some (Inr code, w1)
      | Inr X \<Rightarrow>
          try_o (barrier_stage L B E K cli (ry_barrier (ss_ready ss)) w1) (\<lambda>_ w2. execute (lb_dec L) E X w2)))"

text \<open>The journal that the process continues or abandons, as it is on disk at the start.\<close>

definition journal_at_start :: "libs \<Rightarrow> host \<Rightarrow> cli \<Rightarrow> session \<Rightarrow> nanos \<Rightarrow> journal_record list" where
  "journal_at_start L S cli ss now =
     (let dir = ry_state_dir (ss_ready ss);
          abandoned = (if cl_abandon_incomplete_run cli
                       then (case find_run (lb_dec L) S cli dir now (ry_agent (ss_ready ss)) of
                               Inr found \<Rightarrow> found | Inl e \<Rightarrow> None)
                       else None)
      in case or_else (cl_resume cli) abandoned of
           Some run_id \<Rightarrow> (case sy_read S dir now run_id of Inr records \<Rightarrow> records | Inl e \<Rightarrow> [])
         | None \<Rightarrow> [])"

text \<open>The whole process: the start over the wire, then the session on the client's interface. A journal is
  attached exactly in live mode.\<close>

definition session_env :: "libs \<Rightarrow> wire_env \<Rightarrow> cli \<Rightarrow> session \<Rightarrow> wire_world \<Rightarrow> env \<Rightarrow> env" where
  "session_env L W cli ss w0 E =
     (client_env L (ry_client (ss_ready ss)) W w0 E)\<lparr>e_has_journal := is_live cli\<rparr>"

definition session_world :: "libs \<Rightarrow> host \<Rightarrow> cli \<Rightarrow> session \<Rightarrow> wire_world \<Rightarrow> world" where
  "session_world L S cli ss w0 =
     \<lparr>w_now = ww_now w0, w_trace = [], w_journal = journal_at_start L S cli ss (ww_now w0)\<rparr>"

definition run_with_cli ::
  "libs \<Rightarrow> host \<Rightarrow> wire_env \<Rightarrow> pair_host \<Rightarrow> env \<Rightarrow> desk \<Rightarrow> cli \<Rightarrow> wire_world \<Rightarrow> (string + nat) option" where
  "run_with_cli L S W B E K cli w =
     (case startup L S W cli w of
        (Inl e, w1) \<Rightarrow> Some (Inl e)
      | (Inr ss, w1) \<Rightarrow>
          map_option fst
            (run_session L B (session_env L W cli ss w1 E) S K cli ss (session_world L S cli ss w1)))"

end
