(* ===== verification/Startup_Facts.thy ===== *)
theory Startup_Facts
  imports Startup Client_Facts Resume_Props
begin

text \<open>
  What a start guarantees: nothing is sent before every gate has passed, all that is sent are queries, and a
  live start goes on only as the registered agent of the declared master, holding the writer lock, with no
  incomplete run but the one it was told to resume or abandon.
\<close>

section \<open>Sequencing over the wire\<close>

lemma try_wire_Inr: "try_wire m f = (Inr b, w') \<longleftrightarrow> (\<exists>a w. m = (Inr a, w) \<and> f a w = (Inr b, w'))"
  by (auto simp: try_wire_def split: prod.split sum.split)

lemma snd_err_wire [simp]: "snd (err_wire what m) = snd m"
  by (simp add: err_wire_def)

lemma fst_err_wire_Inr [simp]: "fst (err_wire what m) = Inr a \<longleftrightarrow> fst m = Inr a"
  by (simp add: err_wire_def)

lemma err_wire_Inr: "err_wire what m = (Inr a, w) \<longleftrightarrow> m = (Inr a, w)"
  by (cases m) (auto simp: err_wire_def)

text \<open>The queries a start may make.\<close>

definition start_query :: "ready \<Rightarrow> json \<Rightarrow> bool" where
  "start_query g body \<longleftrightarrow>
     body = meta_body \<or> (case ry_agent g of Some a \<Rightarrow> body = user_role_body a | None \<Rightarrow> False)"

definition queries_only :: "ready \<Rightarrow> wire_world \<Rightarrow> wire_world \<Rightarrow> bool" where
  "queries_only g w w' \<longleftrightarrow>
     (\<exists>ps. ww_posts w' = ps @ ww_posts w \<and>
        (\<forall>p\<in>set ps. fst (snd p) = cf_info_url (cl_config (ry_client g)) \<and> start_query g (snd (snd p))))"

lemma queries_refl [simp]: "queries_only g w w"
  by (simp add: queries_only_def)

lemma queries_more: "queries_only g w w1 \<Longrightarrow> queries_only g w1 w2 \<Longrightarrow> queries_only g w w2"
  unfolding queries_only_def by (elim exE conjE, rule_tac x = "psa @ ps" in exI) auto

lemma queries_try [simp]:
  "queries_only g w (snd m) \<Longrightarrow> (\<And>a w1. queries_only g w w1 \<Longrightarrow> queries_only g w (snd (f a w1))) \<Longrightarrow>
     queries_only g w (snd (try_wire m f))"
  by (cases m; cases "fst m") (auto simp: try_wire_def)

lemma info_queries:
  "queries_only g w w1 \<Longrightarrow> start_query g body \<Longrightarrow> queries_only g w (snd (info (ry_client g) W body w1))"
  using post_attempts_effect [of W "cf_info_url (cl_config (ry_client g))" body RETRY_BACKOFF w1]
  by (elim queries_more) (auto simp: info_def post_with_retry_def queries_only_def)

lemma seed_client_queries [simp]: "queries_only g w w1 \<Longrightarrow> queries_only g w (snd (seed_client W a w1))"
  by (elim queries_more) (auto simp: seed_client_def queries_only_def split: option.split sum.split)

lemma client_meta_queries [simp]:
  "queries_only g w w1 \<Longrightarrow> queries_only g w (snd (client_meta L (ry_client g) W w1))"
  by (simp add: client_meta_def info_queries start_query_def)

lemma client_role_queries [simp]:
  "queries_only g w w1 \<Longrightarrow> ry_agent g = Some a \<Longrightarrow> queries_only g w (snd (client_user_role L (ry_client g) W a w1))"
  by (simp add: client_user_role_def info_queries start_query_def)

lemma resolve_master_queries [simp]: "queries_only g w w1 \<Longrightarrow> queries_only g w (snd (resolve_master L W g w1))"
  by (simp add: resolve_master_def split: option.split role.split)

lemma connect_queries: "queries_only g w (snd (connect L W cli g w))"
  by (simp add: connect_def)

lemma info_nonce [simp]: "ww_nonce (snd (info C W body w)) = ww_nonce w"
  using post_attempts_effect [of W "cf_info_url (cl_config C)" body RETRY_BACKOFF w]
  by (auto simp: info_def post_with_retry_def)

lemma client_meta_nonce [simp]: "ww_nonce (snd (client_meta L C W w)) = ww_nonce w"
  by (simp add: client_meta_def)

lemma connect_read_only_nonce: "ry_agent g = None \<Longrightarrow> ww_nonce (snd (connect L W cli g w)) = ww_nonce w"
  using client_meta_nonce [of L "ry_client g" W w]
  by (simp add: connect_def seed_client_def resolve_master_def try_wire_def err_wire_def split_beta split: sum.split)

section \<open>The gates\<close>

lemma check_Inr_unit: "check ok e = Inr () \<longleftrightarrow> ok"
  by (simp add: check_def)

lemma live_gatesD:
  assumes "live_gates D S cli now configured = Inr (agent, sign, held)"
  defines "dir \<equiv> state_dir S (cl_state_dir cli)"
  shows "check_endpoint S cli (sy_var S ''HL_INFO_URL'') = Inr ()"
    and "check_endpoint S cli (sy_var S ''HL_EXCHANGE_URL'') = Inr ()"
    and "load_signer S (cl_network cli) = Inr (agent, sign)"
    and "acquire (sy_held S) dir (lock_key (network_name (cl_network cli)) agent) = Inr held"
    and "resume_gate D S cli dir now agent configured = Inr ()"
    and "incomplete_gate D S cli dir now agent configured = Inr ()"
  using assms by (auto simp: live_gates_def Let_def and_then_Inr)

text \<open>What the two gates on earlier runs leave.\<close>

definition only_run ::
  "dec_lib \<Rightarrow> host \<Rightarrow> cli \<Rightarrow> string \<Rightarrow> nanos \<Rightarrow> address \<Rightarrow> address option \<Rightarrow> bool" where
  "only_run D S cli dir now agent configured \<longleftrightarrow>
     (\<exists>found. find_run D S cli dir now (Some agent) = Inr found \<and>
        (case found of
           None \<Rightarrow> cl_resume cli = None
         | Some run_id \<Rightarrow>
             (cl_resume cli = Some run_id \<or> (cl_resume cli = None \<and> cl_abandon_incomplete_run cli)) \<and>
             (\<exists>rep. check_journal D S cli dir now (Some agent) configured run_id = Inr rep)))"

lemma run_gates_only_run:
  assumes "resume_gate D S cli dir now agent configured = Inr ()"
    and "incomplete_gate D S cli dir now agent configured = Inr ()"
  shows "only_run D S cli dir now agent configured"
  using assms
  by (auto simp: only_run_def incomplete_gate_def resume_gate_def and_then_Inr check_def
      split: option.splits if_splits)

lemma gates_live:
  assumes "gates D S cli now = Inr g" and "is_live cli"
  obtains agent sign held configured where "configured_master S cli = Inr configured"
    and "live_gates D S cli now configured = Inr (agent, sign, held)"
    and "g = \<lparr>ry_barrier = ry_barrier g, ry_configured = configured, ry_agent = Some agent,
             ry_client = client_of S cli (Some sign), ry_state_dir = state_dir S (cl_state_dir cli), ry_held = held\<rparr>"
  using assms by (auto simp: gates_def is_live_def and_then_Inr)

lemma gates_read_only:
  assumes "gates D S cli now = Inr g" and "is_read_only cli"
  shows "ry_agent g = None" and "cl_signer (ry_client g) = None" and "ry_held g = sy_held S"
    and "configured_master S cli = Inr (ry_configured g)"
  using assms by (auto simp: gates_def and_then_Inr client_of_def)

lemma resolve_master_agent:
  assumes "ry_agent g = Some agent" and "resolve_master L W g w = (Inr m, w')"
  obtains mm where "m = Some mm" and "client_user_role L (ry_client g) W agent w = (Inr (RAgent mm), w')"
    and "case ry_configured g of Some declared \<Rightarrow> declared = to_ascii_lowercase mm | None \<Rightarrow> True"
proof -
  from assms obtain role w1 where r: "client_user_role L (ry_client g) W agent w = (Inr role, w1)"
    by (auto simp: resolve_master_def try_wire_Inr err_wire_Inr)
  with assms obtain mm where "role = RAgent mm"
    by (cases role) (auto simp: resolve_master_def try_wire_Inr err_wire_Inr)
  with assms r that show ?thesis
    by (auto simp: resolve_master_def try_wire_Inr err_wire_Inr split: option.splits if_splits)
qed

lemma gates_valid: "gates D S cli now = Inr g \<Longrightarrow> validate_cli D cli = Inr ()"
  by (auto simp: gates_def and_then_Inr)

section \<open>Properties\<close>

text \<open>C13: a process makes its first request only after every gate has passed, and until its session begins it
  sends nothing but the two queries. In live mode the gates are: the endpoint policy for both overrides, a
  key whose address is the declared agent, a writer lock that was free, and no incomplete run of the same
  network and agent except the one that the operator resumes or abandons, whose journal replays with the
  identity of this process. A read-only start loads no key, takes no lock and mints no nonce.\<close>

theorem start_requests_gated:
  assumes "startup L S W cli w = (r, w')" and "ww_posts w' \<noteq> ww_posts w"
  shows "\<exists>g ps. gates (lb_dec L) S cli (ww_now w) = Inr g \<and> ww_posts w' = ps @ ww_posts w \<and>
    (\<forall>p\<in>set ps. fst (snd p) = cf_info_url (cl_config (ry_client g)) \<and>
       (snd (snd p) = meta_body \<or> (\<exists>a. ry_agent g = Some a \<and> snd (snd p) = user_role_body a))) \<and>
    (is_live cli \<longrightarrow>
       (\<exists>agent sign. ry_agent g = Some agent \<and> load_signer S (cl_network cli) = Inr (agent, sign) \<and>
          check_endpoint S cli (sy_var S ''HL_INFO_URL'') = Inr () \<and>
          check_endpoint S cli (sy_var S ''HL_EXCHANGE_URL'') = Inr () \<and>
          lock_file (ry_state_dir g) (lock_key (network_name (cl_network cli)) agent) \<in> ry_held g - sy_held S \<and>
          only_run (lb_dec L) S cli (ry_state_dir g) (ww_now w) agent (ry_configured g))) \<and>
    (is_read_only cli \<longrightarrow> ry_agent g = None \<and> ry_held g = sy_held S \<and> ww_nonce w' = ww_nonce w)"
proof -
  from assms obtain g where g: "gates (lb_dec L) S cli (ww_now w) = Inr g" and c: "connect L W cli g w = (r, w')"
    by (auto simp: startup_def split: sum.splits)
  from connect_queries [of g w L W cli] c obtain ps where ps: "ww_posts w' = ps @ ww_posts w"
    "\<forall>p\<in>set ps. fst (snd p) = cf_info_url (cl_config (ry_client g)) \<and> start_query g (snd (snd p))"
    by (auto simp: queries_only_def)
  from ps(2) have q: "\<forall>p\<in>set ps. fst (snd p) = cf_info_url (cl_config (ry_client g)) \<and>
       (snd (snd p) = meta_body \<or> (\<exists>a. ry_agent g = Some a \<and> snd (snd p) = user_role_body a))"
    by (auto simp: start_query_def split: option.splits)
  have live: "\<exists>agent sign. ry_agent g = Some agent \<and> load_signer S (cl_network cli) = Inr (agent, sign) \<and>
          check_endpoint S cli (sy_var S ''HL_INFO_URL'') = Inr () \<and>
          check_endpoint S cli (sy_var S ''HL_EXCHANGE_URL'') = Inr () \<and>
          lock_file (ry_state_dir g) (lock_key (network_name (cl_network cli)) agent) \<in> ry_held g - sy_held S \<and>
          only_run (lb_dec L) S cli (ry_state_dir g) (ww_now w) agent (ry_configured g)" if "is_live cli"
  proof -
    from g that obtain agent sign held configured where
      l: "live_gates (lb_dec L) S cli (ww_now w) configured = Inr (agent, sign, held)"
      and eq: "g = \<lparr>ry_barrier = ry_barrier g, ry_configured = configured, ry_agent = Some agent,
             ry_client = client_of S cli (Some sign), ry_state_dir = state_dir S (cl_state_dir cli), ry_held = held\<rparr>"
      by (rule gates_live)
    note d = live_gatesD [OF l]
    from eq have "ry_agent g = Some agent" "ry_held g = held" "ry_configured g = configured"
      "ry_state_dir g = state_dir S (cl_state_dir cli)" by (metis ready.select_convs)+
    with d run_gates_only_run [OF d(5,6)] show ?thesis
      by (auto simp: acquire_def Let_def split: if_splits)
  qed
  have "ww_nonce w' = ww_nonce w" if "is_read_only cli"
    using connect_read_only_nonce [OF gates_read_only(1) [OF g that]] c by (metis snd_conv)
  with g ps(1) q live gates_read_only [OF g] show ?thesis by blast
qed

text \<open>C14: a live session begins only for an agent that the exchange reports as registered, under the master
  that the exchange names, and that master is the declared one where one is declared; its symbol is in the
  exchange's universe, and its nonce counter is seeded from the durable mark.\<close>

theorem live_start_registered:
  assumes "startup L S W cli w = (Inr ss, w')" and "is_live cli"
  shows "\<exists>agent m h universe w1 w2 sign. ry_agent (ss_ready ss) = Some agent \<and> ss_master ss = Some m \<and>
    cl_signer (ry_client (ss_ready ss)) = Some sign \<and>
    client_user_role L (ry_client (ss_ready ss)) W agent w1 = (Inr (RAgent m), w') \<and>
    (case configured_master S cli of
       Inr (Some declared) \<Rightarrow> declared = to_ascii_lowercase m | Inr None \<Rightarrow> True | Inl e \<Rightarrow> False) \<and>
    fst (client_meta L (ry_client (ss_ready ss)) W w2) = Inr universe \<and>
    resolve universe (cl_symbol cli) = Inr (ss_asset ss) \<and>
    hwm_load (ns_disk (ww_nonce w)) = Inr h \<and> ns_hwm (ww_nonce w2) = Some h"
proof -
  from assms obtain g where g: "gates (lb_dec L) S cli (ww_now w) = Inr g" and c: "connect L W cli g w = (Inr ss, w')"
    by (auto simp: startup_def split: sum.splits)
  from g assms(2) obtain agent sign held configured where
    cm: "configured_master S cli = Inr configured"
    and eq: "g = \<lparr>ry_barrier = ry_barrier g, ry_configured = configured, ry_agent = Some agent,
             ry_client = client_of S cli (Some sign), ry_state_dir = state_dir S (cl_state_dir cli), ry_held = held\<rparr>"
    by (rule gates_live)
  from eq have a: "ry_agent g = Some agent" "ry_configured g = configured"
    "cl_signer (ry_client g) = Some sign" by (metis ready.select_convs client_of_def hl_client.select_convs)+
  from c obtain w2 universe asset w3 m where
    s: "seed_client W (ry_agent g) w = (Inr (), w2)"
    and mt: "client_meta L (ry_client g) W w2 = (Inr universe, w3)"
    and re: "resolve universe (cl_symbol cli) = Inr asset"
    and rm: "resolve_master L W g w3 = (Inr m, w')"
    and ss: "ss = \<lparr>ss_ready = g, ss_asset = asset, ss_master = m\<rparr>"
    by (auto simp: connect_def try_wire_Inr err_wire_Inr)
  from s a obtain h where h: "hwm_load (ns_disk (ww_nonce w)) = Inr h" "ns_hwm (ww_nonce w2) = Some h"
    by (auto simp: seed_client_def seed_nonce_def Let_def split: sum.splits)
  from rm obtain mm where mm: "m = Some mm" "client_user_role L (ry_client g) W agent w3 = (Inr (RAgent mm), w')"
    "case configured of Some declared \<Rightarrow> declared = to_ascii_lowercase mm | None \<Rightarrow> True"
    by (rule resolve_master_agent [OF a(1)]) (use a(2) in auto)
  with a h mt re cm ss show ?thesis
    by (intro exI [of _ agent] exI [of _ mm] exI [of _ h] exI [of _ universe] exI [of _ w3] exI [of _ w2]
        exI [of _ sign]) (auto split: option.splits)
qed

section \<open>A start\<close>

definition start_json :: json_lib where
  "start_json =
     \<lparr>js_parse = (\<lambda>s.
        if s = ''meta'' then
          Some (JObject [(''universe'', JArray [JObject [(''name'', JString ''BTC''), (''szDecimals'', JNumber (PosInt 2))]])])
        else if s = ''role'' then
          Some (JObject [(''role'', JString ''agent''), (''data'', JObject [(''user'', JString ''0xm'')])])
        else None),
      js_show = (\<lambda>_. ''?'')\<rparr>"

definition start_libs :: libs where
  "start_libs = \<lparr>lb_dec = exact_dec, lb_json = start_json, lb_uuid = hex_uuid\<rparr>"

definition start_net :: wire_env where
  "start_net =
     \<lparr>we_net = (\<lambda>w url body. (Inr (200, if body = meta_body then ''meta'' else ''role''), 1000000)),
      we_clock = (\<lambda>w. Some 5000), we_fault = (\<lambda>w. None)\<rparr>"

definition start_host :: host where
  "start_host =
     \<lparr>sy_var = (\<lambda>v. if v = ''HL_AGENT_PK'' then Some ''key'' else None), sy_stat = (\<lambda>p. None),
      sy_key = (\<lambda>pk. Some (''0xA'', \<lambda>mainnet. the (cl_signer demo_client))), sy_url_host = (\<lambda>u. None),
      sy_held = {}, sy_runs = (\<lambda>dir now. Inr []), sy_read = (\<lambda>dir now run_id. Inl (Io ''none'')),
      sy_order = (\<lambda>xs. xs), sy_http = Inr ()\<rparr>"

lemma demo_valid: "validate_cli exact_dec demo_cli = Inr ()"
  by (simp add: validate_cli_def demo_cli_def is_live_def is_read_only_def validate_mode_def position_mode_requested_def
      validate_amounts_def positive_opt_def validate_risk_def validate_slippage_def SLIPPAGE_HARD_CAP_BPS_def
      SLIPPAGE_WARN_THRESHOLD_BPS_def validate_max_notional_required_def validate_trigger_def validate_expiry_def
      validate_follow_def check_def secs_def map_err_def)

lemma demo_start:
  "\<exists>ss w'. startup start_libs start_host start_net demo_cli demo_wire_world = (Inr ss, w') \<and>
     ww_posts w' \<noteq> ww_posts demo_wire_world \<and> ss_master ss = Some ''0xm'' \<and> am_sz_decimals (ss_asset ss) = 2 \<and>
     ry_agent (ss_ready ss) = Some ''0xA''"
proof -
  have cli: "cl_pair_ready_file demo_cli = None" "cl_pair_start_file demo_cli = None" "cl_pair_run_id demo_cli = None"
    "cl_pair_barrier_timeout demo_cli = None" "cl_master_address demo_cli = None" "cl_resume demo_cli = None"
    "\<not> cl_abandon_incomplete_run demo_cli" "\<not> is_read_only demo_cli" "cl_symbol demo_cli = ''BTC''"
    by (simp_all add: demo_cli_def is_read_only_def)
  have libs: "lb_dec start_libs = exact_dec" "lb_json start_libs = start_json" by (simp_all add: start_libs_def)
  have g: "\<exists>g. gates exact_dec start_host demo_cli 0 = Inr g \<and> ry_agent g = Some ''0xA'' \<and> ry_configured g = None"
    by (simp add: gates_def demo_valid cli check_def pair_barrier_of_def configured_master_def or_else_def
        nonblank_def start_host_def live_gates_def check_endpoint_def load_signer_def from_secret_def acquire_def
        resume_gate_def incomplete_gate_def find_run_def ok_or_def Let_def map_err_def unwrap_or_def is_live_def)
  then obtain g where g: "gates exact_dec start_host demo_cli 0 = Inr g" "ry_agent g = Some ''0xA''" "ry_configured g = None"
    by blast
  have trim: "to_ascii_lowercase (Market.trim ''0xm'') = ''0xm''" by code_simp
  have now: "ww_now demo_wire_world = 0" by (simp add: demo_wire_world_def)
  show ?thesis
    by (simp add: startup_def libs now g connect_def seed_client_def demo_wire_world_def hwm_load_def seed_nonce_def
        next_seed_def try_wire_def err_wire_def client_meta_def info_def post_with_retry_def RETRY_BACKOFF_def
        post_once_def start_net_def parsed_def parse_meta_def start_json_def need_def ok_or_def
        wire_universe_entry_def get_u32_def get_u64_def get_str_def U32_MAX_def map_err_def resolve_def cli
        resolve_master_def client_user_role_def parse_user_role_def wire_role_def meta_body_def user_role_body_def
        is_network.simps split_beta trim)
qed

theorem start_requests_gated_witness:
  "\<exists>r w' (g :: ready). startup start_libs start_host start_net demo_cli demo_wire_world = (r, w') \<and>
     ry_agent g = Some ''0xA'' \<and> lock_file (ry_state_dir g) ''testnet:0xA'' \<in> ry_held g \<and>
     only_run exact_dec start_host demo_cli (ry_state_dir g) 0 ''0xA'' (ry_configured g)"
proof -
  obtain ss w' where s: "startup start_libs start_host start_net demo_cli demo_wire_world = (Inr ss, w')"
    and p: "ww_posts w' \<noteq> ww_posts demo_wire_world" and a: "ry_agent (ss_ready ss) = Some ''0xA''"
    using demo_start by blast
  have live: "is_live demo_cli" by (simp add: is_live_def is_read_only_def demo_cli_def)
  have l: "load_signer start_host (cl_network demo_cli) = Inr (agent, sign) \<Longrightarrow> agent = ''0xA''" for agent sign
    by (simp add: load_signer_def start_host_def from_secret_def ok_or_def map_err_def)
  have k: "lock_key (network_name (cl_network demo_cli)) ''0xA'' = ''testnet:0xA''"
    by (simp add: lock_key_def demo_cli_def)
  from start_requests_gated [OF s p] live obtain g :: ready and agent sign where
    g: "ry_agent g = Some agent" "load_signer start_host (cl_network demo_cli) = Inr (agent, sign)"
    "lock_file (ry_state_dir g) (lock_key (network_name (cl_network demo_cli)) agent) \<in> ry_held g"
    "only_run (lb_dec start_libs) start_host demo_cli (ry_state_dir g) (ww_now demo_wire_world) agent (ry_configured g)"
    by blast
  from l [OF g(2)] g k s show ?thesis
    by (intro exI [of _ "Inr ss"] exI [of _ w'] exI [of _ g]) (simp add: start_libs_def demo_wire_world_def)
qed

theorem live_start_registered_witness:
  "\<exists>ss w' w1. startup start_libs start_host start_net demo_cli demo_wire_world = (Inr ss, w') \<and>
     client_user_role start_libs (ry_client (ss_ready ss)) start_net ''0xA'' w1 = (Inr (RAgent ''0xm''), w')"
proof -
  obtain ss w' where s: "startup start_libs start_host start_net demo_cli demo_wire_world = (Inr ss, w')"
    and m: "ss_master ss = Some ''0xm''" "ry_agent (ss_ready ss) = Some ''0xA''"
    using demo_start by blast
  have live: "is_live demo_cli" by (simp add: is_live_def is_read_only_def demo_cli_def)
  from live_start_registered [OF s live] m s show ?thesis by auto
qed

end
