(* ===== verification/Session_Facts.thy ===== *)
theory Session_Facts
  imports Barrier Startup_Facts Execute_Props
begin

text \<open>
  What a whole process guarantees. The pre-flight never sends an order and never opens an intent, so every
  order comes from the execution stage behind the pair barrier; the header of a new run describes the plan
  that is executed; a resume past its deadline reads no market; a flatten closes exactly what the operator has
  confirmed; and every process returns.
\<close>

section \<open>The pre-flight keeps every calm invariant\<close>

lemma not_prepared [simp]:
  "\<not> is_prepared (replayed_report D E c u n rep w)"
  by (simp add: replayed_report_def)

context calm_inv
begin

lemma goes_on_keeps [simp]:
  "I (snd m) \<Longrightarrow> (\<And>a w. I w \<Longrightarrow> I (snd (f a w))) \<Longrightarrow> I (snd (goes_on m f))"
  by (auto simp: goes_on_def split: sum.split)

lemma emit_report_keeps [simp]: "I w \<Longrightarrow> I (snd (emit_report K cli w))"
  by (simp add: emit_report_def)

lemma durable_refusal_keeps [simp]: "I w \<Longrightarrow> I (snd (durable_refusal D E K cli n m rep w))"
  by (simp add: durable_refusal_def)

lemma reconcile_or_refuse_keeps [simp]: "I w \<Longrightarrow> I (snd (reconcile_or_refuse D E K cli ss r n w))"
  using reconcile_incomplete_keeps [of _ D E "reconcile_plan D cli ss"]
  by (auto simp: reconcile_or_refuse_def split_beta split: sum.split)

lemma abandon_run_keeps [simp]: "I w \<Longrightarrow> I (snd (abandon_run D E S K cli ss w))"
  by (simp add: abandon_run_def)

lemma frozen_position_keeps [simp]: "I w \<Longrightarrow> I (snd (frozen_position D E K cli ss rep w))"
  by (simp add: frozen_position_def split: sum.split)

lemma expired_position_keeps [simp]: "I w \<Longrightarrow> I (snd (expired_position D E K cli ss rep p w))"
  by (simp add: expired_position_def split_beta Let_def split: sum.split)

lemma expired_resume_keeps [simp]: "I w \<Longrightarrow> I (snd (expired_resume D E K cli ss r h w))"
  by (simp add: expired_resume_def split: option.split)

lemma resume_run_keeps [simp]: "I w \<Longrightarrow> I (snd (resume_run D E K cli ss r w))"
  by (simp add: resume_run_def Let_def)

lemma earlier_run_keeps [simp]: "I w \<Longrightarrow> I (snd (earlier_run D E S K cli ss w))"
  by (simp add: earlier_run_def split: option.split)

lemma initial_book_keeps [simp]: "I w \<Longrightarrow> I (snd (initial_book D E cli w))"
  by (simp add: initial_book_def)

lemma sizing_snapshot_keeps [simp]: "I w \<Longrightarrow> I (snd (sizing_snapshot D E cli reason w))"
  by (simp add: sizing_snapshot_def split: trigger_reason.split)

lemma confirm_flatten_keeps [simp]: "I w \<Longrightarrow> I (snd (confirm_flatten L E K cli r m p w))"
  by (simp add: confirm_flatten_def Let_def split: option.split)

lemma stop_resumed_keeps [simp]: "I w \<Longrightarrow> I (snd (stop_resumed D E K cli n m w))"
  by (simp add: stop_resumed_def)

lemma continue_frozen_keeps [simp]: "I w \<Longrightarrow> I (snd (continue_frozen D E K cli ss rep p pos w))"
  by (simp add: continue_frozen_def)

lemma plan_position_keeps [simp]: "I w \<Longrightarrow> I (snd (plan_position D E K cli ss r mid pos w))"
  by (simp add: plan_position_def split: option.split)

lemma report_resumed_keeps [simp]: "I w \<Longrightarrow> I (snd (report_resumed D E K cli r c n w))"
  by (simp add: report_resumed_def split: option.split)

lemma noop_position_keeps [simp]: "I w \<Longrightarrow> I (snd (noop_position D E K cli r w))"
  by (simp add: noop_position_def)

lemma small_position_keeps [simp]: "I w \<Longrightarrow> I (snd (small_position D E K cli r p w))"
  by (simp add: small_position_def)

lemma screen_position_keeps [simp]: "I w \<Longrightarrow> I (snd (screen_position L E K cli ss r mid m p w))"
  by (simp add: screen_position_def split: list.split)

lemma position_stage_keeps [simp]: "I w \<Longrightarrow> I (snd (position_stage L E K cli ss r mid w))"
  by (simp add: position_stage_def)

lemma reopen_journal_keeps [simp]: "I w \<Longrightarrow> I (snd (reopen_journal D E K cli ss r w))"
  by (simp add: reopen_journal_def)

lemma start_journal_keeps [simp]: "I w \<Longrightarrow> I (snd (start_journal D E K cli plan fp w))"
  using record_durable_keeps [of w "Header h" E for h] by (simp add: start_journal_def Let_def split_beta)

lemma open_journal_keeps [simp]: "I w \<Longrightarrow> I (snd (open_journal D E K cli ss r plan fp w))"
  by (simp add: open_journal_def split: option.split)

lemma finish_resumed_keeps [simp]: "I w \<Longrightarrow> I (snd (finish_resumed D E X c f n w))"
  by (simp add: finish_resumed_def)

lemma continue_resumed_keeps [simp]: "I w \<Longrightarrow> I (snd (continue_resumed D E X plan w))"
  by (simp add: continue_resumed_def split: option.split continuation.split)

lemma plan_stage_keeps [simp]: "I w \<Longrightarrow> I (snd (plan_stage L E K cli ss r snap w))"
  by (simp add: plan_stage_def Let_def)

lemma snd_keeps: "m = (r, w') \<Longrightarrow> I (snd m) \<Longrightarrow> I w'"
  by simp

lemma trigger_step_keeps_case:
  assumes "I w"
  shows "case trigger_step D E s cfg start st w of (TAgain, st1, w1) \<Rightarrow> I w1 | (TDone e, st1, w1) \<Rightarrow> I w1"
proof -
  obtain n st1 w1 where t: "trigger_step D E s cfg start st w = (n, st1, w1)"
    by (cases "trigger_step D E s cfg start st w")
  from trigger_step_keeps [OF assms, of D E s cfg start st] have "I w1" unfolding t by simp
  with t show ?thesis by (cases n) simp_all
qed

lemma wait_for_trigger_keeps:
  assumes "wait_for_trigger D E s cfg w = Some (r, w')" and "I w"
  shows "I w'"
proof (cases "is_immediate cfg")
  case False
  with assms(1) have l: "trigger_loop (trigger_step D E s cfg (w_now w)) (trigger_state_init (w_now w)) w = Some (r, w')"
    by (simp add: wait_for_trigger_def)
  from trigger_loop_result [OF l, of "\<lambda>_. I" "\<lambda>_. I"] assms(2) trigger_step_keeps_case show ?thesis by simp
qed (use assms in \<open>simp add: wait_for_trigger_def\<close>)

lemma fired_keeps [simp]:
  "I w \<Longrightarrow> I (snd (try_w (sizing_snapshot D E cli reason w) (\<lambda>snap w4.
     try_w (skew_gate E cli snap w4, w4) (\<lambda>_ w5. (Inr (Inr snap), w5)))))"
  by simp

lemma market_stage_keeps:
  assumes "market_stage D E cli w = Some (r, w')" and "I w"
  shows "I w'"
proof (cases "\<exists>e w1. initial_book D E cli w = (Inl e, w1)")
  case True
  then obtain e w1 where b: "initial_book D E cli w = (Inl e, w1)" by blast
  from snd_keeps [OF b initial_book_keeps [OF assms(2)]] assms(1) b show ?thesis
    by (simp add: market_stage_def try_o_def)
next
  case False
  then obtain u w1 where b: "initial_book D E cli w = (Inr u, w1)" by (cases "initial_book D E cli w"; cases "fst (initial_book D E cli w)") auto
  have I1: "I w1" using initial_book_keeps [OF assms(2), of D E cli] unfolding b by simp
  from assms(1) b obtain out w2 where t: "wait_for_trigger D E (cl_symbol cli) (trigger_config_of cli) w1 = Some (out, w2)"
    by (auto simp: market_stage_def try_o_def run_o_Some)
  have I2: "I w2" by (rule wait_for_trigger_keeps [OF t I1])
  show ?thesis
  proof (cases "\<exists>reason. out = Inr (Fired reason)")
    case True
    then obtain reason where "out = Inr (Fired reason)" by blast
    with assms(1) b t snd_keeps [OF _ fired_keeps [OF I2, of D E cli reason]] show ?thesis
      by (simp add: market_stage_def try_o_def run_o_def map_err_def)
  next
    case False
    with assms(1) b t I2 show ?thesis
      by (auto simp: market_stage_def try_o_def run_o_def split: sum.splits trigger_outcome.splits)
  qed
qed

lemma prepare_keeps:
  assumes "prepare L E S K cli ss w = Some (r, w')" and "I w"
  shows "I w'"
proof -
  obtain e w1 where e: "earlier_run (lb_dec L) E S K cli ss w = (e, w1)" by (cases "earlier_run (lb_dec L) E S K cli ss w")
  have I1: "I w1" using earlier_run_keeps [OF assms(2), of "lb_dec L" E S K cli ss] unfolding e by simp
  show ?thesis
  proof (cases "\<exists>rr. e = Inr (Inr rr)")
    case False
    with assms(1) e I1 show ?thesis by (auto simp: prepare_def try_o_def split: sum.splits)
  next
    case True
    then obtain rr m w2 where m: "e = Inr (Inr rr)" "market_stage (lb_dec L) E cli w1 = Some (m, w2)"
      using assms(1) e by (auto simp: prepare_def try_o_def bind_o_Some)
    have I2: "I w2" by (rule market_stage_keeps [OF m(2) I1])
    with assms(1) e m snd_keeps [OF _ plan_stage_keeps [OF I2]] show ?thesis
      by (auto simp: prepare_def try_o_def bind_o_def split: sum.splits)
  qed
qed

lemma start_released_keeps [simp]: "I w \<Longrightarrow> I (snd (start_released J E pb dl txt w))"
  by (simp add: start_released_def Let_def split: option.split)

lemma pair_start_loop_keeps [simp]: "I w \<Longrightarrow> I (snd (pair_start_loop J B E pb dl w))"
proof (induction J B E pb dl w rule: pair_start_loop.induct)
  case (1 J B E pb dl w)
  then show ?case by (subst pair_start_loop.simps) (auto split: start_file.split)
qed

lemma wait_for_pair_start_keeps [simp]: "I w \<Longrightarrow> I (snd (wait_for_pair_start J B E pb j w))"
  by (simp add: wait_for_pair_start_def)

lemma barrier_stage_keeps [simp]: "I w \<Longrightarrow> I (snd (barrier_stage L B E K cli pb w))"
  using wait_for_pair_start_keeps [of w "lb_json L" B E "the pb" "journal_run_id E w"]
  by (auto simp: barrier_stage_def record_pair_barrier_abort_def split_beta split: option.split sum.split)

end

text \<open>A session ends in the pre-flight, at the barrier, or in the execution that both have led to.\<close>

lemma run_session_stages:
  assumes "run_session L B E S K cli ss w = Some (res, w')"
  obtains (stopped) r where "prepare L E S K cli ss w = Some (r, w')" and "\<nexists>X. r = Inr (Inr X)"
      and "case r of Inl e \<Rightarrow> res = Inl e | Inr (Inl code) \<Rightarrow> res = Inr code | _ \<Rightarrow> False"
  | (not_released) X w1 e where "prepare L E S K cli ss w = Some (Inr (Inr X), w1)"
      and "barrier_stage L B E K cli (ry_barrier (ss_ready ss)) w1 = (Inl e, w')" and "res = Inl e"
  | (executed) X w1 w2 where "prepare L E S K cli ss w = Some (Inr (Inr X), w1)"
      and "barrier_stage L B E K cli (ry_barrier (ss_ready ss)) w1 = (Inr (), w2)"
      and "execute (lb_dec L) E X w2 = Some (res, w')"
proof -
  from assms obtain r w1 where p: "prepare L E S K cli ss w = Some (r, w1)"
    by (auto simp: run_session_def bind_o_Some)
  show thesis
  proof (cases "\<exists>X. r = Inr (Inr X)")
    case False
    with assms p stopped [of r] show ?thesis
      by (auto simp: run_session_def bind_o_def try_o_def split: sum.splits)
  next
    case True
    then obtain X where "r = Inr (Inr X)" by blast
    with assms p not_released [of X w1] executed [of X w1] show ?thesis
      by (auto simp: run_session_def bind_o_def try_o_def split: prod.splits sum.splits)
  qed
qed

end
