(* ===== verification/Session_Scripts.thy ===== *)
theory Session_Scripts
  imports Session_Facts
begin

text \<open>
  A live session on the scripted exchange: two slices for 2 BTC at an immediate start, under the registered
  master \<open>0xm\<close>. Its stages are evaluated one by one; the facts are used by the witnesses of the
  properties of a process.
\<close>

section \<open>The network\<close>

definition session_json :: json_lib where
  "session_json =
     \<lparr>js_parse = \<lambda>s. if s = ''book'' \<or> s = ''fill'' then js_parse demo_json s else js_parse start_json s,
      js_show = \<lambda>_. ''?''\<rparr>"

definition session_libs :: libs where
  "session_libs = \<lparr>lb_dec = exact_dec, lb_json = session_json, lb_uuid = hex_uuid\<rparr>"

text \<open>The universe, the role of the agent, a book for every other query, a fill for every order.\<close>

definition session_net :: wire_env where
  "session_net =
     \<lparr>we_net = \<lambda>w url body.
        (Inr (200, if url = cf_exchange_url (hl_config_new Testnet) then ''fill''
                   else if body = meta_body then ''meta''
                   else if body = user_role_body ''0xA'' then ''role'' else ''book''), 1000000),
      we_clock = \<lambda>w. Some 5000, we_fault = \<lambda>w. None\<rparr>"

lemma session_lib_fields: "lb_dec session_libs = exact_dec" "lb_json session_libs = session_json"
  by (simp_all add: session_libs_def)

lemma session_parse_fill: "parse_place_response exact_dec session_json ''fill'' = Inr (Filled 41 1 100)"
  by code_simp

lemma session_parse_book: "parse_l2_book exact_dec session_json ''book'' = Inr demo_book"
  using demo_parse_book by (simp add: parse_l2_book_def session_json_def)

section \<open>The session\<close>

definition session_cli :: cli where
  "session_cli = demo_cli\<lparr>cl_size := Some 2, cl_slippage_bps := 50, cl_max_book_age_ms := 0\<rparr>"

definition session_ready :: ready where
  "session_ready =
     \<lparr>ry_barrier = None, ry_configured = None, ry_agent = Some ''0xA'', ry_client = demo_client,
      ry_state_dir = state_dir start_host None,
      ry_held = {lock_file (state_dir start_host None) ''testnet:0xA''}\<rparr>"

definition demo_session :: session where
  "demo_session =
     \<lparr>ss_ready = session_ready, ss_asset = \<lparr>am_asset_index = 0, am_sz_decimals = 2\<rparr>, ss_master = Some ''0xm''\<rparr>"

definition demo_desk :: desk where
  "demo_desk =
     \<lparr>se_open = \<lambda>w. Inr (), se_start = \<lambda>w. Inr (), se_emit = \<lambda>w. Inr (), se_run_id = \<lambda>w. ''run-1'',
      se_hash = \<lambda>xs. '''', se_keccak = \<lambda>bs. bs\<rparr>"

definition demo_pair_host :: pair_host where
  "demo_pair_host =
     \<lparr>bh_disk = \<lambda>w. \<lparr>rd_tmp = None, rd_ready = None\<rparr>, bh_fault = \<lambda>w. None, bh_removed = \<lambda>w. True, bh_pid = 1,
      bh_start = \<lambda>w. StartMissing\<rparr>"

definition session_wire :: wire_world where
  "session_wire = snd (startup session_libs start_host session_net session_cli demo_wire_world)"

definition live_env :: env where
  "live_env = session_env session_libs session_net session_cli demo_session session_wire (scripted_env demo_script True None)"

lemma session_fields:
  "cl_symbol session_cli = ''BTC''" "cl_size session_cli = Some 2" "cl_usd session_cli = None"
  "cl_side session_cli = Some Long" "cl_slices session_cli = 2" "cl_duration session_cli = 60000000000"
  "cl_max_book_age_ms session_cli = 0" "cl_slippage_bps session_cli = 50" "cl_network session_cli = Testnet"
  "cl_max_notional_usd session_cli = Some 1000" "cl_child_algo session_cli = Market"
  "cl_flatten_deadline_unix_ms session_cli = None" "cl_resume session_cli = None"
  "\<not> cl_abandon_incomplete_run session_cli" "\<not> is_read_only session_cli" "\<not> position_mode_requested session_cli"
  "cl_settle_retries session_cli = 25" "tc_price (trigger_config_of session_cli) = None"
  "tc_start_after (trigger_config_of session_cli) = None" "cl_report_json session_cli = None"
  "cl_follow_poll_secs session_cli = 2" "cl_follow_repost_secs session_cli = 10"
  "cl_follow_threshold_bps session_cli = 1" "\<not> cl_flatten session_cli"
  by (simp_all add: session_cli_def demo_cli_def is_read_only_def position_mode_requested_def trigger_config_of_def
      secs_def)

lemma session_parts:
  "ss_ready demo_session = session_ready" "am_asset_index (ss_asset demo_session) = 0"
  "am_sz_decimals (ss_asset demo_session) = 2" "ss_master demo_session = Some ''0xm''"
  "ry_agent session_ready = Some ''0xA''" "ry_barrier session_ready = None"
  "ry_client session_ready = demo_client" "ry_configured session_ready = None"
  by (simp_all add: demo_session_def session_ready_def)

section \<open>The start\<close>

lemma session_valid: "validate_cli exact_dec session_cli = Inr ()"
  by (simp add: session_cli_def validate_cli_def demo_cli_def is_live_def is_read_only_def validate_mode_def
      position_mode_requested_def validate_amounts_def positive_opt_def validate_risk_def validate_slippage_def
      SLIPPAGE_HARD_CAP_BPS_def SLIPPAGE_WARN_THRESHOLD_BPS_def validate_max_notional_required_def validate_trigger_def
      validate_expiry_def validate_follow_def check_def secs_def map_err_def)

lemma session_gates: "gates exact_dec start_host session_cli 0 = Inr session_ready"
proof -
  have cli: "cl_pair_ready_file session_cli = None" "cl_pair_start_file session_cli = None"
    "cl_pair_run_id session_cli = None" "cl_pair_barrier_timeout session_cli = None"
    "cl_master_address session_cli = None" "cl_state_dir session_cli = None"
    by (simp_all add: session_cli_def demo_cli_def)
  have k: "lock_key ''testnet'' ''0xA'' = ''testnet:0xA''" by (simp add: lock_key_def)
  have c: "client_of start_host session_cli (Some (the (cl_signer demo_client))) = demo_client"
    by (simp add: client_of_def start_host_def with_overrides_def session_fields demo_client_def)
  show ?thesis
    using c by (simp add: gates_def session_valid session_fields cli check_def pair_barrier_of_def configured_master_def
        or_else_def nonblank_def start_host_def live_gates_def check_endpoint_def load_signer_def from_secret_def
        acquire_def resume_gate_def incomplete_gate_def find_run_def ok_or_def Let_def map_err_def unwrap_or_def
        is_live_def session_ready_def k)
qed

lemma session_start:
  "startup session_libs start_host session_net session_cli demo_wire_world = (Inr demo_session, session_wire)"
  "ww_now session_wire = 2000000" "exch_posts demo_client session_wire = []"
proof -
  have trim: "to_ascii_lowercase (Market.trim ''0xm'') = ''0xm''" by code_simp
  have now: "ww_now demo_wire_world = 0" "ww_posts demo_wire_world = []" by (simp_all add: demo_wire_world_def)
  have "\<exists>w'. startup session_libs start_host session_net session_cli demo_wire_world = (Inr demo_session, w') \<and>
      ww_now w' = 2000000 \<and> exch_posts demo_client w' = []"
    by (simp add: startup_def session_lib_fields now session_gates connect_def seed_client_def demo_wire_world_def
        hwm_load_def seed_nonce_def next_seed_def try_wire_def err_wire_def client_meta_def info_def
        post_with_retry_def RETRY_BACKOFF_def post_once_def session_net_def parsed_def parse_meta_def session_json_def
        start_json_def need_def ok_or_def wire_universe_entry_def get_u32_def get_u64_def get_str_def U32_MAX_def
        map_err_def resolve_def session_fields session_parts resolve_master_def client_user_role_def
        parse_user_role_def wire_role_def meta_body_def user_role_body_def is_network.simps split_beta trim
        exch_posts_def demo_client_def hl_config_new_def session_ready_def demo_session_def)
  then show "startup session_libs start_host session_net session_cli demo_wire_world = (Inr demo_session, session_wire)"
    "ww_now session_wire = 2000000" "exch_posts demo_client session_wire = []"
    by (auto simp: session_wire_def)
qed

text \<open>The interface that the session calls: the client behind it, the rest as in the scripted examples.\<close>

lemma session_book_answer:
  "ww_now w = t \<Longrightarrow> answered (client_l2_book session_libs demo_client session_net s w) v = (Inr demo_book, t + 1000000 - w_now v)"
  by (simp add: answered_def client_l2_book_def info_def post_with_retry_def RETRY_BACKOFF_def post_once_def
      session_net_def demo_client_def hl_config_new_def parsed_def session_lib_fields session_parse_book split_beta
      meta_body_def user_role_body_def l2_book_body_def)

lemma session_place_answer:
  assumes "ww_now w = t" and "u32 a"
  shows "answered (client_place_order_once session_libs demo_client session_net i a x w) v =
           (Inr (fst (mint_nonce session_net w), Filled 41 1 100), t + 1000000 - w_now v)"
proof -
  have "dispatch_action (order_action session_libs i a) =
      Inr (OrderAction [order_intent_to_wire (lb_dec session_libs) (lb_uuid session_libs) i a] ''na'')"
    unfolding order_action_def using assms(2)
    by (intro action_json_roundtrip) (simp add: order_intent_to_wire_def)
  from demo_sign [OF this] obtain sg where "the (cl_signer demo_client) (order_action session_libs i a)
      (fst (mint_nonce session_net w)) None (Some x) = Inr sg" by blast
  with assms(1) show ?thesis
    by (simp add: answered_def client_place_order_once_def post_exchange_once_def parsed_def split_beta demo_client_def
        post_once_def session_net_def hl_config_new_def session_lib_fields session_parse_fill)
qed

lemma live_env_simps:
  "e_book live_env w s = (Inr demo_book, 1000000)"
  "e_place live_env w i 0 x =
     (Inr (fst (mint_nonce session_net (wire_now session_libs demo_client session_net session_wire w)), Filled 41 1 100),
      1000000)"
  "e_record live_env w r = (True, 0)"
  "e_has_journal live_env = True"
  "e_read_journal live_env w = Inr (w_journal w)"
  "e_order live_env xs = xs"
  "e_cloid live_env w = of_nat (length (w_trace w))"
  "e_wall live_env w = Some (of_nat (as_millis (w_now w)))"
  "e_chrono live_env w = of_nat (as_millis (w_now w))"
  "e_shutdown live_env = None"
  "e_race live_env w = True"
  by (simp_all add: live_env_def session_env_def client_env_def session_parts scripted_env_simps wire_now_def
      session_book_answer session_place_answer u32_def is_live_def session_fields)

definition start_world :: world where
  "start_world = \<lparr>w_now = 2000000, w_trace = [], w_journal = []\<rparr>"

lemma session_start_world: "session_world session_libs start_host session_cli demo_session session_wire = start_world"
  by (simp add: session_world_def session_start start_world_def journal_at_start_def session_fields or_else_def)

section \<open>The pre-flight\<close>

definition session_snapshot :: snapshot where
  "session_snapshot =
     \<lparr>sn_coin = ''BTC'', sn_server_ts_ms = 0, sn_best_bid = 99, sn_best_ask = 100, sn_mid = 199 / 2\<rparr>"

definition market_world :: world where
  "market_world =
     \<lparr>w_now = 4000000, w_trace = [(3000000, EvBook ''BTC'' (Inr demo_book)), (2000000, EvBook ''BTC'' (Inr demo_book))],
      w_journal = []\<rparr>"

lemma session_market:
  "market_stage exact_dec live_env session_cli start_world = Some (Inr (Inr session_snapshot), market_world)"
  by (simp add: market_stage_def initial_book_def session_fields is_time_only_def try_o_def run_o_def bind_o_def
      live_env_simps wait_for_trigger_def is_immediate_def sizing_snapshot_def skew_gate_def check_clock_skew_def
      map_err_def and_then_def wrapping_abs_i64_def MAX_CLOCK_SKEW_MS_def run_eval run_defs session_snapshot_def
      market_world_def start_world_def cong: try_w_cong_weak)

lemma session_numbers:
  "d_div exact_dec 2 2 = 1" "round_size exact_dec 1 2 = 1" "d_mul exact_dec 1 (199 / 2) = 199 / 2"
  "d_mul exact_dec 1 2 = 2" "checked 201 = Some 201"
  by code_simp+

definition session_sized :: sized where
  "session_sized =
     \<lparr>sd_side = Long, sd_total_coin = 2, sd_sizing = \<lparr>sg_per_slice = 1, sg_total_adjusted = 2\<rparr>, sd_cap = 1000\<rparr>"

lemma session_size: "size_run exact_dec session_cli demo_session None session_snapshot = Inr session_sized"
  by (simp add: size_run_def trade_side_def session_fields session_parts trade_quantity_def ordinary_quantity_def
      cli_side_def and_then_def map_err_def execution_sizing_def compute_sizing_def preflight_notional_def
      validate_max_notional_required_def conservative_price_def preflight_cap_price_def session_snapshot_def
      session_sized_def ok_or_def unwrap_or_def validate_limit_price_def check_notional_cap_def MIN_NOTIONAL_USD_def
      Let_def is_ok_def demo_taker_price session_numbers)

definition session_plan :: twap_plan where
  "session_plan =
     demo_plan\<lparr>pl_agent := Some ''0xA'', pl_absolute_deadline_unix_ms := Some 60004, pl_settle_retries := 25, pl_follow_poll_secs := 2,
               pl_follow_repost_secs := 10, pl_follow_threshold_bps := 1\<rparr>"

lemma session_plan_of_run:
  "plan_of_run exact_dec live_env session_cli demo_session None None session_sized market_world = Inr session_plan"
  by (simp add: plan_of_run_def deadline_of_run_def resumed_frozen_def fixed_deadline_def session_fields session_parts
      and_then_def live_env_simps wall_clock_now_ms_def original_plan_def session_plan_def
      session_sized_def market_world_def demo_plan_def secs_def unwrap_or_def sat_add_u64_def u64_max_def as_millis_def
      ns_per_ms_def)

definition headed :: "run_header \<Rightarrow> world" where
  "headed h = snd (record_durable live_env (Header h) market_world)"

lemma session_journal:
  obtains h where
    "open_journal exact_dec live_env demo_desk session_cli demo_session None session_plan fp market_world =
       (Inr \<lparr>op_already_filled = None, op_prior_notional = 0\<rparr>, headed h)"
    and "rh_fingerprint h = Some fp" and "rh_deadline_unix_ms h = Some 60004"
  by (simp add: open_journal_def start_journal_def session_fields live_env_simps demo_desk_def
      wall_clock_now_ms_def session_plan_def unwrap_or_def as_millis_def ns_per_ms_def try_w_simps
      record_durable_def headed_def market_world_def new_run_header_def Let_def)

definition session_execution :: execution where
  "session_execution =
     \<lparr>ex_cli = session_cli, ex_symbol = ''BTC'', ex_asset_index = 0, ex_sz_decimals = 2, ex_mid = 199 / 2,
      ex_agent = Some ''0xA'', ex_master = Some ''0xm'', ex_max_notional = 1000, ex_deadline = Some 60004,
      ex_already_filled = None, ex_prior_notional = 0, ex_original_adjusted = 2, ex_original_requested = 2,
      ex_position = None, ex_resumed = None, ex_plan = session_plan, ex_emit = (\<lambda>w. Inr ())\<rparr>"
lemma session_prepared:
  obtains h where "prepare session_libs live_env start_host demo_desk session_cli demo_session start_world =
      Some (Inr (Inr session_execution), headed h)"
    and "rh_fingerprint h = Some (execution_fingerprint exact_dec Testnet session_plan None session_cli (Some (199 / 2)))"
    and "rh_deadline_unix_ms h = Some 60004"
proof -
  let ?fp = "execution_fingerprint exact_dec Testnet session_plan None session_cli (Some (199 / 2))"
  obtain h where o: "open_journal exact_dec live_env demo_desk session_cli demo_session None session_plan ?fp
      market_world = (Inr \<lparr>op_already_filled = None, op_prior_notional = 0\<rparr>, headed h)"
    and h: "rh_fingerprint h = Some ?fp" "rh_deadline_unix_ms h = Some 60004"
    by (rule session_journal)
  have e: "earlier_run exact_dec live_env start_host demo_desk session_cli demo_session start_world
      = (Inr (Inr None), start_world)"
    by (simp add: earlier_run_def session_fields)
  have p: "position_stage L E K session_cli ss None mid w = (Inr (Inr None), w)" for L E K ss mid w
    by (simp add: position_stage_def session_fields)
  have f: "fingerprint_of_run exact_dec session_cli None None (199 / 2) session_plan = Inr ?fp"
    by (simp add: fingerprint_of_run_def session_fields)
  have m: "sn_mid session_snapshot = 199 / 2" by (simp add: session_snapshot_def)
  have x: "execution_of demo_desk session_cli demo_session None None (199 / 2) session_sized session_plan
      \<lparr>op_already_filled = None, op_prior_notional = 0\<rparr> = session_execution"
    by (simp add: execution_of_def session_execution_def session_fields session_parts demo_desk_def resumed_frozen_def
        session_plan_def demo_plan_def session_sized_def)
  have c: "continue_resumed D E session_execution plan w = (Inr (Inr plan), w)"
    "session_execution\<lparr>ex_plan := session_plan\<rparr> = session_execution" for D E plan w
    by (simp_all add: continue_resumed_def session_execution_def)
  show ?thesis
    by (rule that [OF _ h])
      (simp add: prepare_def session_lib_fields e session_market try_o_def bind_o_def plan_stage_def goes_on_def p session_size
        session_plan_of_run f m o try_w_simps x c)
qed

section \<open>The run\<close>

interpretation placed: passive_inv "\<lambda>w. count_events is_place w = n" for n
  by (rule passive_invI) (auto simp: count_events_def log_event_def)

lemma placed_finalize:
  "length (filter (\<lambda>te. is_place (snd te)) (w_trace (snd (finalize D E plan b st w)))) =
     length (filter (\<lambda>te. is_place (snd te)) (w_trace w))"
  using placed.finalize_keeps [of w _ D E plan b st] by (simp add: count_events_def)

lemma session_run:
  "\<exists>rep w'. run_twap_completion exact_dec live_env session_plan 0 False None (headed h) = Some (rep, w') \<and>
     count_events is_place w' = 2"
  apply (simp add: headed_def record_durable_def live_env_simps market_world_def elapse_def
      log_event_def)
  apply (simp add: session_plan_def live_env_simps run_eval run_defs upt_conv_Cons sat_add_u64_def sat_sub_u64_def
      checked_sub_u64_def duration_of_millis_def and_then_def u64_max_def del: finalize_def cong: try_w_cong_weak)
  apply (simp add: split_beta placed_finalize)
  done

lemma session_executed:
  obtains res w' where "execute exact_dec live_env session_execution (headed h) = Some (res, w')"
    and "count_events is_place w' = 2"
proof -
  obtain rep w' where r: "run_twap_completion exact_dec live_env session_plan 0 False None (headed h) = Some (rep, w')"
    and n: "count_events is_place w' = 2"
    using session_run by blast
  have x: "ex_position session_execution = None" "ex_plan session_execution = session_plan"
    "ex_prior_notional session_execution = 0" "ex_cli session_execution = session_cli"
    by (simp_all add: session_execution_def)
  have "\<exists>res. execute exact_dec live_env session_execution (headed h) = Some (res, w')"
    by (cases "and_then (durable_report exact_dec live_env (fold_back exact_dec session_execution rep) w')
          (logical_report exact_dec session_execution)")
      (simp_all add: execute_def try_o_def run_o_def bind_o_def first_phase_guard_def first_run_def x r
        run_twap_journaled_with_prior_notional_def cross_zero_def judge_and_verify_def conclude_def
        emit_live_report_json_def session_fields try_w_simps)
  with n that show ?thesis by blast
qed

lemma placed_order:
  assumes "count_events is_place w = n" and "0 < n"
  obtains later t i a x r earlier where "w_trace w = later @ (t, EvPlace i a x r) # earlier"
proof -
  from assms have "filter (\<lambda>te. is_place (snd te)) (w_trace w) \<noteq> []" by (auto simp: count_events_def)
  then obtain t ev where ev: "(t, ev) \<in> set (w_trace w)" "is_place ev"
    by (metis (mono_tags) filter_False prod.collapse)
  then obtain i a x r where "(t, EvPlace i a x r) \<in> set (w_trace w)" by (cases ev) auto
  with that show ?thesis by (meson split_list)
qed

end
