(* ===== verification/Session_Props.thy ===== *)
theory Session_Props
  imports Session_Scripts
begin

text \<open>
  The properties of a whole process. \<open>sends_all P\<close> says that every order of a trace satisfies \<open>P\<close> against
  what happened before it; the instances of \<open>guarded_sends\<close> for it lift the guard of one send to the two
  phases of an execution and to the session.
\<close>

section \<open>The orders of a session\<close>

type_synonym send_guard = "nanos \<Rightarrow> order_intent \<Rightarrow> nat \<Rightarrow> u64 \<Rightarrow> (nanos \<times> event) list \<Rightarrow> bool"

fun sends_all :: "send_guard \<Rightarrow> (nanos \<times> event) list \<Rightarrow> bool" where
  "sends_all P [] = True"
| "sends_all P ((t, ev) # tr) \<longleftrightarrow> (case ev of EvPlace i a x r \<Rightarrow> P t i a x tr | _ \<Rightarrow> True) \<and> sends_all P tr"

lemma sends_all_log: "\<not> is_place ev \<Longrightarrow> sends_all P ((t, ev) # tr) = sends_all P tr"
  by (cases ev) auto

lemma sends_allD: "sends_all P (later @ (t, EvPlace i a x r) # earlier) \<Longrightarrow> P t i a x earlier"
  by (induction later) auto

interpretation sall: passive_inv "\<lambda>w. sends_all P (w_trace w)" for P
  by (rule passive_invI) (simp_all add: log_event_def sends_all_log del: sends_all.simps)

text \<open>The guard of an order of the execution \<open>X\<close>.\<close>

definition session_send :: "dec_lib \<Rightarrow> env \<Rightarrow> execution \<Rightarrow> send_guard" where
  "session_send D E X t i a x earlier \<longleftrightarrow>
     (case e_shutdown E of Some s \<Rightarrow> t < s | None \<Rightarrow> True) \<and>
     (e_has_journal E \<longrightarrow> list_ex (\<lambda>te. is_prepared_event D i (snd te)) earlier) \<and>
     oi_symbol i = ex_symbol X \<and> a = ex_asset_index X \<and> 0 < oi_px i \<and> 0 < oi_sz i \<and>
     (case ex_deadline X of Some d \<Rightarrow> x = d | None \<Rightarrow> True)"

interpretation sse: guarded_sends "\<lambda>w. sends_all (session_send D E X) (w_trace w)" D E dl
  "\<lambda>i a. oi_symbol i = ex_symbol X \<and> a = ex_asset_index X \<and> 0 < oi_px i \<and> 0 < oi_sz i \<and>
     (case ex_deadline X of Some d \<Rightarrow> dl_expires_after_ms dl = d | None \<Rightarrow> True)" for D E X dl
  by unfold_locales
    (auto simp: place_order_once_def split_beta elapse_def log_event_def session_send_def may_send_def
      is_triggered_def prepared_world_def split: option.splits)

text \<open>The plan that is executed first agrees with the record it is part of.\<close>

definition plan_agrees :: "execution \<Rightarrow> bool" where
  "plan_agrees X \<longleftrightarrow>
     pl_symbol (ex_plan X) = ex_symbol X \<and> pl_asset_index (ex_plan X) = ex_asset_index X \<and>
     pl_absolute_deadline_unix_ms (ex_plan X) = ex_deadline X"

lemma run_sends_all:
  assumes "run_twap_completion D E plan prior b g w = Some (rep, w')"
    and "sends_all (session_send D E X) (w_trace w)"
    and "pl_symbol plan = ex_symbol X" and "pl_asset_index plan = ex_asset_index X"
    and "pl_absolute_deadline_unix_ms plan = ex_deadline X"
  shows "sends_all (session_send D E X) (w_trace w')"
  using assms(3-)
  by (intro sse.run_guarded [OF assms(1,2) _ refl]) (auto simp: within_plan_def run_deadline_def split: option.split)

lemma execute_sends_all:
  assumes "execute D E X w = Some (res, w')" and "plan_agrees X" and "sends_all (session_send D E X) (w_trace w)"
  shows "sends_all (session_send D E X) (w_trace w')"
proof -
  let ?P = "\<lambda>w. sends_all (session_send D E X) (w_trace w)"
  have first: "?P w1" if run: "first_run D E X g w = Some (r1, w1)" for g r1 w1
  proof -
    obtain b gd where "run_twap_completion D E (ex_plan X) (ex_prior_notional X) b gd w = Some (r1, w1)"
      using first_run_completion [OF run] by blast
    from run_sends_all [OF this assms(3)] assms(2) show ?thesis by (simp add: plan_agrees_def)
  qed
  have cross: "?P w2" if c: "cross_zero D E X r w1 = Some (x, w2)" and P: "?P w1" for r w1 x w2
  proof (cases "\<exists>p. ex_position X = Some p \<and> crosses_zero p")
    case False
    with c P show ?thesis by (auto simp: cross_zero_def split: option.splits list.splits if_splits)
  next
    case True
    then obtain p where p: "ex_position X = Some p" "crosses_zero p" by blast
    from c p show ?thesis
    proof (cases rule: cross_zero_stages)
      case (stopped e)
      with sall.verify_flat_keeps [OF P, of D E X r] show ?thesis by simp
    next
      case (opened m' v op)
      then have Q: "?P v" using sall.verify_flat_keeps [OF P, of D E X r] by simp
      from opened(2) show ?thesis
      proof (cases rule: open_phase_end)
        case (1 n e)
        with sall.stop_position_keeps [OF Q, of D E X n e] show ?thesis by (metis snd_conv)
      next
        case (2 e)
        with Q show ?thesis by simp
      next
        case (3 sg remaining prior guard open_report)
        from run_sends_all [OF this(1) Q] show ?thesis by (simp add: open_plan_of_def)
      qed
    qed
  qed
  from assms(1) show ?thesis
  proof (cases rule: execute_stages)
    case refused
    with assms(3) show ?thesis by simp
  next
    case crossing_failed
    with first cross show ?thesis by blast
  next
    case report_failed
    with first cross show ?thesis by blast
  next
    case (judged g r1 w1 r2 w2 r3)
    with first cross have "?P w2" by blast
    from sall.judge_and_verify_keeps [OF this, of D E X r3] judged show ?thesis by simp
  qed
qed

section \<open>What the pre-flight fixes\<close>

lemma goes_on_Inr: "goes_on m f = (Inr (Inr b), w') \<longleftrightarrow> (\<exists>a w. m = (Inr (Inr a), w) \<and> f a w = (Inr (Inr b), w'))"
  by (cases m, rename_tac q v, case_tac q, simp_all add: goes_on_def try_w_def, rename_tac c, case_tac c, simp_all)

lemma plan_stage_Inr:
  assumes "plan_stage L E K cli ss r snap w = (Inr (Inr X), w')"
  obtains position w1 z plan fp op w2 plan1 where
    "position_stage L E K cli ss r (sn_mid snap) w = (Inr (Inr position), w1)"
    "size_run (lb_dec L) cli ss position snap = Inr z"
    "plan_of_run (lb_dec L) E cli ss r position z w1 = Inr plan"
    "fingerprint_of_run (lb_dec L) cli r position (sn_mid snap) plan = Inr fp"
    "open_journal (lb_dec L) E K cli ss r plan fp w1 = (Inr op, w2)"
    "continue_resumed (lb_dec L) E (execution_of K cli ss r position (sn_mid snap) z plan op) plan w2 = (Inr (Inr plan1), w')"
    "X = (execution_of K cli ss r position (sn_mid snap) z plan op)\<lparr>ex_plan := plan1\<rparr>"
  using assms by (auto simp: plan_stage_def Let_def goes_on_Inr try_w_Inr)

lemma prepare_Inr:
  assumes "prepare L E S K cli ss w = Some (Inr (Inr X), w')"
  obtains r w1 snap w2 where "earlier_run (lb_dec L) E S K cli ss w = (Inr (Inr r), w1)"
    and "market_stage (lb_dec L) E cli w1 = Some (Inr (Inr snap), w2)"
    and "plan_stage L E K cli ss r snap w2 = (Inr (Inr X), w')"
proof -
  obtain e w1 where e: "earlier_run (lb_dec L) E S K cli ss w = (e, w1)" by (cases "earlier_run (lb_dec L) E S K cli ss w")
  with assms obtain r where r: "e = Inr (Inr r)"
    by (cases e, simp add: prepare_def try_o_def, rename_tac q, case_tac q, simp_all add: prepare_def try_o_def)
  with assms e obtain m w2 where m: "market_stage (lb_dec L) E cli w1 = Some (m, w2)"
    by (auto simp: prepare_def try_o_def bind_o_Some)
  with assms e r obtain snap where "m = Inr (Inr snap)"
    by (cases m, simp add: prepare_def try_o_def bind_o_def, rename_tac q, case_tac q,
        simp_all add: prepare_def try_o_def bind_o_def)
  with assms e r m that show ?thesis by (simp add: prepare_def try_o_def bind_o_def)
qed

lemma plan_of_run_keeps:
  assumes "plan_of_run D E cli ss r position z w = Inr plan"
  obtains dl where "deadline_of_run cli r (wall_clock_now_ms E w) = Inr dl"
    and "pl_absolute_deadline_unix_ms plan = dl" and "pl_symbol plan = cl_symbol cli"
    and "pl_asset_index plan = am_asset_index (ss_asset ss)" and "pl_read_only plan = is_read_only cli"
    and "pl_child_algo plan = cl_child_algo cli" and "pl_follow_poll_secs plan = unat (cl_follow_poll_secs cli)"
    and "pl_side plan = sd_side z"
  using assms
  by (auto simp: plan_of_run_def and_then_Inr Let_def durable_sizing_def original_plan_def split: option.splits)

lemma continue_resumed_keeps_plan:
  assumes "continue_resumed D E X plan w = (Inr (Inr plan1), w')"
  shows "pl_absolute_deadline_unix_ms plan1 = pl_absolute_deadline_unix_ms plan" and "pl_symbol plan1 = pl_symbol plan"
    and "pl_asset_index plan1 = pl_asset_index plan" and "pl_read_only plan1 = pl_read_only plan"
    and "pl_child_algo plan1 = pl_child_algo plan" and "pl_follow_poll_secs plan1 = pl_follow_poll_secs plan"
    and "ex_already_filled X = None \<Longrightarrow> plan1 = plan \<and> w' = w"
proof -
  have "(ex_already_filled X = None \<and> plan1 = plan \<and> w' = w) \<or>
        (\<exists>f dl now. ex_already_filled X = Some f \<and> continuation_plan D plan f (ex_mid X) dl now = Inr (Continue plan1))"
  proof (cases "ex_already_filled X")
    case (Some f)
    with assms obtain c where c: "continuation_plan D plan f (ex_mid X) (ex_deadline X) (wall_clock_now_ms E w) = Inr c"
      by (auto simp: continue_resumed_def try_w_Inr)
    with Some assms have "c = Continue plan1"
      by (cases c) (auto simp: continue_resumed_def try_w_Inr)
    with c Some show ?thesis by blast
  qed (use assms in \<open>simp add: continue_resumed_def\<close>)
  then show "pl_absolute_deadline_unix_ms plan1 = pl_absolute_deadline_unix_ms plan" "pl_symbol plan1 = pl_symbol plan"
    "pl_asset_index plan1 = pl_asset_index plan" "pl_read_only plan1 = pl_read_only plan"
    "pl_child_algo plan1 = pl_child_algo plan" "pl_follow_poll_secs plan1 = pl_follow_poll_secs plan"
    "ex_already_filled X = None \<Longrightarrow> plan1 = plan \<and> w' = w"
    by (auto simp: continuation_plan_def Let_def and_then_Inr split: if_splits)
qed

text \<open>What every prepared execution has in common.\<close>

definition prepared_for :: "cli \<Rightarrow> session \<Rightarrow> execution \<Rightarrow> bool" where
  "prepared_for cli ss X \<longleftrightarrow>
     ex_cli X = cli \<and> ex_symbol X = cl_symbol cli \<and> ex_asset_index X = am_asset_index (ss_asset ss) \<and>
     ex_master X = ss_master ss \<and> plan_agrees X \<and> pl_read_only (ex_plan X) = is_read_only cli \<and>
     pl_child_algo (ex_plan X) = cl_child_algo cli \<and>
     pl_follow_poll_secs (ex_plan X) = unat (cl_follow_poll_secs cli)"

lemma prepare_prepared:
  assumes "prepare L E S K cli ss w = Some (Inr (Inr X), w')"
  shows "prepared_for cli ss X"
  using assms
proof (rule prepare_Inr)
  fix r w1 snap w2 assume "plan_stage L E K cli ss r snap w2 = (Inr (Inr X), w')"
  then show ?thesis
  proof (rule plan_stage_Inr)
    fix position v1 z plan fp op v2 plan1
    assume p: "plan_of_run (lb_dec L) E cli ss r position z v1 = Inr plan"
      and c: "continue_resumed (lb_dec L) E (execution_of K cli ss r position (sn_mid snap) z plan op) plan v2 = (Inr (Inr plan1), w')"
      and X: "X = (execution_of K cli ss r position (sn_mid snap) z plan op)\<lparr>ex_plan := plan1\<rparr>"
    from continue_resumed_keeps_plan [OF c] p show ?thesis
      by (elim plan_of_run_keeps) (simp add: X prepared_for_def plan_agrees_def execution_of_def)
  qed
qed

section \<open>Where orders come from\<close>

text \<open>\<open>later_than w\<close>: a trace that continues that of \<open>w\<close> without an order and without an opened intent.\<close>

definition quiet_after :: "world \<Rightarrow> world \<Rightarrow> bool" where
  "quiet_after w w' \<longleftrightarrow>
     (\<exists>es. w_trace w' = es @ w_trace w \<and> (\<forall>e\<in>set es. \<not> is_place (snd e) \<and> \<not> opens_intent (snd e)))"

interpretation quiet: calm_inv "quiet_after w" for w
  by unfold_locales (auto simp: quiet_after_def log_event_def)

lemma quiet_refl [simp]: "quiet_after w w"
  by (simp add: quiet_after_def)

lemma barrier_quiet: "quiet_after w w1 \<Longrightarrow> barrier_stage L B E K cli pb w1 = (r, w2) \<Longrightarrow> quiet_after w w2"
  using quiet.barrier_stage_keeps [of w w1 L B E K cli pb] by simp

lemma quiet_no_place: "quiet_after w w' \<Longrightarrow> w_trace w = [] \<Longrightarrow> (t, EvPlace i a x r) \<notin> set (w_trace w')"
  by (auto simp: quiet_after_def)

lemma quiet_sends_all: "quiet_after w w' \<Longrightarrow> w_trace w = [] \<Longrightarrow> sends_all P (w_trace w')"
proof -
  have "(\<forall>e\<in>set es. \<not> is_place (snd e) \<and> \<not> opens_intent (snd e)) \<Longrightarrow> sends_all P es" for es
    by (induction es) (auto simp: sends_all_log split: event.split)
  then show "quiet_after w w' \<Longrightarrow> w_trace w = [] \<Longrightarrow> sends_all P (w_trace w')"
    by (auto simp: quiet_after_def)
qed

section \<open>The orders of a process\<close>

lemma session_order:
  assumes "run_session L B E S K cli ss w = Some (res, w')" and "w_trace w = []"
    and "w_trace w' = later @ (t, EvPlace i a x r) # earlier"
  shows "\<exists>X w1 w2. prepare L E S K cli ss w = Some (Inr (Inr X), w1) \<and>
    barrier_stage L B E K cli (ry_barrier (ss_ready ss)) w1 = (Inr (), w2) \<and>
    execute (lb_dec L) E X w2 = Some (res, w') \<and> (\<forall>te\<in>set (w_trace w2). \<not> is_place (snd te)) \<and>
    oi_symbol i = cl_symbol cli \<and> a = am_asset_index (ss_asset ss) \<and> 0 < oi_px i \<and> 0 < oi_sz i \<and>
    (\<forall>d. pl_absolute_deadline_unix_ms (ex_plan X) = Some d \<longrightarrow> x = d) \<and>
    (\<forall>s. e_shutdown E = Some s \<longrightarrow> t < s) \<and>
    (e_has_journal E \<longrightarrow> list_ex (\<lambda>te. is_prepared_event (lb_dec L) i (snd te)) earlier)"
proof -
  have placed: "(t, EvPlace i a x r) \<in> set (w_trace w')" using assms(3) by simp
  from assms(1) show ?thesis
  proof (cases rule: run_session_stages)
    case (stopped q)
    from quiet_no_place [OF quiet.prepare_keeps [OF stopped(1)] assms(2)] placed show ?thesis by simp
  next
    case (not_released X w1 e)
    from quiet_no_place [OF barrier_quiet [OF quiet.prepare_keeps [OF not_released(1)] not_released(2)] assms(2)] placed
    show ?thesis by simp
  next
    case (executed X w1 w2)
    have q: "quiet_after w w2"
      by (rule barrier_quiet [OF quiet.prepare_keeps [OF executed(1)] executed(2)]) simp
    note pf = prepare_prepared [OF executed(1)]
    have "sends_all (session_send (lb_dec L) E X) (w_trace w')"
      using pf by (intro execute_sends_all [OF executed(3)] quiet_sends_all [OF q assms(2)]) (simp add: prepared_for_def)
    then have "session_send (lb_dec L) E X t i a x earlier" using assms(3) by (auto dest: sends_allD)
    moreover have "\<forall>te\<in>set (w_trace w2). \<not> is_place (snd te)" using q assms(2) by (auto simp: quiet_after_def)
    ultimately show ?thesis
      using executed pf
      by (intro exI [of _ X] exI [of _ w1] exI [of _ w2])
        (auto simp: session_send_def prepared_for_def plan_agrees_def split: option.splits)
  qed
qed

text \<open>A client without a signer sends nothing to the exchange endpoint.\<close>

lemma unsigned_silent:
  assumes "cl_signer C = None" and "separate_endpoints C"
  shows "exch_posts C (wire_after L C W w0 tr) = exch_posts C w0"
proof (induction tr)
  case (Cons te tr)
  have "event_posts L C W ev w = []" for ev w
    by (simp add: event_posts_def exchange_post_def assms(1) split: option.split)
  with Cons show ?case by (cases te) (simp add: wire_call_posts [OF assms(2)])
qed simp

lemma startup_silent:
  assumes "startup L S W cli w = (Inr ss, w')" and "separate_endpoints (ry_client (ss_ready ss))"
  shows "exch_posts (ry_client (ss_ready ss)) w' = exch_posts (ry_client (ss_ready ss)) w"
    and "is_read_only cli \<Longrightarrow> cl_signer (ry_client (ss_ready ss)) = None"
proof -
  from assms(1) obtain g where g: "gates (lb_dec L) S cli (ww_now w) = Inr g" and c: "connect L W cli g w = (Inr ss, w')"
    by (auto simp: startup_def split: sum.splits)
  from c have r: "ss_ready ss = g" by (auto simp: connect_def try_wire_Inr)
  from connect_queries [of g w L W cli] c obtain ps where ps: "ww_posts w' = ps @ ww_posts w"
    "\<forall>p\<in>set ps. fst (snd p) = cf_info_url (cl_config (ry_client g))"
    by (auto simp: queries_only_def)
  with assms(2) r have "filter (\<lambda>p. fst (snd p) = cf_exchange_url (cl_config (ry_client g))) ps = []"
    by (auto simp: separate_endpoints_def filter_empty_conv)
  with ps(1) r show "exch_posts (ry_client (ss_ready ss)) w' = exch_posts (ry_client (ss_ready ss)) w"
    by (simp add: exch_posts_def)
  from gates_read_only(2) [OF g] r show "is_read_only cli \<Longrightarrow> cl_signer (ry_client (ss_ready ss)) = None" by simp
qed

section \<open>The session of the examples\<close>

lemma session_ran:
  obtains res w' where
    "run_session session_libs demo_pair_host live_env start_host demo_desk session_cli demo_session start_world = Some (res, w')"
    and "count_events is_place w' = 2"
proof -
  obtain h where p: "prepare session_libs live_env start_host demo_desk session_cli demo_session start_world =
      Some (Inr (Inr session_execution), headed h)"
    by (rule session_prepared)
  obtain res w' where "execute exact_dec live_env session_execution (headed h) = Some (res, w')"
    and "count_events is_place w' = 2"
    by (rule session_executed)
  then show ?thesis
    by (intro that [of res w'])
      (simp_all add: run_session_def p bind_o_def try_o_def barrier_stage_def session_parts session_lib_fields)
qed

lemma session_order_post:
  assumes "(t, EvPlace i a x r) \<in> set tr" and "u32 a"
  shows "exch_posts demo_client (wire_after session_libs demo_client session_net w0 tr) \<noteq> []"
  using assms(1)
proof (induction tr)
  case (Cons te tr)
  show ?case
  proof (cases "te = (t, EvPlace i a x r)")
    case True
    have "dispatch_action (order_action session_libs i a) =
        Inr (OrderAction [order_intent_to_wire (lb_dec session_libs) (lb_uuid session_libs) i a] ''na'')"
      unfolding order_action_def using assms(2) by (intro action_json_roundtrip) (simp add: order_intent_to_wire_def)
    from demo_sign [OF this] have sg: "\<exists>sg. the (cl_signer demo_client) (order_action session_libs i a) n None (Some x) = Inr sg" for n .
    have "event_posts session_libs demo_client session_net (EvPlace i a x r) v \<noteq> []" for v
      using sg [of "fst (mint_nonce session_net v)"] by (auto simp: event_posts_def exchange_post_def Let_def demo_client_def)
    with True show ?thesis by (simp add: wire_call_posts [OF demo_separate] del: wire_call.simps)
  next
    case False
    with Cons show ?thesis by (cases te) (auto simp: wire_call_posts [OF demo_separate])
  qed
qed simp

section \<open>Properties\<close>

text \<open>C1: what a whole process sends to the exchange endpoint, from its start-up gates to its exit: a process
  that is not live sends nothing there. Every POST of a live one carries the signature that its client makes over
  exactly the action, nonce and expiry posted, and is a cancel, or an order of its execution stage: for the symbol and the asset that the exchange's universe gives for it, with a positive price and
  size, carrying the frozen deadline of the run as its expiry, sent before a shutdown, and with its intent
  durable in the journal before.\<close>

theorem process_posts_guarded:
  fixes L :: libs and W :: wire_env and E :: env and ss :: session
  defines "C \<equiv> ry_client (ss_ready ss)"
  assumes "startup L S W cli w0 = (Inr ss, w1)" and "separate_endpoints C" and "exch_posts C w0 = []"
    and "run_session L B (session_env L W cli ss w1 E) S K cli ss (session_world L S cli ss w1) = Some (res, w')"
    and "p \<in> set (exch_posts C (wire_after L C W w1 (w_trace w')))"
  shows "is_live cli \<and>
    (\<exists>t action sign nonce sg expires.
       p = (t, cf_exchange_url (cl_config C), exchange_body action nonce sg expires) \<and>
       cl_signer C = Some sign \<and> sign action nonce None expires = Inr sg \<and>
       ((\<exists>c a. action = cancel_action L c a \<and> expires = None) \<or>
        (\<exists>X v1 v2 i later r earlier.
           prepare L (session_env L W cli ss w1 E) S K cli ss (session_world L S cli ss w1) = Some (Inr (Inr X), v1) \<and>
           barrier_stage L B (session_env L W cli ss w1 E) K cli (ry_barrier (ss_ready ss)) v1 = (Inr (), v2) \<and>
           (\<forall>te\<in>set (w_trace v2). \<not> is_place (snd te)) \<and>
           w_trace w' = later @ (t, EvPlace i (am_asset_index (ss_asset ss)) (the expires) r) # earlier \<and>
           action = order_action L i (am_asset_index (ss_asset ss)) \<and> oi_symbol i = cl_symbol cli \<and>
           0 < oi_px i \<and> 0 < oi_sz i \<and> prepared_for cli ss X \<and>
           (\<forall>d. pl_absolute_deadline_unix_ms (ex_plan X) = Some d \<longrightarrow> expires = Some d) \<and>
           (\<forall>s. e_shutdown E = Some s \<longrightarrow> t < s) \<and>
           list_ex (\<lambda>te. is_prepared_event (lb_dec L) i (snd te)) earlier)))"
proof -
  note silent = startup_silent [OF assms(2) assms(3) [unfolded C_def], folded C_def]
  have live: "is_live cli"
    using unsigned_silent [OF _ assms(3)] silent assms(4,6) by (fastforce simp: is_live_def)
  obtain later t ev earlier action expires sign nonce sg where
    tr: "w_trace w' = later @ (t, ev) # earlier" and ev: "exchange_event L ev = Some (action, expires)"
    and sg: "cl_signer C = Some sign" "sign action nonce None expires = Inr sg"
    and p: "p = (t, cf_exchange_url (cl_config C), exchange_body action nonce sg expires)"
    using wire_after_post [OF assms(3) _ assms(6)] silent(1) assms(4) by auto
  have E: "e_shutdown (session_env L W cli ss w1 E) = e_shutdown E" "e_has_journal (session_env L W cli ss w1 E)"
    using live by (simp_all add: session_env_def client_env_def)
  show ?thesis
  proof (cases ev)
    case (EvPlace i a x r)
    have e: "w_trace (session_world L S cli ss w1) = []" by (simp add: session_world_def)
    from session_order [OF assms(5) e tr [unfolded EvPlace]] obtain X v1 v2 where
      pr: "prepare L (session_env L W cli ss w1 E) S K cli ss (session_world L S cli ss w1) = Some (Inr (Inr X), v1)"
      and ba: "barrier_stage L B (session_env L W cli ss w1 E) K cli (ry_barrier (ss_ready ss)) v1 = (Inr (), v2)"
      "\<forall>te\<in>set (w_trace v2). \<not> is_place (snd te)"
      and g: "oi_symbol i = cl_symbol cli" "a = am_asset_index (ss_asset ss)" "0 < oi_px i" "0 < oi_sz i"
      "\<forall>d. pl_absolute_deadline_unix_ms (ex_plan X) = Some d \<longrightarrow> x = d" "\<forall>s. e_shutdown E = Some s \<longrightarrow> t < s"
      "list_ex (\<lambda>te. is_prepared_event (lb_dec L) i (snd te)) earlier"
      unfolding E by (auto simp: E)
    have "\<exists>X v1 v2 i' later r earlier.
        prepare L (session_env L W cli ss w1 E) S K cli ss (session_world L S cli ss w1) = Some (Inr (Inr X), v1) \<and>
        barrier_stage L B (session_env L W cli ss w1 E) K cli (ry_barrier (ss_ready ss)) v1 = (Inr (), v2) \<and>
        (\<forall>te\<in>set (w_trace v2). \<not> is_place (snd te)) \<and>
        w_trace w' = later @ (t, EvPlace i' (am_asset_index (ss_asset ss)) (the expires) r) # earlier \<and>
        action = order_action L i' (am_asset_index (ss_asset ss)) \<and> oi_symbol i' = cl_symbol cli \<and>
        0 < oi_px i' \<and> 0 < oi_sz i' \<and> prepared_for cli ss X \<and>
        (\<forall>d. pl_absolute_deadline_unix_ms (ex_plan X) = Some d \<longrightarrow> expires = Some d) \<and>
        (\<forall>s. e_shutdown E = Some s \<longrightarrow> t < s) \<and>
        list_ex (\<lambda>te. is_prepared_event (lb_dec L) i' (snd te)) earlier"
      using prepare_prepared [OF pr] pr ba g ev tr EvPlace
      by (rule_tac exI [of _ X], rule_tac exI [of _ v1], rule_tac exI [of _ v2], rule_tac exI [of _ i], rule_tac exI [of _ later], rule_tac exI [of _ r],
          rule_tac exI [of _ earlier]) auto
    with live p sg show ?thesis by blast
  next
    case (EvCancel c a r)
    with ev have "\<exists>c a. action = cancel_action L c a \<and> expires = None" by auto
    with live p sg show ?thesis by blast
  qed (use ev in simp_all)
qed

theorem process_posts_guarded_witness:
  "\<exists>res w' t nonce sg expires action.
     startup session_libs start_host session_net session_cli demo_wire_world = (Inr demo_session, session_wire) \<and>
     run_session session_libs demo_pair_host
       (session_env session_libs session_net session_cli demo_session session_wire (scripted_env demo_script True None))
       start_host demo_desk session_cli demo_session
       (session_world session_libs start_host session_cli demo_session session_wire) = Some (res, w') \<and>
     (t, cf_exchange_url (cl_config demo_client), exchange_body action nonce sg expires)
       \<in> set (exch_posts demo_client (wire_after session_libs demo_client session_net session_wire (w_trace w'))) \<and>
     ((\<exists>c a. action = cancel_action session_libs c a \<and> expires = None) \<or>
      (\<exists>i. action = order_action session_libs i 0 \<and> oi_symbol i = ''BTC'' \<and> 0 < oi_px i \<and> 0 < oi_sz i))"
proof -
  obtain res w' where s: "run_session session_libs demo_pair_host live_env start_host demo_desk session_cli demo_session start_world
      = Some (res, w')" and n: "count_events is_place w' = 2"
    by (rule session_ran)
  from n obtain later t i a x r earlier where tr: "w_trace w' = later @ (t, EvPlace i a x r) # earlier"
    by (rule placed_order) simp
  have "w_trace start_world = []" by (simp add: start_world_def)
  from session_order [OF s this tr] have "u32 a" by (auto simp: session_parts u32_def)
  with tr have "exch_posts demo_client (wire_after session_libs demo_client session_net session_wire (w_trace w')) \<noteq> []"
    by (intro session_order_post [of t i a x r]) simp_all
  then obtain p where p: "p \<in> set (exch_posts demo_client (wire_after session_libs demo_client session_net session_wire (w_trace w')))"
    using list.set_sel(1) by blast
  have c: "ry_client (ss_ready demo_session) = demo_client" by (simp add: session_parts)
  have none: "exch_posts demo_client demo_wire_world = []" by (simp add: exch_posts_def demo_wire_world_def)
  from process_posts_guarded [OF session_start(1), unfolded c, OF demo_separate none
      s [folded session_start_world, unfolded live_env_def] p]
  obtain t action nonce sg expires where
    "p = (t, cf_exchange_url (cl_config demo_client), exchange_body action nonce sg expires)"
    "(\<exists>c a. action = cancel_action session_libs c a \<and> expires = None) \<or>
      (\<exists>i. action = order_action session_libs i 0 \<and> oi_symbol i = ''BTC'' \<and> 0 < oi_px i \<and> 0 < oi_sz i)"
    by (simp only: session_parts session_fields) blast
  with p s [folded session_start_world, unfolded live_env_def] session_start(1) show ?thesis by blast
qed

end
