(* ===== verification/Process_Props.thy ===== *)
theory Process_Props
  imports Session_Props
begin

text \<open>
  More properties of a whole process: it returns; the header of a new live run describes what is executed; a
  live flatten executes what the operator has confirmed; the pair barrier lets a process through only at the
  start instant of its own pair, and its ready file is whole or absent.
\<close>

section \<open>Every process returns\<close>

lemma validate_follow_secs: "validate_cli D cli = Inr () \<Longrightarrow> cl_follow_poll_secs cli \<noteq> 0"
  by (auto simp: validate_cli_def validate_follow_def and_then_Inr check_Inr_unit)

lemma validate_trigger_secs: "validate_cli D cli = Inr () \<Longrightarrow> cl_trigger_poll_secs cli \<noteq> 0"
  by (auto simp: validate_cli_def validate_trigger_def and_then_Inr check_Inr_unit)

text \<open>What the command line must give for its trigger to be bounded.\<close>

definition bounded_wait :: "cli \<Rightarrow> bool" where
  "bounded_wait cli \<longleftrightarrow>
     is_immediate (trigger_config_of cli) \<or> cl_start_after cli \<noteq> None \<or> cl_expire_after cli \<noteq> None"

lemma wait_total:
  assumes "validate_cli D' cli = Inr ()" and "bounded_wait cli"
  shows "\<exists>out w'. wait_for_trigger D E s (trigger_config_of cli) w = Some (out, w')"
proof (cases "is_immediate (trigger_config_of cli)")
  case True
  then show ?thesis by (simp add: wait_for_trigger_def)
next
  case False
  have "0 < tc_poll_interval (trigger_config_of cli)"
    using validate_trigger_secs [OF assms(1)] by (simp add: trigger_config_of_def secs_def unat_gt_0)
  moreover have "tc_start_after (trigger_config_of cli) \<noteq> None \<or> tc_expire_after (trigger_config_of cli) \<noteq> None"
    using False assms(2) by (simp add: bounded_wait_def trigger_config_of_def)
  ultimately show ?thesis by (rule bounded_trigger_returns)
qed

lemma market_stage_total:
  assumes "validate_cli D' cli = Inr ()" and "bounded_wait cli"
  shows "\<exists>r w'. market_stage D E cli w = Some (r, w')"
proof -
  obtain b w1 where b: "initial_book D E cli w = (b, w1)" by (cases "initial_book D E cli w")
  obtain out w2 where "wait_for_trigger D E (cl_symbol cli) (trigger_config_of cli) w1 = Some (out, w2)"
    using wait_total [OF assms] by blast
  with b show ?thesis
    by (auto simp: market_stage_def try_o_def run_o_def split: sum.split trigger_outcome.split)
qed

lemma prepare_total:
  assumes "validate_cli D' cli = Inr ()" and "bounded_wait cli"
  shows "\<exists>r w'. prepare L E S K cli ss w = Some (r, w')"
proof -
  obtain e w1 where e: "earlier_run (lb_dec L) E S K cli ss w = (e, w1)"
    by (cases "earlier_run (lb_dec L) E S K cli ss w")
  obtain m w2 where "market_stage (lb_dec L) E cli w1 = Some (m, w2)"
    using market_stage_total [OF assms] by blast
  with e show ?thesis
    by (auto simp: prepare_def try_o_def bind_o_def split: sum.split)
qed

lemma run_session_total:
  assumes "validate_cli D' cli = Inr ()" and "bounded_wait cli"
  shows "\<exists>res w'. run_session L B E S K cli ss w = Some (res, w')"
proof -
  obtain r w1 where p: "prepare L E S K cli ss w = Some (r, w1)"
    using prepare_total [OF assms] by blast
  show ?thesis
  proof (cases "\<exists>X. r = Inr (Inr X)")
    case False
    with p show ?thesis by (auto simp: run_session_def bind_o_def try_o_def split: sum.split)
  next
    case True
    then obtain X where X: "r = Inr (Inr X)" by blast
    have pf: "prepared_for cli ss X" using prepare_prepared p X by blast
    obtain b w2 where b: "barrier_stage L B E K cli (ry_barrier (ss_ready ss)) w1 = (b, w2)"
      by (cases "barrier_stage L B E K cli (ry_barrier (ss_ready ss)) w1")
    have "\<exists>res w'. execute (lb_dec L) E X w2 = Some (res, w')"
      using validate_follow_secs [OF assms(1)] pf
      by (intro execute_total) (auto simp: prepared_for_def unat_gt_0)
    with p X b show ?thesis by (cases b) (auto simp: run_session_def bind_o_def try_o_def)
  qed
qed

text \<open>C15: every process ends, with an error or an exit code, whatever the exchange answers and however long its
  answers take: none of the gates, the trigger wait, the barrier wait, the slices, the re-quoting of resting
  orders, the settlements or the reconciliations runs forever. The validation of the command line makes the
  poll intervals positive; a price trigger needs a delay or an expiry, for without one it may wait for ever.\<close>

theorem process_returns:
  assumes "bounded_wait cli"
  shows "\<exists>r. run_with_cli L S W B E K cli w = Some r"
proof -
  obtain s w1 where s: "startup L S W cli w = (s, w1)" by (cases "startup L S W cli w")
  show ?thesis
  proof (cases s)
    case (Inr ss)
    with s obtain g where "gates (lb_dec L) S cli (ww_now w) = Inr g"
      by (auto simp: startup_def split: sum.splits)
    from run_session_total [OF gates_valid [OF this] assms] s Inr show ?thesis
      by (fastforce simp: run_with_cli_def)
  qed (use s in \<open>simp add: run_with_cli_def\<close>)
qed

theorem process_returns_witness:
  "\<exists>r. run_with_cli session_libs start_host session_net demo_pair_host (scripted_env demo_script True None) demo_desk
     (session_cli\<lparr>cl_child_algo := Follow, cl_trigger_price := Some 120, cl_trigger_when := Some Above,
                  cl_expire_after := Some (secs 600)\<rparr>) demo_wire_world = Some r"
  by (rule process_returns) (simp add: bounded_wait_def)

section \<open>The durable identity of a new run\<close>

lemma earlier_run_fresh:
  assumes "earlier_run D E S K cli ss w = (Inr (Inr r), w')" and "cl_resume cli = None"
  shows "r = None" and "w' = w"
  using assms by (auto simp: earlier_run_def try_w_Inr split: if_splits)

lemma prepare_fresh:
  assumes "prepare L E S K cli ss w = Some (Inr (Inr X), w')" and "is_live cli" and "cl_resume cli = None"
  obtains snap w1 position w2 z plan dl op where
    "market_stage (lb_dec L) E cli w = Some (Inr (Inr snap), w1)"
    "position_stage L E K cli ss None (sn_mid snap) w1 = (Inr (Inr position), w2)"
    "size_run (lb_dec L) cli ss position snap = Inr z"
    "dl = fixed_deadline cli (wall_clock_now_ms E w2)"
    "plan = original_plan cli (cl_symbol cli) (sd_side z) (am_asset_index (ss_asset ss)) (am_sz_decimals (ss_asset ss))
       (sd_sizing z) (sd_total_coin z) (Some dl) (sd_cap z) position (ry_agent (ss_ready ss)) (ss_master ss)"
    "start_journal (lb_dec L) E K cli plan
       (execution_fingerprint (lb_dec L) (cl_network cli) plan position cli (Some (sn_mid snap))) w2 = (Inr op, w')"
    "X = execution_of K cli ss None position (sn_mid snap) z plan op"
  using assms(1)
proof (rule prepare_Inr)
  fix r v1 snap v2
  assume e: "earlier_run (lb_dec L) E S K cli ss w = (Inr (Inr r), v1)"
    and m: "market_stage (lb_dec L) E cli v1 = Some (Inr (Inr snap), v2)"
    and p: "plan_stage L E K cli ss r snap v2 = (Inr (Inr X), w')"
  note r = earlier_run_fresh [OF e assms(3)]
  from p show thesis
  proof (rule plan_stage_Inr)
    fix position w1 z plan fp op w2 plan1
    assume a: "position_stage L E K cli ss r (sn_mid snap) v2 = (Inr (Inr position), w1)"
      "size_run (lb_dec L) cli ss position snap = Inr z"
      "plan_of_run (lb_dec L) E cli ss r position z w1 = Inr plan"
      "fingerprint_of_run (lb_dec L) cli r position (sn_mid snap) plan = Inr fp"
      "open_journal (lb_dec L) E K cli ss r plan fp w1 = (Inr op, w2)"
      "continue_resumed (lb_dec L) E (execution_of K cli ss r position (sn_mid snap) z plan op) plan w2 = (Inr (Inr plan1), w')"
      "X = (execution_of K cli ss r position (sn_mid snap) z plan op)\<lparr>ex_plan := plan1\<rparr>"
    from a(5) r assms(2) have j: "start_journal (lb_dec L) E K cli plan fp w1 = (Inr op, w2)"
      by (simp add: open_journal_def is_live_def)
    then have "op_already_filled op = None"
      by (auto simp: start_journal_def Let_def try_w_Inr split: if_splits prod.splits)
    with continue_resumed_keeps_plan(7) [OF a(6)] have "plan1 = plan" "w' = w2" by (simp_all add: execution_of_def)
    with a j r m that assms(2) show thesis
      by (simp add: plan_of_run_def deadline_of_run_def fingerprint_of_run_def resumed_frozen_def is_live_def Let_def
          execution_of_def)
  qed
qed

text \<open>C17: before a new live run goes on to its barrier and its orders, the last thing it did was to make a header
  durable that describes exactly the plan that is executed: the network, the agent, the master, the symbol,
  the side, the number of slices, the deadline that is the expiry of every order, and the fingerprint of the
  plan, which a later resume with the same command line is checked against. The deadline is in the future
  then.\<close>

theorem new_run_header_durable:
  assumes "prepare L E S K cli ss w = Some (Inr (Inr X), w')" and "is_live cli" and "cl_resume cli = None"
  shows "\<exists>h v dl. record_durable E (Header h) v = (True, w') \<and>
    rh_network h = network_name (cl_network cli) \<and> rh_agent h = ry_agent (ss_ready ss) \<and> rh_master h = ss_master ss \<and>
    rh_symbol h = pl_symbol (ex_plan X) \<and> rh_side h = pl_side (ex_plan X) \<and> rh_slices h = pl_slices (ex_plan X) \<and>
    rh_deadline_unix_ms h = Some dl \<and> pl_absolute_deadline_unix_ms (ex_plan X) = Some dl \<and>
    rh_started_at_unix_ms h < dl \<and>
    rh_fingerprint h = Some (execution_fingerprint (lb_dec L) (cl_network cli) (ex_plan X) (ex_position X) cli (Some (ex_mid X)))"
  using assms
proof (rule prepare_fresh)
  fix snap w1 position w2 z plan dl op
  assume j: "start_journal (lb_dec L) E K cli plan
       (execution_fingerprint (lb_dec L) (cl_network cli) plan position cli (Some (sn_mid snap))) w2 = (Inr op, w')"
    and X: "X = execution_of K cli ss None position (sn_mid snap) z plan op"
    and plan: "plan = original_plan cli (cl_symbol cli) (sd_side z) (am_asset_index (ss_asset ss)) (am_sz_decimals (ss_asset ss))
       (sd_sizing z) (sd_total_coin z) (Some dl) (sd_cap z) position (ry_agent (ss_ready ss)) (ss_master ss)"
  have dl: "pl_absolute_deadline_unix_ms plan = Some dl" by (simp add: plan original_plan_def)
  from j obtain h where h: "record_durable E (Header h) w2 = (True, w')" and st: "rh_started_at_unix_ms h < dl"
    and hd: "h = new_run_header (se_run_id K w2) (cl_network cli) plan (plan_hash (lb_dec L) K plan)
        (execution_fingerprint (lb_dec L) (cl_network cli) plan position cli (Some (sn_mid snap)))
        (rh_started_at_unix_ms h) dl"
    by (auto simp: start_journal_def Let_def try_w_Inr dl unwrap_or_def new_run_header_def not_le
        split: if_splits prod.splits)
  have "rh_network h = network_name (cl_network cli)" "rh_agent h = pl_agent plan" "rh_master h = pl_master plan"
    "rh_symbol h = pl_symbol plan" "rh_side h = pl_side plan" "rh_slices h = pl_slices plan"
    "rh_deadline_unix_ms h = Some dl"
    "rh_fingerprint h = Some (execution_fingerprint (lb_dec L) (cl_network cli) plan position cli (Some (sn_mid snap)))"
    by (subst hd, simp add: new_run_header_def)+
  moreover have "pl_agent plan = ry_agent (ss_ready ss)" "pl_master plan = ss_master ss"
    by (simp_all add: plan original_plan_def)
  ultimately show ?thesis
    using h st dl
    by (rule_tac exI [of _ h], rule_tac exI [of _ w2], rule_tac exI [of _ dl]) (simp add: X execution_of_def)
qed

theorem new_run_header_durable_witness:
  "\<exists>w' h v. prepare session_libs live_env start_host demo_desk session_cli demo_session start_world =
     Some (Inr (Inr session_execution), w') \<and> record_durable live_env (Header h) v = (True, w') \<and>
     rh_network h = ''testnet'' \<and> rh_agent h = Some ''0xA'' \<and> rh_deadline_unix_ms h = Some 60004"
proof -
  obtain h where p: "prepare session_libs live_env start_host demo_desk session_cli demo_session start_world =
      Some (Inr (Inr session_execution), headed h)"
    by (rule session_prepared)
  have "is_live session_cli" by (simp add: is_live_def session_fields)
  from new_run_header_durable [OF p this session_fields(13)] p show ?thesis
    by (auto simp: session_parts session_fields session_execution_def session_plan_def)
qed
section \<open>The pair barrier\<close>

lemma pair_start_loop_Inr:
  assumes "pair_start_loop J B E pb deadline w = (Inr (), w')"
  shows "\<exists>t txt start. bh_start B (w\<lparr>w_now := t\<rparr>) = StartText txt \<and> parse_pair_start J txt = Some (pb_run_id pb, start) \<and>
    wall_clock_now_ms E (w\<lparr>w_now := t\<rparr>) < start \<and> w_now w \<le> t \<and>
    w' = w\<lparr>w_now := t + duration_of_millis (start - wall_clock_now_ms E (w\<lparr>w_now := t\<rparr>))\<rparr> \<and> w_now w' \<le> deadline"
  using assms
proof (induction J B E pb deadline w rule: pair_start_loop.induct)
  case (1 J B E pb deadline w)
  from 1(2) have lt: "\<not> deadline \<le> w_now w"
    by (auto simp: pair_start_loop.simps [of J B E pb deadline w] split: if_splits)
  show ?case
  proof (cases "bh_start B w")
    case StartMissing
    with 1(2) lt have l: "pair_start_loop J B E pb deadline (elapse PAIR_POLL w) = (Inr (), w')"
      by (simp add: pair_start_loop.simps [of J B E pb deadline w])
    from 1(1) [OF lt StartMissing l] obtain t where "w_now w + PAIR_POLL \<le> t" and "\<exists>txt start.
        bh_start B (w\<lparr>w_now := t\<rparr>) = StartText txt \<and> parse_pair_start J txt = Some (pb_run_id pb, start) \<and>
        wall_clock_now_ms E (w\<lparr>w_now := t\<rparr>) < start \<and>
        w' = w\<lparr>w_now := t + duration_of_millis (start - wall_clock_now_ms E (w\<lparr>w_now := t\<rparr>))\<rparr> \<and> w_now w' \<le> deadline"
      by (auto simp: elapse_def)
    moreover from this(1) have "w_now w \<le> t" by simp
    ultimately show ?thesis by blast
  next
    case (StartText tx)
    with 1(2) lt have "start_released J E pb deadline tx w = (Inr (), w')"
      by (simp add: pair_start_loop.simps [of J B E pb deadline w])
    then obtain start where "parse_pair_start J tx = Some (pb_run_id pb, start)" "wall_clock_now_ms E w < start"
      "w' = w\<lparr>w_now := w_now w + duration_of_millis (start - wall_clock_now_ms E w)\<rparr>"
      "w_now w + duration_of_millis (start - wall_clock_now_ms E w) \<le> deadline"
      by (auto simp: start_released_def Let_def sat_sub_u64_def elapse_def not_le not_less split: option.splits if_splits)
    with StartText show ?thesis
      by (intro exI [of _ "w_now w"] exI [of _ tx] exI [of _ start]) simp
  qed (use 1(2) lt in \<open>simp_all add: pair_start_loop.simps [of J B E pb deadline w]\<close>)
qed

lemma ready_run_whole:
  assumes "ready_run fault (ready_steps c) d = (r, d')"
  shows "case rd_ready d of Some f \<Rightarrow> (\<exists>e. r = Inl e) \<and> rd_ready d' = Some f
    | None \<Rightarrow> rd_ready d' = None \<or> rd_ready d' = Some (WholeReady c)"
    and "r = Inr () \<Longrightarrow> rd_ready d' = Some (WholeReady c)"
  using assms
  by (auto simp: ready_steps_def create_tmp_def link_ready_def split: option.splits if_splits nat.splits)

text \<open>C19: a process of a pair passes its barrier only after it has published its own ready file, and only by a start
  file that names the run of its pair and an instant that was in the future when the file was read; it waits
  until exactly that instant, never beyond the timeout of the barrier, and does nothing else meanwhile. Any
  other outcome is an error, and then nothing is sent.\<close>

theorem barrier_released_by_start:
  assumes "barrier_stage L B E K cli (Some pb) w = (Inr (), w')"
  shows "\<exists>t txt start. bh_start B (w\<lparr>w_now := t\<rparr>) = StartText txt \<and>
    parse_pair_start (lb_json L) txt = Some (pb_run_id pb, start) \<and> wall_clock_now_ms E (w\<lparr>w_now := t\<rparr>) < start \<and>
    w_now w \<le> t \<and> w' = w\<lparr>w_now := t + duration_of_millis (start - wall_clock_now_ms E (w\<lparr>w_now := t\<rparr>))\<rparr> \<and>
    w_now w' \<le> w_now w + pb_timeout pb \<and>
    rd_ready (snd (write_pair_ready_file (bh_fault B w) (bh_removed B w)
      \<lparr>rf_run_id = pb_run_id pb, rf_ready_at_unix_ms = wall_clock_now_ms E w, rf_pid = bh_pid B,
       rf_journal_run_id = journal_run_id E w\<rparr> (bh_disk B w))) =
      Some (WholeReady \<lparr>rf_run_id = pb_run_id pb, rf_ready_at_unix_ms = wall_clock_now_ms E w, rf_pid = bh_pid B,
                        rf_journal_run_id = journal_run_id E w\<rparr>)"
proof -
  let ?c = "\<lparr>rf_run_id = pb_run_id pb, rf_ready_at_unix_ms = wall_clock_now_ms E w, rf_pid = bh_pid B,
       rf_journal_run_id = journal_run_id E w\<rparr>"
  from assms have wait: "wait_for_pair_start (lb_json L) B E pb (journal_run_id E w) w = (Inr (), w')"
    by (auto simp: barrier_stage_def try_w_Inr split: prod.splits sum.splits if_splits)
  then have ready: "fst (write_pair_ready_file (bh_fault B w) (bh_removed B w) ?c (bh_disk B w)) = Inr ()"
    and loop: "pair_start_loop (lb_json L) B E pb (w_now w + pb_timeout pb) w = (Inr (), w')"
    by (auto simp: wait_for_pair_start_def try_w_Inr)
  obtain r d where rd: "ready_run (bh_fault B w) (ready_steps ?c) (bh_disk B w) = (r, d)"
    by (cases "ready_run (bh_fault B w) (ready_steps ?c) (bh_disk B w)")
  with ready have "rd_ready (snd (write_pair_ready_file (bh_fault B w) (bh_removed B w) ?c (bh_disk B w))) = Some (WholeReady ?c)"
    using ready_run_whole(2) [OF rd] by (simp add: write_pair_ready_file_def)
  with pair_start_loop_Inr [OF loop] show ?thesis by blast
qed

definition pair_of_two :: pair_barrier where
  "pair_of_two =
     \<lparr>pb_ready_file = ''a/ready'', pb_start_file = ''a/start'', pb_run_id = ''run-1'', pb_timeout = secs 30\<rparr>"

text \<open>The launcher writes its start file after 50 ms, for the instant of one second.\<close>

definition pair_libs :: libs where
  "pair_libs = session_libs\<lparr>lb_json := session_json\<lparr>js_parse :=
     \<lambda>s. Some (JObject [(''run_id'', JString ''run-1''), (''start_at_unix_ms'', JNumber (PosInt 1000))])\<rparr>\<rparr>"

definition launcher :: pair_host where
  "launcher = demo_pair_host\<lparr>bh_start := \<lambda>w. if w_now w < 50000000 then StartMissing else StartText ''start''\<rparr>"

lemma pair_released:
  "barrier_stage pair_libs launcher live_env demo_desk session_cli (Some pair_of_two) start_world =
     (Inr (), start_world\<lparr>w_now := 1000000000\<rparr>)"
  by (simp add: barrier_stage_def wait_for_pair_start_def write_pair_ready_file_def ready_steps_def create_tmp_def
      link_ready_def launcher_def demo_pair_host_def try_w_simps pair_of_two_def pair_start_loop.simps start_world_def
      elapse_def PAIR_POLL_def ns_per_ms_def secs_def pair_libs_def start_released_def parse_pair_start_def get_str_def
      get_u64_def Let_def wall_clock_now_ms_def live_env_simps sat_sub_u64_def duration_of_millis_def as_millis_def)

theorem barrier_released_by_start_witness:
  "\<exists>t. barrier_stage pair_libs launcher live_env demo_desk session_cli (Some pair_of_two) start_world =
     (Inr (), start_world\<lparr>w_now := 1000000000\<rparr>) \<and> bh_start launcher (start_world\<lparr>w_now := t\<rparr>) = StartText ''start'' \<and>
     w_now start_world \<le> t"
  using barrier_released_by_start [OF pair_released] pair_released
  by (auto simp: launcher_def demo_pair_host_def split: if_splits)

text \<open>C20: the ready file that the launcher of a pair waits for is never there in part: whatever step of its
  publication fails, the final name holds what it held before, or the whole new content; a file that was
  there before is never replaced, and then the process stops. No temporary file is left, unless its removal
  itself fails.\<close>

theorem ready_file_whole:
  assumes "write_pair_ready_file fault removed c d = (r, d')"
  shows "(removed \<longrightarrow> rd_tmp d' = None) \<and>
    (case rd_ready d of
       Some f \<Rightarrow> (\<exists>e. r = Inl e) \<and> rd_ready d' = Some f
     | None \<Rightarrow> if r = Inr () then rd_ready d' = Some (WholeReady c) else rd_ready d' \<in> {None, Some (WholeReady c)})"
proof -
  obtain d1 where d1: "ready_run fault (ready_steps c) d = (r, d1)" and d': "d' = (if removed then d1\<lparr>rd_tmp := None\<rparr> else d1)"
    using assms by (auto simp: write_pair_ready_file_def split: prod.splits)
  from ready_run_whole [OF d1] d' show ?thesis by (auto split: option.splits)
qed

theorem ready_file_whole_witness:
  "\<exists>d'. write_pair_ready_file (Some 5) True \<lparr>rf_run_id = ''run-1'', rf_ready_at_unix_ms = 1, rf_pid = 7, rf_journal_run_id = None\<rparr>
       \<lparr>rd_tmp = None, rd_ready = Some PartReady\<rparr> = (Inl ''publishing pair ready file failed (it may already exist)'', d') \<and>
     rd_tmp d' = None \<and> rd_ready d' = Some PartReady"
proof -
  let ?c = "\<lparr>rf_run_id = ''run-1'', rf_ready_at_unix_ms = 1, rf_pid = 7, rf_journal_run_id = None\<rparr>"
  obtain d' where "write_pair_ready_file (Some 5) True ?c \<lparr>rd_tmp = None, rd_ready = Some PartReady\<rparr> =
      (Inl ''publishing pair ready file failed (it may already exist)'', d')"
    by (simp add: write_pair_ready_file_def ready_steps_def create_tmp_def link_ready_def eval_nat_numeral)
  with ready_file_whole [OF this] show ?thesis by auto
qed

end
