(* ===== verification/Flatten_Props.thy ===== *)
theory Flatten_Props
  imports Process_Props
begin

text \<open>
  The flatten of a live process: what is executed is what the token on the command line confirms.
\<close>
section \<open>A confirmed flatten\<close>

interpretation logged: calm_inv "\<lambda>w. e \<in> set (w_trace w)" for e
  by unfold_locales (auto simp: log_event_def)

lemma position_stage_Inr:
  assumes "position_stage L E K cli ss None mid w = (Inr (Inr position), w')" and "position_mode_requested cli"
  obtains m pos p w1 ph rest t where "ss_master ss = Some m" and "(t, EvPosition m (cl_symbol cli) (Inr pos)) \<in> set (w_trace w1)"
    and "fresh_position_plan (lb_dec L) cli pos (cl_symbol cli) mid (am_sz_decimals (ss_asset ss)) = Inr p"
    and "position = Some p" and "pp_phases p = ph # rest"
    and "confirm_flatten L E K cli None m p w1 = (Inr (Inr ()), w')"
proof -
  from assms obtain m pos p w3 where m: "ss_master ss = Some m"
    and f: "fst (fetch_perp_position E m (cl_symbol cli) w) = Inr pos"
    and pl: "plan_position (lb_dec L) E K cli ss None mid pos (snd (fetch_perp_position E m (cl_symbol cli) w)) = (Inr p, w3)"
    and sc: "goes_on (screen_position L E K cli ss None mid m p w3) (\<lambda>p w4. (Inr (Inr (Some p)), w4)) = (Inr (Inr position), w')"
    by (auto simp: position_stage_def try_w_Inr err_w_def split: if_splits)
  from pl have fp: "fresh_position_plan (lb_dec L) cli pos (cl_symbol cli) mid (am_sz_decimals (ss_asset ss)) = Inr p"
    and w3: "w3 = snd (fetch_perp_position E m (cl_symbol cli) w)" by (auto simp: plan_position_def)
  from f obtain t where t: "(t, EvPosition m (cl_symbol cli) (Inr pos)) \<in> set (w_trace w3)"
    by (auto simp: w3 fetch_perp_position_def log_event_def elapse_def split: prod.splits)
  from sc obtain q where q: "screen_position L E K cli ss None mid m p w3 = (Inr (Inr q), w')" "position = Some q"
    by (auto simp: goes_on_Inr)
  then obtain ph rest where ph: "pp_phases p = ph # rest"
    by (cases "pp_phases p") (auto simp: screen_position_def noop_position_def try_w_Inr)
  from q(1) have "q = p \<and> confirm_flatten L E K cli None m p w3 = (Inr (Inr ()), w')"
    by (auto simp: screen_position_def ph try_w_Inr goes_on_Inr small_position_def split: if_splits)
  with q(2) ph m t fp w3 that show ?thesis by blast
qed

lemma confirm_flatten_Inr:
  assumes "confirm_flatten L E K cli None m p w = (Inr (Inr ()), w')" and "cl_flatten cli" and "is_live cli"
  obtains ph dl where "first_phase p = Some ph" and "cl_flatten_deadline_unix_ms cli = Some dl" and "w' = w"
    and "wall_clock_now_ms E w < dl"
    and "cl_confirm_flatten cli = Some (confirmation_token L (se_keccak K) (confirmation_of cli m p ph dl))"
  using assms
  by (auto simp: confirm_flatten_def resumed_frozen_def unwrap_or_def confirmation_deadline_def try_w_Inr not_le
      split: option.splits if_splits)

text \<open>What a flatten plans: one reduce-only phase that closes the position that was read.\<close>

context decimal_crate
begin

lemma flatten_phase:
  assumes "flatten_plan D pos sy n = Inr p" and "pp_phases p = ph # rest"
  shows "pp_symbol p = sy" and "pp_current_szi p = sp_szi pos" and "pp_target_szi p = 0" and "ph_reduce_only ph"
    and "rest = []" and "representable (sp_szi pos) \<Longrightarrow> ph_size ph = \<bar>sp_szi pos\<bar> \<and> ph_side ph = (if 0 < sp_szi pos then Short else Long)"
proof -
  have z: "quantize_toward_zero D 0 n = 0" using quantize_abs [of 0 n] by simp
  from assms have ps: "phases_for D (sp_szi pos) 0 = Inr (ph # rest)" and "pp_symbol p = sy"
    "pp_current_szi p = sp_szi pos" "pp_target_szi p = 0"
    by (auto simp: flatten_plan_def target_size_def Let_def z split: if_splits sum.splits)
  then show "pp_symbol p = sy" "pp_current_szi p = sp_szi pos" "pp_target_szi p = 0" by simp_all
  from ps obtain delta where d: "d_checked_sub D 0 (sp_szi pos) = Some delta" "sp_szi pos \<noteq> 0" and s: "side_for_delta delta = Inr (ph_side ph)"
    and ph: "ph_size ph = \<bar>delta\<bar>" "ph_reduce_only ph" "rest = []"
    by (auto simp: phases_for_def Let_def split: if_splits option.splits sum.splits)
  then show "ph_reduce_only ph" "rest = []" by simp_all
  assume "representable (sp_szi pos)"
  then have "representable (0 - sp_szi pos)" 
  proof -
    from \<open>representable (sp_szi pos)\<close> obtain m s where "\<bar>m :: int\<bar> < 2 ^ 96" "s \<le> 28" "sp_szi pos = of_int m / 10 ^ s"
      unfolding representable_def by blast
    then show ?thesis unfolding representable_def by (intro exI [of _ "- m"] exI [of _ s]) simp
  qed
  from d_checked_sub_representable [OF this] d have "delta = - sp_szi pos" by simp
  with s ph d(2) show "ph_size ph = \<bar>sp_szi pos\<bar> \<and> ph_side ph = (if 0 < sp_szi pos then Short else Long)"
    by (auto simp: side_for_delta_Inr)
qed

end

text \<open>The trade of a position plan is its first phase, to the last coin.\<close>

lemma size_run_first_phase:
  assumes "size_run D cli ss (Some p) snap = Inr z" and "first_phase p = Some ph" and "is_live cli"
  shows "sd_side z = ph_side ph" and "sg_total_adjusted (sd_sizing z) = ph_size ph"
    and "cl_max_notional_usd cli = Some (sd_cap z)"
  using assms
  by (auto simp: size_run_def Let_def and_then_Inr trade_side_def trade_quantity_def execution_sizing_def is_live_def
      validate_max_notional_required_def split: option.splits if_splits)

text \<open>C16: a live flatten executes what the operator has confirmed, and nothing else: the token of the command line is
  the one of the executed plan, in the network, the account, the symbol, the signed position, the side, the
  size, the cap, the algorithm and the deadline, which is the expiry of every order and was in the future. The
  position is the one that was just read from the exchange for the master, the target is zero, every order is
  reduce-only, and the side and the size are those that close the position.\<close>

theorem flatten_executes_confirmation:
  assumes "decimal_crate (lb_dec L)" and "prepare L E S K cli ss w = Some (Inr (Inr X), w')" and "is_live cli"
    and "cl_resume cli = None" and "cl_flatten cli"
  shows "\<exists>m p pos t dl v. ss_master ss = Some m \<and> ex_position X = Some p \<and>
    (t, EvPosition m (cl_symbol cli) (Inr pos)) \<in> set (w_trace w') \<and> pp_current_szi p = sp_szi pos \<and> pp_target_szi p = 0 \<and>
    pl_reduce_only (ex_plan X) \<and> pl_absolute_deadline_unix_ms (ex_plan X) = Some dl \<and> wall_clock_now_ms E v < dl \<and>
    (representable (sp_szi pos) \<longrightarrow> pl_total_adjusted (ex_plan X) = \<bar>sp_szi pos\<bar> \<and>
       pl_side (ex_plan X) = (if 0 < sp_szi pos then Short else Long)) \<and>
    cl_confirm_flatten cli = Some (confirmation_token L (se_keccak K)
      \<lparr>fc_schema_version = FLATTEN_SCHEMA_VERSION, fc_network = network_name (cl_network cli), fc_master = m,
       fc_symbol = pl_symbol (ex_plan X), fc_initial_szi = pp_current_szi p, fc_close_side = pl_side (ex_plan X),
       fc_max_close_size = pl_total_adjusted (ex_plan X), fc_max_notional_usd = pl_max_notional_usd (ex_plan X),
       fc_child_algo = child_algo_name (pl_child_algo (ex_plan X)), fc_deadline_unix_ms = dl\<rparr>)"
  using assms(2,3,4)
proof (rule prepare_fresh)
  fix snap w1 position w2 z plan dl op
  assume ps: "position_stage L E K cli ss None (sn_mid snap) w1 = (Inr (Inr position), w2)"
    and z: "size_run (lb_dec L) cli ss position snap = Inr z"
    and dl: "dl = fixed_deadline cli (wall_clock_now_ms E w2)"
    and plan: "plan = original_plan cli (cl_symbol cli) (sd_side z) (am_asset_index (ss_asset ss)) (am_sz_decimals (ss_asset ss))
       (sd_sizing z) (sd_total_coin z) (Some dl) (sd_cap z) position (ry_agent (ss_ready ss)) (ss_master ss)"
    and j: "start_journal (lb_dec L) E K cli plan
       (execution_fingerprint (lb_dec L) (cl_network cli) plan position cli (Some (sn_mid snap))) w2 = (Inr op, w')"
    and X: "X = execution_of K cli ss None position (sn_mid snap) z plan op"
  have "position_mode_requested cli" using assms(5) by (simp add: position_mode_requested_def)
  with ps obtain m pos p v ph rest t where m: "ss_master ss = Some m" "(t, EvPosition m (cl_symbol cli) (Inr pos)) \<in> set (w_trace v)"
    and fp: "fresh_position_plan (lb_dec L) cli pos (cl_symbol cli) (sn_mid snap) (am_sz_decimals (ss_asset ss)) = Inr p"
    and p: "position = Some p" "pp_phases p = ph # rest"
    and cf: "confirm_flatten L E K cli None m p v = (Inr (Inr ()), w2)"
    by (rule position_stage_Inr)
  from cf assms(5,3) obtain ph' d where c: "first_phase p = Some ph'" "cl_flatten_deadline_unix_ms cli = Some d" "w2 = v"
    "wall_clock_now_ms E v < d" "cl_confirm_flatten cli = Some (confirmation_token L (se_keccak K) (confirmation_of cli m p ph' d))"
    by (rule confirm_flatten_Inr)
  have ph': "ph' = ph" using c(1) p(2) by (simp add: first_phase_def first_opt_def)
  have d: "dl = d" using c(2) by (simp add: dl fixed_deadline_def unwrap_or_def)
  from fp assms(5) have "flatten_plan (lb_dec L) pos (cl_symbol cli) (am_sz_decimals (ss_asset ss)) = Inr p"
    by (simp add: fresh_position_plan_def)
  note fl = decimal_crate.flatten_phase [OF assms(1) this p(2)]
  note sz = size_run_first_phase [OF z [unfolded p(1)] c(1) [unfolded ph'] assms(3)]
  have keep: "e \<in> set (w_trace w')" if "e \<in> set (w_trace v)" for e
    using logged.start_journal_keeps [of e v "lb_dec L" E K cli plan] that j c(3) by (metis snd_conv)
  have "confirmation_of cli m p ph dl = \<lparr>fc_schema_version = FLATTEN_SCHEMA_VERSION, fc_network = network_name (cl_network cli), fc_master = m,
       fc_symbol = pl_symbol plan, fc_initial_szi = pp_current_szi p, fc_close_side = pl_side plan,
       fc_max_close_size = pl_total_adjusted plan, fc_max_notional_usd = pl_max_notional_usd plan,
       fc_child_algo = child_algo_name (pl_child_algo plan), fc_deadline_unix_ms = dl\<rparr>"
    by (simp add: confirmation_of_def plan original_plan_def sz unwrap_or_def)
  moreover have "pl_reduce_only plan" "pl_total_adjusted plan = ph_size ph" "pl_side plan = ph_side ph"
    "pl_absolute_deadline_unix_ms plan = Some dl"
    using fl(4) by (simp_all add: plan original_plan_def p sz)
  moreover have "ex_plan X = plan" "ex_position X = Some p" by (simp_all add: X execution_of_def p)
  ultimately show ?thesis
    using m(1) keep [OF m(2)] fl(2,3,6) c(4,5) d ph'
    by (rule_tac exI [of _ m], rule_tac exI [of _ p], rule_tac exI [of _ pos], rule_tac exI [of _ t],
        rule_tac exI [of _ dl], rule_tac exI [of _ v]) simp
qed
section \<open>A flatten of two coins\<close>

definition flatten_cli :: cli where
  "flatten_cli =
     session_cli\<lparr>cl_side := None, cl_size := None, cl_flatten := True, cl_flatten_deadline_unix_ms := Some 60000,
                 cl_confirm_flatten := Some ''flatten-v1-3f''\<rparr>"

definition flatten_env :: env where
  "flatten_env =
     (scripted_env two_fills True None)\<lparr>e_position := \<lambda>w u s. (Inr \<lparr>sp_symbol = s, sp_szi = 2\<rparr>, 1000000)\<rparr>"

definition close_two :: position_plan where
  "close_two =
     \<lparr>pp_symbol = ''BTC'', pp_current_szi = 2, pp_target_szi = 0,
      pp_phases = [\<lparr>ph_kind = Adjust, ph_side = Short, ph_size = 2, ph_reduce_only = True\<rparr>]\<rparr>"

lemma flatten_fields:
  "cl_symbol flatten_cli = ''BTC''" "cl_size flatten_cli = None" "cl_usd flatten_cli = None"
  "cl_slices flatten_cli = 2" "cl_slippage_bps flatten_cli = 50" "cl_max_book_age_ms flatten_cli = 0"
  "cl_max_notional_usd flatten_cli = Some 1000" "cl_child_algo flatten_cli = Market" "cl_resume flatten_cli = None"
  "cl_flatten_deadline_unix_ms flatten_cli = Some 60000" "\<not> cl_abandon_incomplete_run flatten_cli"
  "\<not> is_read_only flatten_cli" "position_mode_requested flatten_cli" "cl_flatten flatten_cli" "is_live flatten_cli"
  "cl_confirm_flatten flatten_cli = Some ''flatten-v1-3f''"
  "tc_price (trigger_config_of flatten_cli) = None" "tc_start_after (trigger_config_of flatten_cli) = None"
  by (simp_all add: flatten_cli_def session_cli_def demo_cli_def is_read_only_def position_mode_requested_def
      trigger_config_of_def is_live_def)

lemma flatten_env_simps:
  "e_wall flatten_env w = Some (of_nat (as_millis (w_now w)))" "e_record flatten_env w r = (True, 0)"
  "se_start demo_desk w = Inr ()"
  by (simp_all add: flatten_env_def scripted_env_simps demo_desk_def)

lemma flatten_market:
  "\<exists>w1. market_stage exact_dec flatten_env flatten_cli world_init = Some (Inr (Inr session_snapshot), w1) \<and> w_now w1 = 2000000"
  by (simp add: market_stage_def initial_book_def flatten_fields is_time_only_def try_o_def run_o_def bind_o_def
      flatten_env_def wait_for_trigger_def is_immediate_def sizing_snapshot_def skew_gate_def check_clock_skew_def
      map_err_def and_then_def wrapping_abs_i64_def MAX_CLOCK_SKEW_MS_def run_eval run_defs session_snapshot_def
      cong: try_w_cong_weak)

lemma flatten_token: "confirmation_token session_libs (\<lambda>bs. bs) c = ''flatten-v1-3f''"
proof -
  have "hex_encode (string_bytes ''?'') = ''3f''" by code_simp
  then show ?thesis by (simp add: confirmation_token_def session_libs_def session_json_def)
qed

lemma flatten_numbers:
  "quantize_toward_zero exact_dec 2 2 = 2" "quantize_toward_zero exact_dec 0 2 = 0" "d_checked_mul exact_dec 2 (199 / 2) = Some 199"
  "checked (- 2) = Some (- 2)" "checked 2 = Some 2" "checked 198 = Some 198" "checked 199 = Some 199" "taker_limit_price exact_dec 99 100 Short 50 2 = 19701 / 200"
  by code_simp+

lemma flatten_position:
  assumes "w_now w = 2000000"
  shows "\<exists>w2. position_stage session_libs flatten_env demo_desk flatten_cli demo_session None (199 / 2) w = (Inr (Inr (Some close_two)), w2) \<and>
     w_now w2 = w_now w + 1000000"
proof -
  have p: "fresh_position_plan exact_dec flatten_cli \<lparr>sp_symbol = ''BTC'', sp_szi = 2\<rparr> ''BTC'' (199 / 2) 2 = Inr close_two"
    by (simp add: fresh_position_plan_def flatten_fields flatten_plan_def target_size_def flatten_numbers Let_def
        phases_for_def side_for_delta_def close_two_def)
  have sized: "size_phases exact_dec flatten_cli demo_session (199 / 2) close_two = Inr ()"
    by (simp add: size_phases_def close_two_def execution_sizing_def compute_sizing_def flatten_fields session_parts
        session_numbers MIN_NOTIONAL_USD_def Let_def and_then_def map_err_def)
  have confirmed: "confirm_flatten session_libs flatten_env demo_desk flatten_cli None ''0xm'' close_two v = (Inr (Inr ()), v)"
    if "w_now v = 3000000" for v
    using that flatten_token
    by (simp add: confirm_flatten_def flatten_fields resumed_frozen_def unwrap_or_def first_phase_def first_opt_def
        close_two_def ok_or_def try_w_simps confirmation_deadline_def wall_clock_now_ms_def flatten_env_def
        scripted_env_simps as_millis_def ns_per_ms_def demo_desk_def)
  have h: "\<not> is_hip3 ''BTC''" by code_simp
  obtain v where f: "fetch_perp_position flatten_env ''0xm'' ''BTC'' w = (Inr \<lparr>sp_symbol = ''BTC'', sp_szi = 2\<rparr>, v)"
    and v: "w_now v = 3000000"
    using assms by (simp add: fetch_perp_position_def flatten_env_def elapse_def log_event_def)
  have s: "screen_position session_libs flatten_env demo_desk flatten_cli demo_session None (199 / 2) ''0xm'' close_two v
      = (Inr (Inr close_two), v)"
    using sized confirmed [OF v]
    by (simp add: screen_position_def close_two_def session_lib_fields flatten_numbers ok_or_def try_w_simps goes_on_def
        MIN_NOTIONAL_USD_def flatten_fields)
  show ?thesis
    using v assms
    by (simp add: position_stage_def flatten_fields h session_parts session_lib_fields f ok_or_def try_w_simps err_w_def map_err_def
        plan_position_def p goes_on_def s)
qed

lemma flatten_size:
  "\<exists>z. size_run exact_dec flatten_cli demo_session (Some close_two) session_snapshot = Inr z"
  by (simp add: size_run_def trade_side_def flatten_fields session_parts trade_quantity_def first_phase_def first_opt_def
      close_two_def and_then_def map_err_def execution_sizing_def compute_sizing_def preflight_notional_def
      validate_max_notional_required_def conservative_price_def preflight_cap_price_def session_snapshot_def
      ok_or_def unwrap_or_def validate_limit_price_def check_notional_cap_def MIN_NOTIONAL_USD_def
      Let_def is_ok_def flatten_numbers session_numbers)

lemma flatten_prepared:
  "\<exists>X w'. prepare session_libs flatten_env start_host demo_desk flatten_cli demo_session world_init = Some (Inr (Inr X), w')"
proof -
  obtain w1 where m: "market_stage exact_dec flatten_env flatten_cli world_init = Some (Inr (Inr session_snapshot), w1)"
    "w_now w1 = 2000000" using flatten_market by blast
  obtain w2 where p: "position_stage session_libs flatten_env demo_desk flatten_cli demo_session None (199 / 2) w1 =
      (Inr (Inr (Some close_two)), w2)" "w_now w2 = 3000000"
    using flatten_position [OF m(2)] m(2) by auto
  obtain z where z: "size_run exact_dec flatten_cli demo_session (Some close_two) session_snapshot = Inr z"
    using flatten_size by blast
  have e: "earlier_run exact_dec flatten_env start_host demo_desk flatten_cli demo_session world_init
      = (Inr (Inr None), world_init)"
    by (simp add: earlier_run_def flatten_fields)
  have mid: "sn_mid session_snapshot = 199 / 2" by (simp add: session_snapshot_def)
  show ?thesis
    by (simp add: prepare_def session_lib_fields e m(1) try_o_def bind_o_def plan_stage_def goes_on_def p(1) mid z
        plan_of_run_def deadline_of_run_def flatten_fields and_then_def resumed_frozen_def fingerprint_of_run_def
        open_journal_def start_journal_def original_plan_def fixed_deadline_def unwrap_or_def try_w_simps
        continue_resumed_def execution_of_def flatten_env_simps wall_clock_now_ms_def
        as_millis_def ns_per_ms_def p(2) record_durable_def Let_def)
qed

theorem flatten_executes_confirmation_witness:
  "\<exists>X w'. prepare session_libs flatten_env start_host demo_desk flatten_cli demo_session world_init = Some (Inr (Inr X), w') \<and>
     (\<exists>t pos. (t, EvPosition ''0xm'' ''BTC'' (Inr pos)) \<in> set (w_trace w')) \<and> pl_reduce_only (ex_plan X) \<and>
     pl_absolute_deadline_unix_ms (ex_plan X) = Some 60000"
proof -
  obtain X w' where p: "prepare session_libs flatten_env start_host demo_desk flatten_cli demo_session world_init = Some (Inr (Inr X), w')"
    using flatten_prepared by blast
  have "decimal_crate (lb_dec session_libs)" by (simp add: session_lib_fields exact.decimal_crate_axioms)
  from flatten_executes_confirmation [OF this p flatten_fields(15,9,14)] obtain t pos where
    "(t, EvPosition ''0xm'' ''BTC'' (Inr pos)) \<in> set (w_trace w')" "pl_reduce_only (ex_plan X)"
    by (auto simp: session_parts flatten_fields)
  moreover have "pl_absolute_deadline_unix_ms (ex_plan X) = Some 60000"
    using p flatten_fields(15,9) by (rule prepare_fresh)
      (simp add: execution_of_def original_plan_def fixed_deadline_def flatten_fields unwrap_or_def)
  ultimately show ?thesis using p by blast
qed

end
