(* ===== verification/Preflight_Props.thy ===== *)
theory Preflight_Props
  imports Flatten_Props
begin

text \<open>
  Abandoning an incomplete run: the process resolves what the run left open, closes its journal for good, and
  the gate of the next start no longer holds the run against it.
\<close>

section \<open>A journal that is closed by an operator\<close>

lemma replay_record_terminal_open:
  assumes "replay_record D ord st (n, Terminal i c s f a) = Inr st'"
  shows "\<not> rs_completed st'" and "\<not> rs_abandoned st'"
proof -
  from assms have "\<not> rs_completed st" "\<not> rs_abandoned st" by (auto simp: replay_record_def split: if_splits)
  moreover from assms have "rs_completed st' = rs_completed st \<and> rs_abandoned st' = rs_abandoned st"
    by (auto simp: replay_record_def replay_terminal_def Let_def and_then_Inr split: if_splits option.splits prod.splits)
  ultimately show "\<not> rs_completed st'" "\<not> rs_abandoned st'" by simp_all
qed

text \<open>Terminal records after an open journal leave it open.\<close>

lemma replay_terminals_open:
  assumes "replay D ord rs = Inr v" and "is_incomplete (vr_summary v)" and "replay D ord (rs @ ts) = Inr v'"
    and "\<forall>r\<in>set ts. \<exists>i c s f a. r = Terminal i c s f a"
  obtains st where "replay_loop D ord (rs @ ts) = Inr st" and "\<not> rs_completed st" and "\<not> rs_abandoned st"
proof -
  from replay_Inr [OF assms(1)] obtain st totals vwap where st: "replay_loop D ord rs = Inr st" "replay_inv D st"
    and v: "v = \<lparr>vr_summary = (rs_summary st)\<lparr>su_abandoned := rs_abandoned st, su_cloids := final_cloids st\<rparr>,
          vr_fill_totals = totals, vr_max_notional = rs_max_notional st, vr_vwap = vwap,
          vr_prepared = rs_prepared st\<rparr>" by blast
  from replay_Inr [OF assms(3)] obtain st' where st': "replay_loop D ord (rs @ ts) = Inr st'" by blast
  show thesis
  proof (cases ts rule: rev_cases)
    case Nil
    have "list_ex (\<lambda>(_, s). \<not> is_terminal_state s) (final_cloids st) \<longleftrightarrow> rs_unresolved st \<noteq> []"
      using final_cloids_unresolved [OF st(2), symmetric] by (auto simp: list_ex_iff filter_empty_conv)
    with assms(2) st(2) have "\<not> rs_completed st \<and> \<not> rs_abandoned st"
      by (auto simp: v is_incomplete_def replay_inv_def split: if_splits)
    with that [of st] st(1) Nil show thesis by simp
  next
    case (snoc us u)
    with assms(4) obtain i c s f a where u: "u = Terminal i c s f a" by auto
    from st' obtain st1 where "replay_record D ord st1 (length (rs @ us), u) = Inr st'"
      unfolding snoc append_assoc [symmetric] replay_loop_append [of _ _ "rs @ us" "[u]"] by (auto simp: and_then_Inr)
    from replay_record_terminal_open [OF this [unfolded u]] that [OF st'] show thesis by blast
  qed
qed

lemma replay_closed:
  assumes "replay D ord rs = Inr v" and "replay_loop D ord rs = Inr st" and "\<not> rs_completed st" and "\<not> rs_abandoned st"
    and "unresolved_cloids (vr_summary v) = []"
  shows "\<exists>v'. replay D ord (rs @ [Abandoned note]) = Inr v' \<and> su_abandoned (vr_summary v') \<and> unresolved_cloids (vr_summary v') = []"
proof -
  from replay_Inr [OF assms(1)] assms(2) obtain totals vwap where c: "rs \<noteq> []" "is_header (hd rs)"
    "calculate_totals D ord (rs_fills st) = Inr (totals, vwap)" "replay_inv D st"
    and v: "vr_summary v = (rs_summary st)\<lparr>su_abandoned := rs_abandoned st, su_cloids := final_cloids st\<rparr>" by auto
  have un: "rs_unresolved st = []"
    using assms(5) final_cloids_unresolved [OF c(4)] by (simp add: unresolved_cloids_def v)
  have l: "replay_loop D ord (rs @ [Abandoned note]) = Inr (st\<lparr>rs_abandoned := True\<rparr>)"
    using assms(2-4) un by (simp add: replay_loop_append replay_record_def replay_abandoned_def)
  obtain r q where rq: "rs @ [Abandoned note] = r # q" "is_header r" using c(1,2) by (cases rs) auto
  have f: "final_cloids (st\<lparr>rs_abandoned := True\<rparr>) = final_cloids st" by (simp add: final_cloids_def)
  from l rq c(3) assms(5) show ?thesis by (simp add: replay_def f v unresolved_cloids_def)
qed

section \<open>Abandoning a run\<close>

lemma record_report_Inr:
  "record_report E r w = (Inr u, w') \<Longrightarrow> record_durable E r w = (True, w') \<and> w_journal w' = w_journal w @ [r]"
  by (auto simp: record_report_def record_durable_def Let_def log_event_def split: prod.splits if_splits)

lemma emit_report_Inr: "emit_report K cli w = (Inr u, w') \<Longrightarrow> w' = w"
  by (simp add: emit_report_def)

lemma resolved_by_terminal: "resolved_by D P c r \<Longrightarrow> \<exists>i c s f a. r = Terminal i c s f a"
  unfolding resolved_by_def resolution_def by fast

lemma abandon_run_Inr:
  assumes "abandon_run D E S K cli ss w = (Inr code, w')" and "\<And>v. e_read_journal E v = Inr (w_journal v)"
  obtains run_id v where "find_run D S cli (ry_state_dir (ss_ready ss)) (w_now w) (ry_agent (ss_ready ss)) = Inr (Some run_id)"
    and "reconcile_incomplete_run D E (reconcile_plan D cli ss) w = (Inr (), v)"
    and "w_journal w' = w_journal v @ [Abandoned (abandon_note run_id)]" and "code = 0"
proof -
  from assms(1) obtain run_id v where f: "find_run D S cli (ry_state_dir (ss_ready ss)) (w_now w) (ry_agent (ss_ready ss)) = Inr (Some run_id)"
    and r: "reconcile_or_refuse D E K cli ss run_id ''abandon reconciliation failed: '' w = (Inr (), v)"
    and c: "\<exists>v1. record_report E (Abandoned (abandon_note run_id)) v = (Inr (), v1) \<and> emit_report K cli v1 = (Inr (), w')" "code = 0"
    by (auto simp: abandon_run_def try_w_Inr)
  from r have "reconcile_incomplete_run D E (reconcile_plan D cli ss) w = (Inr (), v)"
    by (auto simp: reconcile_or_refuse_def durable_refusal_def try_w_Inr split: prod.splits sum.splits)
  with that f c show ?thesis by (auto dest!: record_report_Inr emit_report_Inr)
qed

text \<open>C18: abandoning an incomplete run settles it: when it succeeds, nothing was sent, the journal of the run has
  grown by exactly one terminal record per order that it had left open, within that order's intent, and by the
  operator's note as its last record; the journal still replays, with nothing unresolved and abandoned, so
  that no later start finds it incomplete. The only other outcome of the replay is an overflow of the
  accounting.\<close>

theorem abandon_settles_run:
  assumes "decimal_text D" and "\<And>v. e_read_journal E v = Inr (w_journal v)"
    and "abandon_run D E S K cli ss w = (Inr code, w')"
    and "replay D (e_order E) (w_journal w) = Inr rep" and "is_incomplete (vr_summary rep)"
  shows "code = 0 \<and> quiet_after w w' \<and>
    (\<exists>run_id ts. find_run D S cli (ry_state_dir (ss_ready ss)) (w_now w) (ry_agent (ss_ready ss)) = Inr (Some run_id) \<and>
       w_journal w' = w_journal w @ ts @ [Abandoned (abandon_note run_id)] \<and>
       list_all2 (resolved_by D (vr_prepared rep)) (unresolved_cloids (vr_summary rep)) ts \<and>
       ((\<exists>rep'. replay D (e_order E) (w_journal w') = Inr rep' \<and> unresolved_cloids (vr_summary rep') = [] \<and>
           su_abandoned (vr_summary rep') \<and> \<not> is_incomplete (vr_summary rep')) \<or>
        (\<exists>e. replay D (e_order E) (w_journal w @ ts) = Inl e \<and> is_overflow e)))"
  using assms(3,2)
proof (rule abandon_run_Inr)
  fix run_id v
  assume f: "find_run D S cli (ry_state_dir (ss_ready ss)) (w_now w) (ry_agent (ss_ready ss)) = Inr (Some run_id)"
    and r: "reconcile_incomplete_run D E (reconcile_plan D cli ss) w = (Inr (), v)"
    and j: "w_journal w' = w_journal v @ [Abandoned (abandon_note run_id)]" and c: "code = 0"
  from resume_resolution [OF assms(1,2) r] assms(4) obtain ts where ts: "w_journal v = w_journal w @ ts"
    "list_all2 (resolved_by D (vr_prepared rep)) (unresolved_cloids (vr_summary rep)) ts"
    and o: "(\<exists>rep'. replay D (e_order E) (w_journal v) = Inr rep' \<and> unresolved_cloids (vr_summary rep') = []) \<or>
       (\<exists>e. replay D (e_order E) (w_journal v) = Inl e \<and> is_overflow e)" by auto
  have q: "quiet_after w w'" using quiet.abandon_run_keeps [of w w D E S K cli ss] assms(3) by simp
  have "\<exists>rep'. replay D (e_order E) (w_journal w') = Inr rep' \<and> unresolved_cloids (vr_summary rep') = [] \<and>
      su_abandoned (vr_summary rep') \<and> \<not> is_incomplete (vr_summary rep')"
    if v: "replay D (e_order E) (w_journal v) = Inr rep'" "unresolved_cloids (vr_summary rep') = []" for rep'
  proof -
    have "\<forall>r\<in>set ts. \<exists>i c s f a. r = Terminal i c s f a"
      using ts(2) by (auto simp: list_all2_conv_all_nth in_set_conv_nth) (metis resolved_by_terminal)
    with assms(4,5) v(1) obtain st where "replay_loop D (e_order E) (w_journal v) = Inr st" "\<not> rs_completed st" "\<not> rs_abandoned st"
      unfolding ts(1) by (rule replay_terminals_open)
    from replay_closed [OF v(1) this v(2)] show ?thesis by (auto simp: j is_incomplete_def)
  qed
  with o ts c f q j show ?thesis by (metis append_assoc)
qed

definition stopped_journal :: "journal_record list" where
  "stopped_journal =
     [Header (demo_header\<lparr>rh_network := ''testnet'', rh_agent := Some ''0xA'', rh_master := Some ''0xm'', rh_symbol := ''BTC'',
                          rh_side := Long\<rparr>),
      Prepared 1 7 None ''BTC'' Long (Some Ioc) ''62'' ''5'', SubmittedUnknown 1 7]"

definition stopped_host :: host where
  "stopped_host = start_host\<lparr>sy_runs := \<lambda>dir now. Inr [(Some ''run-1'', Inr stopped_journal)]\<rparr>"

lemma stopped_replay:
  "\<exists>rep. replay exact_dec (\<lambda>xs. xs) stopped_journal = Inr rep \<and> is_incomplete (vr_summary rep) \<and>
     unresolved_cloids (vr_summary rep) = [7] \<and> su_header (vr_summary rep) = Some (demo_header\<lparr>rh_network := ''testnet'', rh_agent := Some ''0xA'', rh_master := Some ''0xm'',
       rh_symbol := ''BTC'', rh_side := Long\<rparr>)"
  by (simp add: stopped_journal_def replay_eval replay_submitted_def ok_or_def is_incomplete_def unresolved_cloids_def)

lemma stopped_found: "find_run exact_dec stopped_host session_cli d t (Some ''0xA'') = Inr (Some ''run-1'')"
proof -
  have "run_key (demo_header\<lparr>rh_network := ''testnet'', rh_agent := Some ''0xA'', rh_master := Some ''0xm'',
       rh_symbol := ''BTC'', rh_side := Long\<rparr>) = ''testnet:0xA''"
    by (simp add: run_key_def)
  with stopped_replay show ?thesis
    by (auto simp: find_run_def stopped_host_def start_host_def run_key_of_def session_fields unwrap_or_def and_then_def)
qed

lemma demo_abandon:
  "\<exists>w'. abandon_run exact_dec (scripted_env late_fill True None) stopped_host demo_desk session_cli demo_session
     (world_init\<lparr>w_journal := stopped_journal\<rparr>) = (Inr 0, w')"
proof -
  let ?E = "scripted_env late_fill True None" and ?w = "world_init\<lparr>w_journal := stopped_journal\<rparr>"
  have side: "ordinary_side session_cli = Some Long"
    by (simp add: ordinary_side_def session_fields cli_side_def unwrap_or_def)
  have v: "\<exists>rep. resume_replay exact_dec ?E session_cli demo_session ''run-1'' ?w = Inr rep"
    by (simp add: resume_replay_def validated_resume_replay_def scripted_env_simps stopped_journal_def replay_eval replay_submitted_def ok_or_def
       session_parts session_fields identity_mismatches_def changed_def no_mismatch_def prepared_mismatches_def map_err_def and_then_def
       side check_def)
  obtain u v where r: "reconcile_incomplete_run exact_dec ?E (reconcile_plan exact_dec session_cli demo_session) ?w = (Inr u, v)"
    by (simp add: reconcile_incomplete_run_def run_eval stopped_journal_def late_fill_def replay_eval reconcile_plan_def
      replay_submitted_def map_err_def unresolved_cloids_def resume_one_def resume_intent_of_def
      reconcile_unresolved_cloid_def resume_reconcile_def resume_credit_def journaled_def as_order_intent_def
      filled_terminal os_is_terminal_def session_parts session_fields cong: try_w_cong_weak)
  have "reconcile_or_refuse exact_dec ?E demo_desk session_cli demo_session ''run-1'' n ?w = (Inr (), v)" for n
    using v by (auto simp: reconcile_or_refuse_def try_w_simps demo_desk_def scripted_env_simps r)
  then show ?thesis
    by (simp add: abandon_run_def stopped_found session_parts map_err_def try_w_simps ok_or_def record_report_def record_durable_def
        scripted_env_simps Let_def check_def emit_report_def session_fields)
qed

theorem abandon_settles_run_witness:
  "\<exists>w' ts. abandon_run exact_dec (scripted_env late_fill True None) stopped_host demo_desk session_cli demo_session
       (world_init\<lparr>w_journal := stopped_journal\<rparr>) = (Inr 0, w') \<and>
     w_journal w' = stopped_journal @ ts @ [Abandoned (abandon_note ''run-1'')] \<and> length ts = 1"
proof -
  let ?E = "scripted_env late_fill True None" and ?w = "world_init\<lparr>w_journal := stopped_journal\<rparr>"
  obtain w' where a: "abandon_run exact_dec ?E stopped_host demo_desk session_cli demo_session ?w = (Inr 0, w')"
    using demo_abandon by blast
  obtain rep where r: "replay exact_dec (e_order ?E) (w_journal ?w) = Inr rep" "is_incomplete (vr_summary rep)"
    "unresolved_cloids (vr_summary rep) = [7]"
    using stopped_replay by (auto simp: scripted_env_def scripted_def)
  obtain run_id ts where
    f: "find_run exact_dec stopped_host session_cli (ry_state_dir (ss_ready demo_session)) (w_now ?w) (ry_agent (ss_ready demo_session)) = Inr (Some run_id)"
    and j: "w_journal w' = w_journal ?w @ ts @ [Abandoned (abandon_note run_id)]"
    and l: "list_all2 (resolved_by exact_dec (vr_prepared rep)) (unresolved_cloids (vr_summary rep)) ts"
    using abandon_settles_run [OF exact_text.decimal_text_axioms _ a r(1,2)] by (auto simp: scripted_env_simps)
  from f stopped_found have "run_id = ''run-1''" by (simp add: session_parts)
  moreover have "length ts = 1" using l r(3) by (auto dest: list_all2_lengthD)
  ultimately show ?thesis using a j by auto
qed

end
