(* ===== verification/Spec2Isabelle.thy ===== *)
theory Spec2Isabelle
  imports Fingerprint Journal_File Nonce Position Risk Resend Run_Bounds Run_Closes Resume_Props Execute_Props
    Metrics_Facts Client_Facts Reports_Facts Preflight_Props
begin

text \<open>
  A verification development for \<open>hype-trigger-twap\<close>, a Rust command-line executor of time-weighted
  average price orders on the Hyperliquid exchange (paths below are relative to \<open>src/\<close> of the repository).

  \<^bold>\<open>The program.\<close> The process validates its options (\<open>main.rs\<close>, \<open>risk.rs\<close>), takes one
  writer lock per network and agent (\<open>lock.rs\<close>), refuses to start beside an incomplete run or reconciles
  the one it is told to resume (\<open>journal.rs\<close>, \<open>main.rs\<close>), waits for a trigger (\<open>trigger.rs\<close>), fixes
  the size of the run or the phases that lead to a position target (\<open>twap.rs\<close>, \<open>position.rs\<close>), and
  executes slice by slice (\<open>twap.rs\<close>). It talks to the exchange through the trait of \<open>api.rs\<close>, implemented
  by \<open>client.rs\<close> over HTTP with the signed actions of \<open>eip712.rs\<close> and \<open>signer.rs\<close>. Each order is
  recorded in an append-only journal before it is sent and closed there by a terminal record. Metrics, alerts
  and an event log are projected from the durable records (\<open>observability.rs\<close>), and a second binary
  reports on journals (\<open>run_reports.rs\<close>).

  \<^bold>\<open>The theories, bottom up.\<close>
  \<^item> \<open>Prelude\<close>, \<open>Decimal_Lib\<close>, \<open>Decimal_Text\<close>: words, saturating \<open>u64\<close> arithmetic, ASCII strings,
    sums and sortedness; the interface to \<open>rust_decimal\<close> and the law that printing and parsing agree.
  \<^item> \<open>Types\<close>, \<open>Format\<close>, \<open>Risk\<close>, \<open>Sizing\<close>, \<open>Position\<close>: \<open>types.rs\<close>, \<open>errors.rs\<close>, \<open>format.rs\<close>,
    \<open>risk.rs\<close>, the pure half of \<open>twap.rs\<close>, and \<open>position.rs\<close>. They show on which grid prices and sizes
    lie, in which direction they are rounded, and that the phases of a position plan end on its target.
  \<^item> \<open>Market\<close>, \<open>Wire\<close>: what a response must satisfy before the program uses it, and how a response text
    becomes a value (\<open>client.rs\<close>, \<open>types.rs\<close>).
  \<^item> \<open>Journal\<close>, \<open>Fingerprint\<close>, \<open>Replay\<close>, \<open>Replay_Facts\<close>, \<open>Journal_File\<close>: \<open>journal.rs\<close>. The
    records, the one fail-closed interpretation of them, its invariant and accounting, and the file with its
    torn tail.
  \<^item> \<open>Nonce\<close>: \<open>lock.rs\<close> and the nonce counter of \<open>client.rs\<close>.
  \<^item> \<open>World\<close>, \<open>Settle\<close>, \<open>Settle_Facts\<close>, \<open>Place\<close>, \<open>Place_Facts\<close>, \<open>Follow\<close>, \<open>Run\<close>: the executor of
    \<open>twap.rs\<close>, from one call to the whole run. \<open>Scripts\<close> and \<open>Run_Scripts\<close> hold concrete environments.
    \<open>Resend\<close>, \<open>Run_Safety\<close>, \<open>Run_Ledger\<close>, \<open>Run_Bounds\<close>, \<open>Run_Closes\<close> hold what a run guarantees:
    which sends are allowed, when an order is resent, how much is credited, that every intent is closed,
    and that the run returns.
  \<^item> \<open>Trigger\<close>, \<open>Cli\<close>: \<open>trigger.rs\<close> and the option handling of \<open>main.rs\<close>.
  \<^item> \<open>Resume\<close>, \<open>Resume_Check\<close>, \<open>Resume_Facts\<close>, \<open>Resume_Props\<close>: the checks of a resumed process and the
    reconciliation of the orders that an earlier process left unresolved.
  \<^item> \<open>Execute\<close>, \<open>Execute_Facts\<close>, \<open>Execute_Props\<close>: the stage of \<open>run_with_cli\<close> that executes the phases
    and verifies the position at the end.
  \<^item> \<open>Signing\<close>, \<open>Signing_Facts\<close>, \<open>Client\<close>, \<open>Client_Facts\<close>: actions, what a signature covers, the POSTs of
    each operation; \<open>client_env\<close> puts the real client behind the interface of \<open>World\<close>, so that the
    guarantees of a run hold of the POSTs.
  \<^item> \<open>Events\<close>, \<open>Events_Facts\<close>, \<open>Metrics\<close>, \<open>Metrics_Facts\<close>: \<open>observability.rs\<close>.
  \<^item> \<open>Run_Reports\<close>, \<open>Reports_Facts\<close>: \<open>run_reports.rs\<close> and \<open>bin/hype-twap-runs.rs\<close>.
  \<^item> \<open>Startup\<close>, \<open>Preflight\<close>, \<open>Prepare\<close>, \<open>Barrier\<close>: the rest of \<open>run_with_cli\<close> in the order of the code. The
    gates before the first request, the registration of the agent, reconciling or abandoning an earlier run, a
    resume after its deadline, the trigger and the snapshot, the position plan with the confirmation of a
    flatten, sizing and the cap, the plan with its deadline and fingerprint, the journal, the barrier of a pair,
    and last the exit code. \<open>Startup_Facts\<close>, \<open>Session_Facts\<close>, \<open>Session_Props\<close>, \<open>Process_Props\<close>,
    \<open>Flatten_Props\<close> and \<open>Preflight_Props\<close> hold what a whole process guarantees, from its first line to the
    POSTs it makes: what is sent and behind which gates, that it ends, what its journal says of it, and that a
    flatten executes what was confirmed. \<open>Session_Scripts\<close> runs a live session over the real client.

  \<^bold>\<open>State and environment.\<close> A \<open>world\<close> is the monotonic clock, the trace of calls with their answers
  and instants, and the durable journal. The environment \<open>env\<close> answers every call as a function of the
  whole world and with a latency of its choice, so a theorem over all \<open>E\<close> covers every exchange, network,
  disk and shutdown behaviour. Asynchronous code is sequential between two calls, and computation takes no
  time. Errors are sums: \<open>Inl\<close> the error, \<open>Inr\<close> the value; the texts of messages keep their constant parts,
  except where the program itself inspects a text.

  \<^bold>\<open>Interfaces.\<close> \<open>decimal_crate\<close> and \<open>decimal_text\<close> state what the code relies on of
  \<open>rust_decimal\<close>, \<open>uuid_text\<close> what it relies on of \<open>uuid\<close>; each is interpreted on an
  executable instance. What signing relies on of msgpack is \<open>self_delimiting\<close>, which
  \<open>simple_pack\<close> satisfies. \<open>guarded_sends\<close> and \<open>run_ledger\<close> are the contracts of the safety
  and of the accounting proofs: a predicate kept by each operation is lifted to a whole run once, and the
  properties are interpretations of the contract.

  \<^bold>\<open>Numbers.\<close> A \<open>Decimal\<close> is the rational it denotes; what rounds, overflows, parses or prints is a
  field of the parameter \<open>D\<close>. \<open>u64\<close>, \<open>i64\<close> and \<open>u32\<close> values are words where the code treats their
  overflow, naturals or integers otherwise. An \<open>Instant\<close> or \<open>Duration\<close> is a natural number of nanoseconds.
  Strings are ASCII. A struct is decoded from a JSON object; its form as a sequence of fields, which serde
  reads too, is modelled for the start file only, as no client writes the others.

  \<^bold>\<open>Loops.\<close> A loop with a retry budget recurses on the attempts that are left: the code's own constants
  (\<open>RETRY_BACKOFF\<close>, \<open>STALE_BOOK_RETRIES\<close>, the resend limit) or its options are the bounds, and no fuel
  is added. The two loops without a budget, the re-quoting loop and the trigger wait, are partial functions
  whose value is \<open>None\<close> if they do not end; \<open>run_returns\<close> and \<open>process_returns\<close> show that they do. The
  wait for the start file of a pair ends by the timeout of the barrier.

  \<^bold>\<open>Parameters.\<close> \<open>D\<close> (\<open>rust_decimal\<close>), \<open>J\<close> (\<open>serde_json\<close>), \<open>Q\<close> and \<open>U\<close> (\<open>uuid\<close>), \<open>P\<close>
  (msgpack), \<open>H\<close> and \<open>S\<close> (keccak and secp256k1), \<open>we_net\<close> (\<open>reqwest\<close> and the network), \<open>url_host\<close>
  (URL parsing), \<open>host\<close> (environment variables, the key parser, the journals on disk, the locks held),
  \<open>desk\<close> (opening and creating a journal, the report file, run ids, hashes), \<open>pair_host\<close> (the files of the
  barrier), \<open>io\<close> (whether a write of the event log succeeds), \<open>CH\<close> (the alert channel, \<open>tokio::sync::mpsc\<close>), \<open>ord\<close> (the iteration order of a hash
  map).

  \<^bold>\<open>Not modelled.\<close> Argument parsing and help texts (\<open>clap\<close>), printing, log lines and JSON rendering of
  reports, the HTTP server of the metrics and the HTTP delivery of alerts, the signal task and the grace
  timer that drops the execution at an await point, file permissions, key handling and the cryptographic
  primitives, and the tests of the repository. Each is I/O or third-party code around the decisions that
  are modelled.
\<close>

end
